(* ===== verification/Prelude.thy ===== *)
theory Prelude
  imports Main
begin

text \<open>
  Shared vocabulary of the development: identifiers and time, the table operations that
  stand for the statements the services send to PostgreSQL (a table is the list of its
  rows in insertion order), and the generic lemmas the components use. Nothing in this
  theory is specific to one service.
\<close>

section \<open>Proof collections\<close>

named_theorems service_defs \<open>definitions of the service operations\<close>
named_theorems row_simps \<open>lookups after updates of tables\<close>

section \<open>Identifiers and time\<close>

text \<open>
  A UUID is its 128-bit integer value; \<open>a.bytes < b.bytes\<close> on UUIDs is the order of these
  integers, because the bytes are big-endian. An aware \<open>datetime\<close> is its distance from the
  epoch in microseconds, the resolution of Python and of \<open>timestamptz\<close>; a \<open>timedelta\<close> is
  a number of microseconds.
\<close>

type_synonym uuid = nat
type_synonym time = int

definition td_seconds :: "int \<Rightarrow> int" where
  "td_seconds n = n * 1000000"

definition td_minutes :: "int \<Rightarrow> int" where
  "td_minutes n = td_seconds (60 * n)"

definition td_hours :: "int \<Rightarrow> int" where
  "td_hours n = td_minutes (60 * n)"

definition td_days :: "int \<Rightarrow> int" where
  "td_days n = td_hours (24 * n)"

lemmas timedelta_defs = td_seconds_def td_minutes_def td_hours_def td_days_def

text \<open>\<open>int(delta.total_seconds())\<close>: truncation towards zero.\<close>

definition total_seconds_int :: "int \<Rightarrow> int" where
  "total_seconds_int d = (if 0 \<le> d then d div 1000000 else - ((- d) div 1000000))"

lemma max_0_total_seconds: "max 0 (total_seconds_int d) = max 0 (d div 1000000)"
  by (auto simp: total_seconds_int_def div_nonpos_pos_le0 pos_imp_zdiv_nonneg_iff max_def)

text \<open>What a column of type \<open>INTEGER\<close> and of type \<open>BIGINT\<close> holds.\<close>

definition int4 :: "int \<Rightarrow> bool" where
  "int4 n \<longleftrightarrow> - (2 ^ 31) \<le> n \<and> n < 2 ^ 31"

definition int8 :: "int \<Rightarrow> bool" where
  "int8 n \<longleftrightarrow> - (2 ^ 63) \<le> n \<and> n < 2 ^ 63"

text \<open>Python's \<open>x or y\<close> on optional values without a falsy inhabitant.\<close>

definition or_else :: "'a option \<Rightarrow> 'a \<Rightarrow> 'a" where
  "or_else x y = (case x of None \<Rightarrow> y | Some v \<Rightarrow> v)"

lemma or_else_simps [simp]: "or_else None y = y" "or_else (Some v) y = v"
  by (simp_all add: or_else_def)

section \<open>Tables\<close>

definition get_row :: "('r \<Rightarrow> 'k) \<Rightarrow> 'k \<Rightarrow> 'r list \<Rightarrow> 'r option" where
  "get_row key k rows = find (\<lambda>r. key r = k) rows"

definition update_where :: "('r \<Rightarrow> bool) \<Rightarrow> ('r \<Rightarrow> 'r) \<Rightarrow> 'r list \<Rightarrow> 'r list" where
  "update_where p f rows = map (\<lambda>r. if p r then f r else r) rows"

definition upd_row :: "('r \<Rightarrow> 'k) \<Rightarrow> 'k \<Rightarrow> ('r \<Rightarrow> 'r) \<Rightarrow> 'r list \<Rightarrow> 'r list" where
  "upd_row key k f rows = update_where (\<lambda>r. key r = k) f rows"

definition delete_where :: "('r \<Rightarrow> bool) \<Rightarrow> 'r list \<Rightarrow> 'r list" where
  "delete_where p rows = filter (\<lambda>r. \<not> p r) rows"

text \<open>
  \<open>INSERT\<close> under a unique key: \<open>None\<close> is the integrity error PostgreSQL raises at the
  flush when the key is already taken.
\<close>

definition insert_row :: "('r \<Rightarrow> 'k) \<Rightarrow> 'r \<Rightarrow> 'r list \<Rightarrow> 'r list option" where
  "insert_row key r rows = (if key r \<in> key ` set rows then None else Some (rows @ [r]))"

text \<open>\<open>ORDER BY key DESC\<close>; rows with equal keys keep their insertion order.\<close>

definition order_desc :: "('r \<Rightarrow> int) \<Rightarrow> 'r list \<Rightarrow> 'r list" where
  "order_desc key rows = sort_key (\<lambda>r. - key r) rows"

lemma set_order_desc [simp]: "set (order_desc key rows) = set rows"
  by (simp add: order_desc_def)

lemma length_order_desc [simp]: "length (order_desc key rows) = length rows"
  by (simp add: order_desc_def)

lemma sorted_order_desc: "sorted_wrt (\<lambda>a b. key b \<le> key a) (order_desc key rows)"
proof -
  have "sorted (map (\<lambda>r. - key r) (order_desc key rows))"
    by (simp add: order_desc_def)
  then have "sorted_wrt (\<lambda>a b. - key a \<le> - key b) (order_desc key rows)"
    by (simp only: sorted_map)
  then show ?thesis by simp
qed

subsection \<open>Lookup laws\<close>

lemma get_row_SomeD:
  assumes "get_row key k rows = Some r"
  shows "r \<in> set rows" and "key r = k"
  using assms by (auto simp: get_row_def find_Some_iff)

lemma get_row_None_iff: "get_row key k rows = None \<longleftrightarrow> k \<notin> key ` set rows"
  by (auto simp: get_row_def find_None_iff)

lemma get_row_simps [simp]:
  "get_row key k [] = None"
  "get_row key k (r # rows) = (if key r = k then Some r else get_row key k rows)"
  by (simp_all add: get_row_def)

lemma get_row_append:
  "get_row key k (xs @ ys) = (case get_row key k xs of None \<Rightarrow> get_row key k ys | Some r \<Rightarrow> Some r)"
  by (induction xs) auto

lemma get_row_distinct:
  "distinct (map key rows) \<Longrightarrow> r \<in> set rows \<Longrightarrow> get_row key (key r) rows = Some r"
  by (induction rows) (auto simp: image_iff)

lemma get_row_eq_iff:
  "distinct (map key rows) \<Longrightarrow> get_row key k rows = Some r \<longleftrightarrow> r \<in> set rows \<and> key r = k"
  by (auto dest: get_row_SomeD get_row_distinct)

lemma filter_key_distinct:
  "distinct (map key rows) \<Longrightarrow>
   filter (\<lambda>r. key r = k) rows = (case get_row key k rows of None \<Rightarrow> [] | Some r \<Rightarrow> [r])"
proof (induction rows)
  case (Cons a rows)
  show ?case
  proof (cases "key a = k")
    case True
    with Cons.prems have "get_row key k rows = None"
      by (auto simp: get_row_None_iff)
    with True Cons show ?thesis by simp
  next
    case False
    with Cons show ?thesis by simp
  qed
qed simp

subsection \<open>Update laws\<close>

lemma update_where_simps [simp]:
  "update_where p f [] = []"
  "update_where p f (r # rows) = (if p r then f r else r) # update_where p f rows"
  by (simp_all add: update_where_def)

lemma set_update_where: "set (update_where p f rows) = (\<lambda>r. if p r then f r else r) ` set rows"
  by (simp add: update_where_def)

lemma length_update_where [simp]: "length (update_where p f rows) = length rows"
  by (simp add: update_where_def)

lemma map_key_update_where [row_simps]:
  "(\<And>r. p r \<Longrightarrow> key (f r) = key r) \<Longrightarrow> map key (update_where p f rows) = map key rows"
  by (simp add: update_where_def)

lemma get_row_update_where [row_simps]:
  "(\<And>r. p r \<Longrightarrow> key (f r) = key r) \<Longrightarrow>
   get_row key k (update_where p f rows) =
     map_option (\<lambda>r. if p r then f r else r) (get_row key k rows)"
  by (induction rows) auto

lemma filter_update_where:
  "(\<And>r. p r \<Longrightarrow> q (f r) = q r) \<Longrightarrow>
   filter q (update_where p f rows) = update_where p f (filter q rows)"
  by (induction rows) auto

lemma update_where_idem: "(\<And>r. r \<in> set rows \<Longrightarrow> p r \<Longrightarrow> f r = r) \<Longrightarrow> update_where p f rows = rows"
  by (induction rows) auto

lemma map_key_upd_row [row_simps]:
  "(\<And>r. key' (f r) = key' r) \<Longrightarrow> map key' (upd_row key k f rows) = map key' rows"
  by (simp add: upd_row_def map_key_update_where)

lemma get_row_upd_row [row_simps]:
  "(\<And>r. key (f r) = key r) \<Longrightarrow>
   get_row key k' (upd_row key k f rows) =
     (if k' = k then map_option f (get_row key k rows) else get_row key k' rows)"
  by (induction rows) (auto simp: upd_row_def)

lemma set_upd_row: "set (upd_row key k f rows) = (\<lambda>r. if key r = k then f r else r) ` set rows"
  by (simp add: upd_row_def set_update_where)

lemma upd_row_simps [simp]:
  "upd_row key k f [] = []"
  "upd_row key k f (r # rows) = (if key r = k then f r else r) # upd_row key k f rows"
  by (simp_all add: upd_row_def)

lemma length_upd_row [simp]: "length (upd_row key k f rows) = length rows"
  by (simp add: upd_row_def)

lemma upd_row_eq_Nil [simp]: "upd_row key k f rows = [] \<longleftrightarrow> rows = []"
  by (cases rows) auto

lemma filter_upd_row:
  assumes "\<And>r. r \<in> set rows \<Longrightarrow> key r = k \<Longrightarrow> q (f r) = q r"
  shows "filter q (upd_row key k f rows) = upd_row key k f (filter q rows)"
  using assms by (induction rows) auto

lemma distinct_key_eq:
  "distinct (map key rows) \<Longrightarrow> r \<in> set rows \<Longrightarrow> r' \<in> set rows \<Longrightarrow> key r = key r' \<Longrightarrow> r = r'"
  by (metis get_row_distinct option.inject)

lemma filter_upd_row_other:
  "(\<And>r. key r = k \<Longrightarrow> \<not> q r \<and> \<not> q (f r)) \<Longrightarrow> filter q (upd_row key k f rows) = filter q rows"
  by (induction rows) auto

subsection \<open>Insertion and deletion laws\<close>

lemma insert_row_SomeD:
  assumes "insert_row key r rows = Some rows'"
  shows "rows' = rows @ [r]" and "key r \<notin> key ` set rows"
  using assms by (auto simp: insert_row_def split: if_splits)

lemma distinct_insert_row:
  "distinct (map key rows) \<Longrightarrow> insert_row key r rows = Some rows' \<Longrightarrow> distinct (map key rows')"
  by (auto simp: insert_row_def split: if_splits)

lemma get_row_snoc:
  "key r \<notin> key ` set rows \<Longrightarrow>
   get_row key k (rows @ [r]) = (if k = key r then Some r else get_row key k rows)"
  by (induction rows) auto

lemma get_row_insert_row:
  "insert_row key r rows = Some rows' \<Longrightarrow>
   get_row key k rows' = (if k = key r then Some r else get_row key k rows)"
  by (auto simp: insert_row_def get_row_snoc split: if_splits)

lemma set_delete_where [simp]: "set (delete_where p rows) = {r \<in> set rows. \<not> p r}"
  by (auto simp: delete_where_def)

lemma distinct_delete_where:
  "distinct (map key rows) \<Longrightarrow> distinct (map key (delete_where p rows))"
  by (simp add: delete_where_def distinct_map_filter)

lemma get_row_delete_key:
  "get_row key k' (delete_where (\<lambda>r. key r = k) rows) = (if k' = k then None else get_row key k' rows)"
  by (induction rows) (auto simp: delete_where_def)

lemma get_row_filter:
  "distinct (map key rows) \<Longrightarrow>
   get_row key k (filter q rows) =
     (case get_row key k rows of Some r \<Rightarrow> (if q r then Some r else None) | None \<Rightarrow> None)"
proof (induction rows)
  case (Cons a rows)
  then have "get_row key (key a) rows = None" "get_row key (key a) (filter q rows) = None"
    by (auto simp: get_row_None_iff)
  with Cons show ?case by (auto split: option.splits)
qed simp

end
