(* ===== verification/App_Exceptions.thy ===== *)
theory App_Exceptions
  imports Prelude
begin

text \<open>
  The exceptions the services raise (\<open>src/backend/app/core/exceptions.py\<close> and the two
  classes of \<open>delivery_flow_service.py\<close>), with the HTTP status and the envelope code the
  global handler sends. The four generic classes take the code they are raised with; the
  last group is what the runtime raises itself: SQLAlchemy's \<open>MultipleResultsFound\<close>
  and \<open>NoResultFound\<close>, PostgreSQL's integrity error and
  its error for a value that does not fit its column, a failing \<open>assert\<close>, and Python's
  \<open>ValueError\<close> and \<open>KeyError\<close>; \<open>main.unhandled_exception_handler\<close> maps them to 500.
\<close>

datatype (plugins only: code) app_exception =
    AuthenticationError string
  | AuthorizationError string
  | NotFoundError string
  | ConflictError string
  | ValidationError
  | InvalidCredentials | TokenRevoked | TokenReused | TokenExpired | InvalidTokenError
  | AccountSuspended
  | UploadNotConfigured | UploadInvalidContentType | UploadObjectMissing
  | PasswordTooCommon
  | InviteInvalid | InviteExpired | InviteAlreadyUsed | InviteRevoked | InviteRoleMismatch
  | EmailTaken
  | SellerProfileMissing | StoreAlreadyExists | StoreCityRequired | StoreNotFound
  | ProductNotFound | ProductOwnershipError | VisibilityDenied | SellerNotFound
  | OrderNotFound | OrderInvalidTransition | OrderRetentionNotMet | DeliveryAlreadyStarted
  | ProductOutOfStock | ProductNotVisible | DriverNotRequested | DriverAlreadyAssigned
  | FulfillmentAlreadyChosen | RetentionSettingInvalid
  | PublicKeyNotFound | KeyOwnershipError
  | ConversationNotFound | ConversationIneligible | MessageRetentionInvalid
  | DeliveryCodeLocked | DeliveryCodeInvalid int
  | MultipleResultsFound | NoResultFound | IntegrityError | DataError | AssertionError
  | ValueError | KeyError

primrec http_status :: "app_exception \<Rightarrow> nat" where
  "http_status (AuthenticationError c) = 401"
| "http_status (AuthorizationError c) = 403"
| "http_status (NotFoundError c) = 404"
| "http_status (ConflictError c) = 409"
| "http_status ValidationError = 422"
| "http_status InvalidCredentials = 401"
| "http_status TokenRevoked = 401"
| "http_status TokenReused = 401"
| "http_status TokenExpired = 401"
| "http_status InvalidTokenError = 401"
| "http_status AccountSuspended = 403"
| "http_status UploadNotConfigured = 503"
| "http_status UploadInvalidContentType = 422"
| "http_status UploadObjectMissing = 422"
| "http_status PasswordTooCommon = 422"
| "http_status InviteInvalid = 400"
| "http_status InviteExpired = 400"
| "http_status InviteAlreadyUsed = 409"
| "http_status InviteRevoked = 400"
| "http_status InviteRoleMismatch = 400"
| "http_status EmailTaken = 409"
| "http_status SellerProfileMissing = 400"
| "http_status StoreAlreadyExists = 409"
| "http_status StoreCityRequired = 422"
| "http_status StoreNotFound = 404"
| "http_status ProductNotFound = 404"
| "http_status ProductOwnershipError = 403"
| "http_status VisibilityDenied = 404"
| "http_status SellerNotFound = 404"
| "http_status OrderNotFound = 404"
| "http_status OrderInvalidTransition = 409"
| "http_status OrderRetentionNotMet = 409"
| "http_status DeliveryAlreadyStarted = 409"
| "http_status ProductOutOfStock = 409"
| "http_status ProductNotVisible = 404"
| "http_status DriverNotRequested = 409"
| "http_status DriverAlreadyAssigned = 409"
| "http_status FulfillmentAlreadyChosen = 409"
| "http_status RetentionSettingInvalid = 422"
| "http_status PublicKeyNotFound = 404"
| "http_status KeyOwnershipError = 404"
| "http_status ConversationNotFound = 404"
| "http_status ConversationIneligible = 404"
| "http_status MessageRetentionInvalid = 422"
| "http_status DeliveryCodeLocked = 423"
| "http_status (DeliveryCodeInvalid n) = 400"
| "http_status MultipleResultsFound = 500"
| "http_status NoResultFound = 500"
| "http_status IntegrityError = 500"
| "http_status DataError = 500"
| "http_status AssertionError = 500"
| "http_status ValueError = 500"
| "http_status KeyError = 500"

primrec error_code :: "app_exception \<Rightarrow> string" where
  "error_code (AuthenticationError c) = c"
| "error_code (AuthorizationError c) = c"
| "error_code (NotFoundError c) = c"
| "error_code (ConflictError c) = c"
| "error_code ValidationError = ''VALIDATION_FAILED''"
| "error_code InvalidCredentials = ''AUTH_INVALID_CREDENTIALS''"
| "error_code TokenRevoked = ''AUTH_TOKEN_REVOKED''"
| "error_code TokenReused = ''AUTH_TOKEN_REUSED''"
| "error_code TokenExpired = ''AUTH_TOKEN_EXPIRED''"
| "error_code InvalidTokenError = ''AUTH_TOKEN_INVALID''"
| "error_code AccountSuspended = ''AUTH_ACCOUNT_SUSPENDED''"
| "error_code UploadNotConfigured = ''UPLOAD_NOT_CONFIGURED''"
| "error_code UploadInvalidContentType = ''UPLOAD_INVALID_CONTENT_TYPE''"
| "error_code UploadObjectMissing = ''UPLOAD_OBJECT_MISSING''"
| "error_code PasswordTooCommon = ''PASSWORD_TOO_COMMON''"
| "error_code InviteInvalid = ''INVITE_INVALID''"
| "error_code InviteExpired = ''INVITE_EXPIRED''"
| "error_code InviteAlreadyUsed = ''INVITE_USED''"
| "error_code InviteRevoked = ''INVITE_REVOKED''"
| "error_code InviteRoleMismatch = ''INVITE_ROLE_MISMATCH''"
| "error_code EmailTaken = ''EMAIL_TAKEN''"
| "error_code SellerProfileMissing = ''SELLER_PROFILE_MISSING''"
| "error_code StoreAlreadyExists = ''STORE_ALREADY_EXISTS''"
| "error_code StoreCityRequired = ''STORE_CITY_REQUIRED''"
| "error_code StoreNotFound = ''STORE_NOT_FOUND''"
| "error_code ProductNotFound = ''PRODUCT_NOT_FOUND''"
| "error_code ProductOwnershipError = ''PRODUCT_NOT_OWNED''"
| "error_code VisibilityDenied = ''NOT_FOUND''"
| "error_code SellerNotFound = ''SELLER_NOT_FOUND''"
| "error_code OrderNotFound = ''ORDER_NOT_FOUND''"
| "error_code OrderInvalidTransition = ''ORDER_INVALID_TRANSITION''"
| "error_code OrderRetentionNotMet = ''ORDER_RETENTION_NOT_MET''"
| "error_code DeliveryAlreadyStarted = ''DELIVERY_ALREADY_STARTED''"
| "error_code ProductOutOfStock = ''PRODUCT_OUT_OF_STOCK''"
| "error_code ProductNotVisible = ''PRODUCT_NOT_VISIBLE''"
| "error_code DriverNotRequested = ''DRIVER_NOT_REQUESTED''"
| "error_code DriverAlreadyAssigned = ''DRIVER_ALREADY_ASSIGNED''"
| "error_code FulfillmentAlreadyChosen = ''FULFILLMENT_ALREADY_CHOSEN''"
| "error_code RetentionSettingInvalid = ''RETENTION_SETTING_INVALID''"
| "error_code PublicKeyNotFound = ''PUBLIC_KEY_NOT_FOUND''"
| "error_code KeyOwnershipError = ''NOT_FOUND''"
| "error_code ConversationNotFound = ''CONVERSATION_NOT_FOUND''"
| "error_code ConversationIneligible = ''CONVERSATION_NOT_FOUND''"
| "error_code MessageRetentionInvalid = ''MESSAGE_RETENTION_INVALID''"
| "error_code DeliveryCodeLocked = ''DELIVERY_CODE_LOCKED''"
| "error_code (DeliveryCodeInvalid n) = ''DELIVERY_CODE_INVALID''"
| "error_code MultipleResultsFound = ''INTERNAL_ERROR''"
| "error_code NoResultFound = ''INTERNAL_ERROR''"
| "error_code IntegrityError = ''INTERNAL_ERROR''"
| "error_code DataError = ''INTERNAL_ERROR''"
| "error_code AssertionError = ''INTERNAL_ERROR''"
| "error_code ValueError = ''INTERNAL_ERROR''"
| "error_code KeyError = ''INTERNAL_ERROR''"

type_synonym 'a res = "app_exception + 'a"

end
