(* ===== verification/Sessions.thy ===== *)
theory Sessions
  imports App_Exceptions
begin

text \<open>
  The unit of work of one HTTP request. A service is a function from the database state its
  session sees to an outcome: the value or the exception, and the state the session has
  flushed so far. \<open>get_db\<close> (\<open>src/backend/app/api/deps.py\<close>) commits that state when the
  endpoint returns and rolls back to the last commit when an exception leaves it. Requests
  run one after the other: the row locks the services take (\<open>SELECT \<dots> FOR UPDATE\<close>)
  serialise the requests that touch the same rows.
\<close>

section \<open>Sessions\<close>

record 'd session =
  committed :: 'd
  working :: 'd

definition db_commit :: "'d session \<Rightarrow> 'd session" where
  "db_commit s = s\<lparr>committed := working s\<rparr>"

text \<open>A service that only flushes: it never commits by itself.\<close>

definition flushing :: "('d \<Rightarrow> 'a res \<times> 'd) \<Rightarrow> 'd session \<Rightarrow> 'a res \<times> 'd session" where
  "flushing svc s = (case svc (working s) of (r, d) \<Rightarrow> (r, s\<lparr>working := d\<rparr>))"

definition get_db :: "('d session \<Rightarrow> 'a res \<times> 'd session) \<Rightarrow> 'd \<Rightarrow> 'a res \<times> 'd" where
  "get_db endpoint d =
     (case endpoint \<lparr>committed = d, working = d\<rparr> of
        (Inr a, s) \<Rightarrow> (Inr a, committed (db_commit s))
      | (Inl e, s) \<Rightarrow> (Inl e, committed s))"

lemma get_db_flushing:
  "get_db (flushing svc) d =
     (case svc d of (Inr a, d') \<Rightarrow> (Inr a, d') | (Inl e, d') \<Rightarrow> (Inl e, d))"
  by (auto simp: get_db_def flushing_def db_commit_def split: prod.splits sum.splits)

lemma get_db_flushing_cases:
  obtains (ok) a d' where "svc d = (Inr a, d')" "get_db (flushing svc) d = (Inr a, d')"
  | (failed) e d' where "svc d = (Inl e, d')" "get_db (flushing svc) d = (Inl e, d)"
  by (cases "svc d"; cases "fst (svc d)") (auto simp: get_db_flushing)

text \<open>A service whose last statement is \<open>await db.commit()\<close>.\<close>

definition committing :: "('d \<Rightarrow> 'a res \<times> 'd) \<Rightarrow> 'd session \<Rightarrow> 'a res \<times> 'd session" where
  "committing svc s =
     (case flushing svc s of
        (Inr a, s') \<Rightarrow> (Inr a, db_commit s')
      | (Inl e, s') \<Rightarrow> (Inl e, s'))"

text \<open>Committing at the end and leaving the commit to \<open>get_db\<close> come to the same.\<close>

lemma get_db_committing: "get_db (committing svc) = get_db (flushing svc)"
  by (rule ext) (auto simp: get_db_def committing_def flushing_def db_commit_def
      split: prod.splits sum.splits)

section \<open>Result sets\<close>

definition scalar_one_or_none :: "'r list \<Rightarrow> 'r option res" where
  "scalar_one_or_none rows =
     (case rows of [] \<Rightarrow> Inr None | [r] \<Rightarrow> Inr (Some r) | _ \<Rightarrow> Inl MultipleResultsFound)"

definition scalar_one :: "'r list \<Rightarrow> 'r res" where
  "scalar_one rows =
     (case rows of [] \<Rightarrow> Inl NoResultFound | [r] \<Rightarrow> Inr r | _ \<Rightarrow> Inl MultipleResultsFound)"

lemma scalar_one_or_none_simps [simp]:
  "scalar_one_or_none [] = Inr None"
  "scalar_one_or_none [r] = Inr (Some r)"
  "scalar_one_or_none (r # r' # rows) = Inl MultipleResultsFound"
  by (simp_all add: scalar_one_or_none_def)

lemma scalar_one_or_none_cases:
  "scalar_one_or_none rows = Inr None \<longleftrightarrow> rows = []"
  "scalar_one_or_none rows = Inr (Some r) \<longleftrightarrow> rows = [r]"
  "scalar_one_or_none rows = Inl e \<longleftrightarrow> e = MultipleResultsFound \<and> 2 \<le> length rows"
  by (auto simp: scalar_one_or_none_def split: list.splits)

lemma scalar_one_or_none_le_1:
  "length rows \<le> 1 \<Longrightarrow> scalar_one_or_none rows = Inr (find (\<lambda>_. True) rows)"
  by (cases rows; cases "tl rows") auto

section \<open>The contract of a transactional endpoint\<close>

text \<open>
  An endpoint family that keeps an invariant of the database whenever it succeeds, and
  relates the state before and after a success. Rollback makes both hold for every request,
  and they carry over to runs of requests.
\<close>

primrec run_requests :: "('q \<Rightarrow> 'd \<Rightarrow> 'a res \<times> 'd) \<Rightarrow> 'q list \<Rightarrow> 'd \<Rightarrow> 'd" where
  "run_requests svc [] d = d"
| "run_requests svc (q # qs) d = run_requests svc qs (snd (get_db (flushing (svc q)) d))"

locale transactional =
  fixes svc :: "'q \<Rightarrow> 'd \<Rightarrow> 'a res \<times> 'd"
    and inv :: "'d \<Rightarrow> bool"
  assumes success_keeps: "inv d \<Longrightarrow> svc q d = (Inr a, d') \<Longrightarrow> inv d'"
begin

lemma request_keeps: "inv d \<Longrightarrow> inv (snd (get_db (flushing (svc q)) d))"
  by (cases rule: get_db_flushing_cases [of "svc q" d]) (auto intro: success_keeps)

lemma run_keeps: "inv d \<Longrightarrow> inv (run_requests svc qs d)"
  by (induction qs arbitrary: d) (auto intro: request_keeps)

end

locale transactional_step = transactional svc inv
  for svc :: "'q \<Rightarrow> 'd \<Rightarrow> 'a res \<times> 'd" and inv :: "'d \<Rightarrow> bool" +
  fixes rel :: "'d \<Rightarrow> 'd \<Rightarrow> bool"
  assumes success_rel: "inv d \<Longrightarrow> svc q d = (Inr a, d') \<Longrightarrow> rel d d'"
    and rel_refl: "rel d d"
    and rel_trans: "rel d1 d2 \<Longrightarrow> rel d2 d3 \<Longrightarrow> rel d1 d3"
begin

lemma request_rel: "inv d \<Longrightarrow> rel d (snd (get_db (flushing (svc q)) d))"
  by (cases rule: get_db_flushing_cases [of "svc q" d]) (auto intro: success_rel rel_refl)

lemma run_rel: "inv d \<Longrightarrow> rel d (run_requests svc qs d)"
proof (induction qs arbitrary: d)
  case Nil
  then show ?case by (simp add: rel_refl)
next
  case (Cons q qs)
  let ?d = "snd (get_db (flushing (svc q)) d)"
  have "rel d ?d" using Cons.prems by (rule request_rel)
  moreover have "rel ?d (run_requests svc qs ?d)"
    using Cons.IH request_keeps [OF Cons.prems] .
  ultimately show ?case by (simp add: rel_trans)
qed

end

section \<open>Endpoints that commit on their own\<close>

text \<open>
  The weaker contract of an endpoint that may commit before it raises: what it committed
  keeps the invariant on every path, and so does what it leaves to the final commit.
\<close>

primrec run_endpoints :: "('q \<Rightarrow> 'd session \<Rightarrow> 'a res \<times> 'd session) \<Rightarrow> 'q list \<Rightarrow> 'd \<Rightarrow> 'd" where
  "run_endpoints ep [] d = d"
| "run_endpoints ep (q # qs) d = run_endpoints ep qs (snd (get_db (ep q) d))"

lemma run_endpoints_append: "run_endpoints ep (qs @ qs') d = run_endpoints ep qs' (run_endpoints ep qs d)"
  by (induction qs arbitrary: d) simp_all

lemma run_requests_append: "run_requests svc (qs @ qs') d = run_requests svc qs' (run_requests svc qs d)"
  by (induction qs arbitrary: d) simp_all

lemma run_endpoints_flushing: "run_endpoints (\<lambda>q. flushing (svc q)) qs d = run_requests svc qs d"
  by (induction qs arbitrary: d) simp_all

locale unit_of_work =
  fixes ep :: "'q \<Rightarrow> 'd session \<Rightarrow> 'a res \<times> 'd session"
    and inv :: "'d \<Rightarrow> bool"
  assumes committed_keeps:
      "inv d \<Longrightarrow> ep q \<lparr>committed = d, working = d\<rparr> = (r, s) \<Longrightarrow> inv (committed s)"
    and working_keeps:
      "inv d \<Longrightarrow> ep q \<lparr>committed = d, working = d\<rparr> = (Inr a, s) \<Longrightarrow> inv (working s)"
begin

lemma endpoint_keeps: "inv d \<Longrightarrow> inv (snd (get_db (ep q) d))"
  by (cases "ep q \<lparr>committed = d, working = d\<rparr>")
    (auto simp: get_db_def db_commit_def split: sum.splits dest: committed_keeps working_keeps)

lemma endpoints_keep: "inv d \<Longrightarrow> inv (run_endpoints ep qs d)"
  by (induction qs arbitrary: d) (auto intro: endpoint_keeps)

end

text \<open>A service that only flushes is a special case.\<close>

sublocale transactional \<subseteq> uow: unit_of_work "\<lambda>q. flushing (svc q)" inv
  by unfold_locales (auto simp: flushing_def split: prod.splits intro: success_keeps)

end
