(* ===== verification/Schema.thy ===== *)
theory Schema
  imports Complex_Main "HOL-Library.Word" Sessions
begin

text \<open>
  The relational schema: the PostgreSQL enums of \<open>src/backend/app/models/enums.py\<close> as
  datatypes, one record per ORM class of \<open>src/backend/app/models\<close> with its columns, and the
  database as the record of its tables. A nullable column is an option. Columns no service
  reads (\<open>updated_at\<close>, free-text columns of tables that are only written) and the ORM
  relationships, which are joins over the foreign keys, are left out. A floating-point
  coordinate is a real number.
\<close>

section \<open>Enums\<close>

datatype user_role = Admin | Seller | Customer | Driver

datatype order_status =
  Pending | Accepted | Preparing | OutForDelivery | Delivered | Completed | Cancelled

datatype delivery_status = DPending | DInTransit | DDelivered | DFailed

datatype driver_assignment_status = ARequested | AAssigned | AAccepted | ADeclined | ACancelled

datatype invite_link_type = AdminInvite | SellerReferral

datatype user_status = UActive | USuspended

datatype product_status = PActive | PDisabled | POutOfStock

datatype key_status = KActive | KRotated | KRevoked

type_synonym bytes = "8 word list"

section \<open>Accounts\<close>

record user =
  u_id :: uuid
  u_email :: string
  u_password_hash :: string
  u_role :: user_role
  u_display_name :: string
  u_phone :: "string option"
  u_is_active :: bool
  u_disabled_at :: "time option"
  u_status :: user_status
  u_suspended_at :: "time option"
  u_suspended_reason :: "string option"
  u_avatar_url :: "string option"
  u_referring_seller_id :: "uuid option"
  u_created_at :: time
  u_deleted_at :: "time option"

record invite_link =
  il_id :: uuid
  il_issuer_id :: uuid
  il_type :: invite_link_type
  il_token :: string
  il_role_target :: "user_role option"
  il_max_uses :: "int option"
  il_used_count :: int
  il_expires_at :: "time option"
  il_revoked_at :: "time option"
  il_created_at :: time

record referral =
  rf_id :: uuid
  rf_referrer_id :: uuid
  rf_referred_user_id :: uuid
  rf_invite_link_id :: uuid

record refresh_token =
  rt_id :: uuid
  rt_user_id :: uuid
  rt_token_hash :: string
  rt_device_label :: "string option"
  rt_issued_at :: time
  rt_last_used_at :: "time option"
  rt_expires_at :: time
  rt_revoked_at :: "time option"

record user_device =
  dv_id :: uuid
  dv_user_id :: uuid
  dv_platform :: string
  dv_token :: string
  dv_last_seen_at :: "time option"
  dv_disabled_at :: "time option"

record notification_prefs =
  np_user_id :: uuid
  np_push_enabled :: bool
  np_email_enabled :: bool
  np_order_updates :: bool
  np_messages :: bool
  np_marketing :: bool

section \<open>Catalogue\<close>

record seller =
  s_id :: uuid
  s_user_id :: uuid
  s_display_name :: string
  s_city :: string
  s_deleted_at :: "time option"

record store =
  st_id :: uuid
  st_seller_id :: uuid
  st_name :: string
  st_slug :: string
  st_description :: string
  st_is_active :: bool
  st_is_public :: bool
  st_created_at :: time
  st_deleted_at :: "time option"

record product =
  p_id :: uuid
  p_seller_id :: uuid
  p_store_id :: uuid
  p_name :: string
  p_description :: string
  p_price_minor :: int
  p_stock_quantity :: "int option"
  p_is_active :: bool
  p_status :: product_status
  p_disabled_at :: "time option"
  p_disabled_reason :: "string option"
  p_created_at :: time
  p_deleted_at :: "time option"

record product_image =
  pi_id :: uuid
  pi_product_id :: uuid
  pi_s3_key :: string
  pi_display_order :: int

section \<open>Orders\<close>

text \<open>\<open>orders.delivery_address\<close> is JSONB; the keys the services read are the coordinates.\<close>

record address =
  ad_text :: "(string \<times> string) list"
  ad_lat :: "real option"
  ad_lng :: "real option"

record order_row =
  o_id :: uuid
  o_customer_id :: uuid
  o_seller_id :: uuid
  o_store_id :: uuid
  o_status :: order_status
  o_subtotal_minor :: int
  o_total_minor :: int
  o_delivery_address :: address
  o_placed_at :: time
  o_accepted_at :: "time option"
  o_preparing_at :: "time option"
  o_out_for_delivery_at :: "time option"
  o_delivered_at :: "time option"
  o_completed_at :: "time option"
  o_cancelled_at :: "time option"
  o_cancellation_reason :: "string option"
  o_driver_accepted_at :: "time option"
  o_customer_visible_after :: "time option"
  o_seller_full_visible_until :: "time option"
  o_delivery_code_locked :: bool
  o_deleted_at :: "time option"

record order_item =
  oi_id :: uuid
  oi_order_id :: uuid
  oi_product_id :: "uuid option"
  oi_product_name_snapshot :: string
  oi_unit_price_minor_snapshot :: int
  oi_quantity :: int

record delivery =
  d_id :: uuid
  d_order_id :: uuid
  d_driver_id :: "uuid option"
  d_seller_id :: uuid
  d_status :: delivery_status
  d_started_at :: "time option"
  d_delivered_at :: "time option"
  d_current_lat :: "real option"
  d_current_lng :: "real option"
  d_last_location_at :: "time option"
  d_distance_meters :: "int option"
  d_duration_seconds :: "int option"
  d_current_eta_seconds :: "int option"
  d_current_eta_updated_at :: "time option"

record driver_assignment =
  a_id :: uuid
  a_order_id :: uuid
  a_driver_id :: "uuid option"
  a_status :: driver_assignment_status
  a_requested_by_seller_id :: uuid
  a_requested_at :: time
  a_assigned_by_admin_id :: "uuid option"
  a_assigned_at :: "time option"

record order_analytics_snapshot =
  sn_id :: uuid
  sn_order_id :: uuid
  sn_seller_id :: uuid
  sn_store_id :: uuid
  sn_customer_id :: uuid
  sn_city :: string
  sn_item_count :: int
  sn_subtotal_minor :: int
  sn_total_minor :: int
  sn_delivered_at :: time
  sn_delivery_duration_seconds :: "int option"
  sn_delivery_distance_meters :: "int option"

record platform_settings =
  ps_retention_min_days :: int
  ps_order_auto_complete_grace_hours :: int
  ps_message_retention_days :: int
  ps_currency_code :: string
  ps_updated_by_user_id :: "uuid option"

section \<open>Delivery flow\<close>

record order_tracking_point =
  tp_id :: uuid
  tp_order_id :: uuid
  tp_driver_id :: "uuid option"
  tp_lat :: real
  tp_lng :: real
  tp_recorded_at :: time

record order_message =
  om_id :: uuid
  om_order_id :: uuid
  om_sender_id :: "uuid option"
  om_sender_role :: user_role
  om_ciphertext :: string
  om_nonce :: string
  om_created_at :: time
  om_archived_at :: "time option"

record delivery_code =
  dc_order_id :: uuid
  dc_code_hash :: string
  dc_code_plain :: string
  dc_attempts_used :: int
  dc_locked :: bool
  dc_consumed_at :: "time option"

record delivery_code_attempt =
  ca_id :: uuid
  ca_order_id :: uuid
  ca_driver_id :: "uuid option"
  ca_submitted_code :: string
  ca_success :: bool

section \<open>Messaging\<close>

record conversation =
  c_id :: uuid
  c_user_a_id :: uuid
  c_user_b_id :: uuid
  c_created_at :: time
  c_last_message_at :: "time option"

record message =
  m_id :: uuid
  m_conversation_id :: uuid
  m_sender_id :: uuid
  m_ciphertext :: bytes
  m_nonce :: bytes
  m_ephemeral_public_key :: bytes
  m_recipient_key_id :: "uuid option"
  m_sent_at :: time
  m_read_at :: "time option"
  m_deleted_at :: "time option"

record user_public_key =
  k_id :: uuid
  k_user_id :: uuid
  k_public_key :: bytes
  k_key_version :: int
  k_status :: key_status
  k_registered_at :: time
  k_rotated_at :: "time option"
  k_revoked_at :: "time option"
  k_created_at :: time

section \<open>The database\<close>

record db =
  users :: "user list"
  invite_links :: "invite_link list"
  referrals :: "referral list"
  refresh_tokens :: "refresh_token list"
  user_devices :: "user_device list"
  user_notification_prefs :: "notification_prefs list"
  sellers :: "seller list"
  stores :: "store list"
  products :: "product list"
  product_images :: "product_image list"
  orders :: "order_row list"
  order_items :: "order_item list"
  deliveries :: "delivery list"
  driver_assignments :: "driver_assignment list"
  snapshots :: "order_analytics_snapshot list"
  settings_row :: "platform_settings option"
  order_tracking_points :: "order_tracking_point list"
  order_messages :: "order_message list"
  delivery_codes :: "delivery_code list"
  delivery_code_attempts :: "delivery_code_attempt list"
  conversations :: "conversation list"
  messages :: "message list"
  user_public_keys :: "user_public_key list"

definition empty_db :: db where
  "empty_db = \<lparr>users = [], invite_links = [], referrals = [], refresh_tokens = [],
     user_devices = [], user_notification_prefs = [], sellers = [], stores = [], products = [],
     product_images = [], orders = [], order_items = [], deliveries = [],
     driver_assignments = [], snapshots = [], settings_row = None, order_tracking_points = [],
     order_messages = [], delivery_codes = [], delivery_code_attempts = [], conversations = [],
     messages = [], user_public_keys = []\<rparr>"

section \<open>Lookups shared by the services\<close>

text \<open>
  \<open>_get_caller_seller\<close> stands with the same body in \<open>order_service\<close>, \<open>product_service\<close>,
  \<open>store_service\<close> and \<open>seller_service\<close>.
\<close>

definition caller_seller_rows :: "db \<Rightarrow> uuid \<Rightarrow> seller list" where
  "caller_seller_rows d uid =
     filter (\<lambda>s. s_user_id s = uid \<and> s_deleted_at s = None) (sellers d)"

definition get_caller_seller :: "db \<Rightarrow> user \<Rightarrow> seller res" where
  "get_caller_seller d caller =
     (case scalar_one_or_none (caller_seller_rows d (u_id caller)) of
        Inl e \<Rightarrow> Inl e
      | Inr None \<Rightarrow> Inl SellerProfileMissing
      | Inr (Some s) \<Rightarrow> Inr s)"

lemma get_caller_sellerD:
  "get_caller_seller d caller = Inr s \<Longrightarrow>
   s \<in> set (sellers d) \<and> s_user_id s = u_id caller \<and> s_deleted_at s = None"
  by (auto simp: get_caller_seller_def caller_seller_rows_def scalar_one_or_none_cases
      filter_eq_Cons_iff split: sum.splits option.splits)

end
