(* ===== verification/Order_Service.thy ===== *)
theory Order_Service
  imports Schema
begin

text \<open>
  The order life cycle of \<open>src/backend/app/services/order_service.py\<close>: loading and locking
  an order, the transitions of its state machine, the choice of a fulfilment mode, the
  analytics snapshot and cancellation. Every operation takes the clock readings and the
  fresh identifiers it draws as arguments.
\<close>

section \<open>Loading\<close>

record order_full =
  f_order :: order_row
  f_items :: "order_item list"
  f_delivery :: "delivery option"
  f_assignments :: "driver_assignment list"

definition load_order_locked :: "db \<Rightarrow> uuid \<Rightarrow> order_row option" where
  "load_order_locked d oid = get_row o_id oid (orders d)"

definition load_order_full :: "db \<Rightarrow> uuid \<Rightarrow> order_full option" where
  "load_order_full d oid =
     (case get_row o_id oid (orders d) of
        None \<Rightarrow> None
      | Some ord \<Rightarrow> Some \<lparr>f_order = ord,
          f_items = filter (\<lambda>i. oi_order_id i = oid) (order_items d),
          f_delivery = get_row d_order_id oid (deliveries d),
          f_assignments = filter (\<lambda>a. a_order_id a = oid) (driver_assignments d)\<rparr>)"

text \<open>The common tail of the operations: reload, and \<open>assert loaded is not None\<close>.\<close>

definition reload :: "uuid \<Rightarrow> db \<Rightarrow> order_full res \<times> db" where
  "reload oid d =
     (case load_order_full d oid of None \<Rightarrow> (Inl AssertionError, d) | Some f \<Rightarrow> (Inr f, d))"

definition terminal_at :: "order_row \<Rightarrow> time option" where
  "terminal_at ord =
     (if o_status ord = Completed then o_completed_at ord
      else if o_status ord = Cancelled then o_cancelled_at ord
      else None)"

definition lock_order_or_404 :: "db \<Rightarrow> uuid \<Rightarrow> user \<Rightarrow> order_row res" where
  "lock_order_or_404 d oid caller =
     (case load_order_locked d oid of
        None \<Rightarrow> Inl OrderNotFound
      | Some ord \<Rightarrow>
          if o_deleted_at ord \<noteq> None then Inl OrderNotFound
          else if u_role caller = Seller \<and> o_seller_id ord \<noteq> u_id caller then Inl OrderNotFound
          else if u_role caller = Customer \<and> o_customer_id ord \<noteq> u_id caller then Inl OrderNotFound
          else Inr ord)"

section \<open>Writes\<close>

definition set_order :: "uuid \<Rightarrow> (order_row \<Rightarrow> order_row) \<Rightarrow> db \<Rightarrow> db" where
  "set_order oid f d = d\<lparr>orders := upd_row o_id oid f (orders d)\<rparr>"

definition set_delivery :: "uuid \<Rightarrow> (delivery \<Rightarrow> delivery) \<Rightarrow> db \<Rightarrow> db" where
  "set_delivery oid f d = d\<lparr>deliveries := upd_row d_order_id oid f (deliveries d)\<rparr>"

text \<open>\<open>deliveries\<close> has its primary key and \<open>uq_deliveries_order_id\<close>.\<close>

definition add_delivery :: "delivery \<Rightarrow> db \<Rightarrow> unit res \<times> db" where
  "add_delivery dl d =
     (if d_id dl \<in> d_id ` set (deliveries d) \<or> d_order_id dl \<in> d_order_id ` set (deliveries d)
      then (Inl IntegrityError, d)
      else (Inr (), d\<lparr>deliveries := deliveries d @ [dl]\<rparr>))"

definition add_assignment :: "driver_assignment \<Rightarrow> db \<Rightarrow> unit res \<times> db" where
  "add_assignment a d =
     (case insert_row a_id a (driver_assignments d) of
        None \<Rightarrow> (Inl IntegrityError, d)
      | Some rows \<Rightarrow> (Inr (), d\<lparr>driver_assignments := rows\<rparr>))"

definition new_delivery :: "uuid \<Rightarrow> uuid \<Rightarrow> uuid option \<Rightarrow> uuid \<Rightarrow> delivery_status \<Rightarrow> time option \<Rightarrow> delivery" where
  "new_delivery new_id oid driver seller st started =
     \<lparr>d_id = new_id, d_order_id = oid, d_driver_id = driver, d_seller_id = seller,
      d_status = st, d_started_at = started, d_delivered_at = None,
      d_current_lat = None, d_current_lng = None, d_last_location_at = None,
      d_distance_meters = None, d_duration_seconds = None,
      d_current_eta_seconds = None, d_current_eta_updated_at = None\<rparr>"

section \<open>Seller transitions\<close>

definition accept_order :: "time \<Rightarrow> user \<Rightarrow> uuid \<Rightarrow> db \<Rightarrow> order_full res \<times> db" where
  "accept_order now caller oid d =
     (if u_role caller \<noteq> Seller then (Inl OrderNotFound, d)
      else case lock_order_or_404 d oid caller of
        Inl e \<Rightarrow> (Inl e, d)
      | Inr ord \<Rightarrow>
          if o_status ord \<noteq> Pending then (Inl OrderInvalidTransition, d)
          else reload oid (set_order oid
                 (\<lambda>r. r\<lparr>o_status := Accepted, o_accepted_at := Some now\<rparr>) d))"

definition mark_preparing :: "time \<Rightarrow> user \<Rightarrow> uuid \<Rightarrow> db \<Rightarrow> order_full res \<times> db" where
  "mark_preparing now caller oid d =
     (if u_role caller \<noteq> Seller then (Inl OrderNotFound, d)
      else case lock_order_or_404 d oid caller of
        Inl e \<Rightarrow> (Inl e, d)
      | Inr ord \<Rightarrow>
          if o_status ord \<noteq> Accepted then (Inl OrderInvalidTransition, d)
          else reload oid (set_order oid
                 (\<lambda>r. r\<lparr>o_status := Preparing, o_preparing_at := Some now\<rparr>) d))"

section \<open>Fulfilment mode\<close>

definition is_active_assignment :: "driver_assignment \<Rightarrow> bool" where
  "is_active_assignment a \<longleftrightarrow> a_status a \<in> {ARequested, AAssigned, AAccepted}"

definition active_assignments :: "db \<Rightarrow> uuid \<Rightarrow> driver_assignment list" where
  "active_assignments d oid =
     filter (\<lambda>a. a_order_id a = oid \<and> is_active_assignment a) (driver_assignments d)"

text \<open>
  The guards that \<open>choose_self_delivery\<close> and \<open>request_driver\<close> share word for word, up to the
  caller's seller row.
\<close>

definition fulfilment_guard :: "user \<Rightarrow> uuid \<Rightarrow> db \<Rightarrow> (order_row \<times> seller) res" where
  "fulfilment_guard caller oid d =
     (if u_role caller \<noteq> Seller then Inl OrderNotFound
      else case lock_order_or_404 d oid caller of
        Inl e \<Rightarrow> Inl e
      | Inr ord \<Rightarrow>
          if o_status ord \<notin> {Accepted, Preparing} then Inl OrderInvalidTransition
          else if get_row d_order_id oid (deliveries d) \<noteq> None then Inl FulfillmentAlreadyChosen
          else (case scalar_one_or_none (active_assignments d oid) of
              Inl e \<Rightarrow> Inl e
            | Inr (Some _) \<Rightarrow> Inl FulfillmentAlreadyChosen
            | Inr None \<Rightarrow>
                (case get_caller_seller d caller of
                   Inl e \<Rightarrow> Inl e
                 | Inr s \<Rightarrow> Inr (ord, s))))"

definition choose_self_delivery :: "uuid \<Rightarrow> user \<Rightarrow> uuid \<Rightarrow> db \<Rightarrow> order_full res \<times> db" where
  "choose_self_delivery new_id caller oid d =
     (case fulfilment_guard caller oid d of
        Inl e \<Rightarrow> (Inl e, d)
      | Inr (ord, s) \<Rightarrow>
          (case add_delivery (new_delivery new_id oid None (s_id s) DPending None) d of
             (Inl e, d') \<Rightarrow> (Inl e, d')
           | (Inr _, d') \<Rightarrow> reload oid d'))"

definition request_driver :: "uuid \<Rightarrow> time \<Rightarrow> user \<Rightarrow> uuid \<Rightarrow> db \<Rightarrow> order_full res \<times> db" where
  "request_driver new_id now caller oid d =
     (case fulfilment_guard caller oid d of
        Inl e \<Rightarrow> (Inl e, d)
      | Inr (ord, s) \<Rightarrow>
          (case add_assignment \<lparr>a_id = new_id, a_order_id = oid, a_driver_id = None,
                  a_status = ARequested, a_requested_by_seller_id = s_id s,
                  a_requested_at = now, a_assigned_by_admin_id = None, a_assigned_at = None\<rparr> d of
             (Inl e, d') \<Rightarrow> (Inl e, d')
           | (Inr _, d') \<Rightarrow> reload oid d'))"

definition find_active_driver :: "db \<Rightarrow> uuid \<Rightarrow> user option" where
  "find_active_driver d driver_id =
     (case get_row u_id driver_id (users d) of
        None \<Rightarrow> None
      | Some u \<Rightarrow>
          if u_role u = Driver \<and> u_deleted_at u = None \<and> u_is_active u then Some u else None)"

definition assign_driver :: "time \<Rightarrow> user \<Rightarrow> uuid \<Rightarrow> uuid \<Rightarrow> db \<Rightarrow> order_full res \<times> db" where
  "assign_driver now caller oid driver_id d =
     (if u_role caller \<noteq> Admin then (Inl OrderNotFound, d)
      else case lock_order_or_404 d oid caller of
        Inl e \<Rightarrow> (Inl e, d)
      | Inr ord \<Rightarrow>
          if o_status ord \<notin> {Accepted, Preparing} then (Inl OrderInvalidTransition, d)
          else if find_active_driver d driver_id = None then (Inl OrderInvalidTransition, d)
          else let assignments = order_desc a_requested_at
                     (filter (\<lambda>a. a_order_id a = oid) (driver_assignments d));
                   active = filter is_active_assignment assignments
               in (case active of
                     [] \<Rightarrow> (Inl DriverNotRequested, d)
                   | pending # _ \<Rightarrow>
                       if filter (\<lambda>a. a_driver_id a \<noteq> None) active \<noteq> []
                       then (Inl DriverAlreadyAssigned, d)
                       else reload oid (d\<lparr>driver_assignments := upd_row a_id (a_id pending)
                              (\<lambda>a. a\<lparr>a_driver_id := Some driver_id, a_status := AAssigned,
                                     a_assigned_by_admin_id := Some (u_id caller),
                                     a_assigned_at := Some now\<rparr>)
                              (driver_assignments d)\<rparr>)))"

section \<open>Delivery transitions\<close>

text \<open>
  The authority check of \<open>out_for_delivery\<close> and \<open>mark_delivered\<close> on an existing delivery
  row: self-delivery belongs to the seller, driver delivery to the driver or the seller.
\<close>

definition delivery_authority :: "user \<Rightarrow> order_row \<Rightarrow> delivery \<Rightarrow> bool" where
  "delivery_authority caller ord dl =
     (case d_driver_id dl of
        None \<Rightarrow> u_role caller = Seller \<and> u_id caller = o_seller_id ord
      | Some drv \<Rightarrow>
          \<not> (u_role caller = Driver \<and> u_id caller \<noteq> drv) \<and>
          \<not> (u_role caller = Seller \<and> u_id caller \<noteq> o_seller_id ord))"

definition assigned_rows :: "db \<Rightarrow> uuid \<Rightarrow> driver_assignment list" where
  "assigned_rows d oid =
     filter (\<lambda>a. a_order_id a = oid \<and> a_status a \<in> {AAssigned, AAccepted} \<and> a_driver_id a \<noteq> None)
       (driver_assignments d)"

text \<open>
  The delivery row that \<open>out_for_delivery\<close> works on: the existing one, started, or a new
  one for the assigned driver. \<open>started\<close> is the clock reading for \<open>started_at\<close>.
\<close>

definition start_delivery :: "uuid \<Rightarrow> time \<Rightarrow> user \<Rightarrow> order_row \<Rightarrow> db \<Rightarrow> unit res \<times> db" where
  "start_delivery new_id started caller ord d =
     (case get_row d_order_id (o_id ord) (deliveries d) of
        None \<Rightarrow>
          (case scalar_one_or_none (assigned_rows d (o_id ord)) of
             Inl e \<Rightarrow> (Inl e, d)
           | Inr None \<Rightarrow> (Inl OrderInvalidTransition, d)
           | Inr (Some a) \<Rightarrow>
               if u_role caller = Driver \<and> Some (u_id caller) \<noteq> a_driver_id a
               then (Inl OrderNotFound, d)
               else if u_role caller = Seller \<and> u_id caller \<noteq> o_seller_id ord
               then (Inl OrderNotFound, d)
               else add_delivery (new_delivery new_id (o_id ord) (a_driver_id a)
                      (o_seller_id ord) DInTransit (Some started)) d)
      | Some dl \<Rightarrow>
          if \<not> delivery_authority caller ord dl then (Inl OrderNotFound, d)
          else (Inr (), set_delivery (o_id ord)
                  (\<lambda>r. r\<lparr>d_status := DInTransit, d_started_at := Some started\<rparr>) d))"

definition out_for_delivery ::
  "uuid \<Rightarrow> time \<Rightarrow> time \<Rightarrow> user \<Rightarrow> uuid \<Rightarrow> db \<Rightarrow> order_full res \<times> db" where
  "out_for_delivery new_id started now caller oid d =
     (if u_role caller \<notin> {Seller, Driver} then (Inl OrderNotFound, d)
      else case lock_order_or_404 d oid caller of
        Inl e \<Rightarrow> (Inl e, d)
      | Inr ord \<Rightarrow>
          if o_status ord = OutForDelivery \<or> o_out_for_delivery_at ord \<noteq> None
          then (Inl DeliveryAlreadyStarted, d)
          else if o_status ord \<noteq> Preparing then (Inl OrderInvalidTransition, d)
          else (case start_delivery new_id started caller ord d of
                  (Inl e, d') \<Rightarrow> (Inl e, d')
                | (Inr _, d') \<Rightarrow> reload oid (set_order oid
                    (\<lambda>r. r\<lparr>o_status := OutForDelivery, o_out_for_delivery_at := Some now\<rparr>) d')))"

text \<open>\<open>duration_seconds\<close> is stamped once, and never negative.\<close>

definition stamp_delivered :: "time \<Rightarrow> delivery \<Rightarrow> delivery" where
  "stamp_delivered now dl =
     (let dl' = dl\<lparr>d_status := DDelivered, d_delivered_at := Some now\<rparr>
      in case (d_started_at dl, d_duration_seconds dl) of
           (Some started, None) \<Rightarrow>
             dl'\<lparr>d_duration_seconds := Some (max 0 (total_seconds_int (now - started)))\<rparr>
         | _ \<Rightarrow> dl')"

definition mark_delivered :: "time \<Rightarrow> user \<Rightarrow> uuid \<Rightarrow> db \<Rightarrow> order_full res \<times> db" where
  "mark_delivered now caller oid d =
     (if u_role caller \<notin> {Seller, Driver} then (Inl OrderNotFound, d)
      else case lock_order_or_404 d oid caller of
        Inl e \<Rightarrow> (Inl e, d)
      | Inr ord \<Rightarrow>
          if o_status ord \<noteq> OutForDelivery then (Inl OrderInvalidTransition, d)
          else (case get_row d_order_id oid (deliveries d) of
                  None \<Rightarrow> (Inl OrderInvalidTransition, d)
                | Some dl \<Rightarrow>
                    if \<not> delivery_authority caller ord dl then (Inl OrderNotFound, d)
                    else reload oid (set_delivery oid (stamp_delivered now)
                           (set_order oid
                             (\<lambda>r. r\<lparr>o_status := Delivered, o_delivered_at := Some now\<rparr>) d))))"

section \<open>Completion and the analytics snapshot\<close>

definition seller_city :: "db \<Rightarrow> uuid \<Rightarrow> string" where
  "seller_city d sid = (case get_row s_id sid (sellers d) of None \<Rightarrow> [] | Some s \<Rightarrow> s_city s)"

definition snapshot_of :: "uuid \<Rightarrow> time \<Rightarrow> db \<Rightarrow> order_row \<Rightarrow> order_analytics_snapshot" where
  "snapshot_of new_id now d ord =
     (let dl = get_row d_order_id (o_id ord) (deliveries d) in
      \<lparr>sn_id = new_id, sn_order_id = o_id ord, sn_seller_id = o_seller_id ord,
       sn_store_id = o_store_id ord, sn_customer_id = o_customer_id ord,
       sn_city = seller_city d (o_seller_id ord),
       sn_item_count =
         sum_list (map oi_quantity (filter (\<lambda>i. oi_order_id i = o_id ord) (order_items d))),
       sn_subtotal_minor = o_subtotal_minor ord, sn_total_minor = o_total_minor ord,
       sn_delivered_at = or_else (o_delivered_at ord) (or_else (o_completed_at ord) now),
       sn_delivery_duration_seconds = Option.bind dl d_duration_seconds,
       sn_delivery_distance_meters = Option.bind dl d_distance_meters\<rparr>)"

text \<open>\<open>INSERT \<dots> ON CONFLICT (order_id) DO NOTHING\<close>.\<close>

definition write_snapshot :: "uuid \<Rightarrow> time \<Rightarrow> order_row \<Rightarrow> db \<Rightarrow> unit res \<times> db" where
  "write_snapshot new_id now ord d =
     (if o_id ord \<in> sn_order_id ` set (snapshots d) then (Inr (), d)
      else case insert_row sn_id (snapshot_of new_id now d ord) (snapshots d) of
             None \<Rightarrow> (Inl IntegrityError, d)
           | Some rows \<Rightarrow> (Inr (), d\<lparr>snapshots := rows\<rparr>))"

definition complete_order :: "uuid \<Rightarrow> time \<Rightarrow> user \<Rightarrow> uuid \<Rightarrow> db \<Rightarrow> order_full res \<times> db" where
  "complete_order new_id now caller oid d =
     (if u_role caller \<noteq> Customer then (Inl OrderNotFound, d)
      else case lock_order_or_404 d oid caller of
        Inl e \<Rightarrow> (Inl e, d)
      | Inr ord \<Rightarrow>
          if o_status ord \<noteq> Delivered then (Inl OrderInvalidTransition, d)
          else let f = (\<lambda>r. r\<lparr>o_status := Completed, o_completed_at := Some now\<rparr>)
               in (case write_snapshot new_id now (f ord) (set_order oid f d) of
                     (Inl e, d') \<Rightarrow> (Inl e, d')
                   | (Inr _, d') \<Rightarrow> reload oid d'))"

section \<open>Cancellation\<close>

definition cancel_permitted :: "user_role \<Rightarrow> order_status \<Rightarrow> unit res" where
  "cancel_permitted role st =
     (case role of
        Customer \<Rightarrow> if st \<noteq> Pending then Inl OrderInvalidTransition else Inr ()
      | Seller \<Rightarrow>
          if st \<notin> {Pending, Accepted, Preparing} then Inl OrderInvalidTransition else Inr ()
      | Admin \<Rightarrow> Inr ()
      | Driver \<Rightarrow> Inl OrderNotFound)"

definition cancel_order ::
  "time \<Rightarrow> user \<Rightarrow> uuid \<Rightarrow> string option \<Rightarrow> db \<Rightarrow> order_full res \<times> db" where
  "cancel_order now caller oid reason d =
     (case lock_order_or_404 d oid caller of
        Inl e \<Rightarrow> (Inl e, d)
      | Inr ord \<Rightarrow>
          if o_status ord \<in> {Completed, Cancelled} \<or> o_status ord = Delivered
          then (Inl OrderInvalidTransition, d)
          else (case cancel_permitted (u_role caller) (o_status ord) of
                  Inl e \<Rightarrow> (Inl e, d)
                | Inr _ \<Rightarrow>
                    (let d1 = set_order oid (\<lambda>r. r\<lparr>o_status := Cancelled,
                                o_cancelled_at := Some now, o_cancellation_reason := reason\<rparr>) d;
                         d2 = d1\<lparr>driver_assignments :=
                                update_where (\<lambda>a. a_order_id a = oid \<and> is_active_assignment a)
                                  (\<lambda>a. a\<lparr>a_status := ACancelled\<rparr>) (driver_assignments d1)\<rparr>
                     in reload oid d2)))"

lemmas order_op_defs [service_defs] =
  accept_order_def mark_preparing_def fulfilment_guard_def choose_self_delivery_def
  request_driver_def assign_driver_def start_delivery_def out_for_delivery_def
  mark_delivered_def write_snapshot_def complete_order_def cancel_order_def
  add_delivery_def add_assignment_def

end
