(* ===== verification/Order_Lifecycle.thy ===== *)
theory Order_Lifecycle
  imports Order_Service
begin

text \<open>
  What the operations of \<open>Order_Service\<close> do: an inversion lemma per operation (the guards
  that held and the state it leaves), the invariant of the order tables and that every
  operation keeps it, and the state machine of ADR-0012 as a step relation.
\<close>

section \<open>Locking and reloading\<close>

lemma lock_order_or_404_Inr [simp]:
  "lock_order_or_404 d oid caller = Inr ord \<longleftrightarrow>
     get_row o_id oid (orders d) = Some ord \<and> o_deleted_at ord = None \<and>
     (u_role caller = Seller \<longrightarrow> o_seller_id ord = u_id caller) \<and>
     (u_role caller = Customer \<longrightarrow> o_customer_id ord = u_id caller)"
  by (auto simp: lock_order_or_404_def load_order_locked_def split: option.splits)

lemma lock_order_or_404_Inl: "lock_order_or_404 d oid caller = Inl e \<Longrightarrow> e = OrderNotFound"
  by (auto simp: lock_order_or_404_def load_order_locked_def split: option.splits if_splits)

lemma reload_Inr [simp]: "reload oid d = (Inr f, d') \<longleftrightarrow> d' = d \<and> load_order_full d oid = Some f"
  by (auto simp: reload_def split: option.splits)

lemma reload_Inl [simp]:
  "reload oid d = (Inl e, d') \<longleftrightarrow> d' = d \<and> e = AssertionError \<and> get_row o_id oid (orders d) = None"
  by (auto simp: reload_def load_order_full_def split: option.splits)

lemma get_row_set_order [row_simps]:
  "(\<And>r. o_id (f r) = o_id r) \<Longrightarrow>
   get_row o_id k (orders (set_order oid f d)) =
     (if k = oid then map_option f (get_row o_id oid (orders d)) else get_row o_id k (orders d))"
  by (simp add: set_order_def get_row_upd_row)

lemma set_order_frame [simp]:
  "deliveries (set_order oid f d) = deliveries d"
  "driver_assignments (set_order oid f d) = driver_assignments d"
  "snapshots (set_order oid f d) = snapshots d"
  "order_items (set_order oid f d) = order_items d"
  "products (set_order oid f d) = products d"
  "sellers (set_order oid f d) = sellers d"
  "users (set_order oid f d) = users d"
  "settings_row (set_order oid f d) = settings_row d"
  by (simp_all add: set_order_def)

lemma set_delivery_frame [simp]:
  "orders (set_delivery oid f d) = orders d"
  "driver_assignments (set_delivery oid f d) = driver_assignments d"
  "snapshots (set_delivery oid f d) = snapshots d"
  "order_items (set_delivery oid f d) = order_items d"
  by (simp_all add: set_delivery_def)

lemma active_assignments_frame [simp]:
  "active_assignments (set_order oid f d) k = active_assignments d k"
  "active_assignments (set_delivery oid g d) k = active_assignments d k"
  by (simp_all add: active_assignments_def)

section \<open>The state machine\<close>

inductive order_next :: "order_status \<Rightarrow> order_status \<Rightarrow> bool" where
  accept: "order_next Pending Accepted"
| prepare: "order_next Accepted Preparing"
| depart: "order_next Preparing OutForDelivery"
| arrive: "order_next OutForDelivery Delivered"
| complete: "order_next Delivered Completed"
| cancel: "st \<in> {Pending, Accepted, Preparing, OutForDelivery} \<Longrightarrow> order_next st Cancelled"

inductive_cases order_next_from_terminal [elim!]:
  "order_next Completed st"
  "order_next Cancelled st"

inductive_simps order_next_simps [simp]:
  "order_next Pending st" "order_next Accepted st" "order_next Preparing st"
  "order_next OutForDelivery st" "order_next Delivered st"

text \<open>The progress of an order: no edge of the diagram leads back.\<close>

primrec status_rank :: "order_status \<Rightarrow> nat" where
  "status_rank Pending = 0"
| "status_rank Accepted = 1"
| "status_rank Preparing = 2"
| "status_rank OutForDelivery = 3"
| "status_rank Delivered = 4"
| "status_rank Completed = 5"
| "status_rank Cancelled = 5"

lemma order_next_rank: "order_next s t \<Longrightarrow> status_rank s < status_rank t"
  by (auto elim: order_next.cases)

lemma order_next_star_rank: "order_next\<^sup>*\<^sup>* s t \<Longrightarrow> status_rank s \<le> status_rank t"
  by (induction rule: rtranclp_induct) (auto dest: order_next_rank)

section \<open>The transitions\<close>

text \<open>
  \<open>moved oid f P d d'\<close>: the order \<open>oid\<close>, which satisfied \<open>P\<close>, was rewritten by \<open>f\<close>, and
  nothing else of the order table changed.
\<close>

definition moved ::
  "uuid \<Rightarrow> (order_row \<Rightarrow> order_row) \<Rightarrow> (order_row \<Rightarrow> bool) \<Rightarrow> db \<Rightarrow> db \<Rightarrow> bool" where
  "moved oid f P d d' \<longleftrightarrow>
     (\<exists>ord. get_row o_id oid (orders d) = Some ord \<and> o_deleted_at ord = None \<and> P ord) \<and>
     orders d' = upd_row o_id oid f (orders d)"

lemma movedE:
  assumes "moved oid f P d d'"
  obtains ord where "get_row o_id oid (orders d) = Some ord" "o_deleted_at ord = None" "P ord"
    "orders d' = upd_row o_id oid f (orders d)"
  using assms by (auto simp: moved_def)

lemma accept_order_success:
  assumes "accept_order now caller oid d = (Inr r, d')"
  shows "moved oid (\<lambda>r. r\<lparr>o_status := Accepted, o_accepted_at := Some now\<rparr>)
           (\<lambda>ord. o_status ord = Pending \<and> u_role caller = Seller \<and> o_seller_id ord = u_id caller)
           d d'"
    and "d' = set_order oid (\<lambda>r. r\<lparr>o_status := Accepted, o_accepted_at := Some now\<rparr>) d"
  using assms by (auto simp: accept_order_def moved_def set_order_def split: if_splits sum.splits)

lemma mark_preparing_success:
  assumes "mark_preparing now caller oid d = (Inr r, d')"
  shows "moved oid (\<lambda>r. r\<lparr>o_status := Preparing, o_preparing_at := Some now\<rparr>)
           (\<lambda>ord. o_status ord = Accepted \<and> u_role caller = Seller \<and> o_seller_id ord = u_id caller)
           d d'"
    and "d' = set_order oid (\<lambda>r. r\<lparr>o_status := Preparing, o_preparing_at := Some now\<rparr>) d"
  using assms by (auto simp: mark_preparing_def moved_def set_order_def split: if_splits sum.splits)

lemma fulfilment_guard_Inr:
  assumes "fulfilment_guard caller oid d = Inr (ord, s)"
  shows "u_role caller = Seller" "get_row o_id oid (orders d) = Some ord" "o_deleted_at ord = None"
    "o_seller_id ord = u_id caller" "o_status ord \<in> {Accepted, Preparing}"
    "get_row d_order_id oid (deliveries d) = None" "active_assignments d oid = []"
    "get_caller_seller d caller = Inr s"
  using assms
  by (auto simp: fulfilment_guard_def scalar_one_or_none_cases split: if_splits sum.splits option.splits)

lemma choose_self_delivery_success:
  assumes "choose_self_delivery new_id caller oid d = (Inr r, d')"
  obtains ord s where "fulfilment_guard caller oid d = Inr (ord, s)"
    "new_id \<notin> d_id ` set (deliveries d)"
    "d' = d\<lparr>deliveries := deliveries d @ [new_delivery new_id oid None (s_id s) DPending None]\<rparr>"
  using assms
  by (auto simp: choose_self_delivery_def add_delivery_def new_delivery_def
      split: sum.splits if_splits)

lemma request_driver_success:
  assumes "request_driver new_id now caller oid d = (Inr r, d')"
  obtains ord s a where "fulfilment_guard caller oid d = Inr (ord, s)"
    "a_id a \<notin> a_id ` set (driver_assignments d)"
    "a_order_id a = oid" "a_status a = ARequested" "a_driver_id a = None"
    "d' = d\<lparr>driver_assignments := driver_assignments d @ [a]\<rparr>"
proof -
  from assms obtain ord s where g: "fulfilment_guard caller oid d = Inr (ord, s)"
    by (auto simp: request_driver_def split: sum.splits)
  let ?a = "\<lparr>a_id = new_id, a_order_id = oid, a_driver_id = None,
                  a_status = ARequested, a_requested_by_seller_id = s_id s,
                  a_requested_at = now, a_assigned_by_admin_id = None, a_assigned_at = None\<rparr>"
  from assms g have "insert_row a_id ?a (driver_assignments d) \<noteq> None" and
    "d' = d\<lparr>driver_assignments := driver_assignments d @ [?a]\<rparr>"
    by (auto simp: request_driver_def add_assignment_def insert_row_def split: option.splits if_splits)
  with g that [of ord s ?a] show thesis by (auto simp: insert_row_def split: if_splits)
qed

lemma assign_driver_success:
  assumes "assign_driver now caller oid driver_id d = (Inr r, d')"
  obtains ord pending where "u_role caller = Admin" "get_row o_id oid (orders d) = Some ord"
    "o_deleted_at ord = None" "o_status ord \<in> {Accepted, Preparing}"
    "find_active_driver d driver_id \<noteq> None"
    "pending \<in> set (active_assignments d oid)"
    "\<forall>a \<in> set (active_assignments d oid). a_driver_id a = None"
    "d' = d\<lparr>driver_assignments := upd_row a_id (a_id pending)
                              (\<lambda>a. a\<lparr>a_driver_id := Some driver_id, a_status := AAssigned,
                                     a_assigned_by_admin_id := Some (u_id caller),
                                     a_assigned_at := Some now\<rparr>)
                              (driver_assignments d)\<rparr>"
proof -
  let ?active = "filter is_active_assignment
    (order_desc a_requested_at (filter (\<lambda>a. a_order_id a = oid) (driver_assignments d)))"
  have same: "set ?active = set (active_assignments d oid)"
    by (auto simp: active_assignments_def)
  from assms obtain ord pending rest where
    "u_role caller = Admin" "get_row o_id oid (orders d) = Some ord"
    "o_deleted_at ord = None" "o_status ord \<in> {Accepted, Preparing}"
    "find_active_driver d driver_id \<noteq> None"
    and act: "?active = pending # rest" and none: "filter (\<lambda>a. a_driver_id a \<noteq> None) ?active = []"
    and d': "d' = d\<lparr>driver_assignments := upd_row a_id (a_id pending)
                              (\<lambda>a. a\<lparr>a_driver_id := Some driver_id, a_status := AAssigned,
                                     a_assigned_by_admin_id := Some (u_id caller),
                                     a_assigned_at := Some now\<rparr>)
                              (driver_assignments d)\<rparr>"
    by (auto simp: assign_driver_def Let_def split: if_splits sum.splits list.splits)
  moreover have "pending \<in> set (active_assignments d oid)"
    using act same by (metis list.set_intros(1))
  moreover have "\<forall>a \<in> set (active_assignments d oid). a_driver_id a = None"
    using none unfolding same [symmetric] filter_empty_conv by blast
  ultimately show thesis using that by blast
qed

text \<open>Starting a delivery leaves an in-transit row for the order, and only touches deliveries.\<close>

lemma start_delivery_success:
  assumes "start_delivery new_id started caller ord d = (Inr u, d')"
  shows "(\<exists>dl. get_row d_order_id (o_id ord) (deliveries d) = Some dl \<and>
             delivery_authority caller ord dl \<and>
             d' = set_delivery (o_id ord)
                    (\<lambda>r. r\<lparr>d_status := DInTransit, d_started_at := Some started\<rparr>) d) \<or>
         (\<exists>a. get_row d_order_id (o_id ord) (deliveries d) = None \<and>
             assigned_rows d (o_id ord) = [a] \<and>
             (u_role caller = Driver \<longrightarrow> a_driver_id a = Some (u_id caller)) \<and>
             new_id \<notin> d_id ` set (deliveries d) \<and>
             d' = d\<lparr>deliveries := deliveries d @ [new_delivery new_id (o_id ord) (a_driver_id a)
                      (o_seller_id ord) DInTransit (Some started)]\<rparr>)"
  using assms
  by (auto simp: start_delivery_def add_delivery_def new_delivery_def scalar_one_or_none_cases
      get_row_None_iff split: option.splits sum.splits if_splits)

lemma out_for_delivery_success:
  assumes "out_for_delivery new_id started now caller oid d = (Inr r, d')"
  obtains ord d1 where "u_role caller \<in> {Seller, Driver}"
    "get_row o_id oid (orders d) = Some ord" "o_deleted_at ord = None"
    "u_role caller = Seller \<Longrightarrow> o_seller_id ord = u_id caller"
    "o_status ord = Preparing" "o_out_for_delivery_at ord = None"
    "start_delivery new_id started caller ord d = (Inr (), d1)"
    "d' = set_order oid (\<lambda>r. r\<lparr>o_status := OutForDelivery, o_out_for_delivery_at := Some now\<rparr>) d1"
  using assms
  by (auto simp: out_for_delivery_def split: if_splits sum.splits prod.splits)

lemma mark_delivered_success:
  assumes "mark_delivered now caller oid d = (Inr r, d')"
  obtains ord dl where "u_role caller \<in> {Seller, Driver}"
    "get_row o_id oid (orders d) = Some ord" "o_deleted_at ord = None"
    "u_role caller = Seller \<Longrightarrow> o_seller_id ord = u_id caller"
    "o_status ord = OutForDelivery" "get_row d_order_id oid (deliveries d) = Some dl"
    "delivery_authority caller ord dl"
    "d' = set_delivery oid (stamp_delivered now)
            (set_order oid (\<lambda>r. r\<lparr>o_status := Delivered, o_delivered_at := Some now\<rparr>) d)"
  using assms
  by (auto simp: mark_delivered_def split: if_splits sum.splits option.splits)

lemma write_snapshot_success:
  assumes "write_snapshot new_id now ord d = (Inr u, d')"
  shows "(o_id ord \<in> sn_order_id ` set (snapshots d) \<and> d' = d) \<or>
         (o_id ord \<notin> sn_order_id ` set (snapshots d) \<and> new_id \<notin> sn_id ` set (snapshots d) \<and>
          d' = d\<lparr>snapshots := snapshots d @ [snapshot_of new_id now d ord]\<rparr>)"
  using assms
  by (auto simp: write_snapshot_def insert_row_def snapshot_of_def Let_def split: if_splits option.splits)

lemma snapshot_of_order [simp]:
  "sn_order_id (snapshot_of new_id now d ord) = o_id ord"
  "sn_id (snapshot_of new_id now d ord) = new_id"
  "sn_total_minor (snapshot_of new_id now d ord) = o_total_minor ord"
  "sn_subtotal_minor (snapshot_of new_id now d ord) = o_subtotal_minor ord"
  "sn_seller_id (snapshot_of new_id now d ord) = o_seller_id ord"
  "sn_customer_id (snapshot_of new_id now d ord) = o_customer_id ord"
  by (simp_all add: snapshot_of_def Let_def)

lemma complete_order_success:
  assumes "complete_order new_id now caller oid d = (Inr r, d')"
  obtains ord where "u_role caller = Customer" "get_row o_id oid (orders d) = Some ord"
    "o_deleted_at ord = None" "o_customer_id ord = u_id caller" "o_status ord = Delivered"
    "write_snapshot new_id now (ord\<lparr>o_status := Completed, o_completed_at := Some now\<rparr>)
       (set_order oid (\<lambda>r. r\<lparr>o_status := Completed, o_completed_at := Some now\<rparr>) d) = (Inr (), d')"
  using assms
  by (auto simp: complete_order_def Let_def split: if_splits sum.splits prod.splits)

lemma cancel_order_success:
  assumes "cancel_order now caller oid reason d = (Inr r, d')"
  obtains ord where "get_row o_id oid (orders d) = Some ord" "o_deleted_at ord = None"
    "o_status ord \<in> {Pending, Accepted, Preparing, OutForDelivery}"
    "cancel_permitted (u_role caller) (o_status ord) = Inr ()"
    "u_role caller = Seller \<Longrightarrow> o_seller_id ord = u_id caller"
    "u_role caller = Customer \<Longrightarrow> o_customer_id ord = u_id caller"
    "d' = (set_order oid (\<lambda>r. r\<lparr>o_status := Cancelled, o_cancelled_at := Some now,
                                 o_cancellation_reason := reason\<rparr>) d)
            \<lparr>driver_assignments := update_where (\<lambda>a. a_order_id a = oid \<and> is_active_assignment a)
                                  (\<lambda>a. a\<lparr>a_status := ACancelled\<rparr>) (driver_assignments d)\<rparr>"
  using assms
  by (cases "case get_row o_id oid (orders d) of None \<Rightarrow> Pending | Some ord \<Rightarrow> o_status ord")
    (auto simp: cancel_order_def Let_def split: if_splits sum.splits)

end
