(* ===== verification/Order_Invariant.thy ===== *)
theory Order_Invariant
  imports Order_Lifecycle
begin

text \<open>
  The invariant of the order tables: unique keys, at most one live driver request per order,
  the two fulfilment modes exclude each other, and the columns of an order agree with its
  status (in particular, every completed order has its analytics row). Every transition of
  the life cycle keeps it.
\<close>

section \<open>The invariant\<close>

definition order_ok :: "delivery list \<Rightarrow> order_analytics_snapshot list \<Rightarrow> order_row \<Rightarrow> bool" where
  "order_ok dls sns ord \<longleftrightarrow>
     (o_status ord \<in> {Pending, Accepted, Preparing} \<longrightarrow> o_out_for_delivery_at ord = None) \<and>
     (o_status ord = OutForDelivery \<longrightarrow> o_out_for_delivery_at ord \<noteq> None \<and>
        (\<exists>dl \<in> set dls. d_order_id dl = o_id ord \<and> d_status dl = DInTransit)) \<and>
     (o_status ord \<in> {Delivered, Completed} \<longrightarrow> o_delivered_at ord \<noteq> None) \<and>
     (o_status ord = Completed \<longrightarrow> o_completed_at ord \<noteq> None \<and> o_id ord \<in> sn_order_id ` set sns) \<and>
     (o_status ord = Cancelled \<longrightarrow> o_cancelled_at ord \<noteq> None)"

definition assignments_inv :: "db \<Rightarrow> bool" where
  "assignments_inv d \<longleftrightarrow>
     distinct (map a_id (driver_assignments d)) \<and>
     (\<forall>oid. length (active_assignments d oid) \<le> 1) \<and>
     (\<forall>dl \<in> set (deliveries d). d_driver_id dl = None \<longrightarrow> active_assignments d (d_order_id dl) = [])"

definition orders_inv :: "db \<Rightarrow> bool" where
  "orders_inv d \<longleftrightarrow>
     distinct (map o_id (orders d)) \<and>
     distinct (map d_order_id (deliveries d)) \<and>
     distinct (map sn_order_id (snapshots d)) \<and>
     assignments_inv d \<and>
     (\<forall>ord \<in> set (orders d). order_ok (deliveries d) (snapshots d) ord)"

lemma orders_inv_empty: "orders_inv empty_db"
  by (simp add: orders_inv_def assignments_inv_def active_assignments_def empty_db_def)

lemma assignments_inv_set_order [simp]:
  "assignments_inv (set_order oid f d) = assignments_inv d"
  by (simp add: assignments_inv_def)

section \<open>Generic preservation lemmas\<close>

lemma order_ok_mono:
  assumes "order_ok dls sns ord"
    and "\<And>dl. dl \<in> set dls \<Longrightarrow> d_order_id dl = o_id ord \<Longrightarrow> d_status dl = DInTransit \<Longrightarrow>
           \<exists>dl' \<in> set dls'. d_order_id dl' = o_id ord \<and> d_status dl' = DInTransit"
    and "sn_order_id ` set sns \<subseteq> sn_order_id ` set sns'"
  shows "order_ok dls' sns' ord"
  using assms by (auto simp: order_ok_def)

lemma orders_inv_set_order:
  assumes inv: "orders_inv d" and ord: "get_row o_id oid (orders d) = Some ord"
    and key: "\<And>r. o_id (f r) = o_id r"
    and ok: "order_ok (deliveries d) (snapshots d) (f ord)"
  shows "orders_inv (set_order oid f d)"
proof -
  from inv have dist: "distinct (map o_id (orders d))" by (simp add: orders_inv_def)
  then have "order_ok (deliveries d) (snapshots d) (f r)"
    if "r \<in> set (orders d)" "o_id r = oid" for r
    using that ord ok distinct_key_eq [OF dist] by (metis get_row_SomeD)
  then have "\<forall>r \<in> set (orders (set_order oid f d)). order_ok (deliveries d) (snapshots d) r"
    using inv by (auto simp: orders_inv_def set_order_def set_upd_row)
  moreover have "map o_id (orders (set_order oid f d)) = map o_id (orders d)"
    using key by (simp add: set_order_def map_key_upd_row)
  ultimately show ?thesis using inv by (simp add: orders_inv_def)
qed

lemma orders_inv_snapshot:
  assumes "orders_inv d" and "sn_order_id sn \<notin> sn_order_id ` set (snapshots d)"
  shows "orders_inv (d\<lparr>snapshots := snapshots d @ [sn]\<rparr>)"
proof -
  have "order_ok (deliveries d) (snapshots d @ [sn]) ord" if "ord \<in> set (orders d)" for ord
    using assms(1) that by (auto simp: orders_inv_def order_ok_def)
  with assms show ?thesis
    by (auto simp: orders_inv_def assignments_inv_def active_assignments_def)
qed

lemma orders_inv_assignments:
  assumes "orders_inv d" and "assignments_inv (d\<lparr>driver_assignments := rows\<rparr>)"
  shows "orders_inv (d\<lparr>driver_assignments := rows\<rparr>)"
  using assms by (simp add: orders_inv_def)

lemma orders_inv_get_row:
  "orders_inv d \<Longrightarrow> get_row o_id oid (orders d) = Some ord \<Longrightarrow>
   order_ok (deliveries d) (snapshots d) ord"
  by (auto simp: orders_inv_def dest: get_row_SomeD)

lemma orders_inv_active_le_1: "orders_inv d \<Longrightarrow> length (active_assignments d oid) \<le> 1"
  by (simp add: orders_inv_def assignments_inv_def)

section \<open>Every transition keeps it\<close>

lemma accept_order_inv:
  assumes "orders_inv d" and "accept_order now caller oid d = (Inr r, d')"
  shows "orders_inv d'"
proof -
  from accept_order_success(1) [OF assms(2)] obtain ord where
    ord: "get_row o_id oid (orders d) = Some ord" "o_status ord = Pending"
    by (auto elim: movedE)
  moreover from assms(1) ord(1) have "order_ok (deliveries d) (snapshots d) ord"
    by (rule orders_inv_get_row)
  ultimately show ?thesis
    unfolding accept_order_success(2) [OF assms(2)]
    by (intro orders_inv_set_order [OF assms(1)]) (auto simp: order_ok_def)
qed

lemma mark_preparing_inv:
  assumes "orders_inv d" and "mark_preparing now caller oid d = (Inr r, d')"
  shows "orders_inv d'"
proof -
  from mark_preparing_success(1) [OF assms(2)] obtain ord where
    ord: "get_row o_id oid (orders d) = Some ord" "o_status ord = Accepted"
    by (auto elim: movedE)
  moreover from assms(1) ord(1) have "order_ok (deliveries d) (snapshots d) ord"
    by (rule orders_inv_get_row)
  ultimately show ?thesis
    unfolding mark_preparing_success(2) [OF assms(2)]
    by (intro orders_inv_set_order [OF assms(1)]) (auto simp: order_ok_def)
qed

text \<open>A new delivery row for an order without one.\<close>

lemma orders_inv_add_delivery:
  assumes "orders_inv d" and "d_order_id dl \<notin> d_order_id ` set (deliveries d)"
    and "d_driver_id dl = None \<Longrightarrow> active_assignments d (d_order_id dl) = []"
  shows "orders_inv (d\<lparr>deliveries := deliveries d @ [dl]\<rparr>)"
proof -
  have "order_ok (deliveries d @ [dl]) (snapshots d) ord" if "ord \<in> set (orders d)" for ord
    using assms(1) that by (auto simp: orders_inv_def order_ok_def)
  with assms show ?thesis
    by (auto simp: orders_inv_def assignments_inv_def active_assignments_def)
qed

lemma orders_inv_set_delivery:
  assumes inv: "orders_inv d"
    and keep: "\<And>r. d_order_id (f r) = d_order_id r" "\<And>r. d_driver_id (f r) = d_driver_id r"
    and ok: "\<And>ord. ord \<in> set (orders d) \<Longrightarrow> o_id ord = oid \<Longrightarrow>
              order_ok (deliveries (set_delivery oid f d)) (snapshots d) ord"
  shows "orders_inv (set_delivery oid f d)"
proof -
  have "order_ok (deliveries (set_delivery oid f d)) (snapshots d) ord"
    if "ord \<in> set (orders d)" for ord
  proof (cases "o_id ord = oid")
    case True
    with that ok show ?thesis by blast
  next
    case False
    from inv that have "order_ok (deliveries d) (snapshots d) ord" by (simp add: orders_inv_def)
    then show ?thesis
    proof (rule order_ok_mono)
      fix dl assume "dl \<in> set (deliveries d)" "d_order_id dl = o_id ord" "d_status dl = DInTransit"
      with False show "\<exists>dl'\<in>set (deliveries (set_delivery oid f d)).
             d_order_id dl' = o_id ord \<and> d_status dl' = DInTransit"
        by (auto simp: set_delivery_def set_upd_row intro!: bexI [of _ dl] image_eqI [of _ _ dl])
    qed simp
  qed
  moreover have "assignments_inv (set_delivery oid f d)"
    using inv keep by (auto simp: orders_inv_def assignments_inv_def set_delivery_def set_upd_row
        active_assignments_def)
  ultimately show ?thesis
    using inv keep by (simp add: orders_inv_def set_delivery_def map_key_upd_row)
qed

lemma choose_self_delivery_inv:
  assumes "orders_inv d" and "choose_self_delivery new_id caller oid d = (Inr r, d')"
  shows "orders_inv d'"
  using assms(2)
proof (rule choose_self_delivery_success)
  fix ord s
  assume g: "fulfilment_guard caller oid d = Inr (ord, s)"
    and d': "d' = d\<lparr>deliveries := deliveries d @ [new_delivery new_id oid None (s_id s) DPending None]\<rparr>"
  from fulfilment_guard_Inr [OF g] show ?thesis
    unfolding d' by (intro orders_inv_add_delivery assms(1)) (auto simp: new_delivery_def get_row_None_iff)
qed

lemma request_driver_inv:
  assumes "orders_inv d" and "request_driver new_id now caller oid d = (Inr r, d')"
  shows "orders_inv d'"
  using assms(2)
proof (rule request_driver_success)
  fix ord s a
  assume g: "fulfilment_guard caller oid d = Inr (ord, s)"
    and a: "a_id a \<notin> a_id ` set (driver_assignments d)" "a_order_id a = oid"
    and d': "d' = d\<lparr>driver_assignments := driver_assignments d @ [a]\<rparr>"
  note g' = fulfilment_guard_Inr [OF g]
  have "assignments_inv d'"
    using assms(1) a g'(6,7)
    by (auto simp: d' orders_inv_def assignments_inv_def active_assignments_def get_row_None_iff)
  then show ?thesis unfolding d' using assms(1) by (rule orders_inv_assignments [rotated])
qed

lemma assign_driver_inv:
  assumes "orders_inv d" and "assign_driver now caller oid driver_id d = (Inr r, d')"
  shows "orders_inv d'"
  using assms(2)
proof (rule assign_driver_success)
  fix ord pending
  let ?f = "\<lambda>a. a\<lparr>a_driver_id := Some driver_id, a_status := AAssigned,
               a_assigned_by_admin_id := Some (u_id caller), a_assigned_at := Some now\<rparr>"
  assume p: "pending \<in> set (active_assignments d oid)"
    and d': "d' = d\<lparr>driver_assignments := upd_row a_id (a_id pending) ?f (driver_assignments d)\<rparr>"
  from assms(1) have dist: "distinct (map a_id (driver_assignments d))"
    by (simp add: orders_inv_def assignments_inv_def)
  have "q (?f a) = q a" if "a \<in> set (driver_assignments d)" "a_id a = a_id pending"
    and "q = (\<lambda>a. a_order_id a = k \<and> is_active_assignment a)" for a q k
    using that p distinct_key_eq [OF dist, of a pending]
    by (auto simp: active_assignments_def is_active_assignment_def)
  then have act: "active_assignments d' k = upd_row a_id (a_id pending) ?f (active_assignments d k)" for k
    unfolding d' active_assignments_def by (simp add: filter_upd_row)
  have "assignments_inv d'"
    using assms(1) act
    by (auto simp: d' orders_inv_def assignments_inv_def map_key_upd_row)
  then show ?thesis unfolding d' using assms(1) by (rule orders_inv_assignments [rotated])
qed

lemma start_delivery_effect:
  assumes "orders_inv d" and "get_row o_id (o_id ord) (orders d) = Some ord"
    and "o_status ord = Preparing"
    and "start_delivery new_id started caller ord d = (Inr u, d1)"
  shows "orders_inv d1"
    and "orders d1 = orders d" and "snapshots d1 = snapshots d"
    and "\<exists>dl \<in> set (deliveries d1). d_order_id dl = o_id ord \<and> d_status dl = DInTransit"
proof -
  let ?f = "\<lambda>r. r\<lparr>d_status := DInTransit, d_started_at := Some started\<rparr>"
  from assms(1) have dist: "distinct (map o_id (orders d))" by (simp add: orders_inv_def)
  from orders_inv_get_row [OF assms(1,2)] have ok: "order_ok dls (snapshots d) ord" for dls
    using assms(3) by (simp add: order_ok_def)
  have "orders_inv d1 \<and> orders d1 = orders d \<and> snapshots d1 = snapshots d \<and>
    (\<exists>dl \<in> set (deliveries d1). d_order_id dl = o_id ord \<and> d_status dl = DInTransit)"
    using start_delivery_success [OF assms(4)]
  proof (elim disjE exE conjE)
    fix dl assume dl: "get_row d_order_id (o_id ord) (deliveries d) = Some dl"
      and d1: "d1 = set_delivery (o_id ord) ?f d"
    have "r = ord" if "r \<in> set (orders d)" "o_id r = o_id ord" for r
      using that assms(2) distinct_key_eq [OF dist] by (metis get_row_SomeD(1))
    with ok have "orders_inv d1"
      unfolding d1 by (intro orders_inv_set_delivery assms(1)) auto
    moreover have "?f dl \<in> set (deliveries d1)"
      using get_row_SomeD [OF dl] by (auto simp: d1 set_delivery_def set_upd_row intro!: image_eqI [of _ _ dl])
    ultimately show ?thesis
      using get_row_SomeD(2) [OF dl] by (auto simp: d1 intro!: bexI [of _ "?f dl"])
  next
    fix a assume none: "get_row d_order_id (o_id ord) (deliveries d) = None"
      and a: "assigned_rows d (o_id ord) = [a]"
      and d1: "d1 = d\<lparr>deliveries := deliveries d @ [new_delivery new_id (o_id ord) (a_driver_id a)
                      (o_seller_id ord) DInTransit (Some started)]\<rparr>"
    from a have "a_driver_id a \<noteq> None" by (auto simp: assigned_rows_def filter_eq_Cons_iff)
    with none have "orders_inv d1"
      unfolding d1 by (intro orders_inv_add_delivery assms(1)) (auto simp: new_delivery_def get_row_None_iff)
    then show ?thesis by (simp add: d1 new_delivery_def)
  qed
  then show "orders_inv d1" and "orders d1 = orders d" and "snapshots d1 = snapshots d"
    and "\<exists>dl \<in> set (deliveries d1). d_order_id dl = o_id ord \<and> d_status dl = DInTransit"
    by blast+
qed

lemma out_for_delivery_inv:
  assumes "orders_inv d" and "out_for_delivery new_id started now caller oid d = (Inr r, d')"
  shows "orders_inv d'"
  using assms(2)
proof (rule out_for_delivery_success)
  fix ord d1
  assume ord: "get_row o_id oid (orders d) = Some ord" and st: "o_status ord = Preparing"
    and s: "start_delivery new_id started caller ord d = (Inr (), d1)"
    and d': "d' = set_order oid (\<lambda>r. r\<lparr>o_status := OutForDelivery, o_out_for_delivery_at := Some now\<rparr>) d1"
  from ord have id: "o_id ord = oid" by (rule get_row_SomeD)
  note eff = start_delivery_effect [OF assms(1) _ st s, unfolded id, OF ord]
  show ?thesis unfolding d'
  proof (rule orders_inv_set_order)
    show "orders_inv d1" by (rule eff)
    show "get_row o_id oid (orders d1) = Some ord" by (simp add: eff ord)
    show "order_ok (deliveries d1) (snapshots d1)
           (ord\<lparr>o_status := OutForDelivery, o_out_for_delivery_at := Some now\<rparr>)"
      using eff(4) by (simp add: order_ok_def id)
  qed simp
qed

lemma stamp_delivered_frame [simp]:
  "d_order_id (stamp_delivered now dl) = d_order_id dl"
  "d_driver_id (stamp_delivered now dl) = d_driver_id dl"
  "d_status (stamp_delivered now dl) = DDelivered"
  "d_delivered_at (stamp_delivered now dl) = Some now"
  by (auto simp: stamp_delivered_def Let_def split: option.splits)

lemma mark_delivered_inv:
  assumes "orders_inv d" and "mark_delivered now caller oid d = (Inr r, d')"
  shows "orders_inv d'"
  using assms(2)
proof (rule mark_delivered_success)
  fix ord dl
  let ?f = "\<lambda>r. r\<lparr>o_status := Delivered, o_delivered_at := Some now\<rparr>"
  assume ord: "get_row o_id oid (orders d) = Some ord"
    and d': "d' = set_delivery oid (stamp_delivered now) (set_order oid ?f d)"
  have "orders_inv (set_order oid ?f d)"
    by (rule orders_inv_set_order [OF assms(1) ord]) (auto simp: order_ok_def)
  then show ?thesis unfolding d'
  proof (rule orders_inv_set_delivery)
    fix r assume "r \<in> set (orders (set_order oid ?f d))" and "o_id r = oid"
    then obtain r0 where "r = ?f r0"
      by (auto simp: set_order_def set_upd_row split: if_splits)
    then show "order_ok (deliveries (set_delivery oid (stamp_delivered now) (set_order oid ?f d)))
       (snapshots (set_order oid ?f d)) r"
      by (simp add: order_ok_def)
  qed simp_all
qed

text \<open>Completing a delivered order and writing its snapshot, as the customer or the job does.\<close>

definition completed :: "time \<Rightarrow> order_row \<Rightarrow> order_row" where
  "completed now r = r\<lparr>o_status := Completed, o_completed_at := Some now\<rparr>"

lemma completed_id [simp]: "o_id (completed now r) = o_id r" "o_status (completed now r) = Completed"
  by (simp_all add: completed_def)

lemma complete_step:
  assumes "orders_inv d" and ord: "get_row o_id oid (orders d) = Some ord"
    and st: "o_status ord = Delivered"
    and w: "write_snapshot new_id now (completed now ord) (set_order oid (completed now) d) = (Inr u, d')"
  shows "orders_inv d'" and "orders d' = upd_row o_id oid (completed now) (orders d)"
    and "\<exists>sns. snapshots d' = snapshots d @ sns"
    and "oid \<in> sn_order_id ` set (snapshots d')"
proof -
  let ?f = "completed now"
  from ord have id: "o_id ord = oid" by (rule get_row_SomeD)
  let ?sn = "snapshot_of new_id now (set_order oid ?f d) (?f ord)"
  from orders_inv_get_row [OF assms(1) ord] st have del: "o_delivered_at ord \<noteq> None"
    by (simp add: order_ok_def)
  consider (old) "oid \<in> sn_order_id ` set (snapshots d)" "d' = set_order oid ?f d"
    | (new) "oid \<notin> sn_order_id ` set (snapshots d)"
        "d' = set_order oid ?f (d\<lparr>snapshots := snapshots d @ [?sn]\<rparr>)"
    using write_snapshot_success [OF w] id by (auto simp: set_order_def)
  then have "orders_inv d' \<and> orders d' = upd_row o_id oid ?f (orders d) \<and>
     (\<exists>sns. snapshots d' = snapshots d @ sns) \<and> oid \<in> sn_order_id ` set (snapshots d')"
  proof cases
    case old
    have "order_ok (deliveries d) (snapshots d) (?f ord)"
      using del id old(1) by (simp add: order_ok_def completed_def)
    then have "orders_inv d'"
      unfolding old(2) by (intro orders_inv_set_order [OF assms(1) ord]) simp_all
    with old show ?thesis by (simp add: set_order_def)
  next
    case new
    have "orders_inv (d\<lparr>snapshots := snapshots d @ [?sn]\<rparr>)"
      using assms(1) new(1) by (intro orders_inv_snapshot) (simp_all add: id)
    then have "orders_inv d'"
      unfolding new(2) by (rule orders_inv_set_order)
        (use ord del id in \<open>auto simp: order_ok_def completed_def\<close>)
    with new show ?thesis by (simp add: set_order_def id)
  qed
  then show "orders_inv d'" and "orders d' = upd_row o_id oid ?f (orders d)"
    and "\<exists>sns. snapshots d' = snapshots d @ sns" and "oid \<in> sn_order_id ` set (snapshots d')"
    by blast+
qed

lemma complete_order_step:
  assumes "complete_order new_id now caller oid d = (Inr r, d')"
  obtains ord where "u_role caller = Customer" "get_row o_id oid (orders d) = Some ord"
    "o_deleted_at ord = None" "o_customer_id ord = u_id caller" "o_status ord = Delivered"
    "write_snapshot new_id now (completed now ord) (set_order oid (completed now) d) = (Inr (), d')"
  using complete_order_success [OF assms] unfolding completed_def [abs_def] by blast

lemma complete_order_inv:
  assumes "orders_inv d" and "complete_order new_id now caller oid d = (Inr r, d')"
  shows "orders_inv d'"
  using assms(2) by (rule complete_order_step) (blast intro: complete_step(1) [OF assms(1)])

lemma active_assignments_cancel:
  "active_assignments (d\<lparr>driver_assignments := update_where
      (\<lambda>a. a_order_id a = oid \<and> is_active_assignment a) (\<lambda>a. a\<lparr>a_status := ACancelled\<rparr>) rows\<rparr>) k =
   (if k = oid then [] else filter (\<lambda>a. a_order_id a = k \<and> is_active_assignment a) rows)"
  by (induction rows) (auto simp: active_assignments_def is_active_assignment_def)

lemma cancel_order_inv:
  assumes "orders_inv d" and "cancel_order now caller oid reason d = (Inr r, d')"
  shows "orders_inv d'"
  using assms(2)
proof (rule cancel_order_success)
  fix ord
  let ?f = "\<lambda>r. r\<lparr>o_status := Cancelled, o_cancelled_at := Some now, o_cancellation_reason := reason\<rparr>"
  let ?rows = "update_where (\<lambda>a. a_order_id a = oid \<and> is_active_assignment a)
                 (\<lambda>a. a\<lparr>a_status := ACancelled\<rparr>) (driver_assignments d)"
  assume ord: "get_row o_id oid (orders d) = Some ord"
    and d': "d' = (set_order oid ?f d)\<lparr>driver_assignments := ?rows\<rparr>"
  have "orders_inv (set_order oid ?f d)"
    by (rule orders_inv_set_order [OF assms(1) ord]) (auto simp: order_ok_def)
  moreover have act: "active_assignments ((set_order oid ?f d)\<lparr>driver_assignments := ?rows\<rparr>) k =
      (if k = oid then [] else active_assignments d k)" for k
    by (simp only: active_assignments_cancel) (simp add: active_assignments_def)
  have "map a_id ?rows = map a_id (driver_assignments d)"
    by (simp add: map_key_update_where)
  then have "assignments_inv ((set_order oid ?f d)\<lparr>driver_assignments := ?rows\<rparr>)"
    using assms(1) by (simp add: orders_inv_def assignments_inv_def act)
  ultimately show ?thesis unfolding d' by (rule orders_inv_assignments)
qed

end
