(* ===== verification/Order_Create.thy ===== *)
theory Order_Create
  imports Order_Invariant
begin

text \<open>
  Placing an order (\<open>create_order\<close> of \<open>order_service.py\<close>): the line items are aggregated
  per product, the products are locked in id order and checked, the stock is decremented,
  and the order is written with its line items and server-side totals.
\<close>

section \<open>Aggregating quantities\<close>

text \<open>A Python dict keeps insertion order: an association list with distinct keys.\<close>

primrec add_qty :: "(uuid \<times> int) list \<Rightarrow> uuid \<Rightarrow> int \<Rightarrow> (uuid \<times> int) list" where
  "add_qty [] k q = [(k, q)]"
| "add_qty (e # m) k q = (if fst e = k then (k, snd e + q) # m else e # add_qty m k q)"

primrec qty_fold :: "(uuid \<times> int) list \<Rightarrow> (uuid \<times> int) list \<Rightarrow> (uuid \<times> int) list" where
  "qty_fold m [] = m"
| "qty_fold m (i # is) = qty_fold (add_qty m (fst i) (snd i)) is"

definition qty_by_id :: "(uuid \<times> int) list \<Rightarrow> (uuid \<times> int) list" where
  "qty_by_id items = qty_fold [] items"

section \<open>Checking and reserving stock\<close>

primrec check_products :: "product list \<Rightarrow> (uuid \<times> int) list \<Rightarrow> unit res" where
  "check_products ps [] = Inr ()"
| "check_products ps (e # m) =
     (case get_row p_id (fst e) ps of
        None \<Rightarrow> Inl KeyError
      | Some p \<Rightarrow>
          if p_deleted_at p \<noteq> None \<or> \<not> p_is_active p then Inl ProductNotVisible
          else if (case p_stock_quantity p of None \<Rightarrow> False | Some s \<Rightarrow> s < snd e)
          then Inl ProductOutOfStock
          else check_products ps m)"

definition take_stock :: "int \<Rightarrow> product \<Rightarrow> product" where
  "take_stock q p = p\<lparr>p_stock_quantity := map_option (\<lambda>s. s - q) (p_stock_quantity p)\<rparr>"

primrec decrement_stock :: "(uuid \<times> int) list \<Rightarrow> product list \<Rightarrow> product list" where
  "decrement_stock [] ps = ps"
| "decrement_stock (e # m) ps = decrement_stock m (upd_row p_id (fst e) (take_stock (snd e)) ps)"

definition product_price :: "product list \<Rightarrow> uuid \<Rightarrow> int" where
  "product_price ps pid = (case get_row p_id pid ps of None \<Rightarrow> 0 | Some p \<Rightarrow> p_price_minor p)"

definition order_subtotal :: "product list \<Rightarrow> (uuid \<times> int) list \<Rightarrow> int" where
  "order_subtotal ps m = sum_list (map (\<lambda>e. product_price ps (fst e) * snd e) m)"

section \<open>Writing the order\<close>

text \<open>
  One \<open>order_items\<close> row per product; the flush checks the range of the \<open>INTEGER\<close> column, the
  primary key and \<open>ck_order_items_quantity_positive\<close>. \<open>fresh n\<close> is the n-th UUID the request
  draws.
\<close>

primrec add_order_items ::
  "(nat \<Rightarrow> uuid) \<Rightarrow> nat \<Rightarrow> uuid \<Rightarrow> product list \<Rightarrow> (uuid \<times> int) list \<Rightarrow> db \<Rightarrow> unit res \<times> db" where
  "add_order_items fresh n oid ps [] d = (Inr (), d)"
| "add_order_items fresh n oid ps (e # m) d =
     (case get_row p_id (fst e) ps of
        None \<Rightarrow> (Inl KeyError, d)
      | Some p \<Rightarrow>
          if \<not> int4 (snd e) then (Inl DataError, d)
          else if snd e \<le> 0 \<or> fresh n \<in> oi_id ` set (order_items d) then (Inl IntegrityError, d)
          else add_order_items fresh (Suc n) oid ps m
                 (d\<lparr>order_items := order_items d @
                      [\<lparr>oi_id = fresh n, oi_order_id = oid, oi_product_id = Some (p_id p),
                        oi_product_name_snapshot = p_name p,
                        oi_unit_price_minor_snapshot = p_price_minor p,
                        oi_quantity = snd e\<rparr>]\<rparr>))"

definition new_order ::
  "uuid \<Rightarrow> user \<Rightarrow> uuid \<Rightarrow> uuid \<Rightarrow> int \<Rightarrow> address \<Rightarrow> time \<Rightarrow> order_row" where
  "new_order oid customer seller store subtotal addr now =
     \<lparr>o_id = oid, o_customer_id = u_id customer, o_seller_id = seller, o_store_id = store,
      o_status = Pending, o_subtotal_minor = subtotal, o_total_minor = subtotal,
      o_delivery_address = addr, o_placed_at = now, o_accepted_at = None,
      o_preparing_at = None, o_out_for_delivery_at = None, o_delivered_at = None,
      o_completed_at = None, o_cancelled_at = None, o_cancellation_reason = None,
      o_driver_accepted_at = None, o_customer_visible_after = None,
      o_seller_full_visible_until = Some (now + td_days 7),
      o_delivery_code_locked = False, o_deleted_at = None\<rparr>"

text \<open>The products of the order, locked and in id order.\<close>

definition locked_products :: "db \<Rightarrow> (uuid \<times> int) list \<Rightarrow> product list" where
  "locked_products d items =
     sort_key p_id (filter (\<lambda>p. p_id p \<in> fst ` set items) (products d))"

text \<open>The totals are \<open>BIGINT\<close> columns: a larger sum is refused when the order is flushed.\<close>

definition create_order ::
  "(nat \<Rightarrow> uuid) \<Rightarrow> time \<Rightarrow> user \<Rightarrow> (uuid \<times> int) list \<Rightarrow> address \<Rightarrow> db \<Rightarrow> order_full res \<times> db" where
  "create_order fresh now customer items addr d =
     (if u_role customer \<noteq> Customer then (Inl ProductNotVisible, d)
      else if items = [] then (Inl OrderInvalidTransition, d)
      else case u_referring_seller_id customer of
        None \<Rightarrow> (Inl ProductNotVisible, d)
      | Some seller \<Rightarrow>
          (let ps = locked_products d items; m = qty_by_id items in
           if length (remdups (map p_id ps)) \<noteq> length (remdups (map fst items))
           then (Inl ProductNotVisible, d)
           else if length (remdups (map p_seller_id ps)) \<noteq> 1 \<or> seller \<notin> p_seller_id ` set ps
           then (Inl ProductNotVisible, d)
           else (case check_products ps m of
                   Inl e \<Rightarrow> (Inl e, d)
                 | Inr _ \<Rightarrow>
                     (let d1 = d\<lparr>products := decrement_stock m (products d)\<rparr>;
                          oid = fresh 0;
                          ord = new_order oid customer seller (p_store_id (hd ps))
                                  (order_subtotal ps m) addr now
                      in if \<not> int8 (order_subtotal ps m) then (Inl DataError, d1)
                         else if oid \<in> o_id ` set (orders d) then (Inl IntegrityError, d1)
                         else (case add_order_items fresh 1 oid ps m
                                      (d1\<lparr>orders := orders d1 @ [ord]\<rparr>) of
                                 (Inl e, d2) \<Rightarrow> (Inl e, d2)
                               | (Inr _, d2) \<Rightarrow> reload oid d2)))))"

section \<open>Lemmas: quantities\<close>

definition total_qty :: "(uuid \<times> int) list \<Rightarrow> uuid \<Rightarrow> int" where
  "total_qty items k = sum_list (map snd (filter (\<lambda>i. fst i = k) items))"

lemma keys_add_qty: "set (map fst (add_qty m k q)) = insert k (set (map fst m))"
  by (induction m) auto

lemma distinct_add_qty: "distinct (map fst m) \<Longrightarrow> distinct (map fst (add_qty m k q))"
proof (induction m)
  case (Cons e m)
  then show ?case using keys_add_qty [of m k q] by auto
qed simp

lemma total_qty_Cons:
  "total_qty (i # items) k = (if fst i = k then snd i else 0) + total_qty items k"
  by (simp add: total_qty_def)

lemma total_add_qty: "total_qty (add_qty m k q) x = total_qty m x + (if x = k then q else 0)"
  by (induction m) (auto simp: total_qty_def)

lemma qty_fold_total: "total_qty (qty_fold m items) x = total_qty m x + total_qty items x"
  by (induction items arbitrary: m) (auto simp: total_add_qty total_qty_Cons, simp add: total_qty_def)

lemma qty_fold_keys: "set (map fst (qty_fold m items)) = set (map fst m) \<union> set (map fst items)"
proof (induction items arbitrary: m)
  case (Cons i items)
  show ?case unfolding qty_fold.simps Cons.IH keys_add_qty by auto
qed simp

lemma qty_fold_distinct: "distinct (map fst m) \<Longrightarrow> distinct (map fst (qty_fold m items))"
  by (induction items arbitrary: m) (auto intro: distinct_add_qty)

lemma qty_by_id_distinct: "distinct (map fst (qty_by_id items))"
  by (simp add: qty_by_id_def qty_fold_distinct)

lemma qty_by_id_keys: "fst ` set (qty_by_id items) = fst ` set items"
  using qty_fold_keys [of "[]" items] by (simp add: qty_by_id_def)

lemma total_qty_distinct:
  "distinct (map fst m) \<Longrightarrow> (k, q) \<in> set m \<Longrightarrow> total_qty m k = q"
proof (induction m)
  case (Cons e m)
  show ?case
  proof (cases "e = (k, q)")
    case True
    with Cons.prems have "filter (\<lambda>i. fst i = k) m = []"
      by (auto simp: filter_empty_conv image_iff)
    with True show ?thesis by (simp add: total_qty_def)
  next
    case False
    with Cons.prems have "fst e \<noteq> k" by (auto simp: image_iff)
    with False Cons show ?thesis by (simp add: total_qty_Cons)
  qed
qed simp

lemma total_qty_absent: "k \<notin> fst ` set m \<Longrightarrow> total_qty m k = 0"
proof -
  assume "k \<notin> fst ` set m"
  then have "filter (\<lambda>i. fst i = k) m = []" by (auto simp: filter_empty_conv)
  then show ?thesis by (simp add: total_qty_def)
qed

lemma qty_by_id_total: "total_qty (qty_by_id items) k = total_qty items k"
  by (simp add: qty_by_id_def qty_fold_total) (simp add: total_qty_def)

lemma qty_by_id_entry: "(k, q) \<in> set (qty_by_id items) \<Longrightarrow> q = total_qty items k"
  using total_qty_distinct [OF qty_by_id_distinct] qty_by_id_total by metis

section \<open>Lemmas: stock\<close>

lemma take_stock_frame [simp]:
  "p_id (take_stock q p) = p_id p" "p_seller_id (take_stock q p) = p_seller_id p"
  "p_price_minor (take_stock q p) = p_price_minor p"
  "p_stock_quantity (take_stock q p) = map_option (\<lambda>s. s - q) (p_stock_quantity p)"
  by (simp_all add: take_stock_def)

lemma take_stock_0 [simp]: "take_stock 0 p = p"
  by (simp add: take_stock_def option.map_ident)

lemma take_stock_add: "take_stock a (take_stock b p) = take_stock (a + b) p"
  by (cases "p_stock_quantity p") (simp_all add: take_stock_def)

text \<open>Decrementing gives every product what the aggregated lines take of it.\<close>

lemma decrement_stock_map:
  "decrement_stock m ps = map (\<lambda>p. take_stock (total_qty m (p_id p)) p) ps"
proof (induction m arbitrary: ps)
  case Nil
  then show ?case by (simp add: total_qty_def)
next
  case (Cons e m)
  show ?case
    by (auto simp: Cons.IH upd_row_def update_where_def total_qty_Cons take_stock_add add.commute)
qed

lemma check_products_Inr:
  "check_products ps m = Inr u \<longleftrightarrow>
   (\<forall>e \<in> set m. \<exists>p. get_row p_id (fst e) ps = Some p \<and> p_deleted_at p = None \<and> p_is_active p \<and>
      (\<forall>s. p_stock_quantity p = Some s \<longrightarrow> snd e \<le> s))"
  by (induction m) (auto split: option.splits)

lemma get_row_locked_products:
  assumes "distinct (map p_id (products d))" and "k \<in> fst ` set items"
  shows "get_row p_id k (locked_products d items) = get_row p_id k (products d)"
proof (cases "get_row p_id k (products d)")
  case None
  then have "k \<notin> p_id ` set (locked_products d items)"
    by (auto simp: get_row_None_iff locked_products_def)
  with None show ?thesis by (simp add: get_row_None_iff [symmetric])
next
  case (Some p)
  note p = get_row_SomeD [OF this]
  have "distinct (map p_id (filter (\<lambda>p. p_id p \<in> fst ` set items) (products d)))"
    using assms(1) by (simp add: distinct_map_filter)
  then have "distinct (map p_id (locked_products d items))"
    by (simp add: locked_products_def distinct_map)
  moreover have "p \<in> set (locked_products d items)"
    using p assms(2) by (simp add: locked_products_def)
  ultimately have "get_row p_id k (locked_products d items) = Some p"
    using p(2) get_row_distinct by metis
  with Some show ?thesis by simp
qed

section \<open>Lemmas: line items\<close>

text \<open>The rows written: one per aggregated line, with its product's name and price.\<close>

lemma add_order_items_success:
  assumes "add_order_items fresh n oid ps m d = (Inr u, d')"
  shows "\<exists>rows. d' = d\<lparr>order_items := order_items d @ rows\<rparr> \<and>
    map (\<lambda>i. (oi_product_id i, oi_quantity i)) rows = map (\<lambda>e. (Some (fst e), snd e)) m \<and>
    (\<forall>i \<in> set rows. oi_order_id i = oid \<and> 0 < oi_quantity i) \<and>
    sum_list (map (\<lambda>i. oi_unit_price_minor_snapshot i * oi_quantity i) rows) = order_subtotal ps m \<and>
    (distinct (map oi_id (order_items d)) \<longrightarrow> distinct (map oi_id (order_items d')))"
  using assms
proof (induction m arbitrary: n d)
  case Nil
  then show ?case by (auto simp: order_subtotal_def intro!: exI [of _ "[]"])
next
  case (Cons e m)
  then obtain p where p: "get_row p_id (fst e) ps = Some p" and q: "0 < snd e"
    and new: "fresh n \<notin> oi_id ` set (order_items d)"
    by (auto split: option.splits if_splits)
  let ?i = "\<lparr>oi_id = fresh n, oi_order_id = oid, oi_product_id = Some (p_id p),
                        oi_product_name_snapshot = p_name p,
                        oi_unit_price_minor_snapshot = p_price_minor p, oi_quantity = snd e\<rparr>"
  from Cons.prems p q have
    "add_order_items fresh (Suc n) oid ps m (d\<lparr>order_items := order_items d @ [?i]\<rparr>) = (Inr u, d')"
    by (auto split: if_splits)
  from Cons.IH [OF this] obtain rows where
    "d' = d\<lparr>order_items := order_items d @ [?i] @ rows\<rparr>"
    "map (\<lambda>i. (oi_product_id i, oi_quantity i)) rows = map (\<lambda>e. (Some (fst e), snd e)) m"
    "\<forall>i \<in> set rows. oi_order_id i = oid \<and> 0 < oi_quantity i"
    "sum_list (map (\<lambda>i. oi_unit_price_minor_snapshot i * oi_quantity i) rows) = order_subtotal ps m"
    "distinct (map oi_id (order_items d @ [?i])) \<longrightarrow> distinct (map oi_id (order_items d'))"
    by auto
  then show ?case
    using p q new get_row_SomeD(2) [OF p]
    by (intro exI [of _ "?i # rows"]) (simp add: order_subtotal_def product_price_def)
qed

section \<open>Inversion and preservation\<close>

lemma create_order_success:
  assumes "create_order fresh now customer items addr d = (Inr f, d')"
  obtains seller rows where "u_role customer = Customer" "items \<noteq> []"
    "u_referring_seller_id customer = Some seller"
    "\<forall>p \<in> set (locked_products d items). p_seller_id p = seller"
    "check_products (locked_products d items) (qty_by_id items) = Inr ()"
    "fresh 0 \<notin> o_id ` set (orders d)"
    "int8 (order_subtotal (locked_products d items) (qty_by_id items))"
    "map (\<lambda>i. (oi_product_id i, oi_quantity i)) rows = map (\<lambda>e. (Some (fst e), snd e)) (qty_by_id items)"
    "\<forall>i \<in> set rows. oi_order_id i = fresh 0 \<and> 0 < oi_quantity i"
    "sum_list (map (\<lambda>i. oi_unit_price_minor_snapshot i * oi_quantity i) rows) =
       order_subtotal (locked_products d items) (qty_by_id items)"
    "d' = d\<lparr>products := decrement_stock (qty_by_id items) (products d),
            orders := orders d @ [new_order (fresh 0) customer seller
               (p_store_id (hd (locked_products d items)))
               (order_subtotal (locked_products d items) (qty_by_id items)) addr now],
            order_items := order_items d @ rows\<rparr>"
    "load_order_full d' (fresh 0) = Some f"
    "distinct (map oi_id (order_items d)) \<longrightarrow> distinct (map oi_id (order_items d @ rows))"
proof -
  let ?ps = "locked_products d items" and ?m = "qty_by_id items"
  from assms obtain seller d2 where a:
    "u_role customer = Customer" "items \<noteq> []" "u_referring_seller_id customer = Some seller"
    "length (remdups (map p_seller_id ?ps)) = 1" "seller \<in> p_seller_id ` set ?ps"
    "check_products ?ps ?m = Inr ()" "fresh 0 \<notin> o_id ` set (orders d)"
    "int8 (order_subtotal ?ps ?m)"
    "add_order_items fresh 1 (fresh 0) ?ps ?m
       (d\<lparr>products := decrement_stock ?m (products d),
          orders := orders d @ [new_order (fresh 0) customer seller (p_store_id (hd ?ps))
               (order_subtotal ?ps ?m) addr now]\<rparr>) = (Inr (), d2)"
    "d' = d2" "load_order_full d2 (fresh 0) = Some f"
    by (auto simp: create_order_def Let_def split: if_splits option.splits sum.splits prod.splits)
  have "card (p_seller_id ` set ?ps) = 1"
    using a(4) by (simp add: length_remdups_card_conv)
  then obtain x where "p_seller_id ` set ?ps = {x}" by (auto simp: card_1_singleton_iff)
  with a(5) have "p_seller_id p = seller" if "p \<in> set ?ps" for p
    using that by (metis imageI singletonD)
  then have one: "\<forall>p \<in> set ?ps. p_seller_id p = seller" by simp
  from add_order_items_success [OF a(9)] a(10) obtain rows where
    "d' = d\<lparr>products := decrement_stock ?m (products d),
            orders := orders d @ [new_order (fresh 0) customer seller (p_store_id (hd ?ps))
               (order_subtotal ?ps ?m) addr now], order_items := order_items d @ rows\<rparr>"
    "map (\<lambda>i. (oi_product_id i, oi_quantity i)) rows = map (\<lambda>e. (Some (fst e), snd e)) ?m"
    "\<forall>i \<in> set rows. oi_order_id i = fresh 0 \<and> 0 < oi_quantity i"
    "sum_list (map (\<lambda>i. oi_unit_price_minor_snapshot i * oi_quantity i) rows) = order_subtotal ?ps ?m"
    "distinct (map oi_id (order_items d)) \<longrightarrow> distinct (map oi_id (order_items d @ rows))"
    by auto
  with that [of seller rows] a one show thesis by simp
qed

lemma create_order_inv:
  assumes "orders_inv d" and "create_order fresh now customer items addr d = (Inr f, d')"
  shows "orders_inv d'"
  using assms(2)
  by (rule create_order_success)
    (use assms(1) in \<open>auto simp: orders_inv_def assignments_inv_def active_assignments_def
      order_ok_def new_order_def\<close>)

end
