(* ===== verification/Order_Retention.thy ===== *)
theory Order_Retention
  imports Order_Invariant
begin

text \<open>
  Retention (\<open>order_service.py\<close>, ADR-0012): the settings row, the retention-gated hard
  delete, and the job that auto-completes delivered orders and purges terminal ones.
\<close>

section \<open>Settings\<close>

text \<open>The seeded singleton, with the column defaults of \<open>models/platform_settings.py\<close>.\<close>

definition default_settings :: platform_settings where
  "default_settings =
     \<lparr>ps_retention_min_days = 30, ps_order_auto_complete_grace_hours = 72,
      ps_message_retention_days = 90, ps_currency_code = ''USD'', ps_updated_by_user_id = None\<rparr>"

definition get_retention_settings :: "db \<Rightarrow> platform_settings \<times> db" where
  "get_retention_settings d =
     (case settings_row d of
        Some ps \<Rightarrow> (ps, d)
      | None \<Rightarrow> (default_settings, d\<lparr>settings_row := Some default_settings\<rparr>))"

text \<open>
  The session's \<open>ps\<close> is assigned field by field; a rejected second field leaves the first one
  assigned but not flushed, which the rollback discards.
\<close>

definition update_retention_settings ::
  "user \<Rightarrow> int option \<Rightarrow> int option \<Rightarrow> db \<Rightarrow> platform_settings res \<times> db" where
  "update_retention_settings caller min_days grace_hours d =
     (case get_retention_settings d of (ps, d1) \<Rightarrow>
        if (case min_days of None \<Rightarrow> False | Some n \<Rightarrow> n < 1) then (Inl RetentionSettingInvalid, d1)
        else let ps1 = (case min_days of None \<Rightarrow> ps | Some n \<Rightarrow> ps\<lparr>ps_retention_min_days := n\<rparr>)
        in if (case grace_hours of None \<Rightarrow> False | Some n \<Rightarrow> n < 1)
           then (Inl RetentionSettingInvalid, d1)
           else let ps2 = (case grace_hours of None \<Rightarrow> ps1
                           | Some n \<Rightarrow> ps1\<lparr>ps_order_auto_complete_grace_hours := n\<rparr>);
                    ps3 = ps2\<lparr>ps_updated_by_user_id := Some (u_id caller)\<rparr>
                in (Inr ps3, d1\<lparr>settings_row := Some ps3\<rparr>))"

section \<open>Hard delete\<close>

text \<open>\<open>DELETE FROM orders\<close> with the \<open>ON DELETE CASCADE\<close> of the tables that hang off an order.\<close>

definition delete_order_row :: "uuid \<Rightarrow> db \<Rightarrow> db" where
  "delete_order_row oid d = d\<lparr>
     orders := delete_where (\<lambda>r. o_id r = oid) (orders d),
     order_items := delete_where (\<lambda>r. oi_order_id r = oid) (order_items d),
     deliveries := delete_where (\<lambda>r. d_order_id r = oid) (deliveries d),
     driver_assignments := delete_where (\<lambda>r. a_order_id r = oid) (driver_assignments d),
     order_tracking_points := delete_where (\<lambda>r. tp_order_id r = oid) (order_tracking_points d),
     order_messages := delete_where (\<lambda>r. om_order_id r = oid) (order_messages d),
     delivery_codes := delete_where (\<lambda>r. dc_order_id r = oid) (delivery_codes d),
     delivery_code_attempts := delete_where (\<lambda>r. ca_order_id r = oid) (delivery_code_attempts d)\<rparr>"

definition delete_order :: "uuid \<Rightarrow> time \<Rightarrow> user \<Rightarrow> uuid \<Rightarrow> db \<Rightarrow> unit res \<times> db" where
  "delete_order new_id now caller oid d =
     (case load_order_locked d oid of
        None \<Rightarrow> (Inl OrderNotFound, d)
      | Some ord \<Rightarrow>
          if o_deleted_at ord \<noteq> None then (Inl OrderNotFound, d)
          else if u_role caller = Customer \<and> o_customer_id ord \<noteq> u_id caller then (Inl OrderNotFound, d)
          else if u_role caller = Seller \<and> o_seller_id ord \<noteq> u_id caller then (Inl OrderNotFound, d)
          else if u_role caller = Driver then (Inl OrderNotFound, d)
          else (case terminal_at ord of
                  None \<Rightarrow> (Inl OrderRetentionNotMet, d)
                | Some t \<Rightarrow>
                    (case get_retention_settings d of (ps, d1) \<Rightarrow>
                       if now - t < td_days (ps_retention_min_days ps)
                       then (Inl OrderRetentionNotMet, d1)
                       else (case (if o_status ord = Completed then write_snapshot new_id now ord d1
                                   else (Inr (), d1)) of
                               (Inl e, d2) \<Rightarrow> (Inl e, d2)
                             | (Inr _, d2) \<Rightarrow> (Inr (), delete_order_row oid d2)))))"

section \<open>The purge job\<close>

text \<open>
  \<open>skip\<close> tells which rows another transaction holds locked (\<open>FOR UPDATE SKIP LOCKED\<close>).
\<close>

definition auto_complete_due :: "(uuid \<Rightarrow> bool) \<Rightarrow> time \<Rightarrow> order_row \<Rightarrow> bool" where
  "auto_complete_due skip cutoff ord \<longleftrightarrow>
     o_status ord = Delivered \<and>
     (case o_delivered_at ord of None \<Rightarrow> False | Some t \<Rightarrow> t \<le> cutoff) \<and>
     o_deleted_at ord = None \<and> \<not> skip (o_id ord)"

primrec auto_complete_loop ::
  "(nat \<Rightarrow> uuid) \<Rightarrow> nat \<Rightarrow> time \<Rightarrow> order_row list \<Rightarrow> db \<Rightarrow> nat res \<times> db" where
  "auto_complete_loop fresh n now [] d = (Inr 0, d)"
| "auto_complete_loop fresh n now (ord # rest) d =
     (if o_status ord \<noteq> Delivered then auto_complete_loop fresh n now rest d
      else case write_snapshot (fresh n) now (completed now ord)
                  (set_order (o_id ord) (completed now) d) of
             (Inl e, d1) \<Rightarrow> (Inl e, d1)
           | (Inr _, d1) \<Rightarrow>
               (case auto_complete_loop fresh (Suc n) now rest d1 of
                  (Inl e, d2) \<Rightarrow> (Inl e, d2)
                | (Inr k, d2) \<Rightarrow> (Inr (Suc k), d2)))"

definition purge_due :: "(uuid \<Rightarrow> bool) \<Rightarrow> time \<Rightarrow> order_row \<Rightarrow> bool" where
  "purge_due skip cutoff ord \<longleftrightarrow>
     o_status ord \<in> {Completed, Cancelled} \<and> o_deleted_at ord = None \<and>
     (o_status ord = Completed \<and> (case o_completed_at ord of None \<Rightarrow> False | Some t \<Rightarrow> t \<le> cutoff) \<or>
      o_status ord = Cancelled \<and> (case o_cancelled_at ord of None \<Rightarrow> False | Some t \<Rightarrow> t \<le> cutoff)) \<and>
     \<not> skip (o_id ord)"

primrec purge_loop ::
  "(nat \<Rightarrow> uuid) \<Rightarrow> nat \<Rightarrow> time \<Rightarrow> order_row list \<Rightarrow> db \<Rightarrow> nat res \<times> db" where
  "purge_loop fresh n now [] d = (Inr 0, d)"
| "purge_loop fresh n now (ord # rest) d =
     (case (if o_status ord = Completed then write_snapshot (fresh n) now ord d else (Inr (), d)) of
        (Inl e, d1) \<Rightarrow> (Inl e, d1)
      | (Inr _, d1) \<Rightarrow>
          (case purge_loop fresh (Suc n) now rest (delete_order_row (o_id ord) d1) of
             (Inl e, d2) \<Rightarrow> (Inl e, d2)
           | (Inr k, d2) \<Rightarrow> (Inr (Suc k), d2)))"

record purge_counts =
  purged_count :: nat
  auto_completed_count :: nat

text \<open>
  The two phases. \<open>fresh\<close> and \<open>fresh'\<close> are the UUIDs drawn in each.
\<close>

definition run_purge_job ::
  "(nat \<Rightarrow> uuid) \<Rightarrow> (nat \<Rightarrow> uuid) \<Rightarrow> (uuid \<Rightarrow> bool) \<Rightarrow> (uuid \<Rightarrow> bool) \<Rightarrow> time \<Rightarrow> db \<Rightarrow>
   purge_counts res \<times> db" where
  "run_purge_job fresh fresh' skip skip' now d =
     (case get_retention_settings d of (ps, d0) \<Rightarrow>
        let grace_cutoff = now - td_hours (ps_order_auto_complete_grace_hours ps);
            retention_cutoff = now - td_days (ps_retention_min_days ps)
        in (case auto_complete_loop fresh 0 now
                   (filter (auto_complete_due skip grace_cutoff) (orders d0)) d0 of
              (Inl e, d1) \<Rightarrow> (Inl e, d1)
            | (Inr k, d1) \<Rightarrow>
                (case purge_loop fresh' 0 now
                        (filter (purge_due skip' retention_cutoff) (orders d1)) d1 of
                   (Inl e, d2) \<Rightarrow> (Inl e, d2)
                 | (Inr n, d2) \<Rightarrow> (Inr \<lparr>purged_count = n, auto_completed_count = k\<rparr>, d2))))"

section \<open>Lemmas: deleting a row\<close>

lemma delete_order_row_frame [simp]:
  "snapshots (delete_order_row oid d) = snapshots d"
  "settings_row (delete_order_row oid d) = settings_row d"
  "products (delete_order_row oid d) = products d"
  "orders (delete_order_row oid d) = delete_where (\<lambda>r. o_id r = oid) (orders d)"
  by (simp_all add: delete_order_row_def)

lemma active_assignments_delete:
  "active_assignments (delete_order_row oid d) k = (if k = oid then [] else active_assignments d k)"
  by (auto simp: active_assignments_def delete_order_row_def delete_where_def filter_empty_conv
      intro: filter_cong)

lemma orders_inv_delete: "orders_inv d \<Longrightarrow> orders_inv (delete_order_row oid d)"
proof -
  assume inv: "orders_inv d"
  have "order_ok (deliveries (delete_order_row oid d)) (snapshots d) ord"
    if "ord \<in> set (orders d)" "o_id ord \<noteq> oid" for ord
  proof (rule order_ok_mono)
    show "order_ok (deliveries d) (snapshots d) ord" using inv that by (simp add: orders_inv_def)
  qed (use that in \<open>auto simp: delete_order_row_def\<close>)
  moreover have "assignments_inv (delete_order_row oid d)"
    unfolding assignments_inv_def active_assignments_delete
    using inv by (auto simp: orders_inv_def assignments_inv_def delete_order_row_def
        intro: distinct_delete_where)
  ultimately show ?thesis
    using inv by (auto simp: orders_inv_def delete_order_row_def intro: distinct_delete_where)
qed

lemma get_retention_settings_frame:
  assumes "get_retention_settings d = (ps, d1)"
  shows "orders d1 = orders d" "snapshots d1 = snapshots d" "settings_row d1 = Some ps"
    "orders_inv d1 = orders_inv d"
  using assms
  by (auto simp: get_retention_settings_def orders_inv_def assignments_inv_def
      active_assignments_def split: option.splits)

lemma delete_order_success:
  assumes "delete_order new_id now caller oid d = (Inr u, d')"
  obtains ord t ps d1 d2 where "get_row o_id oid (orders d) = Some ord" "o_deleted_at ord = None"
    "u_role caller = Admin \<or> (u_role caller = Seller \<and> o_seller_id ord = u_id caller) \<or>
     (u_role caller = Customer \<and> o_customer_id ord = u_id caller)"
    "terminal_at ord = Some t" "get_retention_settings d = (ps, d1)"
    "td_days (ps_retention_min_days ps) \<le> now - t"
    "(if o_status ord = Completed then write_snapshot new_id now ord d1 else (Inr (), d1)) = (Inr (), d2)"
    "d' = delete_order_row oid d2"
proof (cases "u_role caller")
qed (use assms that in \<open>force simp: delete_order_def load_order_locked_def
    split: option.splits if_splits sum.splits prod.splits\<close>)+

lemma write_snapshot_known:
  assumes "o_id ord \<in> sn_order_id ` set (snapshots d)"
  shows "write_snapshot new_id now ord d = (Inr (), d)"
  using assms by (simp add: write_snapshot_def)

lemma orders_inv_completed_known:
  "orders_inv d \<Longrightarrow> ord \<in> set (orders d) \<Longrightarrow> o_status ord = Completed \<Longrightarrow>
   o_id ord \<in> sn_order_id ` set (snapshots d)"
  by (auto simp: orders_inv_def order_ok_def)

lemma delete_order_effect:
  assumes "orders_inv d" and "delete_order new_id now caller oid d = (Inr u, d')"
  shows "orders_inv d'" "orders d' = delete_where (\<lambda>r. o_id r = oid) (orders d)"
    "snapshots d' = snapshots d"
proof -
  have "orders_inv d' \<and> orders d' = delete_where (\<lambda>r. o_id r = oid) (orders d) \<and>
     snapshots d' = snapshots d"
    using assms(2)
  proof (rule delete_order_success)
    fix ord t ps d1 d2
    assume ord: "get_row o_id oid (orders d) = Some ord"
      and ps: "get_retention_settings d = (ps, d1)"
      and w: "(if o_status ord = Completed then write_snapshot new_id now ord d1 else (Inr (), d1)) = (Inr (), d2)"
      and d': "d' = delete_order_row oid d2"
    note fr = get_retention_settings_frame [OF ps]
    have inv: "orders_inv d1" and mem: "ord \<in> set (orders d1)"
      using assms(1) fr get_row_SomeD [OF ord] by simp_all
    have "d2 = d1"
      using w orders_inv_completed_known [OF inv mem] by (auto simp: write_snapshot_known split: if_splits)
    with inv fr show ?thesis by (simp add: d' orders_inv_delete)
  qed
  then show "orders_inv d'" "orders d' = delete_where (\<lambda>r. o_id r = oid) (orders d)"
    "snapshots d' = snapshots d" by blast+
qed

section \<open>Lemmas: the loops\<close>

lemma auto_complete_loop_effect:
  assumes "orders_inv d" and "distinct (map o_id ords)"
    and "\<And>ord. ord \<in> set ords \<Longrightarrow> get_row o_id (o_id ord) (orders d) = Some ord \<and> o_status ord = Delivered"
    and "auto_complete_loop fresh n now ords d = (Inr k, d')"
  shows "orders_inv d' \<and> k = length ords \<and>
    orders d' = update_where (\<lambda>r. o_id r \<in> o_id ` set ords) (completed now) (orders d) \<and>
    (\<exists>sns. snapshots d' = snapshots d @ sns)"
  using assms
proof (induction ords arbitrary: n d k)
  case Nil
  then show ?case by (simp add: update_where_def)
next
  case (Cons ord rest)
  let ?d0 = "set_order (o_id ord) (completed now) d"
  from Cons.prems(3) [of ord] have ord: "get_row o_id (o_id ord) (orders d) = Some ord"
    and st: "o_status ord = Delivered" by simp_all
  from Cons.prems(4) st obtain d1 k' where
    w: "write_snapshot (fresh n) now (completed now ord) ?d0 = (Inr (), d1)" and
    l: "auto_complete_loop fresh (Suc n) now rest d1 = (Inr k', d')" and k: "k = Suc k'"
    by (auto split: prod.splits sum.splits)
  note step = complete_step [OF Cons.prems(1) ord st w]
  have row: "get_row o_id (o_id r) (orders d1) = Some r \<and> o_status r = Delivered"
    if "r \<in> set rest" for r
  proof -
    from that Cons.prems(2) have "o_id r \<noteq> o_id ord" by (auto simp: image_iff)
    with that Cons.prems(3) [of r] show ?thesis by (simp add: step(2) get_row_upd_row)
  qed
  from Cons.IH [OF step(1) _ row l] Cons.prems(2) have IH: "orders_inv d'" "k' = length rest"
    "orders d' = update_where (\<lambda>r. o_id r \<in> o_id ` set rest) (completed now) (orders d1)"
    "\<exists>sns. snapshots d' = snapshots d1 @ sns"
    by auto
  have "orders d' = update_where (\<lambda>r. o_id r \<in> o_id ` set (ord # rest)) (completed now) (orders d)"
    using Cons.prems(2) unfolding IH(3) step(2) upd_row_def update_where_def
    by (auto simp: image_iff)
  with IH k step(3) show ?case by force
qed

lemma purge_loop_effect:
  assumes "orders_inv d" and "\<And>ord. ord \<in> set ords \<Longrightarrow> ord \<in> set (orders d)"
    and "distinct (map o_id ords)"
  shows "purge_loop fresh n now ords d =
     (Inr (length ords), fold (\<lambda>ord. delete_order_row (o_id ord)) ords d)"
  using assms
proof (induction ords arbitrary: n d)
  case (Cons ord rest)
  let ?d = "delete_order_row (o_id ord) d"
  have "(if o_status ord = Completed then write_snapshot (fresh n) now ord d else (Inr (), d)) = (Inr (), d)"
    using orders_inv_completed_known [OF Cons.prems(1)] Cons.prems(2)
    by (auto simp: write_snapshot_known)
  moreover have "purge_loop fresh (Suc n) now rest ?d =
      (Inr (length rest), fold (\<lambda>ord. delete_order_row (o_id ord)) rest ?d)"
  proof (rule Cons.IH)
    show "orders_inv ?d" using Cons.prems(1) by (rule orders_inv_delete)
    fix r assume r: "r \<in> set rest"
    with Cons.prems(2,3) show "r \<in> set (orders ?d)" by (auto simp: image_iff)
  qed (use Cons.prems in simp)
  ultimately show ?case by simp
qed simp

lemma fold_delete_order_row:
  "orders (fold (\<lambda>ord. delete_order_row (o_id ord)) ords d) =
     delete_where (\<lambda>r. o_id r \<in> o_id ` set ords) (orders d)"
  "snapshots (fold (\<lambda>ord. delete_order_row (o_id ord)) ords d) = snapshots d"
  by (induction ords arbitrary: d) (auto simp: delete_where_def intro: filter_cong)

lemma fold_delete_orders_inv:
  "orders_inv d \<Longrightarrow> orders_inv (fold (\<lambda>ord. delete_order_row (o_id ord)) ords d)"
  by (induction ords arbitrary: d) (auto intro: orders_inv_delete)

lemma key_mem_filter:
  assumes "distinct (map key rows)" "r \<in> set rows"
  shows "key r \<in> key ` set (filter q rows) \<longleftrightarrow> q r"
proof
  assume "key r \<in> key ` set (filter q rows)"
  then obtain r' where r': "r' \<in> set rows" "q r'" "key r = key r'" by auto
  have "r = r'" using assms r'(1,3) by (rule distinct_key_eq)
  with r'(2) show "q r" by simp
qed (use assms(2) in auto)

text \<open>What a successful run of the job leaves, written without its loops.\<close>

lemma run_purge_job_effect:
  assumes "orders_inv d" and "run_purge_job fresh fresh' skip skip' now d = (Inr c, d')"
    and "get_retention_settings d = (ps, d0)"
  defines "due \<equiv> auto_complete_due skip (now - td_hours (ps_order_auto_complete_grace_hours ps))"
    and "gone \<equiv> purge_due skip' (now - td_days (ps_retention_min_days ps))"
  shows "orders_inv d'"
    and "orders d' = filter (\<lambda>r. \<not> gone r) (map (\<lambda>r. if due r then completed now r else r) (orders d))"
    and "auto_completed_count c = length (filter due (orders d))"
    and "purged_count c = length (filter gone (map (\<lambda>r. if due r then completed now r else r) (orders d)))"
    and "\<exists>sns. snapshots d' = snapshots d @ sns"
proof -
  note fr = get_retention_settings_frame [OF assms(3)]
  have inv0: "orders_inv d0" using assms(1) fr by simp
  then have dist: "distinct (map o_id (orders d0))" by (simp add: orders_inv_def)
  from assms(2) obtain k d1 n where
    ac: "auto_complete_loop fresh 0 now (filter due (orders d0)) d0 = (Inr k, d1)" and
    pu: "purge_loop fresh' 0 now (filter gone (orders d1)) d1 = (Inr n, d')" and
    c: "c = \<lparr>purged_count = n, auto_completed_count = k\<rparr>"
    unfolding run_purge_job_def assms(3) due_def gone_def
    by (auto simp: Let_def split: prod.splits sum.splits)
  have rows: "get_row o_id (o_id ord) (orders d0) = Some ord \<and> o_status ord = Delivered"
    if "ord \<in> set (filter due (orders d0))" for ord
    using that get_row_distinct [OF dist] by (simp add: due_def auto_complete_due_def)
  have E: "orders_inv d1" "k = length (filter due (orders d0))"
    "orders d1 = update_where (\<lambda>r. o_id r \<in> o_id ` set (filter due (orders d0))) (completed now) (orders d0)"
    "\<exists>sns. snapshots d1 = snapshots d0 @ sns"
    using auto_complete_loop_effect [OF inv0 distinct_map_filter [OF dist] rows ac] by simp_all
  have o1: "orders d1 = map (\<lambda>r. if due r then completed now r else r) (orders d)"
    unfolding E(3) update_where_def fr(1) [symmetric]
    using key_mem_filter [OF dist, of _ due] by (intro map_cong) simp_all
  from E(1) have dist1: "distinct (map o_id (orders d1))" by (simp add: orders_inv_def)
  have P: "n = length (filter gone (orders d1))"
    "d' = fold (\<lambda>ord. delete_order_row (o_id ord)) (filter gone (orders d1)) d1"
    using pu purge_loop_effect [OF E(1), of "filter gone (orders d1)" fresh' 0 now] dist1
    by (simp_all add: distinct_map_filter)
  show "orders_inv d'" unfolding P(2) using E(1) by (rule fold_delete_orders_inv)
  have "orders d' = filter (\<lambda>r. \<not> gone r) (orders d1)"
    unfolding P(2) fold_delete_order_row delete_where_def
    using key_mem_filter [OF dist1, of _ gone] by (intro filter_cong) simp_all
  with o1 show "orders d' = filter (\<lambda>r. \<not> gone r) (map (\<lambda>r. if due r then completed now r else r) (orders d))"
    by simp
  show "auto_completed_count c = length (filter due (orders d))" by (simp add: c E(2) fr)
  show "purged_count c = length (filter gone (map (\<lambda>r. if due r then completed now r else r) (orders d)))"
    by (simp add: c P(1) o1)
  show "\<exists>sns. snapshots d' = snapshots d @ sns"
    using E(4) by (simp add: P(2) fold_delete_order_row fr)
qed

end
