(* ===== verification/Order_System.thy ===== *)
theory Order_System
  imports Order_Create Order_Retention
begin

text \<open>
  The order subsystem as one request handler: every operation that writes the order tables
  is a request, each request is one unit of work, and the contracts of \<open>Sessions\<close> are
  interpreted on it. The properties here speak of arbitrary sequences of requests.
\<close>

section \<open>Requests\<close>

text \<open>
  The writing endpoints of \<open>api/v1/orders.py\<close> and \<open>api/v1/admin.py\<close> with the clock readings
  and fresh identifiers each draws.
\<close>

datatype (plugins only: code) order_request =
    QCreate "nat \<Rightarrow> uuid" time user "(uuid \<times> int) list" address
  | QAccept time user uuid
  | QPreparing time user uuid
  | QSelfDeliver uuid user uuid
  | QRequestDriver uuid time user uuid
  | QAssignDriver time user uuid uuid
  | QOutForDelivery uuid time time user uuid
  | QDelivered time user uuid
  | QComplete uuid time user uuid
  | QCancel time user uuid "string option"
  | QDelete uuid time user uuid
  | QPurge "nat \<Rightarrow> uuid" "nat \<Rightarrow> uuid" "uuid \<Rightarrow> bool" "uuid \<Rightarrow> bool" time
  | QSettings user "int option" "int option"

datatype (plugins only: code) order_reply =
    ROrder order_full
  | RDeleted
  | RCounts purge_counts
  | RSettings platform_settings

definition reply :: "('a \<Rightarrow> order_reply) \<Rightarrow> 'a res \<times> db \<Rightarrow> order_reply res \<times> db" where
  "reply f out = (case out of (Inl e, d) \<Rightarrow> (Inl e, d) | (Inr a, d) \<Rightarrow> (Inr (f a), d))"

text \<open>The bounds of the schema: one to a hundred lines of at most ten thousand pieces each.\<close>

definition order_lines_ok :: "(uuid \<times> int) list \<Rightarrow> bool" where
  "order_lines_ok items \<longleftrightarrow> 1 \<le> length items \<and> length items \<le> 100 \<and>
     list_all (\<lambda>i. 0 < snd i \<and> snd i \<le> 10000) items"

definition place_order ::
  "(nat \<Rightarrow> uuid) \<Rightarrow> time \<Rightarrow> user \<Rightarrow> (uuid \<times> int) list \<Rightarrow> address \<Rightarrow> db \<Rightarrow> order_full res \<times> db" where
  "place_order fresh now c items addr d =
     (if order_lines_ok items then create_order fresh now c items addr d else (Inl ValidationError, d))"

lemma place_order_Inr [simp]:
  "place_order fresh now c items addr d = (Inr f, d') \<longleftrightarrow>
     order_lines_ok items \<and> create_order fresh now c items addr d = (Inr f, d')"
  by (simp add: place_order_def)

primrec exec_order :: "order_request \<Rightarrow> db \<Rightarrow> order_reply res \<times> db" where
  "exec_order (QCreate fresh now c items addr) d = reply ROrder (place_order fresh now c items addr d)"
| "exec_order (QAccept now c oid) d = reply ROrder (accept_order now c oid d)"
| "exec_order (QPreparing now c oid) d = reply ROrder (mark_preparing now c oid d)"
| "exec_order (QSelfDeliver i c oid) d = reply ROrder (choose_self_delivery i c oid d)"
| "exec_order (QRequestDriver i now c oid) d = reply ROrder (request_driver i now c oid d)"
| "exec_order (QAssignDriver now c oid drv) d = reply ROrder (assign_driver now c oid drv d)"
| "exec_order (QOutForDelivery i s now c oid) d = reply ROrder (out_for_delivery i s now c oid d)"
| "exec_order (QDelivered now c oid) d = reply ROrder (mark_delivered now c oid d)"
| "exec_order (QComplete i now c oid) d = reply ROrder (complete_order i now c oid d)"
| "exec_order (QCancel now c oid why) d = reply ROrder (cancel_order now c oid why d)"
| "exec_order (QDelete i now c oid) d = reply (\<lambda>_. RDeleted) (delete_order i now c oid d)"
| "exec_order (QPurge f f' s s' now) d = reply RCounts (run_purge_job f f' s s' now d)"
| "exec_order (QSettings c m g) d = reply RSettings (update_retention_settings c m g d)"

lemma reply_Inr [simp]:
  "reply f out = (Inr r, d') \<longleftrightarrow> (\<exists>a. out = (Inr a, d') \<and> r = f a)"
  by (auto simp: reply_def split: prod.splits sum.splits)

lemma update_retention_settings_row:
  assumes "update_retention_settings c m g d = (Inr ps, d')"
  obtains st where "d' = d\<lparr>settings_row := st\<rparr>"
proof -
  have "d' = d\<lparr>settings_row := settings_row d'\<rparr>"
    using assms by (auto simp: update_retention_settings_def get_retention_settings_def Let_def
        split: option.splits if_splits)
  then show thesis by (rule that)
qed

lemma update_retention_settings_frame:
  assumes "update_retention_settings c m g d = (Inr ps, d')"
  shows "orders d' = orders d" "snapshots d' = snapshots d" "orders_inv d' = orders_inv d"
  using assms
  by (auto simp: orders_inv_def assignments_inv_def active_assignments_def
      elim: update_retention_settings_row)

section \<open>What a request does to an order that survives it\<close>

text \<open>The columns fixed when the order is placed.\<close>

definition same_terms :: "order_row \<Rightarrow> order_row \<Rightarrow> bool" where
  "same_terms a b \<longleftrightarrow>
     o_id a = o_id b \<and> o_customer_id a = o_customer_id b \<and> o_seller_id a = o_seller_id b \<and>
     o_store_id a = o_store_id b \<and> o_subtotal_minor a = o_subtotal_minor b \<and>
     o_total_minor a = o_total_minor b \<and> o_delivery_address a = o_delivery_address b \<and>
     o_placed_at a = o_placed_at b"

definition status_step :: "order_status \<Rightarrow> order_status \<Rightarrow> bool" where
  "status_step s t \<longleftrightarrow> t = s \<or> order_next s t"

definition advances :: "order_row list \<Rightarrow> order_row list \<Rightarrow> bool" where
  "advances rows rows' \<longleftrightarrow>
     (\<forall>oid ord ord'. get_row o_id oid rows = Some ord \<longrightarrow> get_row o_id oid rows' = Some ord' \<longrightarrow>
        status_step (o_status ord) (o_status ord') \<and> same_terms ord ord')"

lemma advances_refl [simp]: "advances rows rows"
  by (simp add: advances_def status_step_def same_terms_def)

lemma advances_moved:
  assumes "get_row o_id oid rows = Some ord" and "order_next (o_status ord) (o_status (f ord))"
    and "\<And>r. same_terms r (f r)"
  shows "advances rows (upd_row o_id oid f rows)"
proof -
  have "o_id (f r) = o_id r" for r using assms(3) [of r] by (simp add: same_terms_def)
  then show ?thesis
    using assms by (auto simp: advances_def get_row_upd_row status_step_def same_terms_def)
qed

lemma advances_snoc: "o_id ord \<notin> o_id ` set rows \<Longrightarrow> advances rows (rows @ [ord])"
  by (auto simp: advances_def get_row_append status_step_def same_terms_def split: option.splits)

lemma advances_delete: "advances rows (delete_where (\<lambda>r. o_id r = oid) rows)"
  by (auto simp: advances_def get_row_delete_key status_step_def same_terms_def split: if_splits)

lemma advances_purge:
  assumes "distinct (map o_id rows)" and "\<And>r. due r \<Longrightarrow> o_status r = Delivered"
  shows "advances rows (filter q (map (\<lambda>r. if due r then completed now r else r) rows))"
proof -
  have eq: "map (\<lambda>r. if due r then completed now r else r) rows = update_where due (completed now) rows"
    by (simp add: update_where_def)
  have dist: "distinct (map o_id (update_where due (completed now) rows))"
    using assms(1) by (simp add: map_key_update_where)
  show ?thesis
    unfolding eq advances_def get_row_filter [OF dist]
    using assms(2)
    by (auto simp: get_row_update_where status_step_def same_terms_def completed_def
        split: option.splits if_splits)
qed

lemma exec_order_inv:
  assumes "orders_inv d" and "exec_order q d = (Inr r, d')"
  shows "orders_inv d'"
proof (cases q)
  case (QPurge f f' s s' now)
  obtain ps d0 where "get_retention_settings d = (ps, d0)" by (cases "get_retention_settings d")
  with QPurge assms show ?thesis by (auto intro: run_purge_job_effect(1))
next
  case (QSettings c m g)
  with assms show ?thesis by (auto simp: update_retention_settings_frame)
qed (use assms in \<open>auto intro: create_order_inv accept_order_inv mark_preparing_inv
      choose_self_delivery_inv request_driver_inv assign_driver_inv out_for_delivery_inv
      mark_delivered_inv complete_order_inv cancel_order_inv delete_order_effect(1)\<close>)

text \<open>The transitions as \<open>moved\<close> facts, and what they do to the surviving orders.\<close>

lemma out_for_delivery_moved:
  assumes "out_for_delivery new_id started now c oid d = (Inr r, d')"
  shows "moved oid (\<lambda>r. r\<lparr>o_status := OutForDelivery, o_out_for_delivery_at := Some now\<rparr>)
           (\<lambda>ord. o_status ord = Preparing) d d'"
  using assms
  by (rule out_for_delivery_success)
    (auto simp: moved_def set_order_def dest!: start_delivery_success)

lemma mark_delivered_moved:
  assumes "mark_delivered now c oid d = (Inr r, d')"
  shows "moved oid (\<lambda>r. r\<lparr>o_status := Delivered, o_delivered_at := Some now\<rparr>)
           (\<lambda>ord. o_status ord = OutForDelivery) d d'"
  using assms by (rule mark_delivered_success) (auto simp: moved_def set_order_def)

lemma complete_order_moved:
  assumes "orders_inv d" and "complete_order new_id now c oid d = (Inr r, d')"
  shows "moved oid (completed now) (\<lambda>ord. o_status ord = Delivered) d d'"
  using assms(2)
  by (rule complete_order_step) (auto simp: moved_def complete_step(2) [OF assms(1)])

lemma cancel_order_moved:
  assumes "cancel_order now c oid why d = (Inr r, d')"
  shows "moved oid (\<lambda>r. r\<lparr>o_status := Cancelled, o_cancelled_at := Some now,
                          o_cancellation_reason := why\<rparr>)
           (\<lambda>ord. order_next (o_status ord) Cancelled) d d'"
  using assms by (rule cancel_order_success) (auto simp: moved_def set_order_def intro: order_next.cancel)

lemma advances_status:
  assumes "moved oid f P d d'" and "\<And>ord. P ord \<Longrightarrow> order_next (o_status ord) (o_status (f ord))"
    and "\<And>r. same_terms r (f r)"
  shows "advances (orders d) (orders d')"
  using assms(1) by (rule movedE) (simp add: advances_moved assms(2,3))

lemmas order_moves =
  accept_order_success(1) mark_preparing_success(1) out_for_delivery_moved mark_delivered_moved
  cancel_order_moved

lemma assignment_ops_orders:
  "choose_self_delivery new_id c oid d = (Inr r, d') \<Longrightarrow> orders d' = orders d"
  "request_driver new_id now c oid d = (Inr r, d') \<Longrightarrow> orders d' = orders d"
  "assign_driver now c oid drv d = (Inr r, d') \<Longrightarrow> orders d' = orders d"
  by (auto elim: choose_self_delivery_success request_driver_success assign_driver_success)

lemma exec_order_advances:
  assumes "orders_inv d" and "exec_order q d = (Inr r, d')"
  shows "advances (orders d) (orders d')"
proof (cases q)
  case (QCreate fresh now c items addr)
  with assms(2) obtain f where "create_order fresh now c items addr d = (Inr f, d')" by auto
  then show ?thesis by (rule create_order_success) (simp add: advances_snoc new_order_def)
next
  case (QPurge f f' s s' now)
  obtain ps d0 where "get_retention_settings d = (ps, d0)" by (cases "get_retention_settings d")
  with QPurge assms have "orders d' = filter
      (\<lambda>r. \<not> purge_due s' (now - td_days (ps_retention_min_days ps)) r)
      (map (\<lambda>r. if auto_complete_due s (now - td_hours (ps_order_auto_complete_grace_hours ps)) r
                then completed now r else r) (orders d))"
    by (auto dest: run_purge_job_effect(2))
  moreover have "distinct (map o_id (orders d))" using assms(1) by (simp add: orders_inv_def)
  ultimately show ?thesis
    by (simp only:) (rule advances_purge, assumption, simp add: auto_complete_due_def)
next
  case (QDelete i now c oid)
  with assms have "orders d' = delete_where (\<lambda>r. o_id r = oid) (orders d)"
    by (auto dest: delete_order_effect(2))
  then show ?thesis by (simp add: advances_delete)
next
  case (QSettings c m g)
  with assms show ?thesis by (auto simp: update_retention_settings_frame)
qed (use assms in \<open>auto simp: assignment_ops_orders same_terms_def completed_def dest!: order_moves complete_order_moved [OF assms(1)]
      elim!: advances_status\<close>)

section \<open>Snapshots are append-only\<close>

definition snapshots_grow :: "db \<Rightarrow> db \<Rightarrow> bool" where
  "snapshots_grow d d' \<longleftrightarrow> (\<exists>sns. snapshots d' = snapshots d @ sns)"

lemma snapshots_grow_refl [simp]: "snapshots_grow d d"
  by (simp add: snapshots_grow_def)

lemma snapshots_grow_same: "snapshots d' = snapshots d \<Longrightarrow> snapshots_grow d d'"
  by (simp add: snapshots_grow_def)

lemma start_delivery_snapshots:
  "start_delivery new_id started c ord d = (Inr u, d') \<Longrightarrow> snapshots d' = snapshots d"
  by (auto dest!: start_delivery_success)

lemma out_for_delivery_snapshots:
  assumes "out_for_delivery new_id started now c oid d = (Inr r, d')"
  shows "snapshots d' = snapshots d"
  using assms by (rule out_for_delivery_success) (simp add: start_delivery_snapshots)

lemma plain_ops_snapshots:
  "create_order fresh now c items addr d = (Inr r, d') \<Longrightarrow> snapshots d' = snapshots d"
  "accept_order now c oid d = (Inr r, d') \<Longrightarrow> snapshots d' = snapshots d"
  "mark_preparing now c oid d = (Inr r, d') \<Longrightarrow> snapshots d' = snapshots d"
  "choose_self_delivery new_id c oid d = (Inr r, d') \<Longrightarrow> snapshots d' = snapshots d"
  "request_driver new_id now c oid d = (Inr r, d') \<Longrightarrow> snapshots d' = snapshots d"
  "assign_driver now c oid drv d = (Inr r, d') \<Longrightarrow> snapshots d' = snapshots d"
  "out_for_delivery new_id started now c oid d = (Inr r, d') \<Longrightarrow> snapshots d' = snapshots d"
  "mark_delivered now c oid d = (Inr r, d') \<Longrightarrow> snapshots d' = snapshots d"
  "cancel_order now c oid why d = (Inr r, d') \<Longrightarrow> snapshots d' = snapshots d"
  by (auto elim: create_order_success choose_self_delivery_success request_driver_success
      assign_driver_success mark_delivered_success cancel_order_success
      dest: accept_order_success(2) mark_preparing_success(2) out_for_delivery_snapshots)

lemma exec_order_snapshots:
  assumes "orders_inv d" and "exec_order q d = (Inr r, d')"
  shows "snapshots_grow d d'"
proof (cases q)
  case (QComplete i now c oid)
  with assms(2) obtain f where "complete_order i now c oid d = (Inr f, d')" by auto
  then show ?thesis
    by (rule complete_order_step) (simp add: snapshots_grow_def complete_step(3) [OF assms(1)])
next
  case (QPurge f f' s s' now)
  obtain ps d0 where "get_retention_settings d = (ps, d0)" by (cases "get_retention_settings d")
  with QPurge assms show ?thesis by (auto simp: snapshots_grow_def dest: run_purge_job_effect(5))
next
  case (QDelete i now c oid)
  with assms show ?thesis by (auto simp: snapshots_grow_same delete_order_effect(3))
qed (use assms in \<open>auto intro!: snapshots_grow_same dest: plain_ops_snapshots
      update_retention_settings_frame(2)\<close>)

interpretation os: transactional_step exec_order orders_inv snapshots_grow
proof unfold_locales
  show "snapshots_grow d1 d2 \<Longrightarrow> snapshots_grow d2 d3 \<Longrightarrow> snapshots_grow d1 d3" for d1 d2 d3
    by (auto simp: snapshots_grow_def)
qed (blast intro: exec_order_inv exec_order_snapshots snapshots_grow_refl)+

section \<open>Stock\<close>

definition stock_ok :: "db \<Rightarrow> bool" where
  "stock_ok d \<longleftrightarrow> distinct (map p_id (products d)) \<and>
     (\<forall>p \<in> set (products d). \<forall>s. p_stock_quantity p = Some s \<longrightarrow> 0 \<le> s)"

lemma create_order_products:
  assumes "create_order fresh now c items addr d = (Inr f, d')"
  shows "products d' = map (\<lambda>p. take_stock (total_qty items (p_id p)) p) (products d)"
  using assms
  by (rule create_order_success) (simp add: decrement_stock_map qty_by_id_total)

text \<open>The check ran on the aggregated quantities: no line can take more than is left.\<close>

lemma create_order_enough:
  assumes "create_order fresh now c items addr d = (Inr f, d')"
    and dist: "distinct (map p_id (products d))"
    and p: "p \<in> set (products d)" and ordered: "p_id p \<in> fst ` set items"
  shows "p_deleted_at p = None \<and> p_is_active p \<and>
    (\<forall>s. p_stock_quantity p = Some s \<longrightarrow> total_qty items (p_id p) \<le> s)"
proof -
  from assms(1) have chk: "check_products (locked_products d items) (qty_by_id items) = Inr ()"
    by (rule create_order_success)
  from ordered have "p_id p \<in> fst ` set (qty_by_id items)" by (simp only: qty_by_id_keys)
  then obtain q where e: "(p_id p, q) \<in> set (qty_by_id items)" by auto
  have "get_row p_id (p_id p) (locked_products d items) = Some p"
    using get_row_locked_products [OF dist ordered] get_row_distinct [OF dist p] by simp
  moreover have "q = total_qty items (p_id p)" using e by (rule qty_by_id_entry)
  ultimately show ?thesis using chk e unfolding check_products_Inr by fastforce
qed

lemma create_order_stock_ok:
  assumes "stock_ok d" and "create_order fresh now c items addr d = (Inr f, d')"
  shows "stock_ok d'"
proof -
  from assms(1) have dist: "distinct (map p_id (products d))" by (simp add: stock_ok_def)
  have "total_qty items (p_id p) \<le> s" if "p \<in> set (products d)" "p_stock_quantity p = Some s" for p s
  proof (cases "p_id p \<in> fst ` set items")
    case True
    with create_order_enough [OF assms(2) dist that(1)] that(2) show ?thesis by blast
  next
    case False
    with that assms(1) show ?thesis by (simp add: total_qty_absent stock_ok_def)
  qed
  with dist show ?thesis
    by (auto simp: stock_ok_def create_order_products [OF assms(2)] comp_def)
qed

text \<open>The tables order requests leave alone, apart from the stock an order reserves.\<close>

definition message_days :: "db \<Rightarrow> int" where
  "message_days d = (case settings_row d of None \<Rightarrow> 90 | Some ps \<Rightarrow> ps_message_retention_days ps)"

lemma message_days_tables [simp]:
  "message_days (d\<lparr>orders := a\<rparr>) = message_days d"
  "message_days (d\<lparr>order_items := b\<rparr>) = message_days d"
  "message_days (d\<lparr>deliveries := c\<rparr>) = message_days d"
  "message_days (d\<lparr>driver_assignments := e\<rparr>) = message_days d"
  "message_days (d\<lparr>snapshots := f\<rparr>) = message_days d"
  "message_days (d\<lparr>products := g\<rparr>) = message_days d"
  "message_days (d\<lparr>order_tracking_points := h\<rparr>) = message_days d"
  "message_days (d\<lparr>order_messages := i\<rparr>) = message_days d"
  "message_days (d\<lparr>delivery_codes := j\<rparr>) = message_days d"
  "message_days (d\<lparr>delivery_code_attempts := k\<rparr>) = message_days d"
  by (simp_all add: message_days_def)

lemma message_days_settings:
  "message_days (snd (get_retention_settings d)) = message_days d"
  "update_retention_settings c mn g d = (Inr ps, d') \<Longrightarrow> message_days d' = message_days d"
  by (auto simp: message_days_def get_retention_settings_def update_retention_settings_def
      default_settings_def Let_def split: option.splits if_splits)

definition outside_orders :: "db \<Rightarrow> user list \<times> invite_link list \<times> referral list \<times>
    refresh_token list \<times> seller list \<times> store list \<times> product list \<times> product_image list \<times>
    conversation list \<times> message list \<times> user_public_key list \<times> user_device list \<times>
    notification_prefs list \<times> int" where
  "outside_orders d = (users d, invite_links d, referrals d, refresh_tokens d, sellers d, stores d,
     products d, product_images d, conversations d, messages d, user_public_keys d, user_devices d,
     user_notification_prefs d, message_days d)"

lemma outside_orders_products: "outside_orders d' = outside_orders d \<Longrightarrow> products d' = products d"
  by (simp add: outside_orders_def)

lemma outside_order_tables [simp]:
  "outside_orders (set_order oid f d) = outside_orders d"
  "outside_orders (delete_order_row oid d) = outside_orders d"
  "outside_orders (d\<lparr>snapshots := sns\<rparr>) = outside_orders d"
  "outside_orders (d\<lparr>orders := ords\<rparr>) = outside_orders d"
  by (simp_all add: outside_orders_def set_order_def delete_order_row_def)

lemma start_delivery_outside:
  "start_delivery new_id started c ord d = (Inr u, d') \<Longrightarrow> outside_orders d' = outside_orders d"
  by (auto simp: outside_orders_def set_delivery_def dest!: start_delivery_success)

lemma out_for_delivery_outside:
  assumes "out_for_delivery new_id started now c oid d = (Inr r, d')"
  shows "outside_orders d' = outside_orders d"
  using assms by (rule out_for_delivery_success) (simp add: start_delivery_outside)

lemma write_snapshot_outside:
  "write_snapshot new_id now ord d = (Inr u, d') \<Longrightarrow> outside_orders d' = outside_orders d"
  by (auto simp: outside_orders_def dest!: write_snapshot_success)

lemma complete_order_outside:
  "complete_order new_id now c oid d = (Inr r, d') \<Longrightarrow> outside_orders d' = outside_orders d"
  by (auto simp: outside_orders_def set_order_def elim!: complete_order_success dest!: write_snapshot_outside)

lemma get_retention_settings_outside [simp]: "outside_orders (snd (get_retention_settings d)) = outside_orders d"
  by (simp add: outside_orders_def message_days_settings)
    (simp add: get_retention_settings_def split: option.split)

lemma delete_order_outside:
  assumes "delete_order new_id now c oid d = (Inr u, d')"
  shows "outside_orders d' = outside_orders d"
  using assms
proof (rule delete_order_success)
  fix ord ps d1 d2
  assume "get_retention_settings d = (ps, d1)" "d' = delete_order_row oid d2"
    "(if o_status ord = Completed then write_snapshot new_id now ord d1 else (Inr (), d1)) = (Inr (), d2)"
  with get_retention_settings_outside [of d] show ?thesis
    by (auto simp: write_snapshot_outside split: if_splits)
qed

lemma auto_complete_loop_outside:
  "auto_complete_loop fresh n now ords d = (Inr k, d') \<Longrightarrow> outside_orders d' = outside_orders d"
  by (induction ords arbitrary: n d k)
    (auto split: if_splits prod.splits sum.splits dest!: write_snapshot_outside)

lemma purge_loop_outside:
  "purge_loop fresh n now ords d = (Inr k, d') \<Longrightarrow> outside_orders d' = outside_orders d"
  by (induction ords arbitrary: n d k)
    (auto split: if_splits prod.splits sum.splits dest!: write_snapshot_outside)

lemma run_purge_job_outside:
  "run_purge_job f f' s s' now d = (Inr c, d') \<Longrightarrow> outside_orders d' = outside_orders d"
  by (cases "get_retention_settings d", use get_retention_settings_outside [of d] in simp)
    (auto simp: run_purge_job_def Let_def split: prod.splits sum.splits
      dest!: auto_complete_loop_outside purge_loop_outside)

lemma update_retention_settings_outside:
  assumes "update_retention_settings c mn g d = (Inr ps, d')"
  shows "outside_orders d' = outside_orders d"
  using assms message_days_settings(2) [OF assms]
  by (auto simp: outside_orders_def elim: update_retention_settings_row)

lemma plain_ops_outside:
  "accept_order now c oid d = (Inr r, d') \<Longrightarrow> outside_orders d' = outside_orders d"
  "mark_preparing now c oid d = (Inr r, d') \<Longrightarrow> outside_orders d' = outside_orders d"
  "choose_self_delivery new_id c oid d = (Inr r, d') \<Longrightarrow> outside_orders d' = outside_orders d"
  "request_driver new_id now c oid d = (Inr r, d') \<Longrightarrow> outside_orders d' = outside_orders d"
  "assign_driver now c oid drv d = (Inr r, d') \<Longrightarrow> outside_orders d' = outside_orders d"
  "mark_delivered now c oid d = (Inr r, d') \<Longrightarrow> outside_orders d' = outside_orders d"
  "cancel_order now c oid why d = (Inr r, d') \<Longrightarrow> outside_orders d' = outside_orders d"
  by (auto elim!: choose_self_delivery_success request_driver_success assign_driver_success
      mark_delivered_success cancel_order_success
      dest!: accept_order_success(2) mark_preparing_success(2)
      simp: outside_orders_def set_order_def set_delivery_def
      split: option.splits if_splits)

lemma exec_order_outside:
  assumes "exec_order q d = (Inr r, d')"
  shows "outside_orders d' = outside_orders d \<or>
    (\<exists>fresh now c items addr f. create_order fresh now c items addr d = (Inr f, d'))"
  using assms
  by (cases q) (auto dest!: plain_ops_outside update_retention_settings_outside
      out_for_delivery_outside complete_order_outside delete_order_outside run_purge_job_outside)

lemma exec_order_stock:
  assumes "stock_ok d" and "exec_order q d = (Inr r, d')"
  shows "stock_ok d'"
  using exec_order_outside [OF assms(2)]
proof (elim disjE exE)
  assume "outside_orders d' = outside_orders d"
  then have "products d' = products d" by (rule outside_orders_products)
  then show ?thesis using assms(1) by (simp add: stock_ok_def)
qed (rule create_order_stock_ok [OF assms(1)])

interpretation stock: transactional exec_order stock_ok
  by unfold_locales (rule exec_order_stock)

end
