(* ===== verification/Order_Errors.thy ===== *)
theory Order_Errors
  imports Order_System
begin

text \<open>
  Which failures of the order requests are answers to the client, and which would be a
  \<open>500\<close>: under the invariant of the order tables and unique catalogue keys, the
  \<open>scalar_one_or_none\<close> calls never see two rows, the closing \<open>assert loaded is not None\<close>
  never fires and no dictionary lookup misses.
\<close>

definition keys_ok :: "db \<Rightarrow> bool" where
  "keys_ok d \<longleftrightarrow> distinct (map p_id (products d)) \<and> distinct (map s_user_id (sellers d))"

text \<open>An error the client can be blamed for, or a violated database constraint.\<close>

definition foreseen :: "app_exception \<Rightarrow> bool" where
  "foreseen e \<longleftrightarrow> http_status e \<noteq> 500 \<or> e = IntegrityError"

lemma foreseen_simps [simp]:
  "foreseen OrderNotFound" "foreseen OrderInvalidTransition" "foreseen DeliveryAlreadyStarted"
  "foreseen FulfillmentAlreadyChosen" "foreseen SellerProfileMissing" "foreseen DriverNotRequested"
  "foreseen DriverAlreadyAssigned" "foreseen IntegrityError" "foreseen ProductNotVisible"
  "foreseen ProductOutOfStock" "foreseen OrderRetentionNotMet" "foreseen RetentionSettingInvalid"
  "foreseen ValidationError"
  by (simp_all add: foreseen_def)

lemma lock_order_foreseen: "lock_order_or_404 d oid c = Inl e \<Longrightarrow> foreseen e"
  by (auto dest: lock_order_or_404_Inl)

lemma accept_order_foreseen: "accept_order now c oid d = (Inl e, d') \<Longrightarrow> foreseen e"
  by (auto simp: accept_order_def row_simps split: if_splits sum.splits dest: lock_order_foreseen)

lemma mark_preparing_foreseen: "mark_preparing now c oid d = (Inl e, d') \<Longrightarrow> foreseen e"
  by (auto simp: mark_preparing_def row_simps split: if_splits sum.splits dest: lock_order_foreseen)

lemma get_caller_seller_foreseen:
  assumes "distinct (map s_user_id (sellers d))" and "get_caller_seller d c = Inl e"
  shows "foreseen e"
proof -
  have "caller_seller_rows d (u_id c) =
      filter (\<lambda>s. s_deleted_at s = None) (filter (\<lambda>s. s_user_id s = u_id c) (sellers d))"
    by (simp add: caller_seller_rows_def conj_commute)
  also have "length \<dots> \<le> 1"
    unfolding filter_key_distinct [OF assms(1)] by (simp split: option.split)
  finally show ?thesis
    using assms(2) by (auto simp: get_caller_seller_def scalar_one_or_none_cases split: sum.splits option.splits)
qed

lemma fulfilment_guard_foreseen:
  assumes "orders_inv d" "keys_ok d" "fulfilment_guard c oid d = Inl e"
  shows "foreseen e"
  using assms(3) orders_inv_active_le_1 [OF assms(1), of oid] assms(2)
  by (auto simp: fulfilment_guard_def scalar_one_or_none_cases keys_ok_def
      split: if_splits sum.splits option.splits dest: lock_order_foreseen get_caller_seller_foreseen)

lemma choose_self_delivery_foreseen:
  assumes "orders_inv d" "keys_ok d" "choose_self_delivery i c oid d = (Inl e, d')"
  shows "foreseen e"
  using assms(3) fulfilment_guard_foreseen [OF assms(1,2)]
  by (auto simp: choose_self_delivery_def add_delivery_def split: if_splits sum.splits
      dest: fulfilment_guard_Inr(2))

lemma request_driver_foreseen:
  assumes "orders_inv d" "keys_ok d" "request_driver i now c oid d = (Inl e, d')"
  shows "foreseen e"
  using assms(3) fulfilment_guard_foreseen [OF assms(1,2)]
  by (auto simp: request_driver_def add_assignment_def split: if_splits sum.splits option.splits
      dest: fulfilment_guard_Inr(2))

lemma assign_driver_foreseen:
  assumes "assign_driver now c oid drv d = (Inl e, d')"
  shows "foreseen e"
  using assms
  by (auto simp: assign_driver_def Let_def split: if_splits sum.splits list.splits
      dest: lock_order_foreseen)

lemma assigned_rows_le_1: "orders_inv d \<Longrightarrow> length (assigned_rows d oid) \<le> 1"
proof -
  assume "orders_inv d"
  have "assigned_rows d oid = filter (\<lambda>a. a_status a \<in> {AAssigned, AAccepted} \<and> a_driver_id a \<noteq> None)
      (active_assignments d oid)"
    by (auto simp: assigned_rows_def active_assignments_def is_active_assignment_def intro: filter_cong)
  also have "length \<dots> \<le> length (active_assignments d oid)" by (rule length_filter_le)
  finally show ?thesis using orders_inv_active_le_1 [OF \<open>orders_inv d\<close>, of oid] by simp
qed

lemma start_delivery_foreseen:
  assumes "orders_inv d" "start_delivery i s c ord d = (Inl e, d')"
  shows "foreseen e"
  using assms(2) assigned_rows_le_1 [OF assms(1), of "o_id ord"]
  by (auto simp: start_delivery_def add_delivery_def scalar_one_or_none_cases
      split: if_splits sum.splits option.splits)

lemma out_for_delivery_foreseen:
  assumes "orders_inv d" "out_for_delivery i s now c oid d = (Inl e, d')"
  shows "foreseen e"
proof -
  have "orders d1 = orders d" if "start_delivery i s c ord d = (Inr u, d1)" for ord u d1
    using start_delivery_success [OF that] by auto
  then show ?thesis
    using assms(2) start_delivery_foreseen [OF assms(1)]
    by (auto simp: out_for_delivery_def row_simps split: if_splits sum.splits prod.splits
        dest: lock_order_foreseen)
qed

lemma mark_delivered_foreseen: "mark_delivered now c oid d = (Inl e, d') \<Longrightarrow> foreseen e"
  by (auto simp: mark_delivered_def row_simps split: if_splits sum.splits option.splits
      dest: lock_order_foreseen)

lemma write_snapshot_Inl: "write_snapshot i now ord d = (Inl e, d') \<Longrightarrow> e = IntegrityError"
  by (auto simp: write_snapshot_def split: if_splits option.splits)

lemma complete_order_foreseen: "complete_order i now c oid d = (Inl e, d') \<Longrightarrow> foreseen e"
  by (auto simp: complete_order_def Let_def row_simps split: if_splits sum.splits prod.splits
      dest: lock_order_foreseen dest!: write_snapshot_Inl write_snapshot_success)

lemma cancel_order_foreseen: "cancel_order now c oid why d = (Inl e, d') \<Longrightarrow> foreseen e"
  by (cases "u_role c")
    (auto simp: cancel_order_def cancel_permitted_def Let_def set_order_def row_simps
      split: if_splits sum.splits dest: lock_order_foreseen)

lemma delete_order_foreseen: "delete_order i now c oid d = (Inl e, d') \<Longrightarrow> foreseen e"
  by (auto simp: delete_order_def split: if_splits sum.splits prod.splits option.splits
      dest!: write_snapshot_Inl)

lemma auto_complete_loop_foreseen:
  "auto_complete_loop f n now ords d = (Inl e, d') \<Longrightarrow> foreseen e"
  by (induction ords arbitrary: n d)
    (auto split: if_splits prod.splits sum.splits dest!: write_snapshot_Inl)

lemma purge_loop_foreseen: "purge_loop f n now ords d = (Inl e, d') \<Longrightarrow> foreseen e"
  by (induction ords arbitrary: n d)
    (auto split: if_splits prod.splits sum.splits dest!: write_snapshot_Inl)

lemma run_purge_job_foreseen: "run_purge_job f f' s s' now d = (Inl e, d') \<Longrightarrow> foreseen e"
  by (auto simp: run_purge_job_def Let_def split: prod.splits sum.splits
      dest: auto_complete_loop_foreseen purge_loop_foreseen)

text \<open>Every aggregated line is of a locked product.\<close>

lemma locked_products_complete:
  assumes "distinct (map p_id (products d))"
    and "length (remdups (map p_id (locked_products d items))) = length (remdups (map fst items))"
    and "k \<in> fst ` set items"
  shows "get_row p_id k (locked_products d items) \<noteq> None"
proof -
  let ?P = "p_id ` set (locked_products d items)"
  have "?P \<subseteq> fst ` set items" by (auto simp: locked_products_def)
  moreover have "card ?P = card (fst ` set items)"
    using assms(2) by (simp add: length_remdups_card_conv)
  ultimately have "?P = fst ` set items" by (simp add: card_subset_eq)
  with assms(3) show ?thesis by (simp add: get_row_None_iff)
qed

lemma check_products_foreseen:
  "check_products ps m = Inl e \<Longrightarrow> (\<forall>k \<in> fst ` set m. get_row p_id k ps \<noteq> None) \<Longrightarrow> foreseen e"
  by (induction m) (auto split: option.splits if_splits)

lemma add_order_items_foreseen:
  "add_order_items fresh n oid ps m d = (Inl e, d') \<Longrightarrow>
   (\<forall>k \<in> fst ` set m. get_row p_id k ps \<noteq> None) \<Longrightarrow> (\<forall>q \<in> snd ` set m. int4 q) \<Longrightarrow> foreseen e"
  by (induction m arbitrary: n d) (auto split: option.splits if_splits)

lemma total_qty_bounds:
  assumes "list_all (\<lambda>i. 0 < snd i \<and> snd i \<le> 10000) items"
  shows "0 \<le> total_qty items k" and "total_qty items k \<le> 10000 * int (length items)"
    and "k \<in> fst ` set items \<Longrightarrow> 0 < total_qty items k"
proof -
  have "0 \<le> total_qty items k \<and> total_qty items k \<le> 10000 * int (length items) \<and>
      (k \<in> fst ` set items \<longrightarrow> 0 < total_qty items k)"
    using assms
  proof (induction items)
    case (Cons i items)
    then show ?case by (cases "k \<in> fst ` set items") (auto simp: total_qty_Cons)
  qed (simp add: total_qty_def)
  then show "0 \<le> total_qty items k" and "total_qty items k \<le> 10000 * int (length items)"
    and "k \<in> fst ` set items \<Longrightarrow> 0 < total_qty items k" by auto
qed

lemma order_lines_quantities:
  assumes "order_lines_ok items" and "(k, q) \<in> set (qty_by_id items)"
  shows "0 < q \<and> int4 q"
proof -
  have "k \<in> fst ` set items" using assms(2) qty_by_id_keys [of items] by force
  moreover note qty_by_id_entry [OF assms(2)]
  moreover have "length items \<le> 100" and all: "list_all (\<lambda>i. 0 < snd i \<and> snd i \<le> 10000) items"
    using assms(1) by (simp_all add: order_lines_ok_def)
  ultimately show ?thesis
    using total_qty_bounds [OF all, of k] by (auto simp: int4_def)
qed

lemma new_order_id [simp]: "o_id (new_order oid c s st n addr now) = oid"
  by (simp add: new_order_def)

text \<open>An order whose sum is more than a \<open>BIGINT\<close> column holds.\<close>

definition oversized :: "(uuid \<times> int) list \<Rightarrow> db \<Rightarrow> bool" where
  "oversized items d \<longleftrightarrow> \<not> int8 (order_subtotal (locked_products d items) (qty_by_id items))"

lemma create_order_foreseen:
  assumes "keys_ok d" "order_lines_ok items" "create_order fresh now c items addr d = (Inl e, d')"
  shows "foreseen e \<or> e = DataError \<and> oversized items d"
proof (cases "length (remdups (map p_id (locked_products d items))) = length (remdups (map fst items))")
  case True
  have "\<forall>k \<in> fst ` set (qty_by_id items). get_row p_id k (locked_products d items) \<noteq> None"
    unfolding qty_by_id_keys
    using locked_products_complete [OF _ True] assms(1) by (simp add: keys_ok_def)
  moreover have "\<forall>q \<in> snd ` set (qty_by_id items). int4 q"
    using order_lines_quantities [OF assms(2)] by force
  ultimately show ?thesis
    using assms(3)
    by (auto simp: create_order_def Let_def get_row_append oversized_def
        split: if_splits option.splits sum.splits prod.splits
        dest: check_products_foreseen add_order_items_foreseen dest!: add_order_items_success)
qed (use assms(3) in \<open>auto simp: create_order_def Let_def split: if_splits option.splits\<close>)

lemma place_order_foreseen:
  assumes "keys_ok d" "place_order fresh now c items addr d = (Inl e, d')"
  shows "foreseen e \<or> e = DataError \<and> oversized items d"
  using assms create_order_foreseen [of d items] by (auto simp: place_order_def split: if_splits)

lemma update_retention_settings_foreseen:
  "update_retention_settings c m g d = (Inl e, d') \<Longrightarrow> foreseen e"
  by (auto simp: update_retention_settings_def Let_def split: prod.splits if_splits option.splits)

text \<open>The one server error a request can cause by what it asks for.\<close>

primrec asks_too_much :: "order_request \<Rightarrow> db \<Rightarrow> bool" where
  "asks_too_much (QCreate fresh now c items addr) d = oversized items d"
| "asks_too_much (QAccept now c oid) d = False"
| "asks_too_much (QPreparing now c oid) d = False"
| "asks_too_much (QSelfDeliver i c oid) d = False"
| "asks_too_much (QRequestDriver i now c oid) d = False"
| "asks_too_much (QAssignDriver now c oid drv) d = False"
| "asks_too_much (QOutForDelivery i s now c oid) d = False"
| "asks_too_much (QDelivered now c oid) d = False"
| "asks_too_much (QComplete i now c oid) d = False"
| "asks_too_much (QCancel now c oid why) d = False"
| "asks_too_much (QDelete i now c oid) d = False"
| "asks_too_much (QPurge f f' s s' now) d = False"
| "asks_too_much (QSettings c m g) d = False"

lemma exec_order_foreseen:
  assumes "orders_inv d" "keys_ok d" "exec_order q d = (Inl e, d')"
  shows "foreseen e \<or> e = DataError \<and> asks_too_much q d"
proof -
  have Inl: "reply f out = (Inl e, d') \<longleftrightarrow> out = (Inl e, d')" for f :: "'a \<Rightarrow> order_reply" and out
    by (auto simp: reply_def split: prod.splits sum.splits)
  show ?thesis
    using assms
    by (cases q) (auto simp: Inl dest: place_order_foreseen intro: accept_order_foreseen
        mark_preparing_foreseen choose_self_delivery_foreseen request_driver_foreseen
        assign_driver_foreseen out_for_delivery_foreseen mark_delivered_foreseen
        complete_order_foreseen cancel_order_foreseen delete_order_foreseen
        run_purge_job_foreseen update_retention_settings_foreseen)
qed

section \<open>Fresh identifiers\<close>

text \<open>The identifiers a request draws are new and different, as random UUIDs are.\<close>

definition new_snapshot_ids :: "(nat \<Rightarrow> uuid) \<Rightarrow> nat \<Rightarrow> db \<Rightarrow> bool" where
  "new_snapshot_ids f n d \<longleftrightarrow> inj f \<and> (\<forall>k \<ge> n. f k \<notin> sn_id ` set (snapshots d))"

primrec fresh_draws :: "order_request \<Rightarrow> db \<Rightarrow> bool" where
  "fresh_draws (QCreate fresh now c items addr) d \<longleftrightarrow> fresh 0 \<notin> o_id ` set (orders d) \<and>
     inj fresh \<and> (\<forall>n. fresh n \<notin> oi_id ` set (order_items d))"
| "fresh_draws (QAccept now c oid) d \<longleftrightarrow> True"
| "fresh_draws (QPreparing now c oid) d \<longleftrightarrow> True"
| "fresh_draws (QSelfDeliver i c oid) d \<longleftrightarrow> i \<notin> d_id ` set (deliveries d)"
| "fresh_draws (QRequestDriver i now c oid) d \<longleftrightarrow> i \<notin> a_id ` set (driver_assignments d)"
| "fresh_draws (QAssignDriver now c oid drv) d \<longleftrightarrow> True"
| "fresh_draws (QOutForDelivery i s now c oid) d \<longleftrightarrow> i \<notin> d_id ` set (deliveries d)"
| "fresh_draws (QDelivered now c oid) d \<longleftrightarrow> True"
| "fresh_draws (QComplete i now c oid) d \<longleftrightarrow> i \<notin> sn_id ` set (snapshots d)"
| "fresh_draws (QCancel now c oid why) d \<longleftrightarrow> True"
| "fresh_draws (QDelete i now c oid) d \<longleftrightarrow> i \<notin> sn_id ` set (snapshots d)"
| "fresh_draws (QPurge f f' s s' now) d \<longleftrightarrow> new_snapshot_ids f 0 d \<and> new_snapshot_ids f' 0 d \<and>
     range f \<inter> range f' = {}"
| "fresh_draws (QSettings c m g) d \<longleftrightarrow> True"

lemma write_snapshot_clash: "write_snapshot i now ord d = (Inl e, d') \<Longrightarrow> i \<in> sn_id ` set (snapshots d)"
  by (auto simp: write_snapshot_def insert_row_def snapshot_of_def Let_def split: if_splits option.splits)

lemma write_snapshot_ids:
  "write_snapshot i now ord d = (Inr u, d') \<Longrightarrow>
   sn_id ` set (snapshots d') \<subseteq> insert i (sn_id ` set (snapshots d))"
  by (auto simp: write_snapshot_def insert_row_def snapshot_of_def Let_def split: if_splits option.splits)

lemma new_snapshot_ids_step:
  assumes "new_snapshot_ids f n d" and "write_snapshot (f n) now ord d = (Inr u, d')"
  shows "new_snapshot_ids f (Suc n) d'"
  unfolding new_snapshot_ids_def
proof (intro conjI allI impI)
  show inj: "inj f" using assms(1) by (simp add: new_snapshot_ids_def)
  fix k assume k: "Suc n \<le> k"
  then have "f k \<noteq> f n" using inj by (simp add: inj_eq)
  moreover have "f k \<notin> sn_id ` set (snapshots d)" using assms(1) k by (simp add: new_snapshot_ids_def)
  ultimately show "f k \<notin> sn_id ` set (snapshots d')" using write_snapshot_ids [OF assms(2)] by auto
qed

lemma new_snapshot_ids_tables:
  "snapshots d' = snapshots d \<Longrightarrow> new_snapshot_ids f n d' = new_snapshot_ids f n d"
  by (simp add: new_snapshot_ids_def)

lemma new_snapshot_ids_later: "new_snapshot_ids f n d \<Longrightarrow> new_snapshot_ids f (Suc n) d"
  by (simp add: new_snapshot_ids_def)

lemma auto_complete_loop_clash:
  "new_snapshot_ids f n d \<Longrightarrow> auto_complete_loop f n now ords d = (Inl e, d') \<Longrightarrow> False"
proof (induction ords arbitrary: n d)
  case (Cons ord ords)
  have "new_snapshot_ids f n (set_order (o_id ord) (completed now) d)"
    using Cons.prems(1) by (simp add: new_snapshot_ids_def)
  note step = new_snapshot_ids_step [OF this]
  have new: "f n \<notin> sn_id ` set (snapshots (set_order (o_id ord) (completed now) d))"
    using Cons.prems(1) by (simp add: new_snapshot_ids_def)
  show ?case
  proof (cases "o_status ord = Delivered")
    case True
    obtain r d1 where w: "write_snapshot (f n) now (completed now ord)
        (set_order (o_id ord) (completed now) d) = (r, d1)" by fastforce
    show ?thesis
    proof (cases r)
      case (Inl e')
      with w new show ?thesis by (auto dest: write_snapshot_clash)
    next
      case (Inr u)
      with True Cons.prems(2) w have "auto_complete_loop f (Suc n) now ords d1 = (Inl e, d')"
        by (auto split: prod.splits sum.splits)
      with step [of now "completed now ord" u d1] w Inr Cons.IH [of "Suc n" d1] show ?thesis by simp
    qed
  qed (use Cons in simp)
qed simp

lemma auto_complete_loop_ids:
  "auto_complete_loop f n now ords d = (Inr k, d') \<Longrightarrow>
   sn_id ` set (snapshots d') \<subseteq> range f \<union> sn_id ` set (snapshots d)"
proof (induction ords arbitrary: n d k)
  case (Cons ord ords)
  show ?case
  proof (cases "o_status ord = Delivered")
    case True
    with Cons.prems obtain d1 j where
      "write_snapshot (f n) now (completed now ord) (set_order (o_id ord) (completed now) d) = (Inr (), d1)"
      "auto_complete_loop f (Suc n) now ords d1 = (Inr j, d')"
      by (auto split: prod.splits sum.splits)
    with Cons.IH [of "Suc n" d1 j]
      write_snapshot_ids [of "f n" now "completed now ord" "set_order (o_id ord) (completed now) d" "()" d1]
    show ?thesis by auto
  next
    case False
    with Cons show ?thesis by auto
  qed
qed simp

lemma purge_loop_clash:
  "new_snapshot_ids f n d \<Longrightarrow> purge_loop f n now ords d = (Inl e, d') \<Longrightarrow> False"
proof (induction ords arbitrary: n d)
  case (Cons ord ords)
  have "new_snapshot_ids f (Suc n) (delete_order_row (o_id ord) d1)"
    if "(if o_status ord = Completed then write_snapshot (f n) now ord d else (Inr (), d)) = (Inr u, d1)" for u d1
    using that Cons.prems(1) new_snapshot_ids_step [of f n d now ord u d1] new_snapshot_ids_later [of f n d]
    by (auto simp: new_snapshot_ids_tables [of "delete_order_row (o_id ord) d1" d1] split: if_splits)
  moreover have "f n \<notin> sn_id ` set (snapshots d)"
    using Cons.prems(1) by (simp add: new_snapshot_ids_def)
  ultimately show ?case
    using Cons.IH Cons.prems(2)
    by (fastforce split: if_splits prod.splits sum.splits dest: write_snapshot_clash)
qed simp

lemma run_purge_job_clash:
  assumes "new_snapshot_ids f 0 d" "new_snapshot_ids f' 0 d" "range f \<inter> range f' = {}"
    and "run_purge_job f f' s s' now d = (Inl e, d')"
  shows False
proof -
  obtain ps d0 where ps: "get_retention_settings d = (ps, d0)" by (cases "get_retention_settings d")
  then have sn: "snapshots d0 = snapshots d" by (auto simp: get_retention_settings_def split: option.splits)
  have "new_snapshot_ids f' 0 d1" if "auto_complete_loop f 0 now ords d0 = (Inr k, d1)" for ords k d1
    unfolding new_snapshot_ids_def
  proof (intro conjI allI impI)
    fix k'
    have "f' k' \<notin> range f" using assms(3) by blast
    moreover have "f' k' \<notin> sn_id ` set (snapshots d)" using assms(2) by (simp add: new_snapshot_ids_def)
    ultimately show "f' k' \<notin> sn_id ` set (snapshots d1)" using auto_complete_loop_ids [OF that] sn by auto
  qed (use assms(2) in \<open>simp add: new_snapshot_ids_def\<close>)
  moreover have "new_snapshot_ids f 0 d0" using assms(1) by (simp add: new_snapshot_ids_def sn)
  ultimately show False
    using assms(4) auto_complete_loop_clash purge_loop_clash
    by (fastforce simp: run_purge_job_def Let_def ps split: prod.splits sum.splits)
qed

lemma add_order_items_clash:
  assumes "add_order_items fresh n oid ps m d = (Inl e, d')"
    and "\<forall>q \<in> snd ` set m. 0 < q" and "inj fresh" and "\<forall>k \<ge> n. fresh k \<notin> oi_id ` set (order_items d)"
  shows "e \<noteq> IntegrityError"
  using assms
proof (induction m arbitrary: n d)
  case (Cons x m)
  show ?case
  proof (cases "get_row p_id (fst x) ps")
    case (Some p)
    let ?d = "d\<lparr>order_items := order_items d @ [\<lparr>oi_id = fresh n, oi_order_id = oid,
      oi_product_id = Some (p_id p), oi_product_name_snapshot = p_name p,
      oi_unit_price_minor_snapshot = p_price_minor p, oi_quantity = snd x\<rparr>]\<rparr>"
    have "\<forall>k \<ge> Suc n. fresh k \<notin> oi_id ` set (order_items ?d)"
      using Cons.prems(3,4) by (auto simp: inj_eq)
    with Cons.IH [of "Suc n" ?d] Cons.prems Some show ?thesis
      by (auto split: if_splits)
  qed (use Cons.prems in simp)
qed simp

lemma check_products_clash: "check_products ps m = Inl e \<Longrightarrow> e \<noteq> IntegrityError"
  by (induction m) (auto split: option.splits if_splits)

lemma place_order_clash:
  assumes "place_order fresh now c items addr d = (Inl e, d')" and "fresh_draws (QCreate fresh now c items addr) d"
  shows "e \<noteq> IntegrityError"
proof (cases "order_lines_ok items")
  case True
  have pos: "\<forall>q \<in> snd ` set (qty_by_id items). 0 < q" using order_lines_quantities [OF True] by force
  have clash: "e' \<noteq> IntegrityError"
    if "add_order_items fresh (Suc 0) oid ps (qty_by_id items) d1 = (Inl e', d2)" "order_items d1 = order_items d"
    for oid ps d1 d2 e'
    using add_order_items_clash [OF that(1) pos] assms(2) that(2) by simp
  from True assms show ?thesis
    by (auto simp: place_order_def create_order_def reload_def Let_def
        split: if_splits option.splits sum.splits prod.splits dest: check_products_clash clash)
qed (use assms(1) in \<open>auto simp: place_order_def\<close>)

lemma get_caller_seller_clash: "get_caller_seller d c = Inl e \<Longrightarrow> e \<noteq> IntegrityError"
  by (auto simp: get_caller_seller_def scalar_one_or_none_cases split: sum.splits option.splits if_splits)

lemma lock_order_clash: "lock_order_or_404 d oid c = Inl e \<Longrightarrow> e \<noteq> IntegrityError"
  by (auto dest: lock_order_or_404_Inl)

lemma fulfilment_guard_clash: "fulfilment_guard c oid d = Inl e \<Longrightarrow> e \<noteq> IntegrityError"
  by (auto simp: fulfilment_guard_def scalar_one_or_none_def
      split: if_splits sum.splits option.splits list.splits dest: lock_order_clash get_caller_seller_clash)

lemma choose_self_delivery_clash:
  "choose_self_delivery i c oid d = (Inl e, d') \<Longrightarrow> i \<notin> d_id ` set (deliveries d) \<Longrightarrow> e \<noteq> IntegrityError"
  by (auto simp: choose_self_delivery_def add_delivery_def reload_def new_delivery_def get_row_None_iff
      split: if_splits sum.splits option.splits dest: fulfilment_guard_clash dest!: fulfilment_guard_Inr(6))

lemma request_driver_clash:
  "request_driver i now c oid d = (Inl e, d') \<Longrightarrow> i \<notin> a_id ` set (driver_assignments d) \<Longrightarrow>
   e \<noteq> IntegrityError"
  by (auto simp: request_driver_def add_assignment_def insert_row_def reload_def
      split: if_splits sum.splits option.splits dest: fulfilment_guard_clash fulfilment_guard_Inr(2))

lemma start_delivery_clash:
  "start_delivery i s c ord d = (Inl e, d') \<Longrightarrow> i \<notin> d_id ` set (deliveries d) \<Longrightarrow> e \<noteq> IntegrityError"
  by (auto simp: start_delivery_def add_delivery_def scalar_one_or_none_def new_delivery_def get_row_None_iff
      split: if_splits sum.splits option.splits list.splits)

lemma out_for_delivery_clash:
  "out_for_delivery i s now c oid d = (Inl e, d') \<Longrightarrow> i \<notin> d_id ` set (deliveries d) \<Longrightarrow> e \<noteq> IntegrityError"
  by (auto simp: out_for_delivery_def reload_def split: if_splits sum.splits prod.splits option.splits
      dest: lock_order_clash start_delivery_clash)

lemma complete_order_clash:
  "complete_order i now c oid d = (Inl e, d') \<Longrightarrow> i \<notin> sn_id ` set (snapshots d) \<Longrightarrow> e \<noteq> IntegrityError"
  by (auto simp: complete_order_def reload_def Let_def split: if_splits sum.splits prod.splits option.splits
      dest: lock_order_clash dest!: write_snapshot_clash)

lemma delete_order_clash:
  assumes "delete_order i now c oid d = (Inl e, d')" and "i \<notin> sn_id ` set (snapshots d)"
  shows "e \<noteq> IntegrityError"
proof -
  have "snapshots d1 = snapshots d" if "get_retention_settings d = (ps, d1)" for ps d1
    using that by (auto simp: get_retention_settings_def split: option.splits)
  with assms show ?thesis
    by (auto simp: delete_order_def split: if_splits sum.splits prod.splits option.splits
        dest!: write_snapshot_clash)
qed

lemma plain_ops_clash:
  "accept_order now c oid d = (Inl e, d') \<Longrightarrow> e \<noteq> IntegrityError"
  "mark_preparing now c oid d = (Inl e, d') \<Longrightarrow> e \<noteq> IntegrityError"
  "assign_driver now c oid drv d = (Inl e, d') \<Longrightarrow> e \<noteq> IntegrityError"
  "mark_delivered now c oid d = (Inl e, d') \<Longrightarrow> e \<noteq> IntegrityError"
  "cancel_order now c oid why d = (Inl e, d') \<Longrightarrow> e \<noteq> IntegrityError"
  "update_retention_settings c m g d = (Inl e, d') \<Longrightarrow> e \<noteq> IntegrityError"
  by (auto simp: accept_order_def mark_preparing_def assign_driver_def mark_delivered_def
      cancel_order_def cancel_permitted_def update_retention_settings_def reload_def Let_def
      split: if_splits sum.splits list.splits option.splits prod.splits user_role.splits
      dest: lock_order_clash)

text \<open>With fresh identifiers no order request violates a constraint of the database.\<close>

lemma exec_order_clash:
  assumes "exec_order q d = (Inl e, d')" and "fresh_draws q d"
  shows "e \<noteq> IntegrityError"
proof -
  have Inl: "reply f out = (Inl e, d') \<longleftrightarrow> out = (Inl e, d')" for f :: "'a \<Rightarrow> order_reply" and out
    by (auto simp: reply_def split: prod.splits sum.splits)
  show ?thesis
    using assms
    by (cases q) (auto simp: Inl simp del: fresh_draws.simps(1) dest: place_order_clash plain_ops_clash
        choose_self_delivery_clash request_driver_clash out_for_delivery_clash complete_order_clash
        delete_order_clash run_purge_job_clash)
qed

section \<open>Which requests remove an order\<close>

definition retention_over :: "db \<Rightarrow> time \<Rightarrow> order_row \<Rightarrow> bool" where
  "retention_over d now ord \<longleftrightarrow>
     (\<exists>t. terminal_at ord = Some t \<and>
        td_days (ps_retention_min_days (fst (get_retention_settings d))) \<le> now - t)"

lemma upd_row_keys: "(\<And>r. key (f r) = key r) \<Longrightarrow> key ` set (upd_row key k f rows) = key ` set rows"
  by (simp only: set_map [symmetric] map_key_upd_row)

lemma moved_keys:
  "moved oid f P d d' \<Longrightarrow> (\<And>r. o_id (f r) = o_id r) \<Longrightarrow> o_id ` set (orders d') = o_id ` set (orders d)"
  by (auto simp: moved_def upd_row_keys)

lemma exec_order_keeps_orders:
  assumes "orders_inv d" and "exec_order q d = (Inr r, d')" and "oid \<in> o_id ` set (orders d)"
  shows "oid \<in> o_id ` set (orders d') \<or> (\<exists>i now c. q = QDelete i now c oid) \<or>
    (\<exists>f f' s s' now. q = QPurge f f' s s' now)"
proof (cases q)
  case (QCreate fresh now c items addr)
  with assms show ?thesis by (auto elim!: create_order_success)
next
  case (QDelete i now c oid')
  with assms have "orders d' = delete_where (\<lambda>r. o_id r = oid') (orders d)"
    by (auto dest: delete_order_effect(2))
  with assms(3) QDelete show ?thesis by force
next
  case (QSettings c m g)
  with assms show ?thesis by (auto simp: update_retention_settings_frame)
qed (use assms in \<open>auto simp: assignment_ops_orders dest!: order_moves complete_order_moved
      dest: moved_keys\<close>)

lemma delete_order_retention:
  assumes "delete_order i now c oid d = (Inr u, d')" and "get_row o_id oid (orders d) = Some ord"
  shows "retention_over d now ord"
  using assms(1) by (rule delete_order_success) (use assms(2) in \<open>simp add: retention_over_def\<close>)

lemma delete_order_party:
  assumes "delete_order i now c oid d = (Inr u, d')" and "get_row o_id oid (orders d) = Some ord"
  shows "u_role c = Admin \<or> u_role c = Customer \<and> u_id c = o_customer_id ord \<or>
    u_role c = Seller \<and> u_id c = o_seller_id ord"
  using assms by (cases "u_role c") (auto simp: delete_order_def load_order_locked_def split: if_splits)

lemma purge_due_retention:
  assumes "purge_due skip (now - td_days n) (if auto_complete_due skip' cutoff ord
             then completed now ord else ord)"
    and "1 \<le> n"
  shows "\<exists>t. terminal_at ord = Some t \<and> td_days n \<le> now - t"
  using assms
  by (auto simp: purge_due_def terminal_at_def auto_complete_due_def completed_def timedelta_defs
      split: if_splits option.splits)

end
