(* ===== verification/Sample_Data.thy ===== *)
theory Sample_Data
  imports Schema
begin

text \<open>
  A small marketplace on which the properties are evaluated: an administrator, a seller with
  a profile, a store and two products, a customer the seller referred, and a driver.
\<close>

definition sample_user :: "uuid \<Rightarrow> user_role \<Rightarrow> uuid option \<Rightarrow> user" where
  "sample_user i role ref =
     \<lparr>u_id = i, u_email = ''x'', u_password_hash = ''h'', u_role = role, u_display_name = ''n'',
      u_phone = None, u_is_active = True, u_disabled_at = None, u_status = UActive,
      u_suspended_at = None, u_suspended_reason = None, u_avatar_url = None,
      u_referring_seller_id = ref, u_created_at = 0, u_deleted_at = None\<rparr>"

definition sample_admin :: user where "sample_admin = sample_user 1 Admin None"
definition sample_seller :: user where "sample_seller = sample_user 2 Seller None"
definition sample_customer :: user where "sample_customer = sample_user 3 Customer (Some 2)"
definition sample_driver :: user where "sample_driver = sample_user 4 Driver None"

definition sample_product :: "uuid \<Rightarrow> int \<Rightarrow> int option \<Rightarrow> product" where
  "sample_product i price stock =
     \<lparr>p_id = i, p_seller_id = 2, p_store_id = 11, p_name = ''p'', p_description = '''',
      p_price_minor = price, p_stock_quantity = stock, p_is_active = True, p_status = PActive,
      p_disabled_at = None, p_disabled_reason = None, p_created_at = 0, p_deleted_at = None\<rparr>"

definition sample_address :: address where
  "sample_address = \<lparr>ad_text = [(''city'', ''Oslo'')], ad_lat = None, ad_lng = None\<rparr>"

definition sample_db :: db where
  "sample_db = empty_db
     \<lparr>users := [sample_admin, sample_seller, sample_customer, sample_driver],
      sellers := [\<lparr>s_id = 2, s_user_id = 2, s_display_name = ''s'', s_city = ''Oslo'', s_deleted_at = None\<rparr>],
      stores := [\<lparr>st_id = 11, st_seller_id = 2, st_name = ''S'', st_slug = ''s'', st_description = '''',
                 st_is_active = True, st_is_public = False, st_created_at = 0, st_deleted_at = None\<rparr>],
      products := [sample_product 20 150 (Some 5), sample_product 21 40 None]\<rparr>"

lemmas sample_defs = sample_user_def sample_admin_def sample_seller_def sample_customer_def
  sample_driver_def sample_product_def sample_address_def sample_db_def empty_db_def

end
