(* ===== verification/Order_View.thy ===== *)
theory Order_View
  imports Order_Errors Sample_Data
begin

text \<open>
  Reading orders: who may see an order (\<open>_ensure_can_view\<close>), the list and detail queries of
  \<open>order_service.py\<close>, the visibility windows after a delivery, the masked responses, and the
  two read endpoints of \<open>api/v1/orders.py\<close>.
\<close>

section \<open>Access\<close>

definition ensure_can_view :: "order_full \<Rightarrow> user \<Rightarrow> unit res" where
  "ensure_can_view f caller =
     (let ord = f_order f in
      case u_role caller of
        Admin \<Rightarrow> Inr ()
      | Seller \<Rightarrow> if o_seller_id ord \<noteq> u_id caller then Inl OrderNotFound else Inr ()
      | Customer \<Rightarrow> if o_customer_id ord \<noteq> u_id caller then Inl OrderNotFound else Inr ()
      | Driver \<Rightarrow>
          if (case f_delivery f of None \<Rightarrow> False | Some dl \<Rightarrow> d_driver_id dl = Some (u_id caller))
          then Inr ()
          else if list_ex (\<lambda>a. a_driver_id a = Some (u_id caller) \<and> a_status a \<in> {AAssigned, AAccepted})
                    (f_assignments f)
          then Inr ()
          else Inl OrderNotFound)"

definition get_order_for_caller :: "user \<Rightarrow> uuid \<Rightarrow> db \<Rightarrow> order_full res" where
  "get_order_for_caller caller oid d =
     (case load_order_full d oid of
        None \<Rightarrow> Inl OrderNotFound
      | Some f \<Rightarrow>
          if o_deleted_at (f_order f) \<noteq> None then Inl OrderNotFound
          else (case ensure_can_view f caller of Inl e \<Rightarrow> Inl e | Inr _ \<Rightarrow> Inr f))"

text \<open>The \<open>WHERE\<close> clause that \<open>list_orders_for_caller\<close> adds for the caller's role.\<close>

definition list_scope :: "db \<Rightarrow> user \<Rightarrow> order_row \<Rightarrow> bool" where
  "list_scope d caller ord =
     (case u_role caller of
        Admin \<Rightarrow> True
      | Seller \<Rightarrow> o_seller_id ord = u_id caller
      | Customer \<Rightarrow> o_customer_id ord = u_id caller
      | Driver \<Rightarrow>
          o_id ord \<in> d_order_id ` set (filter (\<lambda>dl. d_driver_id dl = Some (u_id caller)) (deliveries d)) \<or>
          o_id ord \<in> a_order_id ` set (filter (\<lambda>a. a_driver_id a = Some (u_id caller) \<and>
                                      a_status a \<in> {AAssigned, AAccepted}) (driver_assignments d)))"

text \<open>The \<open>status\<close> filter takes one of the enum labels.\<close>

definition list_orders_for_caller ::
  "user \<Rightarrow> order_status option \<Rightarrow> int \<Rightarrow> db \<Rightarrow> order_full list" where
  "list_orders_for_caller caller st limit d =
     List.map_filter (\<lambda>ord. load_order_full d (o_id ord))
       (take (nat (min (max limit 1) 200))
         (order_desc o_placed_at
           (filter (\<lambda>ord. o_deleted_at ord = None \<and>
                (case st of None \<Rightarrow> True | Some s \<Rightarrow> o_status ord = s) \<and> list_scope d caller ord)
             (orders d))))"

section \<open>Visibility windows\<close>

definition visible_after :: "order_row \<Rightarrow> time \<Rightarrow> time" where
  "visible_after ord delivered = or_else (o_customer_visible_after ord) (delivered + td_minutes 30)"

definition is_customer_hidden :: "time \<Rightarrow> order_row \<Rightarrow> bool" where
  "is_customer_hidden now ord =
     (case o_delivered_at ord of None \<Rightarrow> False | Some t \<Rightarrow> now < visible_after ord t)"

definition is_customer_masked :: "time \<Rightarrow> order_row \<Rightarrow> bool" where
  "is_customer_masked now ord =
     (case o_delivered_at ord of None \<Rightarrow> False | Some t \<Rightarrow> now \<ge> visible_after ord t)"

definition is_seller_stripped :: "time \<Rightarrow> order_row \<Rightarrow> bool" where
  "is_seller_stripped now ord \<longleftrightarrow>
     now \<ge> or_else (o_seller_full_visible_until ord) (o_placed_at ord + td_days 7)"

section \<open>Responses\<close>

record delivery_out =
  do_id :: uuid
  do_driver_id :: "uuid option"
  do_seller_id :: uuid
  do_status :: delivery_status
  do_started_at :: "time option"
  do_delivered_at :: "time option"

record assignment_out =
  ao_id :: uuid
  ao_driver_id :: "uuid option"
  ao_status :: driver_assignment_status
  ao_requested_at :: time
  ao_assigned_at :: "time option"

record line_item_out =
  lo_id :: uuid
  lo_product_id :: "uuid option"
  lo_product_name_snapshot :: string
  lo_unit_price_minor_snapshot :: int
  lo_quantity :: int

record order_response =
  rs_id :: uuid
  rs_customer_id :: uuid
  rs_seller_id :: uuid
  rs_store_id :: uuid
  rs_status :: string
  rs_subtotal_minor :: int
  rs_total_minor :: int
  rs_delivery_address :: "address option"
  rs_placed_at :: time
  rs_accepted_at :: "time option"
  rs_preparing_at :: "time option"
  rs_out_for_delivery_at :: "time option"
  rs_delivered_at :: "time option"
  rs_completed_at :: "time option"
  rs_cancelled_at :: "time option"
  rs_cancellation_reason :: "string option"
  rs_items :: "line_item_out list"
  rs_delivery :: "delivery_out option"
  rs_driver_assignment :: "assignment_out option"

primrec status_label :: "order_status \<Rightarrow> string" where
  "status_label Pending = ''pending''"
| "status_label Accepted = ''accepted''"
| "status_label Preparing = ''preparing''"
| "status_label OutForDelivery = ''out_for_delivery''"
| "status_label Delivered = ''delivered''"
| "status_label Completed = ''completed''"
| "status_label Cancelled = ''cancelled''"

text \<open>The empty address \<open>{}\<close> is \<open>None\<close>.\<close>

definition mask_seller_order_response :: "order_row \<Rightarrow> order_response" where
  "mask_seller_order_response ord =
     \<lparr>rs_id = o_id ord, rs_customer_id = o_customer_id ord, rs_seller_id = o_seller_id ord,
      rs_store_id = o_store_id ord, rs_status = ''hidden'', rs_subtotal_minor = o_total_minor ord,
      rs_total_minor = o_total_minor ord, rs_delivery_address = None,
      rs_placed_at = o_placed_at ord, rs_accepted_at = None, rs_preparing_at = None,
      rs_out_for_delivery_at = None, rs_delivered_at = None, rs_completed_at = None,
      rs_cancelled_at = None, rs_cancellation_reason = None, rs_items = [], rs_delivery = None,
      rs_driver_assignment = None\<rparr>"

definition mask_customer_order_response :: "order_row \<Rightarrow> order_response" where
  "mask_customer_order_response ord =
     \<lparr>rs_id = o_id ord, rs_customer_id = o_customer_id ord, rs_seller_id = o_seller_id ord,
      rs_store_id = o_store_id ord, rs_status = ''hidden'', rs_subtotal_minor = o_total_minor ord,
      rs_total_minor = o_total_minor ord, rs_delivery_address = None,
      rs_placed_at = o_placed_at ord, rs_accepted_at = None, rs_preparing_at = None,
      rs_out_for_delivery_at = None, rs_delivered_at = None, rs_completed_at = None,
      rs_cancelled_at = None, rs_cancellation_reason = None, rs_items = [], rs_delivery = None,
      rs_driver_assignment = None\<rparr>"

text \<open>Python's \<open>max\<close> with a key: the first of the greatest elements.\<close>

primrec max_by :: "('r \<Rightarrow> int) \<Rightarrow> 'r \<Rightarrow> 'r list \<Rightarrow> 'r" where
  "max_by key best [] = best"
| "max_by key best (r # rs) = max_by key (if key best < key r then r else best) rs"

definition active_assignment :: "driver_assignment list \<Rightarrow> assignment_out option" where
  "active_assignment asg =
     (case filter (\<lambda>a. a_status a \<noteq> ACancelled) asg of
        [] \<Rightarrow> None
      | c # cs \<Rightarrow>
          (let a = max_by a_requested_at c cs in
           Some \<lparr>ao_id = a_id a, ao_driver_id = a_driver_id a, ao_status = a_status a,
                 ao_requested_at = a_requested_at a, ao_assigned_at = a_assigned_at a\<rparr>))"

definition line_item_of :: "order_item \<Rightarrow> line_item_out" where
  "line_item_of i =
     \<lparr>lo_id = oi_id i, lo_product_id = oi_product_id i,
      lo_product_name_snapshot = oi_product_name_snapshot i,
      lo_unit_price_minor_snapshot = oi_unit_price_minor_snapshot i, lo_quantity = oi_quantity i\<rparr>"

definition order_to_response_dict :: "order_full \<Rightarrow> order_response" where
  "order_to_response_dict f =
     (let ord = f_order f in
      \<lparr>rs_id = o_id ord, rs_customer_id = o_customer_id ord, rs_seller_id = o_seller_id ord,
       rs_store_id = o_store_id ord, rs_status = status_label (o_status ord),
       rs_subtotal_minor = o_subtotal_minor ord, rs_total_minor = o_total_minor ord,
       rs_delivery_address = Some (o_delivery_address ord), rs_placed_at = o_placed_at ord,
       rs_accepted_at = o_accepted_at ord, rs_preparing_at = o_preparing_at ord,
       rs_out_for_delivery_at = o_out_for_delivery_at ord, rs_delivered_at = o_delivered_at ord,
       rs_completed_at = o_completed_at ord, rs_cancelled_at = o_cancelled_at ord,
       rs_cancellation_reason = o_cancellation_reason ord,
       rs_items = map line_item_of (f_items f),
       rs_delivery = map_option (\<lambda>dl. \<lparr>do_id = d_id dl, do_driver_id = d_driver_id dl,
           do_seller_id = d_seller_id dl, do_status = d_status dl, do_started_at = d_started_at dl,
           do_delivered_at = d_delivered_at dl\<rparr>) (f_delivery f),
       rs_driver_assignment = active_assignment (f_assignments f)\<rparr>)"

section \<open>The read endpoints\<close>

definition render_for :: "time \<Rightarrow> user \<Rightarrow> order_full \<Rightarrow> order_response option" where
  "render_for now caller f =
     (if u_role caller = Customer \<and> is_customer_hidden now (f_order f) then None
      else if u_role caller = Customer \<and> is_customer_masked now (f_order f)
      then Some (mask_customer_order_response (f_order f))
      else if u_role caller = Seller \<and> is_seller_stripped now (f_order f)
      then Some (mask_seller_order_response (f_order f))
      else Some (order_to_response_dict f))"

definition list_orders ::
  "time \<Rightarrow> user \<Rightarrow> order_status option \<Rightarrow> int \<Rightarrow> db \<Rightarrow> order_response list" where
  "list_orders now caller st limit d =
     List.map_filter (render_for now caller) (list_orders_for_caller caller st limit d)"

definition get_order :: "user \<Rightarrow> uuid \<Rightarrow> db \<Rightarrow> order_response res" where
  "get_order caller oid d =
     (case get_order_for_caller caller oid d of Inl e \<Rightarrow> Inl e | Inr f \<Rightarrow> Inr (order_to_response_dict f))"

section \<open>Lemmas\<close>

lemma in_map_filter_iff: "y \<in> set (List.map_filter f xs) \<longleftrightarrow> (\<exists>x \<in> set xs. f x = Some y)"
  by (induction xs) (auto simp: map_filter_simps split: option.splits)

lemma status_label_not_hidden [simp]: "status_label s \<noteq> ''hidden''"
  by (cases s) simp_all

lemma mask_status [simp]:
  "rs_status (mask_customer_order_response ord) = ''hidden''"
  "rs_status (mask_seller_order_response ord) = ''hidden''"
  "rs_id (mask_customer_order_response ord) = o_id ord"
  "rs_id (mask_seller_order_response ord) = o_id ord"
  by (simp_all add: mask_customer_order_response_def mask_seller_order_response_def)

lemma response_id [simp]:
  "rs_id (order_to_response_dict f) = o_id (f_order f)"
  "rs_status (order_to_response_dict f) = status_label (o_status (f_order f))"
  by (simp_all add: order_to_response_dict_def Let_def)

lemma load_order_full_Some:
  "load_order_full d oid = Some f \<Longrightarrow> f_order f \<in> set (orders d) \<and> o_id (f_order f) = oid"
  by (auto simp: load_order_full_def split: option.splits dest: get_row_SomeD)

lemma list_orders_for_caller_in:
  assumes "f \<in> set (list_orders_for_caller caller st limit d)"
    and "distinct (map o_id (orders d))"
  shows "f_order f \<in> set (orders d)" "o_deleted_at (f_order f) = None"
    "list_scope d caller (f_order f)" "load_order_full d (o_id (f_order f)) = Some f"
proof -
  from assms(1) obtain ord where ord: "ord \<in> set (orders d)" "o_deleted_at ord = None"
      "list_scope d caller ord" and f: "load_order_full d (o_id ord) = Some f"
    by (auto simp: list_orders_for_caller_def in_map_filter_iff dest!: in_set_takeD)
  have "f_order f = ord"
    using f get_row_distinct [OF assms(2) ord(1)] by (auto simp: load_order_full_def)
  with ord f show "f_order f \<in> set (orders d)" "o_deleted_at (f_order f) = None"
    "list_scope d caller (f_order f)" "load_order_full d (o_id (f_order f)) = Some f"
    by simp_all
qed

text \<open>The list query and the detail query agree on who may see an order.\<close>

lemma list_scope_can_view:
  assumes "distinct (map d_order_id (deliveries d))" and "load_order_full d oid = Some f"
  shows "list_scope d caller (f_order f) \<longleftrightarrow> ensure_can_view f caller = Inr ()"
proof -
  from assms(2) have f: "o_id (f_order f) = oid" "f_delivery f = get_row d_order_id oid (deliveries d)"
    "f_assignments f = filter (\<lambda>a. a_order_id a = oid) (driver_assignments d)"
    by (auto simp: load_order_full_def split: option.splits dest: get_row_SomeD)
  have "(oid \<in> d_order_id ` set (filter (\<lambda>dl. d_driver_id dl = Some (u_id caller)) (deliveries d))) =
    (case get_row d_order_id oid (deliveries d) of None \<Rightarrow> False | Some dl \<Rightarrow> d_driver_id dl = Some (u_id caller))"
    using get_row_distinct [OF assms(1)]
    by (auto simp: image_iff get_row_None_iff split: option.splits dest: get_row_SomeD)
  moreover have "(oid \<in> a_order_id ` set (filter (\<lambda>a. a_driver_id a = Some (u_id caller) \<and>
      a_status a \<in> {AAssigned, AAccepted}) (driver_assignments d))) =
    list_ex (\<lambda>a. a_driver_id a = Some (u_id caller) \<and> a_status a \<in> {AAssigned, AAccepted}) (f_assignments f)"
    unfolding f(3) by (auto simp: list_ex_iff)
  ultimately show ?thesis
    unfolding list_scope_def ensure_can_view_def Let_def f(1,2)
    by (cases "u_role caller") simp_all
qed

text \<open>
  What the list shows of one order, by the caller's role and the clock: nothing within the hide
  window, the summary after it or after the seller's detail period, and else the whole order.
\<close>

definition full_order :: "db \<Rightarrow> order_row \<Rightarrow> order_full" where
  "full_order d ord = \<lparr>f_order = ord, f_items = filter (\<lambda>i. oi_order_id i = o_id ord) (order_items d),
     f_delivery = get_row d_order_id (o_id ord) (deliveries d),
     f_assignments = filter (\<lambda>a. a_order_id a = o_id ord) (driver_assignments d)\<rparr>"

definition shown :: "time \<Rightarrow> user \<Rightarrow> db \<Rightarrow> order_row \<Rightarrow> order_response option" where
  "shown now caller d ord =
     (case (u_role caller, o_delivered_at ord) of
        (Customer, Some t) \<Rightarrow>
          if now < visible_after ord t then None else Some (mask_customer_order_response ord)
      | (Seller, _) \<Rightarrow>
          if or_else (o_seller_full_visible_until ord) (o_placed_at ord + td_days 7) \<le> now
          then Some (mask_seller_order_response ord)
          else Some (order_to_response_dict (full_order d ord))
      | _ \<Rightarrow> Some (order_to_response_dict (full_order d ord)))"

definition listable :: "db \<Rightarrow> user \<Rightarrow> order_status option \<Rightarrow> order_row \<Rightarrow> bool" where
  "listable d caller st ord \<longleftrightarrow> o_deleted_at ord = None \<and>
     (case st of None \<Rightarrow> True | Some s \<Rightarrow> o_status ord = s) \<and> list_scope d caller ord"

text \<open>\<open>sel\<close> holds the first \<open>n\<close> of the rows, the newest first.\<close>

definition newest :: "nat \<Rightarrow> order_row list \<Rightarrow> order_row list \<Rightarrow> bool" where
  "newest n rows sel \<longleftrightarrow> distinct (map o_id sel) \<and> set sel \<subseteq> set rows \<and>
     length sel = min n (length rows) \<and>
     sorted_wrt (\<lambda>a b. o_placed_at b \<le> o_placed_at a) sel \<and>
     (\<forall>ord \<in> set rows - set sel. \<forall>x \<in> set sel. o_placed_at ord \<le> o_placed_at x)"

lemma load_order_full_row:
  assumes "distinct (map o_id (orders d))" and "ord \<in> set (orders d)"
  shows "load_order_full d (o_id ord) = Some (full_order d ord)"
  by (simp add: load_order_full_def full_order_def get_row_distinct [OF assms])

lemma map_filter_all:
  "(\<And>x. x \<in> set xs \<Longrightarrow> f x = Some (g x)) \<Longrightarrow> List.map_filter f xs = map g xs"
  by (induction xs) (simp_all add: map_filter_simps)

lemma map_filter_map_eq:
  "(\<And>x. x \<in> set xs \<Longrightarrow> f (g x) = h x) \<Longrightarrow> List.map_filter f (map g xs) = List.map_filter h xs"
  by (induction xs) (simp_all add: map_filter_simps split: option.split)

lemma render_for_shown: "render_for now caller (full_order d ord) = shown now caller d ord"
  by (cases "u_role caller"; cases "o_delivered_at ord")
    (auto simp: render_for_def shown_def full_order_def is_customer_hidden_def is_customer_masked_def
      is_seller_stripped_def)

lemma newest_take:
  assumes "distinct (map o_id rows)"
  shows "newest n rows (take n (order_desc o_placed_at rows))"
proof -
  let ?all = "order_desc o_placed_at rows"
  have dist: "distinct (map o_id ?all)" using assms by (simp add: distinct_map order_desc_def)
  have sorted: "sorted_wrt (\<lambda>a b. o_placed_at b \<le> o_placed_at a) (take n ?all @ drop n ?all)"
    by (simp add: sorted_order_desc)
  have rest: "ord \<in> set (drop n ?all)" if "ord \<in> set rows - set (take n ?all)" for ord
    using that set_order_desc [of o_placed_at rows] by (metis DiffD1 DiffD2 Un_iff append_take_drop_id set_append)
  have "distinct (map o_id (take n ?all))" using dist by (simp add: take_map [symmetric])
  moreover have "set (take n ?all) \<subseteq> set rows" using set_take_subset [of n ?all] by simp
  moreover have "sorted_wrt (\<lambda>a b. o_placed_at b \<le> o_placed_at a) (take n ?all)"
    using sorted unfolding sorted_wrt_append by blast
  moreover have "o_placed_at ord \<le> o_placed_at x"
    if "ord \<in> set rows - set (take n ?all)" "x \<in> set (take n ?all)" for ord x
    using sorted rest [OF that(1)] that(2) unfolding sorted_wrt_append by blast
  ultimately show ?thesis by (auto simp: newest_def)
qed

section \<open>Properties\<close>

text \<open>
  C35: the list endpoint returns exactly this: of the live orders in the caller's scope, with the
  status asked for, the newest up to the clamped limit; of each of them nothing to a customer
  within the hide window, the masked summary to a customer after it and to a seller after the
  detail period, and in every other case the whole order.
\<close>

theorem list_orders_respects_windows:
  assumes "distinct (map o_id (orders d))"
  shows "\<exists>sel. newest (nat (min (max limit 1) 200)) (filter (listable d caller st) (orders d)) sel \<and>
    list_orders now caller st limit d = List.map_filter (shown now caller d) sel"
proof -
  let ?rows = "filter (listable d caller st) (orders d)"
  let ?sel = "take (nat (min (max limit 1) 200)) (order_desc o_placed_at ?rows)"
  have "distinct (map o_id ?rows)" using assms by (rule distinct_map_filter)
  then have sel: "newest (nat (min (max limit 1) 200)) ?rows ?sel" by (rule newest_take)
  then have "set ?sel \<subseteq> set (orders d)" by (auto simp: newest_def)
  then have "load_order_full d (o_id ord) = Some (full_order d ord)" if "ord \<in> set ?sel" for ord
    using load_order_full_row [OF assms] that by blast
  then have "list_orders_for_caller caller st limit d = map (full_order d) ?sel"
    unfolding list_orders_for_caller_def listable_def by (rule map_filter_all)
  then have "list_orders now caller st limit d = List.map_filter (shown now caller d) ?sel"
    by (simp add: list_orders_def map_filter_map_eq render_for_shown)
  with sel show ?thesis by blast
qed

definition sample_delivered :: order_row where
  "sample_delivered = (new_order 100 sample_customer 2 11 490 sample_address 1000)
     \<lparr>o_status := Delivered, o_out_for_delivery_at := Some 3000, o_delivered_at := Some 5000\<rparr>"

definition sample_view_db :: db where
  "sample_view_db = sample_db\<lparr>orders := [sample_delivered]\<rparr>"

theorem list_orders_respects_windows_witness:
  "list_orders (5000 + td_minutes 30) sample_customer None 50 sample_view_db =
     [mask_customer_order_response sample_delivered]"
proof -
  have "distinct (map o_id (orders sample_view_db))" by (simp add: sample_view_db_def)
  then obtain sel where new: "newest (nat (min (max 50 1) 200))
      (filter (listable sample_view_db sample_customer None) (orders sample_view_db)) sel"
    and res: "list_orders (5000 + td_minutes 30) sample_customer None 50 sample_view_db =
      List.map_filter (shown (5000 + td_minutes 30) sample_customer sample_view_db) sel"
    using list_orders_respects_windows by blast
  have "listable sample_view_db sample_customer None sample_delivered"
    by (simp add: listable_def list_scope_def sample_delivered_def new_order_def sample_customer_def
        sample_user_def)
  then have "length sel = 1" "set sel \<subseteq> {sample_delivered}"
    using new by (simp_all add: newest_def sample_view_db_def)
  then have "sel = [sample_delivered]" by (cases sel) auto
  then show ?thesis
    unfolding res by (simp add: map_filter_simps shown_def sample_delivered_def new_order_def sample_customer_def
        sample_user_def visible_after_def)
qed

text \<open>
  The list query and the detail query agree: an order is returned by the detail query
  exactly when it is live and the list query's role filter admits it.
\<close>

theorem list_and_detail_agree:
  assumes "distinct (map d_order_id (deliveries d))"
  shows "get_order_for_caller caller oid d = Inr f \<longleftrightarrow>
    load_order_full d oid = Some f \<and> o_deleted_at (f_order f) = None \<and>
    list_scope d caller (f_order f)"
  using list_scope_can_view [OF assms, of oid]
  by (auto simp: get_order_for_caller_def split: option.splits sum.splits)

theorem list_and_detail_agree_witness:
  "\<not> (\<exists>f. get_order_for_caller sample_driver 100 sample_view_db = Inr f)"
proof -
  have "\<not> list_scope sample_view_db sample_driver ord" for ord
    by (simp add: list_scope_def sample_view_db_def sample_defs)
  moreover have "distinct (map d_order_id (deliveries sample_view_db))"
    by (simp add: sample_view_db_def sample_defs)
  ultimately show ?thesis using list_and_detail_agree [of sample_view_db sample_driver 100] by blast
qed

text \<open>
  Masking is applied by the list endpoint alone: within the hide window, the detail
  endpoint still returns the customer the order with its address and line items.
\<close>

theorem detail_endpoint_not_masked:
  assumes "load_order_full d oid = Some f" and "o_deleted_at (f_order f) = None"
    and "u_role caller = Customer" and "o_customer_id (f_order f) = u_id caller"
    and "distinct (map o_id (orders d))" and "is_customer_hidden now (f_order f)"
  shows "(\<forall>r \<in> set (list_orders now caller st limit d). rs_id r \<noteq> oid) \<and>
    get_order caller oid d = Inr (order_to_response_dict f) \<and>
    rs_delivery_address (order_to_response_dict f) = Some (o_delivery_address (f_order f)) \<and>
    rs_items (order_to_response_dict f) = map line_item_of (f_items f)"
proof (intro conjI ballI notI)
  fix r assume "r \<in> set (list_orders now caller st limit d)" and id: "rs_id r = oid"
  then obtain g where g: "g \<in> set (list_orders_for_caller caller st limit d)"
    and r: "render_for now caller g = Some r"
    by (auto simp: list_orders_def in_map_filter_iff)
  have "rs_id r = o_id (f_order g)" using r by (auto simp: render_for_def split: if_splits)
  with id list_orders_for_caller_in(4) [OF g assms(5)] assms(1) have "g = f" by simp
  with r assms(3,6) show False by (simp add: render_for_def)
qed (use assms in \<open>simp_all add: get_order_def get_order_for_caller_def ensure_can_view_def Let_def
    order_to_response_dict_def\<close>)

theorem detail_endpoint_not_masked_witness:
  "(\<forall>r \<in> set (list_orders 6000 sample_customer None 50 sample_view_db). rs_id r \<noteq> 100) \<and>
   (\<exists>r. get_order sample_customer 100 sample_view_db = Inr r \<and>
      rs_delivery_address r = Some sample_address)"
proof -
  let ?f = "\<lparr>f_order = sample_delivered, f_items = [], f_delivery = None, f_assignments = []\<rparr>"
  have "load_order_full sample_view_db 100 = Some ?f"
    by (simp add: load_order_full_def sample_view_db_def sample_delivered_def new_order_def
        sample_db_def empty_db_def)
  from detail_endpoint_not_masked [OF this, of sample_customer 6000]
  show ?thesis
    by (simp add: sample_delivered_def new_order_def sample_view_db_def sample_customer_def
        sample_user_def is_customer_hidden_def visible_after_def timedelta_defs)
qed

end
