(* ===== verification/Invites.thy ===== *)
theory Invites
  imports Sample_Data
begin

text \<open>
  Invite links (\<open>src/backend/app/services/invite_service.py\<close>): creating, sharing, replacing,
  listing, revoking, validating and consuming them. Tokens come from \<open>secrets\<close>; each
  operation takes the ones it draws as arguments.
\<close>

section \<open>Roles\<close>

primrec role_label :: "user_role \<Rightarrow> string" where
  "role_label Admin = ''admin''"
| "role_label Seller = ''seller''"
| "role_label Customer = ''customer''"
| "role_label Driver = ''driver''"

definition parse_role :: "string \<Rightarrow> user_role option" where
  "parse_role s = find (\<lambda>r. role_label r = s) [Admin, Seller, Customer, Driver]"

lemma parse_role_label [simp]: "parse_role (role_label r) = Some r"
  by (cases r) (simp_all add: parse_role_def)

lemma parse_role_SomeD: "parse_role s = Some r \<Longrightarrow> s = role_label r"
  by (auto simp: parse_role_def split: if_splits)

section \<open>State of a link\<close>

definition is_expired :: "time \<Rightarrow> invite_link \<Rightarrow> bool" where
  "is_expired now il = (case il_expires_at il of None \<Rightarrow> False | Some t \<Rightarrow> t < now)"

definition is_used :: "invite_link \<Rightarrow> bool" where
  "is_used il = (case il_max_uses il of None \<Rightarrow> False | Some m \<Rightarrow> il_used_count il \<ge> m)"

definition active_referral :: "uuid \<Rightarrow> invite_link \<Rightarrow> bool" where
  "active_referral issuer il \<longleftrightarrow>
     il_issuer_id il = issuer \<and> il_type il = SellerReferral \<and> il_revoked_at il = None"

text \<open>
  \<open>invite_links\<close> has its primary key, the unique token, and the partial unique index
  \<open>uq_invite_links_active_seller_referral\<close>.
\<close>

definition add_invite :: "invite_link \<Rightarrow> db \<Rightarrow> unit res \<times> db" where
  "add_invite il d =
     (if il_id il \<in> il_id ` set (invite_links d) \<or> il_token il \<in> il_token ` set (invite_links d) \<or>
         (active_referral (il_issuer_id il) il \<and>
          list_ex (active_referral (il_issuer_id il)) (invite_links d))
      then (Inl IntegrityError, d)
      else (Inr (), d\<lparr>invite_links := invite_links d @ [il]\<rparr>))"

definition set_invite :: "uuid \<Rightarrow> (invite_link \<Rightarrow> invite_link) \<Rightarrow> db \<Rightarrow> db" where
  "set_invite i f d = d\<lparr>invite_links := upd_row il_id i f (invite_links d)\<rparr>"

section \<open>Creating and listing\<close>

definition create_admin_invite ::
  "uuid \<Rightarrow> string \<Rightarrow> time \<Rightarrow> user \<Rightarrow> string \<Rightarrow> int \<Rightarrow> db \<Rightarrow> (invite_link \<times> string) res \<times> db" where
  "create_admin_invite new_id token now issuer role_target expires_in_hours d =
     (if u_role issuer \<noteq> Admin then (Inl (AuthorizationError ''PERMISSION_DENIED''), d)
      else case parse_role role_target of
        None \<Rightarrow> (Inl InviteInvalid, d)
      | Some role \<Rightarrow>
          (let il = \<lparr>il_id = new_id, il_issuer_id = u_id issuer, il_type = AdminInvite,
                     il_token = token, il_role_target = Some role, il_max_uses = Some 1,
                     il_used_count = 0, il_expires_at = Some (now + td_hours expires_in_hours),
                     il_revoked_at = None, il_created_at = now\<rparr>
           in case add_invite il d of
                (Inl e, d') \<Rightarrow> (Inl e, d')
              | (Inr _, d') \<Rightarrow> (Inr (il, token), d')))"

definition referral_link :: "uuid \<Rightarrow> string \<Rightarrow> time \<Rightarrow> user \<Rightarrow> invite_link" where
  "referral_link new_id token now seller_user =
     \<lparr>il_id = new_id, il_issuer_id = u_id seller_user, il_type = SellerReferral,
      il_token = token, il_role_target = None, il_max_uses = None, il_used_count = 0,
      il_expires_at = None, il_revoked_at = None, il_created_at = now\<rparr>"

definition get_or_create_seller_referral ::
  "uuid \<Rightarrow> string \<Rightarrow> time \<Rightarrow> user \<Rightarrow> db \<Rightarrow> (invite_link \<times> string) res \<times> db" where
  "get_or_create_seller_referral new_id token now seller_user d =
     (if u_role seller_user \<notin> {Seller, Admin} then (Inl (AuthorizationError ''PERMISSION_DENIED''), d)
      else case scalar_one_or_none (caller_seller_rows d (u_id seller_user)) of
        Inl e \<Rightarrow> (Inl e, d)
      | Inr None \<Rightarrow> (Inl (AuthorizationError ''PERMISSION_DENIED''), d)
      | Inr (Some s) \<Rightarrow>
          (case scalar_one_or_none (filter (active_referral (u_id seller_user)) (invite_links d)) of
             Inl e \<Rightarrow> (Inl e, d)
           | Inr (Some existing) \<Rightarrow> (Inr (existing, il_token existing), d)
           | Inr None \<Rightarrow>
               (let il = referral_link new_id token now seller_user
                in case add_invite il d of
                     (Inl e, d') \<Rightarrow> (Inl e, d')
                   | (Inr _, d') \<Rightarrow> (Inr (il, token), d'))))"

definition regenerate_seller_referral ::
  "uuid \<Rightarrow> string \<Rightarrow> time \<Rightarrow> user \<Rightarrow> db \<Rightarrow> (invite_link \<times> string) res \<times> db" where
  "regenerate_seller_referral new_id token now seller_user d =
     (if u_role seller_user \<notin> {Seller, Admin} then (Inl (AuthorizationError ''PERMISSION_DENIED''), d)
      else case scalar_one_or_none (caller_seller_rows d (u_id seller_user)) of
        Inl e \<Rightarrow> (Inl e, d)
      | Inr None \<Rightarrow> (Inl (AuthorizationError ''PERMISSION_DENIED''), d)
      | Inr (Some s) \<Rightarrow>
          (let d1 = d\<lparr>invite_links := update_where (active_referral (u_id seller_user))
                        (\<lambda>il. il\<lparr>il_revoked_at := Some now\<rparr>) (invite_links d)\<rparr>;
               il = referral_link new_id token now seller_user
           in case add_invite il d1 of
                (Inl e, d') \<Rightarrow> (Inl e, d')
              | (Inr _, d') \<Rightarrow> (Inr (il, token), d')))"

definition list_own_invites :: "user \<Rightarrow> db \<Rightarrow> invite_link list" where
  "list_own_invites user d =
     (case u_role user of
        Admin \<Rightarrow> order_desc il_created_at
          (filter (\<lambda>il. il_issuer_id il = u_id user \<and> il_type il = AdminInvite) (invite_links d))
      | Seller \<Rightarrow> order_desc il_created_at
          (filter (\<lambda>il. il_issuer_id il = u_id user \<and> il_type il = SellerReferral) (invite_links d))
      | _ \<Rightarrow> [])"

section \<open>Revoking, validating, consuming\<close>

definition revoke_invite :: "time \<Rightarrow> user \<Rightarrow> uuid \<Rightarrow> db \<Rightarrow> unit res \<times> db" where
  "revoke_invite now user invite_id d =
     (case get_row il_id invite_id (invite_links d) of
        None \<Rightarrow> (Inl (NotFoundError ''NOT_FOUND''), d)
      | Some il \<Rightarrow>
          if is_used il then (Inl InviteAlreadyUsed, d)
          else if u_role user = Seller \<and> (il_issuer_id il \<noteq> u_id user \<or> il_type il \<noteq> SellerReferral)
          then (Inl (AuthorizationError ''PERMISSION_DENIED''), d)
          else if u_role user \<notin> {Admin, Seller}
          then (Inl (AuthorizationError ''PERMISSION_DENIED''), d)
          else (Inr (), set_invite invite_id (\<lambda>r. r\<lparr>il_revoked_at := Some now\<rparr>) d))"

record validation =
  va_type :: "invite_link_type option"
  va_role_target :: "user_role option"
  va_issuer_display_name :: string
  va_issuer_role :: string
  va_valid :: bool
  va_already_used :: bool
  va_expired :: bool
  va_revoked :: bool

definition validate_invite :: "time \<Rightarrow> string \<Rightarrow> db \<Rightarrow> validation" where
  "validate_invite now token d =
     (case get_row il_token token (invite_links d) of
        None \<Rightarrow> \<lparr>va_type = None, va_role_target = None, va_issuer_display_name = '''',
                va_issuer_role = '''', va_valid = False, va_already_used = False,
                va_expired = False, va_revoked = False\<rparr>
      | Some il \<Rightarrow>
          (let issuer = get_row u_id (il_issuer_id il) (users d);
               expired = is_expired now il; revoked = (il_revoked_at il \<noteq> None); used = is_used il
           in \<lparr>va_type = Some (il_type il), va_role_target = il_role_target il,
               va_issuer_display_name = (case issuer of None \<Rightarrow> '''' | Some u \<Rightarrow> u_display_name u),
               va_issuer_role = (case issuer of None \<Rightarrow> '''' | Some u \<Rightarrow> role_label (u_role u)),
               va_valid = (\<not> expired \<and> \<not> revoked \<and> \<not> used),
               va_already_used = used, va_expired = expired, va_revoked = revoked\<rparr>))"

text \<open>The role check of \<open>consume_invite\<close>, by the type of the link.\<close>

definition role_permitted :: "invite_link \<Rightarrow> string option \<Rightarrow> db \<Rightarrow> unit res" where
  "role_permitted il chosen d =
     (case il_type il of
        AdminInvite \<Rightarrow>
          if chosen \<noteq> None \<and> chosen \<noteq> map_option role_label (il_role_target il)
          then Inl InviteRoleMismatch
          else if il_role_target il = None then Inl InviteInvalid
          else Inr ()
      | SellerReferral \<Rightarrow>
          if chosen \<notin> {Some ''customer'', Some ''seller''} then Inl InviteRoleMismatch
          else (case get_row u_id (il_issuer_id il) (users d) of
                  None \<Rightarrow> Inl InviteInvalid
                | Some issuer \<Rightarrow>
                    if u_role issuer \<noteq> Seller then Inl InviteInvalid
                    else (case scalar_one_or_none (caller_seller_rows d (il_issuer_id il)) of
                            Inl e \<Rightarrow> Inl e
                          | Inr None \<Rightarrow> Inl InviteInvalid
                          | Inr (Some _) \<Rightarrow> Inr ())))"

definition consume_invite ::
  "time \<Rightarrow> string \<Rightarrow> string option \<Rightarrow> db \<Rightarrow> invite_link res \<times> db" where
  "consume_invite now token chosen d =
     (case get_row il_token token (invite_links d) of
        None \<Rightarrow> (Inl InviteInvalid, d)
      | Some il \<Rightarrow>
          if il_revoked_at il \<noteq> None then (Inl InviteRevoked, d)
          else if is_expired now il then (Inl InviteExpired, d)
          else if is_used il then (Inl InviteAlreadyUsed, d)
          else (case role_permitted il chosen d of
                  Inl e \<Rightarrow> (Inl e, d)
                | Inr _ \<Rightarrow>
                    (let f = (\<lambda>r. r\<lparr>il_used_count := il_used_count il + 1\<rparr>)
                     in (Inr (f il), set_invite (il_id il) f d))))"

section \<open>Lemmas\<close>

lemma set_invite_frame [simp]:
  "users (set_invite i f d) = users d" "referrals (set_invite i f d) = referrals d"
  "refresh_tokens (set_invite i f d) = refresh_tokens d" "sellers (set_invite i f d) = sellers d"
  "invite_links (set_invite i f d) = upd_row il_id i f (invite_links d)"
  by (simp_all add: set_invite_def)

lemma consume_invite_success:
  assumes "consume_invite now token chosen d = (Inr il', d')"
  obtains il where "get_row il_token token (invite_links d) = Some il"
    "il_revoked_at il = None" "\<not> is_expired now il" "\<not> is_used il"
    "role_permitted il chosen d = Inr ()" "il' = il\<lparr>il_used_count := il_used_count il + 1\<rparr>"
    "d' = set_invite (il_id il) (\<lambda>r. r\<lparr>il_used_count := il_used_count il + 1\<rparr>) d"
  using assms
  by (auto simp: consume_invite_def Let_def split: option.splits if_splits sum.splits)

lemma role_permitted_admin:
  "role_permitted il chosen d = Inr u \<Longrightarrow> il_type il = AdminInvite \<Longrightarrow>
   \<exists>r. il_role_target il = Some r \<and> (chosen = None \<or> chosen = Some (role_label r))"
  by (auto simp: role_permitted_def split: if_splits)

lemma role_permitted_referral:
  "role_permitted il chosen d = Inr u \<Longrightarrow> il_type il = SellerReferral \<Longrightarrow>
   chosen \<in> {Some ''customer'', Some ''seller''} \<and>
   (\<exists>issuer. get_row u_id (il_issuer_id il) (users d) = Some issuer \<and> u_role issuer = Seller)"
  by (auto simp: role_permitted_def split: if_splits option.splits)

lemma add_invite_Inr:
  "add_invite il d = (Inr u, d') \<longleftrightarrow>
     il_id il \<notin> il_id ` set (invite_links d) \<and> il_token il \<notin> il_token ` set (invite_links d) \<and>
     (active_referral (il_issuer_id il) il \<longrightarrow>
        (\<forall>r \<in> set (invite_links d). \<not> active_referral (il_issuer_id il) r)) \<and>
     d' = d\<lparr>invite_links := invite_links d @ [il]\<rparr>"
  by (auto simp: add_invite_def list_ex_iff)

section \<open>The invariant of the table\<close>

text \<open>
  Unique keys, no link used more often than allowed, at most one active referral link per
  issuer, and as many referral rows per link as it was used.
\<close>

definition link_ok :: "referral list \<Rightarrow> invite_link \<Rightarrow> bool" where
  "link_ok refs il \<longleftrightarrow>
     (case il_max_uses il of None \<Rightarrow> True | Some m \<Rightarrow> il_used_count il \<le> m) \<and>
     (il_type il = AdminInvite \<longrightarrow> il_max_uses il = Some 1) \<and>
     il_used_count il = int (length (filter (\<lambda>rf. rf_invite_link_id rf = il_id il) refs))"

definition invites_inv :: "db \<Rightarrow> bool" where
  "invites_inv d \<longleftrightarrow>
     distinct (map il_id (invite_links d)) \<and> distinct (map il_token (invite_links d)) \<and>
     (\<forall>il \<in> set (invite_links d). link_ok (referrals d) il) \<and>
     (\<forall>issuer. length (filter (active_referral issuer) (invite_links d)) \<le> 1) \<and>
     (\<forall>rf \<in> set (referrals d). rf_invite_link_id rf \<in> il_id ` set (invite_links d))"

lemma invites_inv_add:
  assumes "invites_inv d" and "add_invite il d = (Inr u, d')" and "il_used_count il = 0"
    and "il_type il = AdminInvite \<longrightarrow> il_max_uses il = Some 1"
    and "case il_max_uses il of None \<Rightarrow> True | Some m \<Rightarrow> 0 \<le> m"
  shows "invites_inv d'"
proof -
  note a = assms(2) [unfolded add_invite_Inr]
  have "\<forall>rf \<in> set (referrals d). rf_invite_link_id rf \<in> il_id ` set (invite_links d)"
    using assms(1) by (simp add: invites_inv_def)
  with a have "filter (\<lambda>rf. rf_invite_link_id rf = il_id il) (referrals d) = []"
    unfolding filter_empty_conv by metis
  then have "link_ok (referrals d) il" using assms(3-5) by (simp add: link_ok_def split: option.splits)
  moreover have "length (filter (active_referral issuer) (invite_links d @ [il])) \<le> 1" for issuer
  proof (cases "active_referral issuer il")
    case True
    then have "issuer = il_issuer_id il" by (simp add: active_referral_def)
    with True a have "filter (active_referral issuer) (invite_links d) = []"
      by (auto simp: filter_empty_conv)
    then show ?thesis by simp
  next
    case False
    with assms(1) show ?thesis by (simp add: invites_inv_def)
  qed
  ultimately show ?thesis using assms(1) a by (auto simp: invites_inv_def)
qed

lemma invites_inv_revoke:
  assumes "invites_inv d" and f: "\<And>il. p il \<Longrightarrow> f il = il\<lparr>il_revoked_at := Some now\<rparr>"
  shows "invites_inv (d\<lparr>invite_links := update_where p f (invite_links d)\<rparr>)"
proof -
  let ?rows = "update_where p f (invite_links d)"
  have keys: "map il_id ?rows = map il_id (invite_links d)"
    "map il_token ?rows = map il_token (invite_links d)"
    by (simp_all add: map_key_update_where f)
  have "length (filter (active_referral issuer) (update_where p f rows)) \<le>
      length (filter (active_referral issuer) rows)" for issuer rows
    by (induction rows) (auto simp: f active_referral_def)
  with assms(1) have "\<forall>issuer. length (filter (active_referral issuer) ?rows) \<le> 1"
    unfolding invites_inv_def by (meson le_trans)
  moreover have "il_id ` set ?rows = il_id ` set (invite_links d)"
    using keys(1) by (simp only: set_map [symmetric])
  moreover have "link_ok refs (f il) = link_ok refs il" if "p il" for refs il
    using that by (simp add: f link_ok_def split: option.splits)
  ultimately show ?thesis
    using assms(1) keys by (auto simp: invites_inv_def set_update_where simp del: if_image_distrib)
qed

lemma create_admin_invite_inv:
  assumes "invites_inv d" and "create_admin_invite i tok now u role h d = (Inr r, d')"
  shows "invites_inv d'"
  using assms(2) by (auto simp: create_admin_invite_def Let_def
      split: if_splits option.splits prod.splits sum.splits intro: invites_inv_add [OF assms(1)])

lemma get_or_create_seller_referral_inv:
  assumes "invites_inv d" and "get_or_create_seller_referral i tok now u d = (Inr r, d')"
  shows "invites_inv d'"
proof -
  have "invites_inv d1" if "add_invite (referral_link i tok now u) d = (Inr x, d1)" for x d1
    using assms(1) that by (rule invites_inv_add) (simp_all add: referral_link_def)
  with assms show ?thesis by (auto simp: get_or_create_seller_referral_def Let_def
      split: if_splits option.splits prod.splits sum.splits)
qed

lemma regenerate_seller_referral_inv:
  assumes "invites_inv d" and "regenerate_seller_referral i tok now u d = (Inr r, d')"
  shows "invites_inv d'"
proof -
  let ?d1 = "d\<lparr>invite_links := update_where (active_referral (u_id u))
                        (\<lambda>il. il\<lparr>il_revoked_at := Some now\<rparr>) (invite_links d)\<rparr>"
  have "invites_inv ?d1" using assms(1) by (rule invites_inv_revoke) simp
  then have "invites_inv d2" if "add_invite (referral_link i tok now u) ?d1 = (Inr x, d2)" for x d2
    using that by (rule invites_inv_add) (simp_all add: referral_link_def)
  with assms show ?thesis by (auto simp: regenerate_seller_referral_def Let_def
      split: if_splits option.splits prod.splits sum.splits)
qed

lemma revoke_invite_inv:
  assumes "invites_inv d" and "revoke_invite now u i d = (Inr r, d')"
  shows "invites_inv d'"
proof -
  from assms(2) have "d' = d\<lparr>invite_links := update_where (\<lambda>il. il_id il = i)
      (\<lambda>il. il\<lparr>il_revoked_at := Some now\<rparr>) (invite_links d)\<rparr>"
    by (auto simp: revoke_invite_def set_invite_def upd_row_def split: option.splits if_splits)
  with invites_inv_revoke [OF assms(1)] show ?thesis by simp
qed

end
