(* ===== verification/Tokens.thy ===== *)
theory Tokens
  imports Invites
begin

text \<open>
  Access tokens and the request guards: key rotation in \<open>core/config.py\<close>, issuing and decoding
  in \<open>core/security.py\<close>, \<open>get_current_user\<close> and \<open>require_roles\<close> of \<open>api/deps.py\<close>, and the
  authentication of a WebSocket in \<open>ws/gateway.py\<close>. The JOSE library is the pair of
  parameters \<open>enc\<close> and \<open>dec\<close>; a token is a value of any type \<open>'t\<close>.
\<close>

section \<open>Settings\<close>

record settings =
  jwt_secret :: string
  jwt_secret_primary :: string
  jwt_secret_secondary :: string
  jwt_access_token_expire_minutes :: int
  jwt_refresh_token_expire_days :: int

definition jwt_signing_key :: "settings \<Rightarrow> string" where
  "jwt_signing_key cfg = (if jwt_secret_primary cfg \<noteq> [] then jwt_secret_primary cfg else jwt_secret cfg)"

definition jwt_verification_keys :: "settings \<Rightarrow> string list" where
  "jwt_verification_keys cfg =
     (let keys = foldl (\<lambda>keys c. if c \<noteq> [] \<and> c \<notin> set keys then keys @ [c] else keys) []
                   [jwt_secret_primary cfg, jwt_secret cfg, jwt_secret_secondary cfg]
      in if keys = [] then [jwt_secret cfg] else keys)"

lemma jwt_verification_keys_nonempty [simp]: "jwt_verification_keys cfg \<noteq> []"
  by (simp add: jwt_verification_keys_def Let_def)

lemma jwt_verification_keys_distinct: "distinct (jwt_verification_keys cfg)"
  by (auto simp: jwt_verification_keys_def Let_def)

lemma signing_key_verifies:
  "jwt_signing_key cfg \<noteq> [] \<Longrightarrow> jwt_signing_key cfg \<in> set (jwt_verification_keys cfg)"
  by (auto simp: jwt_verification_keys_def jwt_signing_key_def Let_def)

section \<open>Tokens\<close>

text \<open>
  The claims a token is made of. The encoded token holds its times as numeric dates, in whole
  seconds; of a decoded payload any key may be missing.
\<close>

record claims =
  cl_sub :: uuid
  cl_role :: user_role
  cl_jti :: string
  cl_exp :: time
  cl_iat :: time

record jwt_payload =
  pl_sub :: "uuid option"
  pl_role :: "user_role option"
  pl_jti :: "string option"
  pl_exp :: "int option"
  pl_iat :: "int option"

definition numeric_date :: "time \<Rightarrow> int" where
  "numeric_date t = t div td_seconds 1"

definition from_timestamp :: "int \<Rightarrow> time" where
  "from_timestamp n = td_seconds n"

record access_token_payload =
  at_sub :: uuid
  at_role :: user_role
  at_jti :: string
  at_exp :: time
  at_iat :: time

text \<open>A \<open>JWTError\<close> either says that the token expired or anything else.\<close>

datatype jwt_error = JExpired | JInvalid

definition create_access_token ::
  "(string \<Rightarrow> claims \<Rightarrow> 't) \<Rightarrow> settings \<Rightarrow> string \<Rightarrow> time \<Rightarrow> uuid \<Rightarrow> user_role \<Rightarrow> 't \<times> time" where
  "create_access_token enc cfg jti now uid role =
     (let exp = now + td_minutes (jwt_access_token_expire_minutes cfg) in
      (enc (jwt_signing_key cfg)
         \<lparr>cl_sub = uid, cl_role = role, cl_jti = jti, cl_exp = exp, cl_iat = now\<rparr>,
       exp))"

text \<open>The loop over the verification keys; \<open>seen\<close> tells whether \<open>last_exc\<close> is set.\<close>

primrec decode_keys ::
  "(time \<Rightarrow> 't \<Rightarrow> string \<Rightarrow> jwt_error + jwt_payload) \<Rightarrow> time \<Rightarrow> 't \<Rightarrow> bool \<Rightarrow> string list \<Rightarrow>
   jwt_payload res" where
  "decode_keys dec now tok seen [] = (if seen then Inl InvalidTokenError else Inl AssertionError)"
| "decode_keys dec now tok seen (k # ks) =
     (case dec now tok k of
        Inr p \<Rightarrow> Inr p
      | Inl JExpired \<Rightarrow> Inl TokenExpired
      | Inl JInvalid \<Rightarrow> decode_keys dec now tok True ks)"

definition decode_access_token ::
  "(time \<Rightarrow> 't \<Rightarrow> string \<Rightarrow> jwt_error + jwt_payload) \<Rightarrow> settings \<Rightarrow> time \<Rightarrow> 't \<Rightarrow> access_token_payload res" where
  "decode_access_token dec cfg now tok =
     (case decode_keys dec now tok False (jwt_verification_keys cfg) of
        Inl e \<Rightarrow> Inl e
      | Inr p \<Rightarrow>
          (case (pl_sub p, pl_role p, pl_jti p, pl_exp p, pl_iat p) of
             (Some s, Some r, Some j, Some e, Some i) \<Rightarrow>
               Inr \<lparr>at_sub = s, at_role = r, at_jti = j, at_exp = from_timestamp e,
                    at_iat = from_timestamp i\<rparr>
           | _ \<Rightarrow> Inl InvalidTokenError))"

section \<open>Guards\<close>

text \<open>
  Every error of \<open>decode_access_token\<close> but a failing assertion is an \<open>AuthenticationError\<close> and
  passes; an assertion becomes one.
\<close>

definition get_current_user ::
  "(time \<Rightarrow> 't \<Rightarrow> string \<Rightarrow> jwt_error + jwt_payload) \<Rightarrow> settings \<Rightarrow> time \<Rightarrow> 't option \<Rightarrow> db \<Rightarrow> user res" where
  "get_current_user dec cfg now cred d =
     (case cred of
        None \<Rightarrow> Inl (AuthenticationError ''AUTH_TOKEN_INVALID'')
      | Some tok \<Rightarrow>
          (case decode_access_token dec cfg now tok of
             Inl e \<Rightarrow> Inl (if e = AssertionError then AuthenticationError ''AUTH_TOKEN_INVALID'' else e)
           | Inr p \<Rightarrow>
               (case get_row u_id (at_sub p) (users d) of
                  None \<Rightarrow> Inl (AuthenticationError ''AUTH_TOKEN_INVALID'')
                | Some u \<Rightarrow>
                    if u_deleted_at u \<noteq> None then Inl (AuthenticationError ''AUTH_TOKEN_INVALID'')
                    else if \<not> u_is_active u \<or> u_disabled_at u \<noteq> None
                    then Inl (AuthenticationError ''AUTH_TOKEN_INVALID'')
                    else if u_status u = USuspended
                    then Inl (AuthenticationError ''AUTH_ACCOUNT_SUSPENDED'')
                    else Inr u)))"

definition require_roles :: "user_role list \<Rightarrow> user \<Rightarrow> user res" where
  "require_roles roles u =
     (if u_role u \<notin> set roles then Inl (AuthorizationError ''PERMISSION_DENIED'') else Inr u)"

definition get_current_admin ::
  "(time \<Rightarrow> 't \<Rightarrow> string \<Rightarrow> jwt_error + jwt_payload) \<Rightarrow> settings \<Rightarrow> time \<Rightarrow> 't option \<Rightarrow> db \<Rightarrow> user res" where
  "get_current_admin dec cfg now cred d =
     (case get_current_user dec cfg now cred d of
        Inl e \<Rightarrow> Inl e | Inr u \<Rightarrow> require_roles [Admin] u)"

text \<open>The WebSocket handshake; \<open>None\<close> closes the connection with 4401.\<close>

definition ws_authenticate ::
  "(time \<Rightarrow> 't \<Rightarrow> string \<Rightarrow> jwt_error + jwt_payload) \<Rightarrow> settings \<Rightarrow> time \<Rightarrow> 't option \<Rightarrow> db \<Rightarrow> user option" where
  "ws_authenticate dec cfg now cred d =
     (case cred of
        None \<Rightarrow> None
      | Some tok \<Rightarrow>
          (case decode_access_token dec cfg now tok of
             Inl e \<Rightarrow> None
           | Inr p \<Rightarrow>
               (case get_row u_id (at_sub p) (users d) of
                  None \<Rightarrow> None
                | Some u \<Rightarrow>
                    if u_deleted_at u \<noteq> None \<or> \<not> u_is_active u \<or> u_disabled_at u \<noteq> None
                    then None else Some u)))"

section \<open>What the JOSE library promises\<close>

text \<open>
  \<open>jwt.encode\<close> writes the times of the claims as whole seconds. \<open>jwt.decode\<close> checks the signature
  and then compares \<open>exp\<close> with the current time, also in whole seconds: a token decodes to what was
  encoded under the key it was signed with, until the clock shows a later second than its expiry,
  and under no other key.
\<close>

definition encoded :: "claims \<Rightarrow> jwt_payload" where
  "encoded c = \<lparr>pl_sub = Some (cl_sub c), pl_role = Some (cl_role c), pl_jti = Some (cl_jti c),
     pl_exp = Some (numeric_date (cl_exp c)), pl_iat = Some (numeric_date (cl_iat c))\<rparr>"

definition jose_ok :: "(string \<Rightarrow> claims \<Rightarrow> 't) \<Rightarrow> (time \<Rightarrow> 't \<Rightarrow> string \<Rightarrow> jwt_error + jwt_payload) \<Rightarrow> bool" where
  "jose_ok enc dec \<longleftrightarrow>
     (\<forall>now k k' c. dec now (enc k c) k' =
        (if k' \<noteq> k then Inl JInvalid
         else if numeric_date (cl_exp c) < numeric_date now then Inl JExpired
         else Inr (encoded c)))"

definition toy_dec :: "time \<Rightarrow> string \<times> claims \<Rightarrow> string \<Rightarrow> jwt_error + jwt_payload" where
  "toy_dec now t k' =
     (if k' \<noteq> fst t then Inl JInvalid
      else if numeric_date (cl_exp (snd t)) < numeric_date now then Inl JExpired
      else Inr (encoded (snd t)))"

lemma jose_ok_toy: "jose_ok Pair toy_dec"
  by (simp add: jose_ok_def toy_dec_def)

lemma decode_keys_own:
  assumes "jose_ok enc dec"
  shows "decode_keys dec now (enc k c) seen ks =
    (if k \<in> set ks
     then (if numeric_date (cl_exp c) < numeric_date now then Inl TokenExpired else Inr (encoded c))
     else if seen \<or> ks \<noteq> [] then Inl InvalidTokenError else Inl AssertionError)"
  using assms by (induction ks arbitrary: seen) (auto simp: jose_ok_def)

section \<open>Properties\<close>

text \<open>
  C12: signing keys rotate without logging anybody out. A token is accepted exactly while its key
  is still among the verification keys, whatever the position of the key in the list, and the
  clock does not show a later whole second than its expiry; what is read from it is what was
  signed, its times cut to whole seconds. An expired token is told apart from one signed with an
  unknown key.
\<close>

theorem access_token_survives_rotation:
  assumes "jose_ok enc dec"
    and "create_access_token enc cfg jti issued uid role = (tok, till)"
  shows "decode_access_token dec cfg' now tok =
    (if jwt_signing_key cfg \<in> set (jwt_verification_keys cfg')
     then (if numeric_date till < numeric_date now then Inl TokenExpired
           else Inr \<lparr>at_sub = uid, at_role = role, at_jti = jti,
                     at_exp = from_timestamp (numeric_date till),
                     at_iat = from_timestamp (numeric_date issued)\<rparr>)
     else Inl InvalidTokenError)"
  using assms(2) decode_keys_own [OF assms(1)]
  by (auto simp: create_access_token_def decode_access_token_def encoded_def Let_def)

definition sample_settings :: settings where
  "sample_settings = \<lparr>jwt_secret = ''a'', jwt_secret_primary = ''b'', jwt_secret_secondary = '''',
     jwt_access_token_expire_minutes = 15, jwt_refresh_token_expire_days = 7\<rparr>"

theorem access_token_survives_rotation_witness:
  "decode_access_token toy_dec (sample_settings\<lparr>jwt_secret_primary := ''c'', jwt_secret_secondary := ''b''\<rparr>)
     (td_minutes 15 + 999999) (fst (create_access_token Pair sample_settings ''j'' 7 3 Customer)) =
   Inr \<lparr>at_sub = 3, at_role = Customer, at_jti = ''j'', at_exp = td_minutes 15, at_iat = 0\<rparr>"
proof -
  have "create_access_token Pair sample_settings ''j'' 7 3 Customer =
     (fst (create_access_token Pair sample_settings ''j'' 7 3 Customer), td_minutes 15 + 7)"
    by (simp add: create_access_token_def Let_def sample_settings_def)
  from access_token_survives_rotation [OF jose_ok_toy this] show ?thesis
    by (simp add: jwt_signing_key_def jwt_verification_keys_def Let_def sample_settings_def
        numeric_date_def from_timestamp_def timedelta_defs)
qed

text \<open>
  C11: a request passes the guard only for the live, active, unsuspended account its token
  names, and an administrator endpoint only for an administrator by the database, whatever
  role the token claims.
\<close>

theorem get_current_admin_only_live_admins:
  assumes "get_current_admin dec cfg now cred d = Inr u"
  shows "u \<in> set (users d) \<and> u_role u = Admin \<and> u_deleted_at u = None \<and> u_is_active u \<and>
    u_disabled_at u = None \<and> u_status u = UActive \<and>
    (\<exists>tok p. cred = Some tok \<and> decode_access_token dec cfg now tok = Inr p \<and> at_sub p = u_id u)"
proof -
  have "u_status u = UActive" if "u_status u \<noteq> USuspended" using that by (cases "u_status u") auto
  with assms show ?thesis
    by (auto simp: get_current_admin_def get_current_user_def require_roles_def
        split: option.splits sum.splits if_splits dest: get_row_SomeD)
qed

theorem get_current_admin_only_live_admins_witness:
  "sample_admin \<in> set (users sample_db) \<and> u_role sample_admin = Admin"
proof -
  let ?tok = "fst (create_access_token Pair sample_settings ''j'' 0 1 Customer)"
  have "get_current_admin toy_dec sample_settings 5 (Some ?tok) sample_db = Inr sample_admin"
    by (simp add: get_current_admin_def get_current_user_def require_roles_def decode_access_token_def
        create_access_token_def toy_dec_def sample_settings_def jwt_signing_key_def
        jwt_verification_keys_def Let_def sample_defs timedelta_defs numeric_date_def encoded_def
        from_timestamp_def)
  then show ?thesis using get_current_admin_only_live_admins by blast
qed

text \<open>
  The WebSocket handshake does not apply the suspension check of the REST guard: with a
  valid token a suspended account is refused by every endpoint and accepted on the socket.
\<close>

theorem suspended_account_keeps_websocket:
  assumes "decode_access_token dec cfg now tok = Inr p"
    and "get_row u_id (at_sub p) (users d) = Some u"
    and "u_deleted_at u = None" and "u_is_active u" and "u_disabled_at u = None"
    and "u_status u = USuspended"
  shows "get_current_user dec cfg now (Some tok) d = Inl (AuthenticationError ''AUTH_ACCOUNT_SUSPENDED'') \<and>
    ws_authenticate dec cfg now (Some tok) d = Some u"
  using assms by (simp add: get_current_user_def ws_authenticate_def)

theorem suspended_account_keeps_websocket_witness:
  "ws_authenticate toy_dec sample_settings 5
     (Some (fst (create_access_token Pair sample_settings ''j'' 0 4 Driver)))
     (sample_db\<lparr>users := [sample_driver\<lparr>u_status := USuspended\<rparr>]\<rparr>) = Some (sample_driver\<lparr>u_status := USuspended\<rparr>)"
proof -
  let ?tok = "fst (create_access_token Pair sample_settings ''j'' 0 4 Driver)"
  let ?d = "sample_db\<lparr>users := [sample_driver\<lparr>u_status := USuspended\<rparr>]\<rparr>"
  have "decode_access_token toy_dec sample_settings 5 ?tok =
      Inr \<lparr>at_sub = 4, at_role = Driver, at_jti = ''j'', at_exp = td_minutes 15, at_iat = 0\<rparr>"
    by (simp add: decode_access_token_def create_access_token_def toy_dec_def sample_settings_def
        jwt_signing_key_def jwt_verification_keys_def Let_def timedelta_defs numeric_date_def encoded_def
        from_timestamp_def)
  from suspended_account_keeps_websocket [OF this, of ?d "sample_driver\<lparr>u_status := USuspended\<rparr>"]
  show ?thesis by (simp add: sample_driver_def sample_user_def)
qed

end
