(* ===== verification/Catalogue.thy ===== *)
theory Catalogue
  imports Tokens Strings
begin

text \<open>
  Stores, products and seller profiles: \<open>services/store_service.py\<close>,
  \<open>services/product_service.py\<close>, \<open>services/seller_service.py\<close> and their routers
  \<open>api/v1/stores.py\<close>, \<open>products.py\<close>, \<open>sellers.py\<close> under \<open>src/backend/app\<close>. Strings are
  ASCII. \<open>sellers.bio\<close> and \<open>country_code\<close>, which the services only hand through, are left out.
\<close>

section \<open>Slugs\<close>

definition slug_char :: "char \<Rightarrow> bool" where
  "slug_char c = (let n = of_char c :: nat in (97 \<le> n \<and> n \<le> 122) \<or> (48 \<le> n \<and> n \<le> 57))"

text \<open>
  \<open>re.sub("[^a-z0-9]+", "-", s)\<close>: one dash for each maximal run; the flag says that the
  scan is inside a run that already has its dash.
\<close>

primrec dash_runs :: "bool \<Rightarrow> string \<Rightarrow> string" where
  "dash_runs inside [] = []"
| "dash_runs inside (c # cs) =
     (if slug_char c then c # dash_runs False cs
      else if inside then dash_runs True cs
      else CHR ''-'' # dash_runs True cs)"

definition strip_dashes :: "string \<Rightarrow> string" where
  "strip_dashes s = rev (dropWhile (\<lambda>c. c = CHR ''-'') (rev (dropWhile (\<lambda>c. c = CHR ''-'') s)))"

definition slugify :: "string \<Rightarrow> string" where
  "slugify v = (let s = strip_dashes (dash_runs False (lower v)) in if s = [] then ''store'' else s)"

definition slug_candidate :: "string \<Rightarrow> nat \<Rightarrow> string" where
  "slug_candidate base n = (if n = 0 then base else base @ ''-'' @ decimal n)"

lemma slug_candidate_inject: "slug_candidate base m = slug_candidate base n \<longleftrightarrow> m = n"
proof
  assume eq: "slug_candidate base m = slug_candidate base n"
  then have "m = 0 \<longleftrightarrow> n = 0" by (auto simp: slug_candidate_def split: if_splits)
  with eq have "m = 0 \<and> n = 0 \<or> decimal m = decimal n"
    by (auto simp: slug_candidate_def split: if_splits)
  then show "m = n" by (metis decimal_value)
qed simp

lemma finite_taken_suffixes: "finite {k. n \<le> k \<and> slug_candidate base k \<in> S}" if "finite S"
proof -
  have "finite (slug_candidate base -` S)"
    using that by (intro finite_vimageI injI) (simp_all add: slug_candidate_inject)
  then show ?thesis by (rule rev_finite_subset) auto
qed

text \<open>
  The \<open>while True\<close> of \<open>_unique_slug\<close>, from the candidate with suffix \<open>n\<close>. It ends because
  the taken slugs are finitely many and no candidate comes twice.
\<close>

function unique_slug_loop :: "store list \<Rightarrow> string \<Rightarrow> nat \<Rightarrow> string res" where
  "unique_slug_loop ss base n =
     (case scalar_one_or_none (filter (\<lambda>st. st_slug st = slug_candidate base n) ss) of
        Inl e \<Rightarrow> Inl e
      | Inr None \<Rightarrow> Inr (slug_candidate base n)
      | Inr (Some _) \<Rightarrow> unique_slug_loop ss base (Suc n))"
  by pat_completeness auto

termination
proof (relation "measure (\<lambda>(ss, base, n). card {k. n \<le> k \<and> slug_candidate base k \<in> st_slug ` set ss})")
  fix ss :: "store list" and base n and r :: "store option" and st
  let ?T = "\<lambda>n. {k. n \<le> k \<and> slug_candidate base k \<in> st_slug ` set ss}"
  assume "scalar_one_or_none (filter (\<lambda>st. st_slug st = slug_candidate base n) ss) = Inr r"
    and "r = Some st"
  then have "filter (\<lambda>st. st_slug st = slug_candidate base n) ss = [st]"
    by (simp add: scalar_one_or_none_cases)
  then have "st \<in> set ss \<and> st_slug st = slug_candidate base n"
    by (auto simp: filter_eq_Cons_iff)
  then have "n \<in> ?T n" by (auto intro!: rev_image_eqI)
  moreover have "n \<notin> ?T (Suc n)" and "?T (Suc n) \<subseteq> ?T n" by auto
  ultimately have "?T (Suc n) \<subset> ?T n" by blast
  then have "card (?T (Suc n)) < card (?T n)"
    by (intro psubset_card_mono finite_taken_suffixes) simp_all
  then show "((ss, base, Suc n), ss, base, n)
      \<in> measure (\<lambda>(ss, base, n). card {k. n \<le> k \<and> slug_candidate base k \<in> st_slug ` set ss})"
    by simp
qed simp

declare unique_slug_loop.simps [simp del]

definition unique_slug :: "store list \<Rightarrow> string \<Rightarrow> string res" where
  "unique_slug ss base = unique_slug_loop ss base 0"

section \<open>Stores\<close>

definition set_store :: "uuid \<Rightarrow> (store \<Rightarrow> store) \<Rightarrow> db \<Rightarrow> db" where
  "set_store i f d = d\<lparr>stores := upd_row st_id i f (stores d)\<rparr>"

definition set_city :: "uuid \<Rightarrow> string \<Rightarrow> db \<Rightarrow> db" where
  "set_city sid city d = d\<lparr>sellers := upd_row s_id sid (\<lambda>s. s\<lparr>s_city := city\<rparr>) (sellers d)\<rparr>"

text \<open>
  Inserting into \<open>stores\<close>: \<open>name\<close> and \<open>slug\<close> are \<open>VARCHAR(255)\<close>, a longer value is PostgreSQL's
  \<open>StringDataRightTruncation\<close>; then come the primary key, \<open>uq_stores_seller_id\<close> and
  \<open>uq_stores_slug\<close>. \<open>uq_stores_seller_id\<close> counts soft-deleted stores, too.
\<close>

definition add_store :: "store \<Rightarrow> db \<Rightarrow> unit res \<times> db" where
  "add_store st d =
     (if 255 < length (st_name st) \<or> 255 < length (st_slug st) then (Inl DataError, d)
      else if st_id st \<in> st_id ` set (stores d) \<or> st_seller_id st \<in> st_seller_id ` set (stores d) \<or>
              st_slug st \<in> st_slug ` set (stores d)
      then (Inl IntegrityError, d)
      else (Inr (), d\<lparr>stores := stores d @ [st]\<rparr>))"

definition live_store_rows :: "db \<Rightarrow> uuid \<Rightarrow> store list" where
  "live_store_rows d sid = filter (\<lambda>st. st_seller_id st = sid \<and> st_deleted_at st = None) (stores d)"

text \<open>
  The rollback after the integrity error takes the session back to the state the request
  began with, because nothing of it has been committed.
\<close>

definition create_store ::
  "uuid \<Rightarrow> time \<Rightarrow> user \<Rightarrow> string \<Rightarrow> string \<Rightarrow> string option \<Rightarrow> string option \<Rightarrow> bool \<Rightarrow> db \<Rightarrow>
   store res \<times> db" where
  "create_store new_id now caller name city description slug is_public d =
     (if strip city = [] then (Inl StoreCityRequired, d)
      else if strip name = [] then (Inl StoreCityRequired, d)
      else case get_caller_seller d caller of
        Inl e \<Rightarrow> (Inl e, d)
      | Inr s \<Rightarrow>
          (case scalar_one_or_none (live_store_rows d (s_id s)) of
             Inl e \<Rightarrow> (Inl e, d)
           | Inr (Some _) \<Rightarrow> (Inl StoreAlreadyExists, d)
           | Inr None \<Rightarrow>
               (let d1 = set_city (s_id s) (strip city) d;
                    wanted = or_else slug [];
                    base = (if wanted \<noteq> [] then lower (strip wanted) else slugify name)
                in case unique_slug (stores d1) base of
                     Inl e \<Rightarrow> (Inl e, d1)
                   | Inr final_slug \<Rightarrow>
                       (let st = \<lparr>st_id = new_id, st_seller_id = s_id s, st_name = strip name,
                                  st_slug = final_slug,
                                  st_description = strip (or_else description []),
                                  st_is_active = True, st_is_public = is_public,
                                  st_created_at = now, st_deleted_at = None\<rparr>
                        in case add_store st d1 of
                             (Inl IntegrityError, _) \<Rightarrow> (Inl StoreAlreadyExists, d)
                           | (Inl e, d2) \<Rightarrow> (Inl e, d2)
                           | (Inr _, d2) \<Rightarrow> (Inr st, d2)))))"

definition get_own_store :: "db \<Rightarrow> user \<Rightarrow> store res" where
  "get_own_store d caller =
     (case get_caller_seller d caller of
        Inl e \<Rightarrow> Inl e
      | Inr s \<Rightarrow> (case scalar_one_or_none (live_store_rows d (s_id s)) of
                    Inl e \<Rightarrow> Inl e
                  | Inr None \<Rightarrow> Inl StoreNotFound
                  | Inr (Some st) \<Rightarrow> Inr st))"

text \<open>Fields that are not given stay; \<open>name.strip()\<close> and \<open>city.strip()\<close> must not be blank.\<close>

definition patched_store ::
  "string option \<Rightarrow> string option \<Rightarrow> bool option \<Rightarrow> bool option \<Rightarrow> store \<Rightarrow> store" where
  "patched_store name description is_active is_public st =
     st\<lparr>st_name := or_else (map_option strip name) (st_name st),
        st_description := or_else (map_option strip description) (st_description st),
        st_is_active := or_else is_active (st_is_active st),
        st_is_public := or_else is_public (st_is_public st)\<rparr>"

definition update_own_store ::
  "user \<Rightarrow> string option \<Rightarrow> string option \<Rightarrow> string option \<Rightarrow> bool option \<Rightarrow> bool option \<Rightarrow> db \<Rightarrow>
   store res \<times> db" where
  "update_own_store caller name city description is_active is_public d =
     (case get_caller_seller d caller of
        Inl e \<Rightarrow> (Inl e, d)
      | Inr s \<Rightarrow>
          (case scalar_one_or_none (live_store_rows d (s_id s)) of
             Inl e \<Rightarrow> (Inl e, d)
           | Inr None \<Rightarrow> (Inl StoreNotFound, d)
           | Inr (Some st) \<Rightarrow>
               if map_option strip name = Some [] then (Inl StoreCityRequired, d)
               else if map_option strip city = Some [] then (Inl StoreCityRequired, d)
               else
                 (let st' = patched_store name description is_active is_public st
                  in if 255 < length (st_name st') then (Inl DataError, d)
                     else (Inr st', set_store (st_id st) (\<lambda>_. st')
                             (case city of None \<Rightarrow> d | Some c \<Rightarrow> set_city (s_id s) (strip c) d)))))"

definition get_store_for_caller :: "db \<Rightarrow> user \<Rightarrow> uuid \<Rightarrow> (store \<times> seller) res" where
  "get_store_for_caller d caller store_id =
     (case get_row st_id store_id (stores d) of
        None \<Rightarrow> Inl StoreNotFound
      | Some st \<Rightarrow>
          if st_deleted_at st \<noteq> None \<and> u_role caller \<noteq> Admin then Inl StoreNotFound
          else (case scalar_one (filter (\<lambda>s. s_id s = st_seller_id st) (sellers d)) of
                  Inl e \<Rightarrow> Inl e
                | Inr s \<Rightarrow>
                    (case u_role caller of
                       Admin \<Rightarrow> Inr (st, s)
                     | Seller \<Rightarrow> if s_user_id s \<noteq> u_id caller then Inl StoreNotFound else Inr (st, s)
                     | Customer \<Rightarrow>
                         if st_is_public st then Inr (st, s)
                         else if u_referring_seller_id caller \<noteq> Some (s_id s) then Inl VisibilityDenied
                         else Inr (st, s)
                     | Driver \<Rightarrow> Inl StoreNotFound)))"

record store_response =
  sr_id :: uuid
  sr_seller_id :: uuid
  sr_name :: string
  sr_slug :: string
  sr_description :: string
  sr_city :: string
  sr_is_active :: bool
  sr_is_public :: bool
  sr_created_at :: time

definition store_to_response :: "store \<Rightarrow> seller \<Rightarrow> store_response" where
  "store_to_response st s =
     \<lparr>sr_id = st_id st, sr_seller_id = st_seller_id st, sr_name = st_name st,
      sr_slug = st_slug st, sr_description = st_description st, sr_city = s_city s,
      sr_is_active = st_is_active st, sr_is_public = st_is_public st,
      sr_created_at = st_created_at st\<rparr>"

section \<open>Products\<close>

definition set_product :: "uuid \<Rightarrow> (product \<Rightarrow> product) \<Rightarrow> db \<Rightarrow> db" where
  "set_product i f d = d\<lparr>products := upd_row p_id i f (products d)\<rparr>"

text \<open>
  What the columns of \<open>products\<close> hold: \<open>VARCHAR(255)\<close>, \<open>BIGINT\<close>, \<open>INTEGER\<close>; a value outside
  is refused before the statement runs, the \<open>CHECK\<close> constraints by the statement.
\<close>

definition product_columns_ok :: "product \<Rightarrow> bool" where
  "product_columns_ok p \<longleftrightarrow>
     length (p_name p) \<le> 255 \<and> int8 (p_price_minor p) \<and> pred_option int4 (p_stock_quantity p)"

definition product_checks_ok :: "product \<Rightarrow> bool" where
  "product_checks_ok p \<longleftrightarrow>
     0 < p_price_minor p \<and> pred_option (\<lambda>n. 0 \<le> n) (p_stock_quantity p)"

text \<open>Inserting the gallery; \<open>fresh n\<close> is the n-th identifier the request draws.\<close>

primrec add_images ::
  "(nat \<Rightarrow> uuid) \<Rightarrow> nat \<Rightarrow> uuid \<Rightarrow> (string \<times> int) list \<Rightarrow> product_image list \<Rightarrow> product_image list res" where
  "add_images fresh n pid [] rows = Inr rows"
| "add_images fresh n pid (spec # specs) rows =
     (if \<not> int4 (snd spec) then Inl DataError
      else if fresh n \<in> pi_id ` set rows then Inl IntegrityError
      else add_images fresh (Suc n) pid specs
             (rows @ [\<lparr>pi_id = fresh n, pi_product_id = pid, pi_s3_key = fst spec,
                       pi_display_order = snd spec\<rparr>]))"

definition images_of :: "db \<Rightarrow> uuid \<Rightarrow> product_image list" where
  "images_of d pid = filter (\<lambda>i. pi_product_id i = pid) (product_images d)"

definition load_product_with_images :: "db \<Rightarrow> uuid \<Rightarrow> (product \<times> product_image list) option" where
  "load_product_with_images d pid =
     (case get_row p_id pid (products d) of
        None \<Rightarrow> None
      | Some p \<Rightarrow> Some (p, sort_key pi_display_order (images_of d pid)))"

definition loaded_product :: "uuid \<Rightarrow> db \<Rightarrow> (product \<times> product_image list) res \<times> db" where
  "loaded_product pid d =
     (case load_product_with_images d pid of
        None \<Rightarrow> (Inl AssertionError, d)
      | Some pd \<Rightarrow> (Inr pd, d))"

definition get_caller_store :: "db \<Rightarrow> seller \<Rightarrow> store res" where
  "get_caller_store d s =
     (case scalar_one_or_none (live_store_rows d (s_id s)) of
        Inl e \<Rightarrow> Inl e
      | Inr None \<Rightarrow> Inl StoreNotFound
      | Inr (Some st) \<Rightarrow> Inr st)"

definition create_product ::
  "(nat \<Rightarrow> uuid) \<Rightarrow> time \<Rightarrow> user \<Rightarrow> string \<Rightarrow> int \<Rightarrow> string option \<Rightarrow> int option \<Rightarrow>
   (string \<times> int) list \<Rightarrow> uuid option \<Rightarrow> db \<Rightarrow> (product \<times> product_image list) res \<times> db" where
  "create_product fresh now caller name price description stock images store_id d =
     (case get_caller_seller d caller of
        Inl e \<Rightarrow> (Inl e, d)
      | Inr s \<Rightarrow>
          (case get_caller_store d s of
             Inl e \<Rightarrow> (Inl e, d)
           | Inr st \<Rightarrow>
               if store_id \<noteq> None \<and> store_id \<noteq> Some (st_id st) then (Inl StoreNotFound, d)
               else
                 (let p = \<lparr>p_id = fresh 0, p_seller_id = s_id s, p_store_id = st_id st,
                           p_name = strip name, p_description = strip (or_else description []),
                           p_price_minor = price, p_stock_quantity = stock, p_is_active = True,
                           p_status = PActive, p_disabled_at = None, p_disabled_reason = None,
                           p_created_at = now, p_deleted_at = None\<rparr>
                  in if \<not> product_columns_ok p then (Inl DataError, d)
                     else if \<not> product_checks_ok p \<or> p_id p \<in> p_id ` set (products d)
                     then (Inl IntegrityError, d)
                     else
                       (let d1 = d\<lparr>products := products d @ [p]\<rparr>
                        in case add_images fresh 1 (p_id p) images (product_images d1) of
                             Inl e \<Rightarrow> (Inl e, d1)
                           | Inr rows \<Rightarrow> loaded_product (p_id p) (d1\<lparr>product_images := rows\<rparr>)))))"

text \<open>
  Who may change a product: \<open>update_product\<close> and \<open>soft_delete_product\<close> have the same guard.
\<close>

definition product_guard :: "db \<Rightarrow> user \<Rightarrow> product option \<Rightarrow> product res" where
  "product_guard d caller row =
     (case row of
        None \<Rightarrow> Inl ProductNotFound
      | Some p \<Rightarrow>
          if p_deleted_at p \<noteq> None then Inl ProductNotFound
          else (case u_role caller of
                  Admin \<Rightarrow> Inr p
                | Seller \<Rightarrow> (case get_caller_seller d caller of
                              Inl e \<Rightarrow> Inl e
                            | Inr s \<Rightarrow> if p_seller_id p \<noteq> s_id s then Inl ProductNotFound else Inr p)
                | _ \<Rightarrow> Inl ProductOwnershipError))"

definition patched_product ::
  "string option \<Rightarrow> string option \<Rightarrow> int option \<Rightarrow> int option \<Rightarrow> bool option \<Rightarrow> product \<Rightarrow> product" where
  "patched_product name description price stock is_active p =
     p\<lparr>p_name := or_else (map_option strip name) (p_name p),
       p_description := or_else (map_option strip description) (p_description p),
       p_price_minor := or_else price (p_price_minor p),
       p_stock_quantity := (case stock of None \<Rightarrow> p_stock_quantity p | Some n \<Rightarrow> Some n),
       p_is_active := or_else is_active (p_is_active p)\<rparr>"

definition replace_images ::
  "(nat \<Rightarrow> uuid) \<Rightarrow> uuid \<Rightarrow> (string \<times> int) list \<Rightarrow> product_image list \<Rightarrow> product_image list res" where
  "replace_images fresh pid images rows =
     add_images fresh 0 pid images (delete_where (\<lambda>i. pi_product_id i = pid) rows)"

definition update_product ::
  "(nat \<Rightarrow> uuid) \<Rightarrow> user \<Rightarrow> uuid \<Rightarrow> string option \<Rightarrow> string option \<Rightarrow> int option \<Rightarrow> int option \<Rightarrow>
   bool option \<Rightarrow> (string \<times> int) list option \<Rightarrow> db \<Rightarrow> (product \<times> product_image list) res \<times> db" where
  "update_product fresh caller pid name description price stock is_active images d =
     (case product_guard d caller (get_row p_id pid (products d)) of
        Inl e \<Rightarrow> (Inl e, d)
      | Inr p \<Rightarrow>
          (let p' = patched_product name description price stock is_active p
           in if \<not> product_columns_ok p' then (Inl DataError, d)
              else if \<not> product_checks_ok p' then (Inl IntegrityError, d)
              else
                (let d1 = set_product pid (\<lambda>_. p') d
                 in case (case images of
                            None \<Rightarrow> Inr (product_images d1)
                          | Some specs \<Rightarrow> replace_images fresh pid specs (product_images d1)) of
                      Inl e \<Rightarrow> (Inl e, d1)
                    | Inr rows \<Rightarrow> loaded_product pid (d1\<lparr>product_images := rows\<rparr>))))"

definition soft_delete_product :: "time \<Rightarrow> user \<Rightarrow> uuid \<Rightarrow> db \<Rightarrow> unit res \<times> db" where
  "soft_delete_product now caller pid d =
     (case product_guard d caller (get_row p_id pid (products d)) of
        Inl e \<Rightarrow> (Inl e, d)
      | Inr p \<Rightarrow>
          (Inr (), set_product pid (\<lambda>p. p\<lparr>p_deleted_at := Some now, p_is_active := False\<rparr>) d))"

definition get_product_for_caller :: "db \<Rightarrow> user \<Rightarrow> uuid \<Rightarrow> (product \<times> product_image list) res" where
  "get_product_for_caller d caller pid =
     (case load_product_with_images d pid of
        None \<Rightarrow> Inl ProductNotFound
      | Some (p, imgs) \<Rightarrow>
          if p_deleted_at p \<noteq> None then Inl ProductNotFound
          else (case u_role caller of
                  Admin \<Rightarrow> Inr (p, imgs)
                | Seller \<Rightarrow> (case get_caller_seller d caller of
                              Inl e \<Rightarrow> Inl e
                            | Inr s \<Rightarrow> if p_seller_id p \<noteq> s_id s then Inl ProductNotFound
                                      else Inr (p, imgs))
                | Customer \<Rightarrow>
                    if (case get_row st_id (p_store_id p) (stores d) of
                          None \<Rightarrow> False | Some st \<Rightarrow> st_is_public st) then Inr (p, imgs)
                    else if u_referring_seller_id caller \<noteq> Some (p_seller_id p)
                    then Inl ProductNotFound
                    else Inr (p, imgs)
                | Driver \<Rightarrow> Inl ProductNotFound))"

text \<open>\<open>WHERE column = value\<close>, added only for a given filter.\<close>

definition filter_opt :: "uuid option \<Rightarrow> uuid \<Rightarrow> bool" where
  "filter_opt f v \<longleftrightarrow> pred_option (\<lambda>x. v = x) f"

definition page_limit :: "int \<Rightarrow> nat" where
  "page_limit limit = nat (min (max limit 1) 100)"

text \<open>The join of a customer's statement: the store of the product, when it is not deleted.\<close>

definition customer_sees :: "db \<Rightarrow> user \<Rightarrow> product \<Rightarrow> bool" where
  "customer_sees d caller p =
     (case get_row st_id (p_store_id p) (stores d) of
        None \<Rightarrow> False
      | Some st \<Rightarrow> st_deleted_at st = None \<and>
          (u_referring_seller_id caller = Some (p_seller_id p) \<or> st_is_public st))"

definition list_products_for_caller ::
  "db \<Rightarrow> user \<Rightarrow> uuid option \<Rightarrow> uuid option \<Rightarrow> int \<Rightarrow> product list res" where
  "list_products_for_caller d caller store_id seller_id limit =
     (let listed = (\<lambda>q. take (page_limit limit) (order_desc p_created_at
             (filter (\<lambda>p. p_deleted_at p = None \<and> p_is_active p \<and> q p) (products d))))
      in case u_role caller of
           Admin \<Rightarrow> Inr (listed (\<lambda>p. filter_opt store_id (p_store_id p) \<and>
                                     filter_opt seller_id (p_seller_id p)))
         | Seller \<Rightarrow> (case get_caller_seller d caller of
                       Inl e \<Rightarrow> Inl e
                     | Inr s \<Rightarrow> Inr (listed (\<lambda>p. p_seller_id p = s_id s \<and>
                                                 filter_opt store_id (p_store_id p))))
         | Customer \<Rightarrow> Inr (listed (\<lambda>p. customer_sees d caller p \<and>
                                        filter_opt seller_id (p_seller_id p) \<and>
                                        filter_opt store_id (p_store_id p)))
         | Driver \<Rightarrow> Inr [])"

record product_response =
  pr_id :: uuid
  pr_seller_id :: uuid
  pr_store_id :: uuid
  pr_name :: string
  pr_description :: string
  pr_price_minor :: int
  pr_stock_quantity :: "int option"
  pr_is_active :: bool
  pr_created_at :: time
  pr_images :: "(uuid \<times> string \<times> int) list"

definition product_to_response :: "product \<times> product_image list \<Rightarrow> product_response" where
  "product_to_response pd =
     (let p = fst pd in
      \<lparr>pr_id = p_id p, pr_seller_id = p_seller_id p, pr_store_id = p_store_id p,
       pr_name = p_name p, pr_description = p_description p, pr_price_minor = p_price_minor p,
       pr_stock_quantity = p_stock_quantity p, pr_is_active = p_is_active p,
       pr_created_at = p_created_at p,
       pr_images = map (\<lambda>i. (pi_id i, pi_s3_key i, pi_display_order i))
         (sort_key pi_display_order (snd pd))\<rparr>)"

text \<open>\<open>min(images, key=...)\<close>: the first image of the least display order.\<close>

fun first_image :: "product_image list \<Rightarrow> product_image option" where
  "first_image [] = None"
| "first_image (i # is) =
     (case first_image is of
        None \<Rightarrow> Some i
      | Some j \<Rightarrow> Some (if pi_display_order j < pi_display_order i then j else i))"

record product_list_item =
  li_id :: uuid
  li_seller_id :: uuid
  li_store_id :: uuid
  li_name :: string
  li_price_minor :: int
  li_stock_quantity :: "int option"
  li_is_active :: bool
  li_image_s3_key :: "string option"

definition product_to_list_item :: "product \<Rightarrow> product_image list \<Rightarrow> product_list_item" where
  "product_to_list_item p imgs =
     \<lparr>li_id = p_id p, li_seller_id = p_seller_id p, li_store_id = p_store_id p, li_name = p_name p,
      li_price_minor = p_price_minor p, li_stock_quantity = p_stock_quantity p,
      li_is_active = p_is_active p, li_image_s3_key = map_option pi_s3_key (first_image imgs)\<rparr>"

section \<open>Sellers\<close>

definition get_seller_for_caller :: "db \<Rightarrow> user \<Rightarrow> uuid \<Rightarrow> seller res" where
  "get_seller_for_caller d caller sid =
     (case scalar_one_or_none (filter (\<lambda>s. s_id s = sid \<and> s_deleted_at s = None) (sellers d)) of
        Inl e \<Rightarrow> Inl e
      | Inr None \<Rightarrow> Inl SellerNotFound
      | Inr (Some s) \<Rightarrow>
          (case u_role caller of
             Admin \<Rightarrow> Inr s
           | Seller \<Rightarrow> if s_user_id s \<noteq> u_id caller then Inl SellerNotFound else Inr s
           | Customer \<Rightarrow>
               (case scalar_one_or_none (filter st_is_public (live_store_rows d (s_id s))) of
                  Inl e \<Rightarrow> Inl e
                | Inr (Some _) \<Rightarrow> Inr s
                | Inr None \<Rightarrow> if u_referring_seller_id caller \<noteq> Some (s_id s)
                              then Inl VisibilityDenied else Inr s)
           | Driver \<Rightarrow> Inl SellerNotFound))"

definition active_order_statuses :: "order_status list" where
  "active_order_statuses = [Pending, Accepted, Preparing, OutForDelivery]"

definition platform_currency :: "db \<Rightarrow> string" where
  "platform_currency d =
     (case settings_row d of
        None \<Rightarrow> ''USD''
      | Some ps \<Rightarrow> if ps_currency_code ps = [] then ''USD'' else ps_currency_code ps)"

record dashboard =
  db_seller_id :: uuid
  db_lifetime_sales_amount :: int
  db_lifetime_orders_count :: nat
  db_active_orders_count :: nat
  db_currency_code :: string
  db_last_updated :: time

definition seller_snapshots :: "db \<Rightarrow> uuid \<Rightarrow> order_analytics_snapshot list" where
  "seller_snapshots d sid = filter (\<lambda>sn. sn_seller_id sn = sid) (snapshots d)"

definition active_order :: "uuid \<Rightarrow> order_row \<Rightarrow> bool" where
  "active_order sid ord \<longleftrightarrow> o_seller_id ord = sid \<and> o_deleted_at ord = None \<and>
     o_status ord \<in> set active_order_statuses"

definition dashboard_of :: "time \<Rightarrow> db \<Rightarrow> uuid \<Rightarrow> dashboard" where
  "dashboard_of now d sid =
     \<lparr>db_seller_id = sid,
      db_lifetime_sales_amount = sum_list (map sn_total_minor (seller_snapshots d sid)),
      db_lifetime_orders_count = length (seller_snapshots d sid),
      db_active_orders_count = length (filter (active_order sid) (orders d)),
      db_currency_code = platform_currency d, db_last_updated = now\<rparr>"

definition get_dashboard :: "time \<Rightarrow> db \<Rightarrow> user \<Rightarrow> uuid option \<Rightarrow> dashboard res" where
  "get_dashboard now d caller target =
     (case target of
        Some sid \<Rightarrow>
          if u_role caller \<noteq> Admin then Inl VisibilityDenied
          else (case get_row s_id sid (sellers d) of
                  None \<Rightarrow> Inl SellerNotFound
                | Some s \<Rightarrow> Inr (dashboard_of now d (s_id s)))
      | None \<Rightarrow> (case get_caller_seller d caller of
                   Inl e \<Rightarrow> Inl e
                 | Inr s \<Rightarrow> Inr (dashboard_of now d (s_id s))))"

section \<open>Requests\<close>

text \<open>
  The writing endpoints with the bounds of \<open>schemas/stores.py\<close> and \<open>schemas/products.py\<close> and
  the role guard of the router.
\<close>

record create_store_request =
  cs_name :: string
  cs_city :: string
  cs_description :: "string option"
  cs_slug :: "string option"
  cs_is_public :: bool

definition create_store_schema :: "create_store_request \<Rightarrow> bool" where
  "create_store_schema b \<longleftrightarrow> text_ok 1 255 (cs_name b) \<and> text_ok 1 255 (cs_city b) \<and>
     pred_option (text_ok 0 5000) (cs_description b) \<and> pred_option (text_ok 1 255) (cs_slug b)"

record update_store_request =
  us_name :: "string option"
  us_city :: "string option"
  us_description :: "string option"
  us_is_active :: "bool option"
  us_is_public :: "bool option"

definition update_store_schema :: "update_store_request \<Rightarrow> bool" where
  "update_store_schema b \<longleftrightarrow> pred_option (text_ok 1 255) (us_name b) \<and>
     pred_option (text_ok 1 255) (us_city b) \<and> pred_option (text_ok 0 5000) (us_description b)"

definition image_schema :: "string \<times> int \<Rightarrow> bool" where
  "image_schema i \<longleftrightarrow> text_ok 1 1024 (fst i) \<and> 0 \<le> snd i"

record create_product_request =
  cp_store_id :: "uuid option"
  cp_name :: string
  cp_description :: "string option"
  cp_price_minor :: int
  cp_stock_quantity :: "int option"
  cp_images :: "(string \<times> int) list"

definition create_product_schema :: "create_product_request \<Rightarrow> bool" where
  "create_product_schema b \<longleftrightarrow> text_ok 1 255 (cp_name b) \<and>
     pred_option (text_ok 0 10000) (cp_description b) \<and> 0 < cp_price_minor b \<and>
     pred_option (\<lambda>n. 0 \<le> n) (cp_stock_quantity b) \<and> list_all image_schema (cp_images b)"

record update_product_request =
  up_name :: "string option"
  up_description :: "string option"
  up_price_minor :: "int option"
  up_stock_quantity :: "int option"
  up_is_active :: "bool option"
  up_images :: "(string \<times> int) list option"

definition update_product_schema :: "update_product_request \<Rightarrow> bool" where
  "update_product_schema b \<longleftrightarrow> pred_option (text_ok 1 255) (up_name b) \<and>
     pred_option (text_ok 0 10000) (up_description b) \<and>
     pred_option (\<lambda>n. 0 < n) (up_price_minor b) \<and>
     pred_option (\<lambda>n. 0 \<le> n) (up_stock_quantity b) \<and>
     pred_option (list_all image_schema) (up_images b)"

datatype (plugins only: code) catalogue_request =
  PostStore uuid time user create_store_request
| PatchStore user update_store_request
| PostProduct "nat \<Rightarrow> uuid" time user create_product_request
| PatchProduct "nat \<Rightarrow> uuid" user uuid update_product_request
| DeleteProduct time user uuid

datatype (plugins only: code) catalogue_reply =
  RStore store_response | RProduct product_response | RDeleted

text \<open>The two store endpoints load the seller again for the city of the response.\<close>

definition store_reply :: "user \<Rightarrow> store res \<times> db \<Rightarrow> catalogue_reply res \<times> db" where
  "store_reply caller out =
     (case out of
        (Inl e, d) \<Rightarrow> (Inl e, d)
      | (Inr st, d) \<Rightarrow> (map_sum id (\<lambda>s. RStore (store_to_response st s)) (get_caller_seller d caller), d))"

definition product_reply :: "(product \<times> product_image list) res \<times> db \<Rightarrow> catalogue_reply res \<times> db" where
  "product_reply out = (map_sum id (\<lambda>pd. RProduct (product_to_response pd)) (fst out), snd out)"

primrec caller_of :: "catalogue_request \<Rightarrow> user" where
  "caller_of (PostStore new_id now c b) = c"
| "caller_of (PatchStore c b) = c"
| "caller_of (PostProduct fresh now c b) = c"
| "caller_of (PatchProduct fresh c pid b) = c"
| "caller_of (DeleteProduct now c pid) = c"

primrec exec_catalogue :: "catalogue_request \<Rightarrow> db \<Rightarrow> catalogue_reply res \<times> db" where
  "exec_catalogue (PostStore new_id now c b) d =
     (case require_roles [Seller] c of
        Inl e \<Rightarrow> (Inl e, d)
      | Inr _ \<Rightarrow>
          if \<not> create_store_schema b then (Inl ValidationError, d)
          else store_reply c (create_store new_id now c (cs_name b) (cs_city b) (cs_description b)
                                (cs_slug b) (cs_is_public b) d))"
| "exec_catalogue (PatchStore c b) d =
     (case require_roles [Seller] c of
        Inl e \<Rightarrow> (Inl e, d)
      | Inr _ \<Rightarrow>
          if \<not> update_store_schema b then (Inl ValidationError, d)
          else store_reply c (update_own_store c (us_name b) (us_city b) (us_description b)
                                (us_is_active b) (us_is_public b) d))"
| "exec_catalogue (PostProduct fresh now c b) d =
     (case require_roles [Seller] c of
        Inl e \<Rightarrow> (Inl e, d)
      | Inr _ \<Rightarrow>
          if \<not> create_product_schema b then (Inl ValidationError, d)
          else product_reply (create_product fresh now c (cp_name b) (cp_price_minor b)
                 (cp_description b) (cp_stock_quantity b) (cp_images b) (cp_store_id b) d))"
| "exec_catalogue (PatchProduct fresh c pid b) d =
     (case require_roles [Seller, Admin] c of
        Inl e \<Rightarrow> (Inl e, d)
      | Inr _ \<Rightarrow>
          if \<not> update_product_schema b then (Inl ValidationError, d)
          else product_reply (update_product fresh c pid (up_name b) (up_description b)
                 (up_price_minor b) (up_stock_quantity b) (up_is_active b) (up_images b) d))"
| "exec_catalogue (DeleteProduct now c pid) d =
     (case require_roles [Seller, Admin] c of
        Inl e \<Rightarrow> (Inl e, d)
      | Inr _ \<Rightarrow> (map_sum id (\<lambda>_. RDeleted) (fst (soft_delete_product now c pid d)),
                  snd (soft_delete_product now c pid d)))"

end
