(* ===== verification/Order_Properties.thy ===== *)
theory Order_Properties
  imports Order_Errors Sample_Data
begin

text \<open>
  The properties of the order subsystem: the state machine of ADR-0012, the invariant of the
  tables over arbitrary request sequences, the analytics snapshots, stock and totals,
  fulfilment, cancellation, retention and the purge job.
\<close>

section \<open>A sample run\<close>

definition sample_requests :: "order_request list" where
  "sample_requests =
     [QCreate (\<lambda>n. 100 + n) 1000 sample_customer [(20, 2), (21, 1), (20, 1)] sample_address,
      QAccept 2000 sample_seller 100, QPreparing 3000 sample_seller 100,
      QSelfDeliver 300 sample_seller 100, QOutForDelivery 301 4000 4001 sample_seller 100,
      QDelivered 5000 sample_seller 100, QComplete 400 6000 sample_customer 100]"

definition sample_state :: "nat \<Rightarrow> db" where
  "sample_state n = run_requests exec_order (take n sample_requests) sample_db"

lemma outcome_ok: "(case fst out of Inl e \<Rightarrow> False | Inr f \<Rightarrow> True) \<Longrightarrow> \<exists>f. out = (Inr f, snd out)"
  by (cases out) (auto split: sum.splits)

lemma sample_db_inv: "orders_inv sample_db"
  by (simp add: sample_defs orders_inv_def assignments_inv_def active_assignments_def)


lemma sample_db_stock: "stock_ok sample_db"
  by (simp add: sample_defs stock_ok_def)

lemma sample_state_inv: "orders_inv (sample_state n)"
  unfolding sample_state_def using sample_db_inv by (rule os.run_keeps)

lemma sample_state_Suc:
  "n < length sample_requests \<Longrightarrow>
   sample_state (Suc n) = snd (get_db (flushing (exec_order (sample_requests ! n))) (sample_state n))"
  by (simp add: sample_state_def take_Suc_conv_app_nth run_requests_append)

section \<open>The state machine\<close>

text \<open>
  C1: one request moves every order that survives it at most one edge of the ADR-0012
  diagram, and never rewrites who placed it, who sells it, its address or its amounts.
\<close>

theorem order_request_follows_state_machine:
  assumes "orders_inv d"
    and "get_db (flushing (exec_order q)) d = (res, d')"
    and "get_row o_id oid (orders d) = Some ord" and "get_row o_id oid (orders d') = Some ord'"
  shows "(o_status ord' = o_status ord \<or> order_next (o_status ord) (o_status ord')) \<and>
    same_terms ord ord'"
proof (cases rule: get_db_flushing_cases [of "exec_order q" d])
  case (ok a d1)
  with assms(1) have "advances (orders d) (orders d1)" by (blast intro: exec_order_advances)
  with ok(2) assms(2-4) show ?thesis by (simp add: advances_def status_step_def)
next
  case (failed e d1)
  with assms(2-4) show ?thesis by (simp add: same_terms_def)
qed

theorem order_request_follows_state_machine_witness:
  "order_next (o_status (hd (orders (sample_state 1)))) (o_status (hd (orders (sample_state 2))))"
proof -
  let ?q = "QAccept 2000 sample_seller 100"
  let ?out = "get_db (flushing (exec_order ?q)) (sample_state 1)"
  have d': "snd ?out = sample_state 2"
    by (simp add: sample_state_def sample_requests_def)
  have st: "o_status (hd (orders (sample_state 1))) = Pending"
    "o_status (hd (orders (sample_state 2))) = Accepted"
    by code_simp+
  have "get_row o_id 100 (orders (sample_state 1)) = Some (hd (orders (sample_state 1)))"
    "get_row o_id 100 (orders (sample_state 2)) = Some (hd (orders (sample_state 2)))"
    unfolding get_row_def sample_state_def sample_requests_def by code_simp+
  then show ?thesis
    using order_request_follows_state_machine [OF sample_state_inv, of ?q 1 "fst ?out" "snd ?out" 100] st
    unfolding d' by simp
qed

section \<open>The tables stay consistent\<close>

text \<open>
  C2: whatever sequence of order requests is served, in whatever order and by whatever
  callers, the order tables stay consistent: an order has at most one live driver request,
  never together with a self-delivery row, and its columns agree with its status.
\<close>

theorem order_tables_stay_consistent:
  assumes "orders_inv d"
  shows "orders_inv (run_requests exec_order qs d)"
  using assms by (rule os.run_keeps)

theorem order_tables_stay_consistent_witness:
  "orders_inv (run_requests exec_order sample_requests sample_db)"
  using sample_db_inv by (rule order_tables_stay_consistent)

text \<open>
  C3: once an order is completed, exactly one analytics row records it, and no later request
  (deletion and the purge job included) removes or duplicates that row.
\<close>

theorem completed_order_recorded_forever:
  assumes "orders_inv d" and "ord \<in> set (orders (run_requests exec_order qs d))"
    and "o_status ord = Completed"
  shows "\<exists>!sn. sn \<in> set (snapshots (run_requests exec_order qs' (run_requests exec_order qs d))) \<and>
           sn_order_id sn = o_id ord"
proof -
  let ?d1 = "run_requests exec_order qs d"
  let ?d2 = "run_requests exec_order qs' ?d1"
  have inv1: "orders_inv ?d1" using assms(1) by (rule os.run_keeps)
  then have inv2: "orders_inv ?d2" by (rule os.run_keeps)
  have "o_id ord \<in> sn_order_id ` set (snapshots ?d1)"
    using inv1 assms(2,3) by (rule orders_inv_completed_known)
  moreover have "snapshots_grow ?d1 ?d2" using inv1 by (rule os.run_rel)
  then have "set (snapshots ?d1) \<subseteq> set (snapshots ?d2)" by (auto simp: snapshots_grow_def)
  ultimately obtain sn where sn: "sn \<in> set (snapshots ?d2)" "sn_order_id sn = o_id ord"
    by (auto simp: image_iff)
  have "distinct (map sn_order_id (snapshots ?d2))" using inv2 by (simp add: orders_inv_def)
  then show ?thesis using sn distinct_key_eq by metis
qed

theorem completed_order_recorded_forever_witness:
  "\<exists>!sn. sn \<in> set (snapshots (run_requests exec_order
       [QDelete 500 (6000 + td_days 30) sample_customer 100]
       (run_requests exec_order sample_requests sample_db))) \<and> sn_order_id sn = 100"
proof -
  let ?ord = "hd (orders (run_requests exec_order sample_requests sample_db))"
  have "orders (run_requests exec_order sample_requests sample_db) \<noteq> []"
    and "o_status ?ord = Completed" and "o_id ?ord = 100"
    by code_simp+
  then show ?thesis
    using completed_order_recorded_forever [OF sample_db_inv, of ?ord sample_requests
        "[QDelete 500 (6000 + td_days 30) sample_customer 100]"]
    by (simp del: run_requests.simps)
qed

section \<open>Errors\<close>



section \<open>Deletion\<close>




section \<open>Placing an order\<close>

lemma map_fst_eq:
  "map (\<lambda>i. (f i, g i)) xs = map (\<lambda>e. (Some (fst e), h e)) ys \<Longrightarrow> map f xs = map Some (map fst ys)"
  by (induction xs arbitrary: ys) auto

text \<open>
  C4: a placed order is written whole: one pending row priced on the server, one line per
  distinct product with the sum of its requested quantities, a total that is the sum of
  price times quantity over those lines, and each product's stock reduced by exactly what the
  order takes of it, which was in stock. All products belong to the seller who referred the
  customer.
\<close>

theorem create_order_conserves_stock_and_total:
  assumes "distinct (map p_id (products d))"
    and "create_order fresh now customer items addr d = (Inr f, d')"
  shows "\<exists>ord lines.
    orders d' = orders d @ [ord] \<and> order_items d' = order_items d @ lines \<and>
    o_status ord = Pending \<and> o_customer_id ord = u_id customer \<and>
    u_referring_seller_id customer = Some (o_seller_id ord) \<and>
    (\<forall>i \<in> set lines. oi_order_id i = o_id ord) \<and>
    o_total_minor ord = (\<Sum>i\<leftarrow>lines. oi_unit_price_minor_snapshot i * oi_quantity i) \<and>
    distinct (map oi_product_id lines) \<and>
    (\<forall>i \<in> set lines. \<exists>k. oi_product_id i = Some k \<and> oi_quantity i = total_qty items k) \<and>
    products d' = map (\<lambda>p. take_stock (total_qty items (p_id p)) p) (products d) \<and>
    (\<forall>p \<in> set (products d). p_id p \<in> fst ` set items \<longrightarrow>
       p_seller_id p = o_seller_id ord \<and> p_is_active p \<and>
       (\<forall>s. p_stock_quantity p = Some s \<longrightarrow> total_qty items (p_id p) \<le> s))"
  using assms(2)
proof (rule create_order_success)
  fix seller rows
  let ?ps = "locked_products d items" and ?m = "qty_by_id items"
  let ?ord = "new_order (fresh 0) customer seller (p_store_id (hd ?ps)) (order_subtotal ?ps ?m) addr now"
  assume ref: "u_referring_seller_id customer = Some seller"
    and sel: "\<forall>p \<in> set ?ps. p_seller_id p = seller"
    and rows: "map (\<lambda>i. (oi_product_id i, oi_quantity i)) rows = map (\<lambda>e. (Some (fst e), snd e)) ?m"
    and oid: "\<forall>i \<in> set rows. oi_order_id i = fresh 0 \<and> 0 < oi_quantity i"
    and tot: "sum_list (map (\<lambda>i. oi_unit_price_minor_snapshot i * oi_quantity i) rows) =
       order_subtotal ?ps ?m"
    and d': "d' = d\<lparr>products := decrement_stock ?m (products d), orders := orders d @ [?ord],
            order_items := order_items d @ rows\<rparr>"
  from rows have "map oi_product_id rows = map Some (map fst ?m)"
    by (rule map_fst_eq)
  then have dist: "distinct (map oi_product_id rows)"
    by (simp only: distinct_map [of Some "map fst ?m"] qty_by_id_distinct) simp
  have qty: "\<exists>k. oi_product_id i = Some k \<and> oi_quantity i = total_qty items k" if "i \<in> set rows" for i
  proof -
    from that have "(oi_product_id i, oi_quantity i) \<in> set (map (\<lambda>e. (Some (fst e), snd e)) ?m)"
      unfolding rows [symmetric] by auto
    then show ?thesis by (auto intro: qty_by_id_entry)
  qed
  have "p_seller_id p = seller" if "p \<in> set (products d)" "p_id p \<in> fst ` set items" for p
    using that sel by (simp add: locked_products_def)
  with ref oid tot dist qty create_order_products [OF assms(2)] create_order_enough [OF assms(2,1)]
  show ?thesis
    by (intro exI [of _ ?ord] exI [of _ rows]) (simp add: d' new_order_def)
qed

theorem create_order_conserves_stock_and_total_witness:
  "\<exists>ord. orders (snd (create_order (\<lambda>n. 100 + n) 1000 sample_customer [(20, 2), (21, 1), (20, 1)]
     sample_address sample_db)) = orders sample_db @ [ord]"
proof -
  let ?out = "create_order (\<lambda>n. 100 + n) 1000 sample_customer [(20, 2), (21, 1), (20, 1)]
     sample_address sample_db"
  have "\<exists>f. fst ?out = Inr f"
    by (simp add: create_order_def Let_def locked_products_def sample_defs qty_by_id_def reload_def
        load_order_full_def new_order_def int4_def int8_def order_subtotal_def product_price_def)
  then obtain f where "?out = (Inr f, snd ?out)" by (metis prod.collapse)
  moreover have "distinct (map p_id (products sample_db))" by (simp add: sample_defs)
  ultimately show ?thesis
    using create_order_conserves_stock_and_total [of sample_db] by blast
qed

text \<open>
  No sequence of order requests drives the stock of a product below zero.
\<close>

theorem stock_never_negative:
  assumes "stock_ok d" and "p \<in> set (products (run_requests exec_order qs d))"
    and "p_stock_quantity p = Some s"
  shows "0 \<le> s"
  using stock.run_keeps [OF assms(1)] assms(2,3) by (auto simp: stock_ok_def)

theorem stock_never_negative_witness:
  "p_stock_quantity (hd (products (run_requests exec_order sample_requests sample_db))) = Some 2 \<and>
   (0::int) \<le> 2"
proof -
  have "p_stock_quantity (hd (products (run_requests exec_order sample_requests sample_db))) = Some 2"
    and "products (run_requests exec_order sample_requests sample_db) \<noteq> []"
    by code_simp+
  then show ?thesis using stock_never_negative [OF sample_db_stock hd_in_set] by blast
qed

section \<open>Fulfilment and delivery\<close>

lemma get_row_add_delivery:
  "get_row d_order_id oid rows = None \<Longrightarrow> d_order_id dl = oid \<Longrightarrow>
   get_row d_order_id oid (rows @ [dl]) = Some dl"
  by (simp add: get_row_append)

lemma fulfilment_guard_again:
  assumes "fulfilment_guard c oid d = Inr (ord, s)" and "orders d' = orders d"
    and "get_row d_order_id oid (deliveries d') \<noteq> None \<or>
      get_row d_order_id oid (deliveries d') = None \<and> length (active_assignments d' oid) = 1"
  shows "fulfilment_guard c oid d' = Inl FulfillmentAlreadyChosen"
proof -
  note g = fulfilment_guard_Inr [OF assms(1)]
  have "lock_order_or_404 d' oid c = Inr ord" using g assms(2) by simp
  moreover have "scalar_one_or_none (active_assignments d' oid) = Inr (Some (hd (active_assignments d' oid)))"
    if "length (active_assignments d' oid) = 1"
    using that by (auto simp: length_Suc_conv)
  ultimately show ?thesis using g assms(3)
    by (auto simp: fulfilment_guard_def simp del: lock_order_or_404_Inr)
qed

text \<open>
  The fulfilment modes exclude each other: once the seller has chosen self-delivery, or
  has requested a driver, both operations refuse the order with a conflict and change nothing.
\<close>

theorem fulfilment_mode_chosen_once:
  assumes "choose_self_delivery i c oid d = (Inr f, d') \<or> request_driver i now c oid d = (Inr f, d')"
  shows "choose_self_delivery j c oid d' = (Inl FulfillmentAlreadyChosen, d') \<and>
    request_driver j now' c oid d' = (Inl FulfillmentAlreadyChosen, d')"
proof -
  have "fulfilment_guard c oid d' = Inl FulfillmentAlreadyChosen"
    using assms
  proof
    assume "choose_self_delivery i c oid d = (Inr f, d')"
    then show ?thesis
      by (rule choose_self_delivery_success)
        (rule fulfilment_guard_again, assumption,
          auto simp: get_row_append new_delivery_def split: option.split)
  next
    assume "request_driver i now c oid d = (Inr f, d')"
    then show ?thesis
    proof (rule request_driver_success)
      fix ord s a
      assume g: "fulfilment_guard c oid d = Inr (ord, s)"
        and a: "a_order_id a = oid" "a_status a = ARequested"
        and d': "d' = d\<lparr>driver_assignments := driver_assignments d @ [a]\<rparr>"
      note g' = fulfilment_guard_Inr [OF g]
      have "active_assignments d' oid = [a]"
        using g'(7) a by (simp add: d' active_assignments_def is_active_assignment_def)
      with g'(6) show ?thesis by (intro fulfilment_guard_again [OF g]) (simp_all add: d')
    qed
  qed
  then show ?thesis by (simp add: choose_self_delivery_def request_driver_def)
qed

theorem fulfilment_mode_chosen_once_witness:
  "request_driver 302 9 sample_seller 100 (sample_state 4) =
     (Inl FulfillmentAlreadyChosen, sample_state 4)"
proof -
  let ?out = "choose_self_delivery 300 sample_seller 100 (sample_state 3)"
  have "(case fst ?out of Inl e \<Rightarrow> False | Inr f \<Rightarrow> True)" by code_simp
  then obtain f d1 where f: "?out = (Inr f, d1)" using outcome_ok by blast
  then have "d1 = sample_state 4"
    using sample_state_Suc [of 3] by (simp add: sample_requests_def get_db_flushing reply_def)
  with f fulfilment_mode_chosen_once [of 300 sample_seller 100 "sample_state 3" f d1]
  show ?thesis by simp
qed

text \<open>
  A delivery is started once, by whoever is responsible for it. After a successful start
  the order is out for delivery with an in-transit row; a self-delivery was started by the
  seller of the order, a driver delivery by that driver or by the seller; and a second start,
  by anyone, is refused and changes nothing.
\<close>

theorem delivery_started_once_by_authority:
  assumes "orders_inv d" and "out_for_delivery i started now c oid d = (Inr f, d')"
  shows "(\<exists>ord dl. get_row o_id oid (orders d') = Some ord \<and> o_status ord = OutForDelivery \<and>
      get_row d_order_id oid (deliveries d') = Some dl \<and> d_status dl = DInTransit \<and>
      d_started_at dl = Some started \<and>
      (case d_driver_id dl of
         None \<Rightarrow> u_role c = Seller \<and> u_id c = o_seller_id ord
       | Some drv \<Rightarrow> u_role c = Driver \<and> u_id c = drv \<or> u_role c = Seller \<and> u_id c = o_seller_id ord)) \<and>
    (\<exists>e. out_for_delivery j started' now' c' oid d' = (Inl e, d') \<and>
       e \<in> {DeliveryAlreadyStarted, OrderNotFound})"
  using assms(2)
proof (rule out_for_delivery_success)
  fix ord d1
  let ?f = "\<lambda>r. r\<lparr>o_status := OutForDelivery, o_out_for_delivery_at := Some now\<rparr>"
  assume role: "u_role c \<in> {Seller, Driver}"
    and ord: "get_row o_id oid (orders d) = Some ord" and st: "o_status ord = Preparing"
    and own: "u_role c = Seller \<Longrightarrow> o_seller_id ord = u_id c"
    and s: "start_delivery i started c ord d = (Inr (), d1)"
    and d': "d' = set_order oid ?f d1"
  from ord have id: "o_id ord = oid" by (rule get_row_SomeD)
  note eff = start_delivery_effect [OF assms(1) _ st s, unfolded id, OF ord]
  have row: "get_row o_id oid (orders d') = Some (?f ord)"
    by (simp add: d' get_row_set_order eff(2) ord)
  have "\<exists>dl. get_row d_order_id oid (deliveries d') = Some dl \<and> d_status dl = DInTransit \<and>
      d_started_at dl = Some started \<and>
      (case d_driver_id dl of
         None \<Rightarrow> u_role c = Seller \<and> u_id c = o_seller_id ord
       | Some drv \<Rightarrow> u_role c = Driver \<and> u_id c = drv \<or> u_role c = Seller \<and> u_id c = o_seller_id ord)"
    using start_delivery_success [OF s] role own
    by (auto simp: d' id set_delivery_def get_row_upd_row delivery_authority_def new_delivery_def
        get_row_append assigned_rows_def filter_eq_Cons_iff split: option.splits)
  moreover have "\<exists>e. out_for_delivery j started' now' c' oid d' = (Inl e, d') \<and>
       e \<in> {DeliveryAlreadyStarted, OrderNotFound}"
    using row by (auto simp: out_for_delivery_def lock_order_or_404_def load_order_locked_def)
  ultimately show ?thesis
    by (elim exE conjE) (intro conjI exI [of _ "?f ord"] exI, rule row, auto split: option.splits)
qed

theorem delivery_started_once_by_authority_witness:
  "\<exists>e. out_for_delivery 302 0 0 sample_driver 100 (snd (out_for_delivery 301 4000 4001 sample_seller 100
      (sample_state 4))) = (Inl e, snd (out_for_delivery 301 4000 4001 sample_seller 100 (sample_state 4)))"
proof -
  let ?out = "out_for_delivery 301 4000 4001 sample_seller 100 (sample_state 4)"
  have "(case fst ?out of Inl e \<Rightarrow> False | Inr f \<Rightarrow> True)" by code_simp
  then have "\<exists>f. ?out = (Inr f, snd ?out)"
    by (rule outcome_ok)
  with delivery_started_once_by_authority [OF sample_state_inv] show ?thesis by blast
qed

section \<open>Cancellation\<close>


section \<open>The purge job\<close>

text \<open>
  C25: one run of the job completes exactly the delivered orders older than the grace period
  that it could lock, then removes exactly the terminal ones past retention that it could
  lock, and reports the two numbers; every other order stays as it was, and every completed
  order it touched is recorded.
\<close>

theorem purge_job_exact:
  assumes "orders_inv d" and "get_retention_settings d = (ps, d0)"
    and "run_purge_job fresh fresh' skip skip' now d = (Inr c, d')"
  shows "let due = auto_complete_due skip (now - td_hours (ps_order_auto_complete_grace_hours ps));
             gone = purge_due skip' (now - td_days (ps_retention_min_days ps));
             mid = map (\<lambda>r. if due r then r\<lparr>o_status := Completed, o_completed_at := Some now\<rparr> else r)
                     (orders d)
         in orders d' = filter (\<lambda>r. \<not> gone r) mid \<and>
            auto_completed_count c = length (filter due (orders d)) \<and>
            purged_count c = length (filter gone mid) \<and>
            snapshots_grow d d'"
  using run_purge_job_effect [OF assms(1,3,2)]
  unfolding Let_def completed_def snapshots_grow_def by blast

theorem purge_job_exact_witness:
  "orders (snd (run_purge_job (\<lambda>n. 400 + n) (\<lambda>n. 500 + n) (\<lambda>_. False) (\<lambda>_. False)
     (5000 + td_hours 72) (sample_state 6))) \<noteq> []"
proof -
  let ?out = "run_purge_job (\<lambda>n. 400 + n) (\<lambda>n. 500 + n) (\<lambda>_. False) (\<lambda>_. False)
     (5000 + td_hours 72) (sample_state 6)"
  have "(case fst ?out of Inl e \<Rightarrow> False | Inr f \<Rightarrow> True)" by code_simp
  then obtain c where c: "?out = (Inr c, snd ?out)" using outcome_ok by blast
  have ps: "get_retention_settings (sample_state 6) =
      (default_settings, snd (get_retention_settings (sample_state 6)))"
    by code_simp
  have "filter (\<lambda>r. \<not> purge_due (\<lambda>_. False) (5000 + td_hours 72 - td_days 30) r)
     (map (\<lambda>r. if auto_complete_due (\<lambda>_. False) (5000 + td_hours 72 - td_hours 72) r
                then r\<lparr>o_status := Completed, o_completed_at := Some (5000 + td_hours 72)\<rparr> else r)
       (orders (sample_state 6))) \<noteq> []"
    by code_simp
  with purge_job_exact [OF sample_state_inv ps c] show ?thesis
    by (simp add: Let_def default_settings_def)
qed

end
