(* ===== verification/Catalogue_Properties.thy ===== *)
theory Catalogue_Properties
  imports Catalogue Sample_Data Order_Properties
begin

text \<open>
  Properties of the catalogue: slugs, the invariant of stores, products and galleries with the
  step relation behind it, ownership, what a customer may browse and order, the dashboard.
\<close>

section \<open>Slugs\<close>

lemma unique_slug_loop_Inr:
  "unique_slug_loop ss base n = Inr s \<Longrightarrow>
   \<exists>k\<ge>n. s = slug_candidate base k \<and> slug_candidate base k \<notin> st_slug ` set ss \<and>
     (\<forall>j. n \<le> j \<and> j < k \<longrightarrow> slug_candidate base j \<in> st_slug ` set ss)"
proof (induction ss base n rule: unique_slug_loop.induct)
  case (1 ss base n)
  let ?rows = "filter (\<lambda>st. st_slug st = slug_candidate base n) ss"
  consider e where "scalar_one_or_none ?rows = Inl e" | "?rows = []" | st where "?rows = [st]"
    by (cases ?rows; cases "tl ?rows") auto
  then show ?case
  proof cases
    case 1
    with "1.prems" show ?thesis by (subst (asm) unique_slug_loop.simps) simp
  next
    case 2
    then have "slug_candidate base n \<notin> st_slug ` set ss" by (auto simp: filter_empty_conv)
    moreover have "s = slug_candidate base n"
      using "1.prems" 2 by (subst (asm) unique_slug_loop.simps) simp
    ultimately show ?thesis by (intro exI [of _ n]) auto
  next
    case 3
    have taken: "slug_candidate base n \<in> st_slug ` set ss"
    proof -
      have "st \<in> set ?rows" by (subst 3) simp
      then show ?thesis by (auto intro!: rev_image_eqI [of st])
    qed
    have "unique_slug_loop ss base (Suc n) = Inr s"
      using "1.prems" 3 by (subst (asm) unique_slug_loop.simps) simp
    with "1.IH" [of "Some st" st] 3 obtain k where k: "Suc n \<le> k" "s = slug_candidate base k"
      "slug_candidate base k \<notin> st_slug ` set ss"
      "\<forall>j. Suc n \<le> j \<and> j < k \<longrightarrow> slug_candidate base j \<in> st_slug ` set ss"
      by auto
    have "\<forall>j. n \<le> j \<and> j < k \<longrightarrow> slug_candidate base j \<in> st_slug ` set ss"
      using k(4) taken by (metis Suc_leI le_neq_implies_less)
    with k show ?thesis by (intro exI [of _ k]) simp
  qed
qed

lemma distinct_const_le_1:
  "distinct (map f xs) \<Longrightarrow> (\<And>x. x \<in> set xs \<Longrightarrow> f x = c) \<Longrightarrow> length xs \<le> 1"
  by (cases xs; cases "tl xs") force+

lemma unique_slug_loop_total:
  "distinct (map st_slug ss) \<Longrightarrow> \<exists>s. unique_slug_loop ss base n = Inr s"
proof (induction ss base n rule: unique_slug_loop.induct)
  case (1 ss base n)
  let ?rows = "filter (\<lambda>st. st_slug st = slug_candidate base n) ss"
  have "distinct (map st_slug ?rows)" using "1.prems" by (rule distinct_map_filter)
  then have "length ?rows \<le> 1" by (rule distinct_const_le_1) simp
  then consider "?rows = []" | st where "?rows = [st]" by (cases ?rows; cases "tl ?rows") auto
  then show ?case
  proof cases
    case 1
    then show ?thesis by (subst unique_slug_loop.simps) simp
  next
    case 2
    with "1.IH" [of "Some st" st] "1.prems" show ?thesis
      by (subst unique_slug_loop.simps) simp
  qed
qed

text \<open>
  C28: the search for a free slug always ends, with the first candidate no store has, after at
  most one query more than there are stores.
\<close>

theorem unique_slug_first_free:
  assumes "distinct (map st_slug ss)"
  shows "\<exists>k \<le> length ss. unique_slug ss base = Inr (slug_candidate base k) \<and>
           slug_candidate base k \<notin> st_slug ` set ss \<and>
           slug_candidate base ` {..<k} \<subseteq> st_slug ` set ss"
proof -
  obtain s where s: "unique_slug ss base = Inr s"
    using unique_slug_loop_total [OF assms] by (auto simp: unique_slug_def)
  then obtain k where k: "s = slug_candidate base k" "slug_candidate base k \<notin> st_slug ` set ss"
    "\<forall>j. 0 \<le> j \<and> j < k \<longrightarrow> slug_candidate base j \<in> st_slug ` set ss"
    unfolding unique_slug_def using unique_slug_loop_Inr by blast
  then have sub: "slug_candidate base ` {..<k} \<subseteq> st_slug ` set ss" by auto
  have "inj_on (slug_candidate base) {..<k}" by (simp add: inj_on_def slug_candidate_inject)
  then have "k = card (slug_candidate base ` {..<k})" by (simp add: card_image)
  also have "\<dots> \<le> card (st_slug ` set ss)" using sub by (intro card_mono) simp_all
  also have "\<dots> \<le> length ss" by (metis card_length length_map list.set_map)
  finally show ?thesis using s k sub by blast
qed

theorem unique_slug_first_free_witness:
  "\<exists>k \<le> 1. unique_slug (stores sample_db) ''s'' = Inr (slug_candidate ''s'' k) \<and>
     slug_candidate ''s'' k \<notin> st_slug ` set (stores sample_db) \<and>
     slug_candidate ''s'' ` {..<k} \<subseteq> st_slug ` set (stores sample_db)"
  using unique_slug_first_free [of "stores sample_db" "''s''"] by (simp add: sample_defs)

definition slug_ok :: "string \<Rightarrow> bool" where
  "slug_ok s \<longleftrightarrow> s \<noteq> [] \<and> list_all (\<lambda>c. slug_char c \<or> c = CHR ''-'') s \<and>
     hd s \<noteq> CHR ''-'' \<and> last s \<noteq> CHR ''-'' \<and>
     successively (\<lambda>a b. \<not> (a = CHR ''-'' \<and> b = CHR ''-'')) s"

lemma slug_char_dash [simp]: "\<not> slug_char CHR ''-''"
  by (simp add: slug_char_def)

lemma dash_runs_chars: "list_all (\<lambda>c. slug_char c \<or> c = CHR ''-'') (dash_runs b s)"
  by (induction s arbitrary: b) auto

lemma dash_runs_single:
  "successively (\<lambda>a b. \<not> (a = CHR ''-'' \<and> b = CHR ''-'')) (dash_runs b s) \<and>
   (b \<longrightarrow> dash_runs b s = [] \<or> hd (dash_runs b s) \<noteq> CHR ''-'')"
proof (induction s arbitrary: b)
  case (Cons c cs)
  from Cons [of True] Cons [of False] show ?case by (auto simp: successively_Cons)
qed simp

lemma successively_dropWhile: "successively P s \<Longrightarrow> successively P (dropWhile Q s)"
  by (induction s) (auto simp: successively_Cons)

lemma hd_dropWhile_not: "dropWhile Q s \<noteq> [] \<Longrightarrow> \<not> Q (hd (dropWhile Q s))"
  by (rule hd_dropWhile)

lemma hd_rev_dropWhile_rev:
  "rev (dropWhile Q (rev s)) \<noteq> [] \<Longrightarrow> hd (rev (dropWhile Q (rev s))) = hd s"
proof (induction s rule: rev_induct)
  case (snoc c cs)
  then show ?case by (cases "Q c"; cases cs) auto
qed simp

lemma slugify_slug_ok: "slug_ok (slugify v)"
proof -
  define t where "t = dash_runs False (lower v)"
  define u where "u = dropWhile (\<lambda>c. c = CHR ''-'') t"
  define w where "w = rev (dropWhile (\<lambda>c. c = CHR ''-'') (rev u))"
  have slug: "slugify v = (if w = [] then ''store'' else w)"
    unfolding slugify_def strip_dashes_def t_def u_def w_def Let_def by (rule refl)
  have "set w \<subseteq> set u" using set_dropWhileD [of _ "\<lambda>c. c = CHR ''-''" "rev u"] by (auto simp: w_def)
  moreover have "set u \<subseteq> set t" unfolding u_def by (blast dest: set_dropWhileD)
  ultimately have "set w \<subseteq> set t" by blast
  then have chars: "list_all (\<lambda>c. slug_char c \<or> c = CHR ''-'') w"
    using dash_runs_chars [of False "lower v"] by (auto simp: t_def list_all_iff)
  have "successively (\<lambda>a b. \<not> (a = CHR ''-'' \<and> b = CHR ''-'')) u"
    using dash_runs_single [of False "lower v"] by (simp add: u_def t_def successively_dropWhile)
  then have "successively (\<lambda>a b. \<not> (b = CHR ''-'' \<and> a = CHR ''-'')) (rev u)"
    by (simp add: successively_rev)
  then have single: "successively (\<lambda>a b. \<not> (a = CHR ''-'' \<and> b = CHR ''-'')) w"
    by (simp add: w_def successively_rev successively_dropWhile)
  have last: "last w \<noteq> CHR ''-''" if "w \<noteq> []"
    using that hd_dropWhile_not [of "\<lambda>c. c = CHR ''-''" "rev u"] by (simp add: w_def last_rev)
  have "hd w = hd u" if "w \<noteq> []" using that by (simp add: w_def hd_rev_dropWhile_rev)
  moreover have "u \<noteq> []" if "w \<noteq> []" using that by (auto simp: w_def)
  ultimately have hd: "hd w \<noteq> CHR ''-''" if "w \<noteq> []"
    using that hd_dropWhile_not [of "\<lambda>c. c = CHR ''-''" t] by (simp add: u_def)
  show ?thesis
    using slug chars single last hd by (simp add: slug_ok_def) (simp add: slug_char_def)
qed

lemma lower_char_slug: "slug_char c \<Longrightarrow> lower_char c = c"
  by (auto simp: slug_char_def lower_char_def Let_def)

lemma dash_runs_slug:
  "list_all (\<lambda>c. slug_char c \<or> c = CHR ''-'') s \<Longrightarrow>
   successively (\<lambda>a b. \<not> (a = CHR ''-'' \<and> b = CHR ''-'')) s \<Longrightarrow>
   (b \<Longrightarrow> s = [] \<or> hd s \<noteq> CHR ''-'') \<Longrightarrow> dash_runs b s = s"
  by (induction s arbitrary: b) (auto simp: successively_Cons)

lemma dropWhile_hd: "s = [] \<or> \<not> P (hd s) \<Longrightarrow> dropWhile P s = s"
  by (cases s) auto

lemma slug_ok_fixed:
  assumes "slug_ok s"
  shows "slugify s = s"
proof -
  have chars: "list_all (\<lambda>c. slug_char c \<or> c = CHR ''-'') s" using assms by (simp add: slug_ok_def)
  then have "lower s = s"
    by (induction s) (auto simp: lower_def lower_char_slug, simp add: lower_char_def)
  moreover have "dash_runs False s = s"
    using assms by (intro dash_runs_slug) (auto simp: slug_ok_def)
  moreover have "strip_dashes s = s"
    using assms by (simp add: strip_dashes_def slug_ok_def dropWhile_hd hd_rev)
  ultimately show ?thesis using assms by (simp add: slugify_def slug_ok_def)
qed

text \<open>
  A slug made from a name is never empty, has only lower-case letters, digits and single
  inner dashes, and making a slug of a slug changes nothing.
\<close>

theorem slugify_well_formed: "slug_ok (slugify v) \<and> slugify (slugify v) = slugify v"
  using slugify_slug_ok slug_ok_fixed by blast

text \<open>
  A slug the seller gives is only stripped and lowered: two blanks become the empty slug.
\<close>

theorem given_slug_unchecked:
  "map_sum id st_slug (fst (create_store 50 0 sample_seller ''Shop'' ''Oslo'' None (Some ''  '') True
     (sample_db\<lparr>stores := []\<rparr>))) = Inr [] \<and>
   map_sum id st_slug (fst (create_store 50 0 sample_seller ''Shop'' ''Oslo'' None (Some ''a/b ?'') True
     (sample_db\<lparr>stores := []\<rparr>))) = Inr ''a/b ?''"
  by code_simp

section \<open>The steps of the catalogue\<close>

lemma map_sum_Inr: "map_sum f g x = Inr b \<longleftrightarrow> (\<exists>a. x = Inr a \<and> b = g a)"
  by (cases x) auto

text \<open>
  What a successful request may do to the database, as a step relation for the caller: open a
  store, edit it, list a product, change a product the guard lets through.
\<close>

definition gallery_kept :: "uuid \<Rightarrow> product_image list \<Rightarrow> product_image list \<Rightarrow> bool" where
  "gallery_kept pid rows rows' \<longleftrightarrow>
     (distinct (map pi_id rows) \<longrightarrow> distinct (map pi_id rows')) \<and>
     filter (\<lambda>i. pi_product_id i \<noteq> pid) rows' = filter (\<lambda>i. pi_product_id i \<noteq> pid) rows"

inductive catalogue_step :: "user \<Rightarrow> db \<Rightarrow> db \<Rightarrow> bool" where
  open_store:
    "get_caller_seller d c = Inr s \<Longrightarrow> st_seller_id st = s_id s \<Longrightarrow>
     st_id st \<notin> st_id ` set (stores d) \<Longrightarrow> st_seller_id st \<notin> st_seller_id ` set (stores d) \<Longrightarrow>
     st_slug st \<notin> st_slug ` set (stores d) \<Longrightarrow>
     catalogue_step c d (set_city (s_id s) city d \<lparr>stores := stores d @ [st]\<rparr>)"
| edit_store:
    "get_caller_seller d c = Inr s \<Longrightarrow> st \<in> set (stores d) \<Longrightarrow> st_seller_id st = s_id s \<Longrightarrow>
     st_id st' = st_id st \<Longrightarrow> st_seller_id st' = st_seller_id st \<Longrightarrow> st_slug st' = st_slug st \<Longrightarrow>
     catalogue_step c d (set_store (st_id st) (\<lambda>_. st')
       (case city of None \<Rightarrow> d | Some x \<Rightarrow> set_city (s_id s) x d))"
| list_product:
    "get_caller_seller d c = Inr s \<Longrightarrow> st \<in> set (stores d) \<Longrightarrow> st_seller_id st = s_id s \<Longrightarrow>
     p_seller_id p = s_id s \<Longrightarrow> p_store_id p = st_id st \<Longrightarrow> product_columns_ok p \<Longrightarrow>
     product_checks_ok p \<Longrightarrow> p_id p \<notin> p_id ` set (products d) \<Longrightarrow>
     gallery_kept (p_id p) (product_images d) rows \<Longrightarrow>
     catalogue_step c d (d\<lparr>products := products d @ [p], product_images := rows\<rparr>)"
| change_product:
    "product_guard d c (get_row p_id (p_id p) (products d)) = Inr p \<Longrightarrow>
     p_id p' = p_id p \<Longrightarrow> p_seller_id p' = p_seller_id p \<Longrightarrow> p_store_id p' = p_store_id p \<Longrightarrow>
     (product_columns_ok p \<Longrightarrow> product_columns_ok p') \<Longrightarrow>
     (product_checks_ok p \<Longrightarrow> product_checks_ok p') \<Longrightarrow>
     gallery_kept (p_id p) (product_images d) rows \<Longrightarrow>
     catalogue_step c d (set_product (p_id p) (\<lambda>_. p') d \<lparr>product_images := rows\<rparr>)"

inductive_cases catalogue_stepE: "catalogue_step c d d'"

lemma add_store_InrD:
  "add_store st d = (Inr u, d') \<Longrightarrow>
   d' = d\<lparr>stores := stores d @ [st]\<rparr> \<and> st_id st \<notin> st_id ` set (stores d) \<and>
   st_seller_id st \<notin> st_seller_id ` set (stores d) \<and> st_slug st \<notin> st_slug ` set (stores d)"
  by (auto simp: add_store_def split: if_splits)

lemma set_city_tables [simp]:
  "stores (set_city i x d) = stores d" "products (set_city i x d) = products d"
  "product_images (set_city i x d) = product_images d"
  "sellers (set_city i x d) = upd_row s_id i (\<lambda>s. s\<lparr>s_city := x\<rparr>) (sellers d)"
  by (simp_all add: set_city_def)

lemma set_store_tables [simp]:
  "stores (set_store i f d) = upd_row st_id i f (stores d)" "sellers (set_store i f d) = sellers d"
  "products (set_store i f d) = products d" "product_images (set_store i f d) = product_images d"
  by (simp_all add: set_store_def)

lemma set_product_tables [simp]:
  "products (set_product i f d) = upd_row p_id i f (products d)"
  "stores (set_product i f d) = stores d" "sellers (set_product i f d) = sellers d"
  "product_images (set_product i f d) = product_images d"
  by (simp_all add: set_product_def)

lemma live_store_rowsD:
  "scalar_one_or_none (live_store_rows d i) = Inr (Some st) \<Longrightarrow>
   st \<in> set (stores d) \<and> st_seller_id st = i \<and> st_deleted_at st = None"
  by (auto simp: scalar_one_or_none_cases live_store_rows_def filter_eq_Cons_iff)

lemma create_store_step:
  assumes "create_store new_id now c name city description slug pub d = (Inr st, d')"
  shows "catalogue_step c d d'"
proof -
  from assms obtain s where s: "get_caller_seller d c = Inr s"
    by (auto simp: create_store_def split: if_splits sum.splits)
  let ?d1 = "set_city (s_id s) (strip city) d"
  from assms s obtain u where "add_store st ?d1 = (Inr u, d')" and st: "st_seller_id st = s_id s"
    by (auto simp: create_store_def Let_def split: if_splits sum.splits option.splits prod.splits
        app_exception.splits)
  from add_store_InrD [OF this(1)] show ?thesis
    using open_store [OF s st, of "strip city"] by simp
qed

lemma update_own_store_step:
  assumes "update_own_store c name city description active pub d = (Inr st', d')"
  shows "catalogue_step c d d'"
proof -
  from assms obtain s where s: "get_caller_seller d c = Inr s"
    by (auto simp: update_own_store_def split: if_splits sum.splits)
  from assms s obtain st where st: "scalar_one_or_none (live_store_rows d (s_id s)) = Inr (Some st)"
    and st': "st' = patched_store name description active pub st"
    and d': "d' = set_store (st_id st) (\<lambda>_. st')
       (case city of None \<Rightarrow> d | Some x \<Rightarrow> set_city (s_id s) (strip x) d)"
    by (auto simp: update_own_store_def Let_def split: if_splits sum.splits option.splits)
  have eq: "d' = set_store (st_id st) (\<lambda>_. st')
      (case map_option strip city of None \<Rightarrow> d | Some x \<Rightarrow> set_city (s_id s) x d)"
    unfolding d' by (cases city) simp_all
  have "st \<in> set (stores d)" "st_seller_id st = s_id s" using live_store_rowsD [OF st] by auto
  with s show ?thesis
    unfolding eq by (rule edit_store) (simp_all add: st' patched_store_def)
qed

lemma add_images_Inr:
  "add_images fresh n pid specs rows = Inr rows' \<Longrightarrow>
   (distinct (map pi_id rows) \<longrightarrow> distinct (map pi_id rows')) \<and>
   (\<exists>new. rows' = rows @ new \<and> (\<forall>i \<in> set new. pi_product_id i = pid))"
proof (induction specs arbitrary: n rows)
  case (Cons spec specs)
  let ?i = "\<lparr>pi_id = fresh n, pi_product_id = pid, pi_s3_key = fst spec, pi_display_order = snd spec\<rparr>"
  from Cons.prems have "add_images fresh (Suc n) pid specs (rows @ [?i]) = Inr rows'"
    and "fresh n \<notin> pi_id ` set rows"
    by (simp_all split: if_splits)
  with Cons.IH [of "Suc n" "rows @ [?i]"] show ?case by auto
qed simp

lemma add_images_gallery:
  assumes "add_images fresh n pid specs rows = Inr rows'"
  shows "gallery_kept pid rows rows'"
  using add_images_Inr [OF assms] by (auto simp: gallery_kept_def filter_empty_conv)

lemma replace_images_gallery:
  assumes "replace_images fresh pid specs rows = Inr rows'"
  shows "gallery_kept pid rows rows'"
proof -
  have "gallery_kept pid (delete_where (\<lambda>i. pi_product_id i = pid) rows) rows'"
    using assms unfolding replace_images_def by (rule add_images_gallery)
  then show ?thesis
    by (auto simp: gallery_kept_def delete_where_def distinct_map_filter)
qed

lemma gallery_kept_refl [simp]: "gallery_kept pid rows rows"
  by (simp add: gallery_kept_def)

lemma loaded_productD: "loaded_product pid d = (Inr pd, d') \<Longrightarrow> d' = d"
  by (auto simp: loaded_product_def split: option.splits)

lemma create_product_step:
  assumes "create_product fresh now c name price description stock images sid d = (Inr pd, d')"
  shows "catalogue_step c d d'"
proof -
  from assms obtain s where s: "get_caller_seller d c = Inr s"
    by (auto simp: create_product_def split: sum.splits)
  from assms s obtain st where st: "get_caller_store d s = Inr st"
    by (auto simp: create_product_def split: sum.splits)
  then have st': "st \<in> set (stores d)" "st_seller_id st = s_id s"
    by (auto simp: get_caller_store_def dest: live_store_rowsD split: sum.splits option.splits)
  define p where "p = \<lparr>p_id = fresh 0, p_seller_id = s_id s, p_store_id = st_id st,
     p_name = strip name, p_description = strip (or_else description []), p_price_minor = price,
     p_stock_quantity = stock, p_is_active = True, p_status = PActive, p_disabled_at = None,
     p_disabled_reason = None, p_created_at = now, p_deleted_at = None\<rparr>"
  from assms s st obtain rows where "product_columns_ok p" "product_checks_ok p"
    "p_id p \<notin> p_id ` set (products d)"
    "add_images fresh 1 (p_id p) images (product_images d) = Inr rows"
    "d' = d\<lparr>products := products d @ [p], product_images := rows\<rparr>"
    by (auto simp: create_product_def Let_def p_def [symmetric] dest: loaded_productD
        split: if_splits sum.splits)
  then show ?thesis
    using s st' by (auto simp: p_def intro!: list_product dest: add_images_gallery)
qed

lemma product_guardD:
  "product_guard d c (get_row p_id i (products d)) = Inr p \<Longrightarrow>
   p \<in> set (products d) \<and> p_id p = i \<and> p_deleted_at p = None"
  by (auto simp: product_guard_def dest: get_row_SomeD
      split: option.splits if_splits user_role.splits sum.splits)

lemma update_product_step:
  assumes "update_product fresh c pid name description price stock active images d = (Inr pd, d')"
  shows "catalogue_step c d d'"
proof -
  from assms obtain p where p: "product_guard d c (get_row p_id pid (products d)) = Inr p"
    by (auto simp: update_product_def split: sum.splits)
  then have pid: "p_id p = pid" by (auto dest: product_guardD)
  define p' where "p' = patched_product name description price stock active p"
  from assms p obtain rows where ok: "product_columns_ok p'" "product_checks_ok p'"
    and rows: "(case images of None \<Rightarrow> Inr (product_images d)
       | Some specs \<Rightarrow> replace_images fresh pid specs (product_images d)) = (Inr rows :: product_image list res)"
    and d': "d' = set_product pid (\<lambda>_. p') d \<lparr>product_images := rows\<rparr>"
    by (cases images) (auto simp: update_product_def Let_def p'_def [symmetric] dest: loaded_productD
        split: if_splits sum.splits)
  have "gallery_kept pid (product_images d) rows"
    using rows by (auto dest: replace_images_gallery split: option.splits)
  then have "catalogue_step c d (set_product (p_id p) (\<lambda>_. p') d \<lparr>product_images := rows\<rparr>)"
    using p pid ok by (intro change_product) (auto simp: p'_def patched_product_def)
  then show ?thesis by (simp add: d' pid)
qed

lemma upd_row_const:
  assumes "distinct (map key rows)" and "get_row key k rows = Some r"
  shows "upd_row key k f rows = upd_row key k (\<lambda>_. f r) rows"
  unfolding upd_row_def update_where_def
  using assms(1) get_row_SomeD [OF assms(2)] by (intro map_cong) (auto dest: distinct_key_eq)

lemma soft_delete_product_step:
  assumes "soft_delete_product now c pid d = (Inr u, d')" and "distinct (map p_id (products d))"
  shows "catalogue_step c d d'"
proof -
  let ?f = "\<lambda>p. p\<lparr>p_deleted_at := Some now, p_is_active := False\<rparr>"
  from assms obtain p where p: "product_guard d c (get_row p_id pid (products d)) = Inr p"
    and d': "d' = set_product pid ?f d"
    by (auto simp: soft_delete_product_def split: sum.splits)
  from product_guardD [OF p] have row: "p_id p = pid" "get_row p_id pid (products d) = Some p"
    using get_row_distinct [OF assms(2)] by auto
  have "d' = set_product (p_id p) (\<lambda>_. ?f p) d \<lparr>product_images := product_images d\<rparr>"
    using upd_row_const [OF assms(2) row(2), of ?f] by (simp add: d' set_product_def row(1))
  moreover have "catalogue_step c d \<dots>"
    using p row(1) by (intro change_product)
      (auto simp: product_columns_ok_def product_checks_ok_def)
  ultimately show ?thesis by simp
qed

section \<open>The invariant\<close>

definition product_ok :: "store list \<Rightarrow> product \<Rightarrow> bool" where
  "product_ok sts p \<longleftrightarrow> product_columns_ok p \<and> product_checks_ok p \<and>
     (\<exists>st \<in> set sts. st_id st = p_store_id p \<and> st_seller_id st = p_seller_id p)"

text \<open>
  One profile per user, one store per profile, unique slugs; every product is priced within
  its column, stocked or unlimited, and listed in the store of its seller; every image belongs
  to a product.
\<close>

definition catalogue_inv :: "db \<Rightarrow> bool" where
  "catalogue_inv d \<longleftrightarrow>
     distinct (map s_id (sellers d)) \<and> distinct (map s_user_id (sellers d)) \<and>
     distinct (map st_id (stores d)) \<and> distinct (map st_seller_id (stores d)) \<and>
     distinct (map st_slug (stores d)) \<and> distinct (map p_id (products d)) \<and>
     distinct (map pi_id (product_images d)) \<and>
     (\<forall>p \<in> set (products d). product_ok (stores d) p) \<and>
     pi_product_id ` set (product_images d) \<subseteq> p_id ` set (products d)"

lemma catalogue_invD:
  assumes "catalogue_inv d"
  shows "distinct (map s_id (sellers d))" "distinct (map s_user_id (sellers d))"
    "distinct (map st_id (stores d))" "distinct (map st_seller_id (stores d))"
    "distinct (map st_slug (stores d))" "distinct (map p_id (products d))"
    "distinct (map pi_id (product_images d))"
    "p \<in> set (products d) \<Longrightarrow> product_ok (stores d) p"
    "pi_product_id ` set (product_images d) \<subseteq> p_id ` set (products d)"
  using assms unfolding catalogue_inv_def by blast+

lemma product_ok_mono:
  "product_ok sts p \<Longrightarrow>
   (\<And>st. st \<in> set sts \<Longrightarrow> \<exists>st' \<in> set sts'. st_id st' = st_id st \<and> st_seller_id st' = st_seller_id st) \<Longrightarrow>
   product_ok sts' p"
  by (force simp: product_ok_def)

lemma gallery_kept_products:
  assumes "gallery_kept pid rows rows'" and "pi_product_id ` set rows \<subseteq> K" and "pid \<in> K"
  shows "pi_product_id ` set rows' \<subseteq> K"
proof
  fix k assume "k \<in> pi_product_id ` set rows'"
  then obtain i where i: "i \<in> set rows'" "k = pi_product_id i" by auto
  show "k \<in> K"
  proof (cases "pi_product_id i = pid")
    case False
    have eq: "filter (\<lambda>i. pi_product_id i \<noteq> pid) rows' = filter (\<lambda>i. pi_product_id i \<noteq> pid) rows"
      using assms(1) by (simp add: gallery_kept_def)
    from i False have "i \<in> set (filter (\<lambda>i. pi_product_id i \<noteq> pid) rows')" by simp
    then have "i \<in> set rows" unfolding eq by simp
    with i assms(2) show ?thesis by auto
  qed (use i assms(3) in simp)
qed

lemma gallery_kept_distinct:
  "gallery_kept pid rows rows' \<Longrightarrow> distinct (map pi_id rows) \<Longrightarrow> distinct (map pi_id rows')"
  by (simp add: gallery_kept_def)

text \<open>
  Replacing one row by another with the same keys.
\<close>

lemma map_key_replace:
  assumes "distinct (map key rows)" and "r \<in> set rows" and "key r' = key r" and "g r' = g r"
  shows "map g (upd_row key (key r) (\<lambda>_. r') rows) = map g rows"
  unfolding upd_row_def update_where_def map_map
  using assms by (intro map_cong) (auto dest: distinct_key_eq)

lemma catalogue_step_inv:
  assumes "catalogue_step c d d'" and inv: "catalogue_inv d"
  shows "catalogue_inv d'"
  using assms(1)
proof cases
  case (open_store s st city)
  have "product_ok (stores d @ [st]) p" if "p \<in> set (products d)" for p
  proof (rule product_ok_mono [of "stores d"])
    show "product_ok (stores d) p" using inv that by (rule catalogue_invD)
  qed auto
  with open_store inv show ?thesis by (simp add: catalogue_inv_def row_simps)
next
  case (edit_store s st st' city)
  note dist = catalogue_invD(3) [OF inv]
  note keys = map_key_replace [OF dist edit_store(3) edit_store(5)]
  let ?sts = "upd_row st_id (st_id st) (\<lambda>_. st') (stores d)"
  have "product_ok ?sts p" if "p \<in> set (products d)" for p
  proof (rule product_ok_mono [of "stores d"])
    show "product_ok (stores d) p" using inv that by (rule catalogue_invD)
    fix x assume x: "x \<in> set (stores d)"
    show "\<exists>y \<in> set ?sts. st_id y = st_id x \<and> st_seller_id y = st_seller_id x"
    proof (cases "st_id x = st_id st")
      case True
      then have "x = st" using dist x edit_store(3) by (metis distinct_key_eq)
      with x edit_store(5,6) show ?thesis by (force simp: set_upd_row)
    qed (use x in \<open>force simp: set_upd_row\<close>)
  qed
  moreover have "map s_id (sellers d') = map s_id (sellers d)"
    and "map s_user_id (sellers d') = map s_user_id (sellers d)"
    unfolding edit_store by (cases city; simp add: row_simps)+
  moreover have "stores d' = ?sts" "products d' = products d" "product_images d' = product_images d"
    unfolding edit_store by (cases city; simp)+
  ultimately show ?thesis
    using inv keys [of st_id] keys [of st_seller_id] keys [of st_slug] edit_store(5-7)
    by (simp add: catalogue_inv_def)
next
  case (list_product s st p rows)
  have "product_ok (stores d) p"
    using list_product by (auto simp: product_ok_def)
  moreover have "pi_product_id ` set rows \<subseteq> insert (p_id p) (p_id ` set (products d))"
    by (rule gallery_kept_products [OF list_product(10)]) (use catalogue_invD(9) [OF inv] in blast)+
  moreover have "distinct (map pi_id rows)"
    using list_product(10) catalogue_invD(7) [OF inv] by (rule gallery_kept_distinct)
  ultimately show ?thesis using inv list_product by (simp add: catalogue_inv_def)
next
  case (change_product p p' rows)
  note dist = catalogue_invD(6) [OF inv]
  have p: "p \<in> set (products d)" using product_guardD [OF change_product(2)] by simp
  with inv have ok: "product_ok (stores d) p" by (rule catalogue_invD)
  then have "product_ok (stores d) p'" using change_product by (auto simp: product_ok_def)
  moreover have "map p_id (products d') = map p_id (products d)"
    unfolding change_product using map_key_replace [OF dist p change_product(3)] change_product(3)
    by simp
  then have ids: "distinct (map p_id (products d'))" "p_id ` set (products d') = p_id ` set (products d)"
    using dist by (metis, metis list.set_map)
  moreover have "pi_product_id ` set rows \<subseteq> p_id ` set (products d)"
    by (rule gallery_kept_products [OF change_product(8)])
      (use catalogue_invD(9) [OF inv] p in auto)
  moreover have "distinct (map pi_id rows)"
    using change_product(8) catalogue_invD(7) [OF inv] by (rule gallery_kept_distinct)
  ultimately show ?thesis
    using inv unfolding change_product by (auto simp: catalogue_inv_def set_upd_row)
qed

lemma exec_catalogue_step:
  assumes "exec_catalogue q d = (Inr a, d')" and "distinct (map p_id (products d))"
  shows "catalogue_step (caller_of q) d d'"
proof (cases q)
  case (PostStore new_id now c b)
  with assms(1) obtain st where "create_store new_id now c (cs_name b) (cs_city b)
      (cs_description b) (cs_slug b) (cs_is_public b) d = (Inr st, d')"
    by (auto simp: store_reply_def split: sum.splits if_splits prod.splits)
  then show ?thesis using PostStore by (auto dest: create_store_step)
next
  case (PatchStore c b)
  with assms(1) obtain st where "update_own_store c (us_name b) (us_city b) (us_description b)
      (us_is_active b) (us_is_public b) d = (Inr st, d')"
    by (auto simp: store_reply_def split: sum.splits if_splits prod.splits)
  then show ?thesis using PatchStore by (auto dest: update_own_store_step)
next
  case (PostProduct fresh now c b)
  with assms(1) obtain pd where "create_product fresh now c (cp_name b) (cp_price_minor b)
      (cp_description b) (cp_stock_quantity b) (cp_images b) (cp_store_id b) d = (Inr pd, d')"
    by (auto simp: product_reply_def prod_eq_iff map_sum_Inr split: sum.splits if_splits)
  then show ?thesis using PostProduct by (auto dest: create_product_step)
next
  case (PatchProduct fresh c pid b)
  with assms(1) obtain pd where "update_product fresh c pid (up_name b) (up_description b)
      (up_price_minor b) (up_stock_quantity b) (up_is_active b) (up_images b) d = (Inr pd, d')"
    by (auto simp: product_reply_def prod_eq_iff map_sum_Inr split: sum.splits if_splits)
  then show ?thesis using PatchProduct by (auto dest: update_product_step)
next
  case (DeleteProduct now c pid)
  with assms(1) obtain u where "soft_delete_product now c pid d = (Inr u, d')"
    by (auto simp: prod_eq_iff map_sum_Inr split: sum.splits)
  then show ?thesis using DeleteProduct assms(2) by (auto dest: soft_delete_product_step)
qed

interpretation catalogue: transactional exec_catalogue catalogue_inv
proof
  fix d q a d'
  assume inv: "catalogue_inv d" and run: "exec_catalogue q d = (Inr a, d')"
  note catalogue_invD(6) [OF inv]
  with run have "catalogue_step (caller_of q) d d'" by (rule exec_catalogue_step)
  then show "catalogue_inv d'" using inv by (rule catalogue_step_inv)
qed

text \<open>
  C26: any sequence of catalogue requests keeps the catalogue consistent: one store per seller,
  unique slugs, every product priced and stocked within its columns and in its seller's store.
\<close>

theorem catalogue_stays_consistent:
  assumes "catalogue_inv d"
  shows "catalogue_inv (run_requests exec_catalogue qs d)"
  using assms by (rule catalogue.run_keeps)

definition sample_catalogue_requests :: "catalogue_request list" where
  "sample_catalogue_requests =
     [PatchStore sample_seller \<lparr>us_name = None, us_city = Some ''Bergen'', us_description = None,
        us_is_active = None, us_is_public = Some True\<rparr>,
      PostProduct (\<lambda>n. 30 + n) 5 sample_seller \<lparr>cp_store_id = None, cp_name = ''Tea'',
        cp_description = None, cp_price_minor = 90, cp_stock_quantity = Some 3,
        cp_images = [(''b'', 1), (''a'', 0)]\<rparr>,
      PatchProduct (\<lambda>n. 40 + n) sample_seller 30 \<lparr>up_name = None, up_description = None,
        up_price_minor = Some 95, up_stock_quantity = None, up_is_active = None,
        up_images = Some [(''c'', 0)]\<rparr>,
      DeleteProduct 6 sample_admin 20]"

lemma sample_catalogue_inv: "catalogue_inv sample_db"
  by (simp add: catalogue_inv_def product_ok_def product_columns_ok_def product_checks_ok_def
      int4_def int8_def sample_defs)

theorem catalogue_stays_consistent_witness:
  "catalogue_inv (run_requests exec_catalogue sample_catalogue_requests sample_db)"
  using sample_catalogue_inv by (rule catalogue_stays_consistent)

section \<open>Ownership\<close>








section \<open>Browsing\<close>

lemma get_customer_product:
  assumes "u_role c = Customer" and "customer_sees d c p" and "p_deleted_at p = None"
    and "get_row p_id (p_id p) (products d) = Some p"
  shows "\<exists>imgs. get_product_for_caller d c (p_id p) = Inr (p, imgs)"
  using assms by (auto simp: customer_sees_def get_product_for_caller_def
      load_product_with_images_def split: option.splits)

lemma listed_product:
  assumes "list_products_for_caller d c store_id seller_id limit = Inr ps" and "p \<in> set ps"
  shows "p \<in> set (products d) \<and> p_deleted_at p = None \<and> p_is_active p \<and>
    (u_role c = Admin \<or> u_role c = Customer \<and> customer_sees d c p \<or>
     u_role c = Seller \<and> (\<exists>s. get_caller_seller d c = Inr s \<and> p_seller_id p = s_id s))"
  using assms
  by (cases "u_role c") (auto simp: list_products_for_caller_def Let_def dest!: in_set_takeD
      split: sum.splits)

lemma listed_newest_first:
  assumes "list_products_for_caller d c store_id seller_id limit = Inr ps"
  shows "sorted_wrt (\<lambda>a b. p_created_at b \<le> p_created_at a) ps \<and> length ps \<le> 100"
proof -
  have "page_limit limit \<le> 100" by (simp add: page_limit_def)
  then show ?thesis
    using assms
    by (cases "u_role c") (auto simp: list_products_for_caller_def Let_def sorted_order_desc
        intro: sorted_wrt_take split: sum.splits)
qed

lemma listed_product_opens:
  assumes "catalogue_inv d" and "list_products_for_caller d c store_id seller_id limit = Inr ps"
    and "p \<in> set ps"
  shows "\<exists>imgs. get_product_for_caller d c (p_id p) = Inr (p, imgs)"
proof -
  note p = listed_product [OF assms(2,3)]
  have row: "get_row p_id (p_id p) (products d) = Some p"
    using p catalogue_invD(6) [OF assms(1)] by (simp add: get_row_distinct)
  show ?thesis
  proof (cases "u_role c")
    case Customer
    with p row show ?thesis by (intro get_customer_product) auto
  qed (use p row in \<open>auto simp: get_product_for_caller_def load_product_with_images_def\<close>)
qed

text \<open>
  A list of products has at most a hundred entries, newest first, and whoever sees a
  product in the list can open it.
\<close>

theorem listed_products_can_be_opened:
  assumes "catalogue_inv d" and "list_products_for_caller d c store_id seller_id limit = Inr ps"
    and "p \<in> set ps"
  shows "length ps \<le> 100 \<and> sorted_wrt (\<lambda>a b. p_created_at b \<le> p_created_at a) ps \<and>
    (\<exists>imgs. get_product_for_caller d c (p_id p) = Inr (p, imgs))"
  using listed_product_opens [OF assms] listed_newest_first [OF assms(2)] by simp

definition open_store_db :: db where
  "open_store_db = sample_db\<lparr>stores := map (\<lambda>st. st\<lparr>st_is_public := True\<rparr>) (stores sample_db)\<rparr>"

lemma open_store_db_inv: "catalogue_inv open_store_db"
  by (simp add: catalogue_inv_def product_ok_def product_columns_ok_def product_checks_ok_def
      int4_def int8_def open_store_db_def sample_defs)

definition stranger :: user where
  "stranger = sample_user 5 Customer (Some 77)"

lemma stranger_browses:
  "list_products_for_caller open_store_db stranger None None 20 =
     Inr [sample_product 20 150 (Some 5), sample_product 21 40 None]"
  by (simp add: list_products_for_caller_def order_desc_def customer_sees_def filter_opt_def
      page_limit_def open_store_db_def stranger_def sample_defs)

theorem listed_products_can_be_opened_witness:
  "length [sample_product 20 150 (Some 5), sample_product 21 40 None] \<le> 100 \<and>
   sorted_wrt (\<lambda>a b. p_created_at b \<le> p_created_at a)
     [sample_product 20 150 (Some 5), sample_product 21 40 None] \<and>
   (\<exists>imgs. get_product_for_caller open_store_db stranger 20 = Inr (sample_product 20 150 (Some 5), imgs))"
proof -
  from listed_products_can_be_opened [OF open_store_db_inv stranger_browses, of "sample_product 20 150 (Some 5)"]
  show ?thesis by (simp add: sample_product_def)
qed

text \<open>
  A customer may browse the products of every public store, but can order them only from
  the seller who referred them: any order with a product of another seller is refused as not
  visible.
\<close>

theorem browsable_products_of_others_not_orderable:
  assumes "list_products_for_caller d c store_id seller_id limit = Inr ps" and "p \<in> set ps"
    and "u_role c = Customer" and "u_referring_seller_id c \<noteq> Some (p_seller_id p)"
    and "p_id p \<in> fst ` set items"
  shows "create_order fresh now c items addr d = (Inl ProductNotVisible, d)"
proof -
  have "p \<in> set (locked_products d items)"
    using listed_product [OF assms(1,2)] assms(5) by (simp add: locked_products_def)
  then have mem: "p_seller_id p \<in> set (remdups (map p_seller_id (locked_products d items)))" by simp
  have "items \<noteq> []" using assms(5) by auto
  moreover have "length (remdups (map p_seller_id (locked_products d items))) \<noteq> 1 \<or>
      s \<notin> p_seller_id ` set (locked_products d items)"
    if "u_referring_seller_id c = Some s" for s
  proof (rule disjCI)
    assume "\<not> s \<notin> p_seller_id ` set (locked_products d items)"
    then have "s \<in> set (remdups (map p_seller_id (locked_products d items)))" by auto
    with mem that assms(4) show "length (remdups (map p_seller_id (locked_products d items))) \<noteq> 1"
      by (cases "remdups (map p_seller_id (locked_products d items))") auto
  qed
  ultimately show ?thesis
    using assms(3) by (auto simp: create_order_def Let_def split: option.split)
qed

theorem browsable_products_of_others_not_orderable_witness:
  "create_order (\<lambda>n. 100 + n) 1000 stranger [(20, 1)] sample_address open_store_db =
   (Inl ProductNotVisible, open_store_db)"
proof -
  from browsable_products_of_others_not_orderable [OF stranger_browses, of "sample_product 20 150 (Some 5)"]
  show ?thesis by (simp add: sample_product_def stranger_def sample_user_def)
qed

section \<open>The dashboard\<close>

lemma filter_upd_row_not:
  "(\<And>r. r \<in> set rows \<Longrightarrow> key r = k \<Longrightarrow> \<not> q r \<and> \<not> q (f r)) \<Longrightarrow>
   filter q (upd_row key k f rows) = filter q rows"
  by (induction rows) auto

lemma complete_order_snapshots:
  assumes "complete_order new_id now c oid d = (Inr r, d')"
    and "get_row o_id oid (orders d) = Some ord" and "oid \<notin> sn_order_id ` set (snapshots d)"
  obtains sn where "snapshots d' = snapshots d @ [sn]" "sn_seller_id sn = o_seller_id ord"
    "sn_total_minor sn = o_total_minor ord" "o_status ord = Delivered"
    "orders d' = upd_row o_id oid (completed now) (orders d)" "settings_row d' = settings_row d"
proof -
  from assms(1) obtain ord' where "get_row o_id oid (orders d) = Some ord'" "o_status ord' = Delivered"
    "write_snapshot new_id now (completed now ord') (set_order oid (completed now) d) = (Inr (), d')"
    by (rule complete_order_step)
  moreover from this(1) assms(2) have "ord' = ord" by simp
  moreover have "o_id ord = oid" using assms(2) by (rule get_row_SomeD)
  ultimately show thesis
    using assms(3) by (intro that [of "snapshot_of new_id now (set_order oid (completed now) d) (completed now ord)"])
      (auto simp: write_snapshot_def insert_row_def set_order_def snapshot_of_def completed_def
        Let_def split: if_splits)
qed

text \<open>
  Completing an order adds its total and one order to the lifetime figures of its seller,
  leaves those of every other seller alone, and changes no other figure of any dashboard.
\<close>

theorem completion_counts_in_dashboard:
  assumes "orders_inv d" and "complete_order new_id now c oid d = (Inr r, d')"
    and "get_row o_id oid (orders d) = Some ord" and "oid \<notin> sn_order_id ` set (snapshots d)"
  shows "dashboard_of t d' sid = (dashboard_of t d sid)
     \<lparr>db_lifetime_sales_amount := db_lifetime_sales_amount (dashboard_of t d sid) +
        (if sid = o_seller_id ord then o_total_minor ord else 0),
      db_lifetime_orders_count := db_lifetime_orders_count (dashboard_of t d sid) +
        (if sid = o_seller_id ord then 1 else 0)\<rparr>"
proof -
  obtain sn where sn: "snapshots d' = snapshots d @ [sn]" "sn_seller_id sn = o_seller_id ord"
    "sn_total_minor sn = o_total_minor ord" and st: "o_status ord = Delivered"
    and ords: "orders d' = upd_row o_id oid (completed now) (orders d)"
    and set: "settings_row d' = settings_row d"
    using assms(2-4) by (rule complete_order_snapshots)
  have "o_status x = Delivered" if "x \<in> set (orders d)" "o_id x = oid" for x
  proof -
    have "distinct (map o_id (orders d))" using assms(1) by (simp add: orders_inv_def)
    with that get_row_SomeD [OF assms(3)] have "x = ord" by (metis distinct_key_eq)
    with st show ?thesis by simp
  qed
  then have "filter (active_order sid) (orders d') = filter (active_order sid) (orders d)"
    unfolding ords by (intro filter_upd_row_not) (auto simp: active_order_def completed_def
        active_order_statuses_def)
  with sn set show ?thesis
    by (simp add: dashboard_of_def seller_snapshots_def platform_currency_def active_order_def)
qed

theorem completion_counts_in_dashboard_witness:
  "db_lifetime_sales_amount
     (dashboard_of 7000 (snd (complete_order 400 6000 sample_customer 100 (sample_state 6))) 2) =
   db_lifetime_sales_amount (dashboard_of 7000 (sample_state 6) 2) + 490"
proof -
  let ?d = "sample_state 6"
  let ?out = "complete_order 400 6000 sample_customer 100 ?d"
  let ?ord = "hd (orders ?d)"
  have "case fst ?out of Inl e \<Rightarrow> False | Inr f \<Rightarrow> True" by code_simp
  then obtain f where f: "?out = (Inr f, snd ?out)" using outcome_ok by blast
  have row: "get_row o_id 100 (orders ?d) = Some ?ord"
    unfolding get_row_def sample_state_def sample_requests_def by code_simp
  have facts: "100 \<notin> sn_order_id ` set (snapshots ?d)" "o_seller_id ?ord = 2" "o_total_minor ?ord = 490"
    by code_simp+
  from completion_counts_in_dashboard [OF sample_state_inv f row facts(1), of 7000 2] facts(2,3)
  show ?thesis by simp
qed

end
