(* ===== verification/Paging.thy ===== *)
theory Paging
  imports Prelude
begin

text \<open>
  Keyset paging, as the message history and the lists of the administrator do it: a page is the
  newest rows before the cursor, and the next cursor is the time of the last row of the page.
  The interface \<open>cursor_paging\<close> states what one page promises; inside it is proved, once, what
  a client gets that follows the cursors.
\<close>

definition before_cursor :: "('r \<Rightarrow> time) \<Rightarrow> time option \<Rightarrow> 'r \<Rightarrow> bool" where
  "before_cursor key c r = (case c of None \<Rightarrow> True | Some t \<Rightarrow> key r < t)"

definition rows_before :: "('r \<Rightarrow> time) \<Rightarrow> 'r list \<Rightarrow> time option \<Rightarrow> 'r list" where
  "rows_before key rs c = order_desc key (filter (before_cursor key c) rs)"

text \<open>A client that asks for the next page until there is none, at most \<open>n\<close> times.\<close>

primrec follow_cursors :: "nat \<Rightarrow> (time option \<Rightarrow> 'r list \<times> time option) \<Rightarrow> time option \<Rightarrow> 'r list" where
  "follow_cursors 0 page c = []"
| "follow_cursors (Suc n) page c =
     (case snd (page c) of
        None \<Rightarrow> fst (page c)
      | Some t \<Rightarrow> fst (page c) @ follow_cursors n page (Some t))"

section \<open>Cutting a sorted list at a key\<close>

lemma strict_desc:
  "sorted_wrt (\<lambda>a b. key b \<le> key a) xs \<Longrightarrow> distinct (map key xs) \<Longrightarrow>
   sorted_wrt (\<lambda>a b. key b < (key a :: int)) xs"
  by (induction xs) (auto simp: order_less_le image_iff)

lemma last_least:
  "sorted_wrt (\<lambda>a b. key b < (key a :: int)) xs \<Longrightarrow> x \<in> set xs \<Longrightarrow> key (last xs) \<le> key x"
  by (induction xs) (auto simp: order_less_le)

lemma cut_at_cursor:
  assumes "sorted_wrt (\<lambda>a b. key b < (key a :: int)) (xs @ ys)" and "xs \<noteq> []"
  shows "filter (\<lambda>r. key r < key (last xs)) (xs @ ys) = ys"
proof -
  have "filter (\<lambda>r. key r < key (last xs)) xs = []"
    using last_least [of key xs] assms(1) by (fastforce simp: filter_empty_conv sorted_wrt_append)
  moreover have "filter (\<lambda>r. key r < key (last xs)) ys = ys"
    using assms by (auto simp: filter_id_conv sorted_wrt_append)
  ultimately show ?thesis by simp
qed

lemma order_desc_page:
  assumes "distinct (map key rows)" and "take n (order_desc key rows) \<noteq> []"
  shows "order_desc key rows = take n (order_desc key rows) @
    order_desc key (filter (\<lambda>r. key r < key (last (take n (order_desc key rows)))) rows)"
proof -
  let ?s = "order_desc key rows"
  have "distinct (map key ?s)"
    using assms(1) by (simp add: order_desc_def distinct_map inj_on_def)
  then have "sorted_wrt (\<lambda>a b. key b < key a) (take n ?s @ drop n ?s)"
    using strict_desc [OF sorted_order_desc] by simp
  from cut_at_cursor [OF this assms(2)] show ?thesis
    by (simp add: order_desc_def filter_sort)
qed

lemma rows_before_page:
  assumes "distinct (map key rs)" and "take n (rows_before key rs c) \<noteq> []"
  shows "rows_before key rs c = take n (rows_before key rs c) @
    rows_before key rs (Some (key (last (take n (rows_before key rs c)))))"
proof -
  let ?t = "key (last (take n (rows_before key rs c)))"
  have "last (take n (rows_before key rs c)) \<in> set (rows_before key rs c)"
    using last_in_set [OF assms(2)] by (rule in_set_takeD)
  then have "before_cursor key c (last (take n (rows_before key rs c)))"
    by (simp add: rows_before_def)
  then have "filter (\<lambda>r. key r < ?t) (filter (before_cursor key c) rs) = filter (before_cursor key (Some ?t)) rs"
    by (auto simp: before_cursor_def intro!: filter_cong split: option.splits)
  moreover have "distinct (map key (filter (before_cursor key c) rs))"
    using assms(1) by (rule distinct_map_filter)
  ultimately show ?thesis
    using order_desc_page [of key "filter (before_cursor key c) rs" n] assms(2)
    by (simp add: rows_before_def del: filter_filter)
qed

section \<open>The interface\<close>

locale cursor_paging =
  fixes key :: "'r \<Rightarrow> time" and rs :: "'r list" and page :: "time option \<Rightarrow> 'r list \<times> time option"
  assumes page_prefix: "\<exists>n. fst (page c) = take n (rows_before key rs c)"
    and page_end: "snd (page c) = None \<Longrightarrow> fst (page c) = rows_before key rs c"
    and page_next: "snd (page c) = Some t \<Longrightarrow> fst (page c) \<noteq> [] \<and> t = key (last (fst (page c)))"
begin

lemma page_split:
  assumes "distinct (map key rs)" and "snd (page c) = Some t"
  shows "rows_before key rs c = fst (page c) @ rows_before key rs (Some t)"
proof -
  obtain n where n: "fst (page c) = take n (rows_before key rs c)" using page_prefix by blast
  note page_next [OF assms(2)]
  with rows_before_page [OF assms(1), of n c] show ?thesis by (simp add: n)
qed

lemma follow_all:
  assumes "distinct (map key rs)" and "length (rows_before key rs c) < n"
  shows "follow_cursors n page c = rows_before key rs c"
  using assms(2)
proof (induction n arbitrary: c)
  case (Suc n)
  show ?case
  proof (cases "snd (page c)")
    case (Some t)
    note split = page_split [OF assms(1) Some]
    have "length (rows_before key rs (Some t)) < n"
      using arg_cong [OF split, of length] page_next [OF Some] Suc.prems
      by (cases "fst (page c)") auto
    then show ?thesis using Some Suc.IH split by simp
  qed (simp add: page_end)
qed simp

end

end
