(* ===== verification/Administration.thy ===== *)
theory Administration
  imports Catalogue Invites Paging
begin

text \<open>
  The administrator's panel: \<open>services/admin_service.py\<close> and \<open>api/v1/admin.py\<close> under
  \<open>src/backend/app\<close>. A cursor is the ISO form of a time; the model has the time itself, and
  \<open>None\<close> for a missing cursor and for one that does not parse, which the code ignores.
  The materialised view \<open>seller_sales_rollups\<close> is a parameter, its rows as last refreshed.
\<close>

section \<open>Search patterns\<close>

text \<open>
  PostgreSQL's \<open>LIKE\<close>: \<open>%\<close> stands for any string, \<open>_\<close> for any character, a backslash for the
  character after it. \<open>ILIKE\<close> ignores case.
\<close>

fun like :: "string \<Rightarrow> string \<Rightarrow> bool" where
  "like [] s = (s = [])"
| "like (p # ps) s =
     (if p = CHR ''%'' then like ps s \<or> (case s of [] \<Rightarrow> False | c # cs \<Rightarrow> like (p # ps) cs)
      else if p = CHR 0x5C then
        (case ps of [] \<Rightarrow> False
         | e # es \<Rightarrow> (case s of [] \<Rightarrow> False | c # cs \<Rightarrow> e = c \<and> like es cs))
      else (case s of [] \<Rightarrow> False | c # cs \<Rightarrow> (p = CHR ''_'' \<or> p = c) \<and> like ps cs))"

definition ilike :: "string \<Rightarrow> string \<Rightarrow> bool" where
  "ilike pat s = like (lower pat) (lower s)"

definition contains_pattern :: "string \<Rightarrow> string" where
  "contains_pattern q = ''%'' @ q @ ''%''"

text \<open>\<open>if q:\<close> adds the clause only for a non-empty string.\<close>

definition search_ok :: "string option \<Rightarrow> string list \<Rightarrow> bool" where
  "search_ok q texts =
     (let s = or_else q [] in s = [] \<or> list_ex (ilike (contains_pattern s)) texts)"

section \<open>Lists\<close>

definition clamp_limit :: "int \<Rightarrow> nat" where
  "clamp_limit limit = nat (max 1 (min limit 100))"

text \<open>One row more than the page is fetched, to know whether there is a next page.\<close>

definition admin_page ::
  "('r \<Rightarrow> time) \<Rightarrow> 'r list \<Rightarrow> int \<Rightarrow> time option \<Rightarrow> 'r list \<times> time option" where
  "admin_page key matching limit cursor =
     (let n = clamp_limit limit;
          fetched = take (n + 1) (rows_before key matching cursor);
          has_more = n < length fetched;
          rows = take n fetched
      in (rows, if has_more \<and> rows \<noteq> [] then Some (key (last rows)) else None))"

primrec status_label :: "user_status \<Rightarrow> string" where
  "status_label UActive = ''active''"
| "status_label USuspended = ''suspended''"

definition matching_users :: "db \<Rightarrow> string option \<Rightarrow> string option \<Rightarrow> string option \<Rightarrow> user list" where
  "matching_users d q role status =
     filter (\<lambda>u. u_deleted_at u = None \<and> search_ok q [u_email u, u_display_name u] \<and>
        (case Option.bind role parse_role of None \<Rightarrow> True | Some r \<Rightarrow> u_role u = r) \<and>
        (status \<in> {Some ''active'', Some ''suspended''} \<longrightarrow> status = Some (status_label (u_status u))))
       (users d)"

definition list_users ::
  "db \<Rightarrow> string option \<Rightarrow> string option \<Rightarrow> string option \<Rightarrow> int \<Rightarrow> time option \<Rightarrow> user list \<times> time option" where
  "list_users d q role status = admin_page u_created_at (matching_users d q role status)"

primrec product_status_label :: "product_status \<Rightarrow> string" where
  "product_status_label PActive = ''active''"
| "product_status_label PDisabled = ''disabled''"
| "product_status_label POutOfStock = ''out_of_stock''"

definition matching_products :: "db \<Rightarrow> string option \<Rightarrow> string option \<Rightarrow> uuid option \<Rightarrow> product list" where
  "matching_products d q status seller_id =
     filter (\<lambda>p. p_deleted_at p = None \<and> search_ok q [p_name p] \<and>
        (status \<in> {Some ''active'', Some ''disabled'', Some ''out_of_stock''} \<longrightarrow>
           status = Some (product_status_label (p_status p))) \<and>
        filter_opt seller_id (p_seller_id p))
       (products d)"

definition list_products ::
  "db \<Rightarrow> string option \<Rightarrow> string option \<Rightarrow> uuid option \<Rightarrow> int \<Rightarrow> time option \<Rightarrow> product list \<times> time option" where
  "list_products d q status seller_id = admin_page p_created_at (matching_products d q status seller_id)"

primrec order_status_label :: "order_status \<Rightarrow> string" where
  "order_status_label Pending = ''pending''"
| "order_status_label Accepted = ''accepted''"
| "order_status_label Preparing = ''preparing''"
| "order_status_label OutForDelivery = ''out_for_delivery''"
| "order_status_label Delivered = ''delivered''"
| "order_status_label Completed = ''completed''"
| "order_status_label Cancelled = ''cancelled''"

definition valid_order_statuses :: "string list" where
  "valid_order_statuses = map order_status_label
     [Pending, Accepted, Preparing, OutForDelivery, Delivered, Completed, Cancelled]"

definition matching_orders :: "db \<Rightarrow> string option \<Rightarrow> order_row list" where
  "matching_orders d status =
     filter (\<lambda>ord. o_deleted_at ord = None \<and>
        (case status of None \<Rightarrow> True
         | Some s \<Rightarrow> s \<in> set valid_order_statuses \<longrightarrow> s = order_status_label (o_status ord)))
       (orders d)"

definition admin_list_orders ::
  "db \<Rightarrow> string option \<Rightarrow> int \<Rightarrow> time option \<Rightarrow> order_row list \<times> time option" where
  "admin_list_orders d status = admin_page o_placed_at (matching_orders d status)"

section \<open>One user\<close>

definition get_user_detail :: "db \<Rightarrow> uuid \<Rightarrow> (user \<times> referral option \<times> referral list) res" where
  "get_user_detail d uid =
     (case get_row u_id uid (users d) of
        None \<Rightarrow> Inl (NotFoundError ''NOT_FOUND'')
      | Some u \<Rightarrow>
          if u_deleted_at u \<noteq> None then Inl (NotFoundError ''NOT_FOUND'')
          else (case scalar_one_or_none (filter (\<lambda>r. rf_referred_user_id r = uid) (referrals d)) of
                  Inl e \<Rightarrow> Inl e
                | Inr rb \<Rightarrow> Inr (u, rb, filter (\<lambda>r. rf_referrer_id r = uid) (referrals d))))"

text \<open>The endpoint resolves the other end of each referral and drops those it cannot find.\<close>

definition user_detail_response :: "db \<Rightarrow> uuid \<Rightarrow> (user \<times> user option \<times> user list) res" where
  "user_detail_response d uid =
     (case get_user_detail d uid of
        Inl e \<Rightarrow> Inl e
      | Inr (u, rb, rus) \<Rightarrow>
          Inr (u, Option.bind rb (\<lambda>r. get_row u_id (rf_referrer_id r) (users d)),
               List.map_filter (\<lambda>r. get_row u_id (rf_referred_user_id r) (users d)) rus))"

definition set_user :: "uuid \<Rightarrow> (user \<Rightarrow> user) \<Rightarrow> db \<Rightarrow> db" where
  "set_user i f d = d\<lparr>users := upd_row u_id i f (users d)\<rparr>"

definition live_user :: "db \<Rightarrow> uuid \<Rightarrow> user res" where
  "live_user d uid =
     (case get_row u_id uid (users d) of
        None \<Rightarrow> Inl (NotFoundError ''NOT_FOUND'')
      | Some u \<Rightarrow> if u_deleted_at u \<noteq> None then Inl (NotFoundError ''NOT_FOUND'') else Inr u)"

definition suspended :: "time \<Rightarrow> string \<Rightarrow> user \<Rightarrow> user" where
  "suspended now reason u =
     u\<lparr>u_status := USuspended, u_suspended_at := Some now, u_suspended_reason := Some reason\<rparr>"

definition suspend_user :: "time \<Rightarrow> uuid \<Rightarrow> string \<Rightarrow> db \<Rightarrow> user res \<times> db" where
  "suspend_user now uid reason d =
     (case live_user d uid of
        Inl e \<Rightarrow> (Inl e, d)
      | Inr u \<Rightarrow> (Inr (suspended now reason u), set_user uid (suspended now reason) d))"

definition unsuspended :: "user \<Rightarrow> user" where
  "unsuspended u = u\<lparr>u_status := UActive, u_suspended_at := None, u_suspended_reason := None\<rparr>"

definition unsuspend_user :: "uuid \<Rightarrow> db \<Rightarrow> user res \<times> db" where
  "unsuspend_user uid d =
     (case live_user d uid of
        Inl e \<Rightarrow> (Inl e, d)
      | Inr u \<Rightarrow> (Inr (unsuspended u), set_user uid unsuspended d))"

section \<open>Invitations\<close>

definition issue_admin_invite ::
  "uuid \<Rightarrow> string \<Rightarrow> time \<Rightarrow> user \<Rightarrow> string \<Rightarrow> int \<Rightarrow> db \<Rightarrow> (invite_link \<times> string) res \<times> db" where
  "issue_admin_invite new_id token now issuer role_target expires_in_days d =
     (case parse_role role_target of
        None \<Rightarrow> (Inl (NotFoundError ''NOT_FOUND''), d)
      | Some role \<Rightarrow>
          (let il = \<lparr>il_id = new_id, il_issuer_id = u_id issuer, il_type = AdminInvite,
                     il_token = token, il_role_target = Some role, il_max_uses = Some 1,
                     il_used_count = 0, il_expires_at = Some (now + td_days expires_in_days),
                     il_revoked_at = None, il_created_at = now\<rparr>
           in case add_invite il d of
                (Inl e, d') \<Rightarrow> (Inl e, d')
              | (Inr _, d') \<Rightarrow> (Inr (il, token), d')))"

section \<open>Moderating products\<close>

definition live_product :: "db \<Rightarrow> uuid \<Rightarrow> product res" where
  "live_product d pid =
     (case get_row p_id pid (products d) of
        None \<Rightarrow> Inl (NotFoundError ''NOT_FOUND'')
      | Some p \<Rightarrow> if p_deleted_at p \<noteq> None then Inl (NotFoundError ''NOT_FOUND'') else Inr p)"

definition disabled :: "time \<Rightarrow> string \<Rightarrow> product \<Rightarrow> product" where
  "disabled now reason p =
     p\<lparr>p_status := PDisabled, p_disabled_at := Some now, p_disabled_reason := Some reason\<rparr>"

definition disable_product :: "time \<Rightarrow> uuid \<Rightarrow> string \<Rightarrow> db \<Rightarrow> product res \<times> db" where
  "disable_product now pid reason d =
     (case live_product d pid of
        Inl e \<Rightarrow> (Inl e, d)
      | Inr p \<Rightarrow> (Inr (disabled now reason p), set_product pid (disabled now reason) d))"

definition restored :: "product \<Rightarrow> product" where
  "restored p = p\<lparr>p_status := PActive, p_disabled_at := None, p_disabled_reason := None\<rparr>"

definition restore_product :: "uuid \<Rightarrow> db \<Rightarrow> product res \<times> db" where
  "restore_product pid d =
     (case live_product d pid of
        Inl e \<Rightarrow> (Inl e, d)
      | Inr p \<Rightarrow> (Inr (restored p), set_product pid restored d))"

section \<open>Analytics\<close>

definition active_customers :: "db \<Rightarrow> time \<Rightarrow> nat" where
  "active_customers d horizon =
     length (remdups (map sn_customer_id (filter (\<lambda>sn. horizon \<le> sn_delivered_at sn) (snapshots d))))"

definition role_count :: "db \<Rightarrow> user_role \<Rightarrow> nat" where
  "role_count d r = length (filter (\<lambda>u. u_deleted_at u = None \<and> u_role u = r) (users d))"

record analytics_overview =
  an_total_gmv_minor :: int
  an_orders_count :: nat
  an_active_users_24h :: nat
  an_active_users_7d :: nat
  an_active_users_30d :: nat
  an_seller_count :: nat
  an_customer_count :: nat
  an_driver_count :: nat
  an_admin_count :: nat

definition get_analytics_overview :: "time \<Rightarrow> db \<Rightarrow> analytics_overview" where
  "get_analytics_overview now d =
     \<lparr>an_total_gmv_minor = sum_list (map sn_total_minor (snapshots d)),
      an_orders_count = length (snapshots d),
      an_active_users_24h = active_customers d (now - td_hours 24),
      an_active_users_7d = active_customers d (now - td_days 7),
      an_active_users_30d = active_customers d (now - td_days 30),
      an_seller_count = role_count d Seller, an_customer_count = role_count d Customer,
      an_driver_count = role_count d Driver, an_admin_count = role_count d Admin\<rparr>"

record top_seller =
  ts_seller_id :: uuid
  ts_display_name :: string
  ts_lifetime_revenue_minor :: int
  ts_lifetime_order_count :: nat

text \<open>A row of the materialised view: seller, revenue, number of orders.\<close>

type_synonym rollup = "uuid \<times> int \<times> nat"

definition rollup_entries :: "db \<Rightarrow> rollup list \<Rightarrow> nat \<Rightarrow> top_seller list" where
  "rollup_entries d rollups n =
     take n (order_desc ts_lifetime_revenue_minor
       (concat (map (\<lambda>(sid, revenue, count).
          map (\<lambda>s. \<lparr>ts_seller_id = sid, ts_display_name = s_display_name s,
                   ts_lifetime_revenue_minor = revenue, ts_lifetime_order_count = count\<rparr>)
            (filter (\<lambda>s. s_id s = sid) (sellers d))) rollups)))"

text \<open>\<open>GROUP BY seller_id\<close>; a seller that is not found is called Unknown.\<close>

definition snapshot_entries :: "db \<Rightarrow> nat \<Rightarrow> top_seller list" where
  "snapshot_entries d n =
     take n (order_desc ts_lifetime_revenue_minor
       (map (\<lambda>sid. \<lparr>ts_seller_id = sid,
                 ts_display_name = (case get_row s_id sid (sellers d) of
                    None \<Rightarrow> ''Unknown'' | Some s \<Rightarrow> s_display_name s),
                 ts_lifetime_revenue_minor = sum_list (map sn_total_minor (seller_snapshots d sid)),
                 ts_lifetime_order_count = length (seller_snapshots d sid)\<rparr>)
         (remdups (map sn_seller_id (snapshots d)))))"

definition get_top_sellers :: "rollup list \<Rightarrow> db \<Rightarrow> int \<Rightarrow> top_seller list" where
  "get_top_sellers rollups d limit =
     (let rows = rollup_entries d rollups (clamp_limit limit)
      in if rows \<noteq> [] then rows else snapshot_entries d (clamp_limit limit))"

section \<open>Requests\<close>

text \<open>The writing endpoints behind \<open>get_current_admin\<close>, with the bounds of \<open>schemas/admin.py\<close>.\<close>

datatype (plugins only: code) admin_request =
  SuspendUser time user uuid string
| UnsuspendUser user uuid
| IssueInvite uuid string time user string int
| DisableProduct time user uuid string
| RestoreProduct user uuid

datatype (plugins only: code) admin_reply =
  RUser user | RInvite "invite_link \<times> string" | RModerated product

definition admin_answer :: "('a \<Rightarrow> admin_reply) \<Rightarrow> 'a res \<times> db \<Rightarrow> admin_reply res \<times> db" where
  "admin_answer f out = (map_sum id f (fst out), snd out)"

primrec exec_admin :: "admin_request \<Rightarrow> db \<Rightarrow> admin_reply res \<times> db" where
  "exec_admin (SuspendUser now c uid reason) d =
     (case require_roles [Admin] c of
        Inl e \<Rightarrow> (Inl e, d)
      | Inr _ \<Rightarrow> if \<not> text_ok 1 500 reason then (Inl ValidationError, d)
                else admin_answer RUser (suspend_user now uid reason d))"
| "exec_admin (UnsuspendUser c uid) d =
     (case require_roles [Admin] c of
        Inl e \<Rightarrow> (Inl e, d)
      | Inr _ \<Rightarrow> admin_answer RUser (unsuspend_user uid d))"
| "exec_admin (IssueInvite new_id token now c role days) d =
     (case require_roles [Admin] c of
        Inl e \<Rightarrow> (Inl e, d)
      | Inr _ \<Rightarrow> if days < 1 \<or> 365 < days then (Inl ValidationError, d)
                else admin_answer RInvite (issue_admin_invite new_id token now c role days d))"
| "exec_admin (DisableProduct now c pid reason) d =
     (case require_roles [Admin] c of
        Inl e \<Rightarrow> (Inl e, d)
      | Inr _ \<Rightarrow> if \<not> text_ok 1 500 reason then (Inl ValidationError, d)
                else admin_answer RModerated (disable_product now pid reason d))"
| "exec_admin (RestoreProduct c pid) d =
     (case require_roles [Admin] c of
        Inl e \<Rightarrow> (Inl e, d)
      | Inr _ \<Rightarrow> admin_answer RModerated (restore_product pid d))"

end
