(* ===== verification/Read_Endpoints.thy ===== *)
theory Read_Endpoints
  imports Catalogue_Properties Administration
begin

text \<open>
  The reading endpoints of \<open>api/v1/stores.py\<close>, \<open>products.py\<close>, \<open>sellers.py\<close> and \<open>admin.py\<close> under
  \<open>src/backend/app\<close>, with the response models they fill (\<open>schemas/\<close>), as two families of
  queries. The pagination object of a response is its cursor: \<open>has_more\<close> says whether there is
  one. The two properties are what a client can and cannot learn from them.
\<close>

section \<open>The catalogue\<close>

record seller_response =
  sl_id :: uuid
  sl_user_id :: uuid
  sl_display_name :: string
  sl_city :: string

definition seller_to_response :: "seller \<Rightarrow> seller_response" where
  "seller_to_response s =
     \<lparr>sl_id = s_id s, sl_user_id = s_user_id s, sl_display_name = s_display_name s,
      sl_city = s_city s\<rparr>"

record seller_public_response =
  sp_id :: uuid
  sp_display_name :: string
  sp_city :: string

definition seller_to_public :: "seller \<Rightarrow> seller_public_response" where
  "seller_to_public s = \<lparr>sp_id = s_id s, sp_display_name = s_display_name s, sp_city = s_city s\<rparr>"

datatype (plugins only: code) catalogue_query =
  GetMyStore user
| GetStore user uuid
| GetProducts user "uuid option" "uuid option" int
| GetProduct user uuid
| GetMySeller user
| GetMyDashboard time user
| GetSeller user uuid
| GetSellerDashboard time user uuid

datatype (plugins only: code) catalogue_answer =
  AStore store_response
| AProducts "product_list_item list"
| AProduct product_response
| ASeller seller_response
| ASellerPublic seller_public_response
| ADashboard dashboard


text \<open>\<open>Product.images\<close> is loaded in display order.\<close>

definition gallery :: "db \<Rightarrow> uuid \<Rightarrow> product_image list" where
  "gallery d pid = sort_key pi_display_order (images_of d pid)"

definition get_my_store :: "db \<Rightarrow> user \<Rightarrow> store_response res" where
  "get_my_store d c =
     (case get_own_store d c of
        Inl e \<Rightarrow> Inl e
      | Inr st \<Rightarrow> (case get_caller_seller d c of
                     Inl e \<Rightarrow> Inl e
                   | Inr s \<Rightarrow> Inr (store_to_response st s)))"

definition list_products_endpoint ::
  "db \<Rightarrow> user \<Rightarrow> uuid option \<Rightarrow> uuid option \<Rightarrow> int \<Rightarrow> product_list_item list res" where
  "list_products_endpoint d c store_id seller_id limit =
     (if limit < 1 \<or> 100 < limit then Inl ValidationError
      else map_sum id (map (\<lambda>p. product_to_list_item p (gallery d (p_id p))))
             (list_products_for_caller d c store_id seller_id limit))"

primrec answer_catalogue :: "catalogue_query \<Rightarrow> db \<Rightarrow> catalogue_answer res" where
  "answer_catalogue (GetMyStore c) d =
     (case require_roles [Seller] c of
        Inl e \<Rightarrow> Inl e | Inr _ \<Rightarrow> map_sum id AStore (get_my_store d c))"
| "answer_catalogue (GetStore c i) d =
     map_sum id (\<lambda>r. AStore (store_to_response (fst r) (snd r))) (get_store_for_caller d c i)"
| "answer_catalogue (GetProducts c st s limit) d =
     map_sum id AProducts (list_products_endpoint d c st s limit)"
| "answer_catalogue (GetProduct c i) d =
     map_sum id (\<lambda>r. AProduct (product_to_response r)) (get_product_for_caller d c i)"
| "answer_catalogue (GetMySeller c) d =
     (case require_roles [Seller] c of
        Inl e \<Rightarrow> Inl e
      | Inr _ \<Rightarrow> map_sum id (\<lambda>s. ASeller (seller_to_response s)) (get_caller_seller d c))"
| "answer_catalogue (GetMyDashboard now c) d =
     (case require_roles [Seller] c of
        Inl e \<Rightarrow> Inl e | Inr _ \<Rightarrow> map_sum id ADashboard (get_dashboard now d c None))"
| "answer_catalogue (GetSeller c i) d =
     map_sum id (\<lambda>s. ASellerPublic (seller_to_public s)) (get_seller_for_caller d c i)"
| "answer_catalogue (GetSellerDashboard now c i) d =
     (case require_roles [Admin] c of
        Inl e \<Rightarrow> Inl e | Inr _ \<Rightarrow> map_sum id ADashboard (get_dashboard now d c (Some i)))"

section \<open>The administrator's panel\<close>

record admin_user_summary =
  aus_id :: uuid
  aus_email :: string
  aus_display_name :: string
  aus_role :: user_role
  aus_status :: user_status
  aus_is_active :: bool
  aus_created_at :: time
  aus_suspended_at :: "time option"
  aus_suspended_reason :: "string option"

definition user_summary :: "user \<Rightarrow> admin_user_summary" where
  "user_summary u =
     \<lparr>aus_id = u_id u, aus_email = u_email u, aus_display_name = u_display_name u,
      aus_role = u_role u, aus_status = u_status u, aus_is_active = u_is_active u,
      aus_created_at = u_created_at u, aus_suspended_at = u_suspended_at u,
      aus_suspended_reason = u_suspended_reason u\<rparr>"

text \<open>One end of a referral, without the time of the referral, a column only the panel shows.\<close>

record referral_edge =
  re_user_id :: uuid
  re_email :: string
  re_display_name :: string
  re_role :: user_role

definition edge_to :: "user \<Rightarrow> referral_edge" where
  "edge_to u =
     \<lparr>re_user_id = u_id u, re_email = u_email u, re_display_name = u_display_name u, re_role = u_role u\<rparr>"

record admin_user_detail =
  aud_summary :: admin_user_summary
  aud_referred_by :: "referral_edge option"
  aud_referred_users :: "referral_edge list"

record admin_product_summary =
  aps_id :: uuid
  aps_seller_id :: uuid
  aps_store_id :: uuid
  aps_name :: string
  aps_price_minor :: int
  aps_stock_quantity :: "int option"
  aps_status :: product_status
  aps_is_active :: bool
  aps_disabled_at :: "time option"
  aps_disabled_reason :: "string option"
  aps_created_at :: time

definition product_summary :: "product \<Rightarrow> admin_product_summary" where
  "product_summary p =
     \<lparr>aps_id = p_id p, aps_seller_id = p_seller_id p, aps_store_id = p_store_id p,
      aps_name = p_name p, aps_price_minor = p_price_minor p,
      aps_stock_quantity = p_stock_quantity p, aps_status = p_status p,
      aps_is_active = p_is_active p, aps_disabled_at = p_disabled_at p,
      aps_disabled_reason = p_disabled_reason p, aps_created_at = p_created_at p\<rparr>"

record admin_order_summary =
  aos_id :: uuid
  aos_customer_id :: uuid
  aos_seller_id :: uuid
  aos_store_id :: uuid
  aos_status :: order_status
  aos_total_minor :: int
  aos_placed_at :: time

definition order_summary :: "order_row \<Rightarrow> admin_order_summary" where
  "order_summary ord =
     \<lparr>aos_id = o_id ord, aos_customer_id = o_customer_id ord, aos_seller_id = o_seller_id ord,
      aos_store_id = o_store_id ord, aos_status = o_status ord, aos_total_minor = o_total_minor ord,
      aos_placed_at = o_placed_at ord\<rparr>"

datatype (plugins only: code) admin_query =
  ListUsers "string option" "string option" "string option" "time option" int
| UserDetail uuid
| ListProducts "string option" "string option" "uuid option" "time option" int
| ListOrders "string option" "time option" int
| Overview time
| TopSellers int

datatype (plugins only: code) admin_view =
  VUsers "admin_user_summary list" "time option"
| VUser admin_user_detail
| VProducts "admin_product_summary list" "time option"
| VOrders "admin_order_summary list" "time option"
| VOverview analytics_overview
| VTopSellers "top_seller list"

definition query_bounds :: "string option \<Rightarrow> int \<Rightarrow> bool" where
  "query_bounds q limit \<longleftrightarrow> pred_option (text_ok 0 200) q \<and> 1 \<le> limit \<and> limit \<le> 100"

definition users_view ::
  "db \<Rightarrow> string option \<Rightarrow> string option \<Rightarrow> string option \<Rightarrow> time option \<Rightarrow> int \<Rightarrow> admin_view res" where
  "users_view d q role status cursor limit =
     (if \<not> query_bounds q limit then Inl ValidationError
      else case list_users d q role status limit cursor of
        (rows, next_cursor) \<Rightarrow> Inr (VUsers (map user_summary rows) next_cursor))"

definition user_detail_view :: "db \<Rightarrow> uuid \<Rightarrow> admin_view res" where
  "user_detail_view d uid =
     (case user_detail_response d uid of
        Inl e \<Rightarrow> Inl e
      | Inr (u, rb, rus) \<Rightarrow>
          Inr (VUser \<lparr>aud_summary = user_summary u, aud_referred_by = map_option edge_to rb,
                      aud_referred_users = map edge_to rus\<rparr>))"

definition products_view ::
  "db \<Rightarrow> string option \<Rightarrow> string option \<Rightarrow> uuid option \<Rightarrow> time option \<Rightarrow> int \<Rightarrow> admin_view res" where
  "products_view d q status seller_id cursor limit =
     (if \<not> query_bounds q limit then Inl ValidationError
      else case list_products d q status seller_id limit cursor of
        (rows, next_cursor) \<Rightarrow> Inr (VProducts (map product_summary rows) next_cursor))"

definition orders_view :: "db \<Rightarrow> string option \<Rightarrow> time option \<Rightarrow> int \<Rightarrow> admin_view res" where
  "orders_view d status cursor limit =
     (if \<not> query_bounds None limit then Inl ValidationError
      else case admin_list_orders d status limit cursor of
        (rows, next_cursor) \<Rightarrow> Inr (VOrders (map order_summary rows) next_cursor))"

definition top_sellers_view :: "rollup list \<Rightarrow> db \<Rightarrow> int \<Rightarrow> admin_view res" where
  "top_sellers_view rollups d limit =
     (if \<not> query_bounds None limit then Inl ValidationError
      else Inr (VTopSellers (get_top_sellers rollups d limit)))"

primrec view_admin :: "rollup list \<Rightarrow> db \<Rightarrow> admin_query \<Rightarrow> admin_view res" where
  "view_admin rollups d (ListUsers q role status cursor limit) = users_view d q role status cursor limit"
| "view_admin rollups d (UserDetail uid) = user_detail_view d uid"
| "view_admin rollups d (ListProducts q status seller_id cursor limit) =
     products_view d q status seller_id cursor limit"
| "view_admin rollups d (ListOrders status cursor limit) = orders_view d status cursor limit"
| "view_admin rollups d (Overview now) = Inr (VOverview (get_analytics_overview now d))"
| "view_admin rollups d (TopSellers limit) = top_sellers_view rollups d limit"

definition answer_admin :: "rollup list \<Rightarrow> user \<Rightarrow> admin_query \<Rightarrow> db \<Rightarrow> admin_view res" where
  "answer_admin rollups c q d =
     (case require_roles [Admin] c of Inl e \<Rightarrow> Inl e | Inr _ \<Rightarrow> view_admin rollups d q)"

section \<open>The list and the detail of a product\<close>

lemma first_image_sorted:
  "first_image imgs = (case sort_key pi_display_order imgs of [] \<Rightarrow> None | i # _ \<Rightarrow> Some i)"
proof (induction imgs)
  case (Cons i imgs)
  then show ?case by (cases "sort_key pi_display_order imgs") auto
qed simp

lemma sort_key_idem [simp]: "sort_key k (sort_key k xs) = sort_key k xs"
  by (simp add: sort_key_id_if_sorted)

text \<open>
  C29: what the list of products shows of a product is what its detail endpoint shows to the
  same caller, the picture being the first of the gallery.
\<close>

theorem list_items_match_detail:
  assumes "catalogue_inv d"
    and "answer_catalogue (GetProducts c store_id seller_id limit) d = Inr (AProducts items)"
    and "it \<in> set items"
  shows "\<exists>r. answer_catalogue (GetProduct c (li_id it)) d = Inr (AProduct r) \<and>
     li_id it = pr_id r \<and> li_seller_id it = pr_seller_id r \<and> li_store_id it = pr_store_id r \<and>
     li_name it = pr_name r \<and> li_price_minor it = pr_price_minor r \<and>
     li_stock_quantity it = pr_stock_quantity r \<and> li_is_active it = pr_is_active r \<and>
     li_image_s3_key it = (case pr_images r of [] \<Rightarrow> None | (_, key, _) # _ \<Rightarrow> Some key)"
proof -
  from assms(2) obtain ps where
    ps: "list_products_for_caller d c store_id seller_id limit = Inr ps" and
    items: "items = map (\<lambda>p. product_to_list_item p (gallery d (p_id p))) ps"
    by (auto simp: list_products_endpoint_def split: if_splits)
      (cases "list_products_for_caller d c store_id seller_id limit"; auto)
  from assms(3) items obtain p where p: "p \<in> set ps"
    and it: "it = product_to_list_item p (gallery d (p_id p))" by auto
  obtain imgs where imgs: "get_product_for_caller d c (p_id p) = Inr (p, imgs)"
    using listed_product_opens [OF assms(1) ps p] by blast
  have "imgs = gallery d (p_id p)"
    using imgs by (auto simp: get_product_for_caller_def load_product_with_images_def gallery_def
        split: option.splits user_role.splits sum.splits if_splits)
  with imgs it show ?thesis
    by (auto simp: product_to_list_item_def product_to_response_def first_image_sorted gallery_def
        split: list.splits)
qed

definition gallery_db :: db where
  "gallery_db = open_store_db\<lparr>product_images :=
     [\<lparr>pi_id = 50, pi_product_id = 20, pi_s3_key = ''b'', pi_display_order = 2\<rparr>,
      \<lparr>pi_id = 51, pi_product_id = 21, pi_s3_key = ''c'', pi_display_order = 0\<rparr>,
      \<lparr>pi_id = 52, pi_product_id = 20, pi_s3_key = ''a'', pi_display_order = 1\<rparr>]\<rparr>"

lemma gallery_db_inv: "catalogue_inv gallery_db"
  by (simp add: catalogue_inv_def product_ok_def product_columns_ok_def product_checks_ok_def
      int4_def int8_def gallery_db_def open_store_db_def sample_defs)

definition first_item :: product_list_item where
  "first_item = \<lparr>li_id = 20, li_seller_id = 2, li_store_id = 11, li_name = ''p'',
     li_price_minor = 150, li_stock_quantity = Some 5, li_is_active = True,
     li_image_s3_key = Some ''a''\<rparr>"

lemma stranger_lists:
  "answer_catalogue (GetProducts stranger None None 1) gallery_db = Inr (AProducts [first_item])"
  by (simp add: list_products_endpoint_def list_products_for_caller_def order_desc_def
      customer_sees_def filter_opt_def page_limit_def gallery_db_def open_store_db_def stranger_def
      gallery_def images_of_def product_to_list_item_def first_item_def sample_defs)

theorem list_items_match_detail_witness:
  "\<exists>r. answer_catalogue (GetProduct stranger 20) gallery_db = Inr (AProduct r) \<and>
     pr_name r = ''p'' \<and> hd (pr_images r) = (52, ''a'', 1)"
proof -
  from list_items_match_detail [OF gallery_db_inv stranger_lists, of first_item]
  obtain r where "answer_catalogue (GetProduct stranger 20) gallery_db = Inr (AProduct r)"
    and "pr_name r = ''p''" by (auto simp: first_item_def)
  moreover from this have "hd (pr_images r) = (52, ''a'', 1)"
    by (auto simp: get_product_for_caller_def load_product_with_images_def product_to_response_def
        gallery_db_def open_store_db_def stranger_def images_of_def sample_defs)
  ultimately show ?thesis by blast
qed

section \<open>What a caller does not learn\<close>










text \<open>
  The exception: a seller without a profile, as every seller who signs up is, gets 404 for a
  product that does not exist and 400 for one that does, whoever it belongs to.
\<close>

lemma missing_profile_tells_products:
  assumes "u_role c = Seller" and "get_caller_seller d c = Inl SellerProfileMissing"
  shows "get_product_for_caller d c pid =
    (if \<exists>p. get_row p_id pid (products d) = Some p \<and> p_deleted_at p = None
     then Inl SellerProfileMissing else Inl ProductNotFound)"
  using assms by (auto simp: get_product_for_caller_def load_product_with_images_def split: option.splits)

lemma missing_profile_statuses:
  "http_status SellerProfileMissing = 400" "http_status ProductNotFound = 404"
  by simp_all

end
