(* ===== verification/Delivery_Flow.thy ===== *)
theory Delivery_Flow
  imports Order_Errors Sample_Data Strings
begin

text \<open>
  The driver flow of \<open>delivery_flow_service.py\<close>: accepting an order and issuing its delivery
  code, recording positions, completing with the code, the travel-time estimate and the order
  chat, with the chat endpoint of \<open>api/v1/delivery_flow.py\<close>. SHA-256 is the parameter \<open>h\<close>;
  floating-point arithmetic is real arithmetic.
\<close>

section \<open>Codes\<close>


text \<open>\<open>f"{n:06d}"\<close> for \<open>n = secrets.randbelow(1_000_000)\<close>.\<close>

definition generate_code :: "nat \<Rightarrow> string" where
  "generate_code n = (let s = decimal n in replicate (6 - length s) (char_of (48::nat)) @ s)"

section \<open>Operations\<close>

definition flow_get_order :: "db \<Rightarrow> uuid \<Rightarrow> order_row res" where
  "flow_get_order d oid =
     (case get_row o_id oid (orders d) of
        None \<Rightarrow> Inl (NotFoundError ''ORDER_NOT_FOUND'')
      | Some ord \<Rightarrow>
          if o_deleted_at ord \<noteq> None then Inl (NotFoundError ''ORDER_NOT_FOUND'') else Inr ord)"

definition add_code :: "delivery_code \<Rightarrow> db \<Rightarrow> unit res \<times> db" where
  "add_code c d =
     (case insert_row dc_order_id c (delivery_codes d) of
        None \<Rightarrow> (Inl IntegrityError, d)
      | Some rows \<Rightarrow> (Inr (), d\<lparr>delivery_codes := rows\<rparr>))"

text \<open>\<open>n\<close> is the random number the code is made of.\<close>

definition new_code :: "(string \<Rightarrow> string) \<Rightarrow> nat \<Rightarrow> uuid \<Rightarrow> delivery_code" where
  "new_code h n oid =
     (let plain = generate_code n in
      \<lparr>dc_order_id = oid, dc_code_hash = h plain, dc_code_plain = plain,
       dc_attempts_used = 0, dc_locked = False, dc_consumed_at = None\<rparr>)"

definition claim_delivery :: "uuid \<Rightarrow> user \<Rightarrow> order_row \<Rightarrow> db \<Rightarrow> unit res \<times> db" where
  "claim_delivery new_id driver ord d =
     (case get_row d_order_id (o_id ord) (deliveries d) of
        None \<Rightarrow> add_delivery (new_delivery new_id (o_id ord) (Some (u_id driver))
                  (o_seller_id ord) DInTransit None) d
      | Some _ \<Rightarrow> (Inr (), set_delivery (o_id ord) (\<lambda>r. r\<lparr>d_driver_id := Some (u_id driver)\<rparr>) d))"

definition driver_accept ::
  "(string \<Rightarrow> string) \<Rightarrow> nat \<Rightarrow> uuid \<Rightarrow> time \<Rightarrow> user \<Rightarrow> uuid \<Rightarrow> db \<Rightarrow> (uuid \<times> delivery_code) res \<times> db" where
  "driver_accept h n new_id now driver oid d =
     (if u_role driver \<noteq> Driver then (Inl (AuthorizationError ''PERMISSION_DENIED''), d)
      else case flow_get_order d oid of
        Inl e \<Rightarrow> (Inl e, d)
      | Inr ord \<Rightarrow>
          (case (o_driver_accepted_at ord, get_row dc_order_id (o_id ord) (delivery_codes d)) of
             (Some _, Some existing) \<Rightarrow> (Inr (o_id ord, existing), d)
           | _ \<Rightarrow>
               (let code = new_code h n (o_id ord)
                in case claim_delivery new_id driver ord
                          (set_order oid (\<lambda>r. r\<lparr>o_driver_accepted_at := Some now\<rparr>) d) of
                     (Inl e, d2) \<Rightarrow> (Inl e, d2)
                   | (Inr _, d2) \<Rightarrow>
                       (case add_code code d2 of
                          (Inl e, d3) \<Rightarrow> (Inl e, d3)
                        | (Inr _, d3) \<Rightarrow> (Inr (o_id ord, code), d3)))))"

definition record_location ::
  "uuid \<Rightarrow> time \<Rightarrow> user \<Rightarrow> uuid \<Rightarrow> real \<Rightarrow> real \<Rightarrow> db \<Rightarrow> order_tracking_point res \<times> db" where
  "record_location new_id now driver oid lat lng d =
     (if u_role driver \<notin> {Driver, Seller, Admin}
      then (Inl (AuthorizationError ''PERMISSION_DENIED''), d)
      else case flow_get_order d oid of
        Inl e \<Rightarrow> (Inl e, d)
      | Inr ord \<Rightarrow>
          (let p = \<lparr>tp_id = new_id, tp_order_id = o_id ord,
                    tp_driver_id = (if u_role driver = Driver then Some (u_id driver) else None),
                    tp_lat = lat, tp_lng = lng, tp_recorded_at = now\<rparr>
           in case insert_row tp_id p (order_tracking_points d) of
                None \<Rightarrow> (Inl IntegrityError, d)
              | Some rows \<Rightarrow>
                  (Inr p, set_delivery (o_id ord)
                     (\<lambda>r. r\<lparr>d_current_lat := Some lat, d_current_lng := Some lng\<rparr>)
                     (d\<lparr>order_tracking_points := rows\<rparr>))))"

record route_out =
  ro_order_id :: uuid
  ro_customer_lat :: "real option"
  ro_customer_lng :: "real option"

definition get_route :: "uuid \<Rightarrow> db \<Rightarrow> route_out res" where
  "get_route oid d =
     (case flow_get_order d oid of
        Inl e \<Rightarrow> Inl e
      | Inr ord \<Rightarrow> Inr \<lparr>ro_order_id = o_id ord, ro_customer_lat = ad_lat (o_delivery_address ord),
                        ro_customer_lng = ad_lng (o_delivery_address ord)\<rparr>)"

definition driver_route :: "user \<Rightarrow> uuid \<Rightarrow> db \<Rightarrow> route_out res" where
  "driver_route caller oid d =
     (if u_role caller \<notin> {Driver, Admin} then Inl (AuthorizationError ''PERMISSION_DENIED'')
      else get_route oid d)"

definition add_attempt :: "delivery_code_attempt \<Rightarrow> db \<Rightarrow> unit res \<times> db" where
  "add_attempt a d =
     (case insert_row ca_id a (delivery_code_attempts d) of
        None \<Rightarrow> (Inl IntegrityError, d)
      | Some rows \<Rightarrow> (Inr (), d\<lparr>delivery_code_attempts := rows\<rparr>))"

definition set_code :: "uuid \<Rightarrow> (delivery_code \<Rightarrow> delivery_code) \<Rightarrow> db \<Rightarrow> db" where
  "set_code oid f d = d\<lparr>delivery_codes := upd_row dc_order_id oid f (delivery_codes d)\<rparr>"

text \<open>The branch of a wrong code: count it, lock at the third, write the audit row, raise.\<close>

definition reject_code :: "delivery_code_attempt \<Rightarrow> delivery_code \<Rightarrow> db \<Rightarrow> order_row res \<times> db" where
  "reject_code attempt code d =
     (let used = dc_attempts_used code + 1;
          lock = used \<ge> 3;
          d1 = set_code (dc_order_id code)
                 (\<lambda>c. c\<lparr>dc_attempts_used := used, dc_locked := dc_locked c \<or> lock\<rparr>) d;
          d2 = (if lock then set_order (dc_order_id code) (\<lambda>r. r\<lparr>o_delivery_code_locked := True\<rparr>) d1
                else d1)
      in case add_attempt attempt d2 of
           (Inl e, d3) \<Rightarrow> (Inl e, d3)
         | (Inr _, d3) \<Rightarrow>
             if lock then (Inl DeliveryCodeLocked, d3) else (Inl (DeliveryCodeInvalid (3 - used)), d3))"

definition delivered_by_code :: "time \<Rightarrow> order_row \<Rightarrow> order_row" where
  "delivered_by_code now r =
     r\<lparr>o_delivered_at := Some now, o_status := Delivered,
       o_customer_visible_after := Some (now + td_minutes 30)\<rparr>"

definition archive_messages :: "uuid \<Rightarrow> time \<Rightarrow> db \<Rightarrow> db" where
  "archive_messages oid now d =
     d\<lparr>order_messages := update_where (\<lambda>m. om_order_id m = oid \<and> om_archived_at m = None)
                          (\<lambda>m. m\<lparr>om_archived_at := Some now\<rparr>) (order_messages d)\<rparr>"

definition complete_delivery ::
  "(string \<Rightarrow> string) \<Rightarrow> uuid \<Rightarrow> time \<Rightarrow> user \<Rightarrow> uuid \<Rightarrow> string \<Rightarrow> db \<Rightarrow> order_row res \<times> db" where
  "complete_delivery h new_id now driver oid submitted d =
     (if u_role driver \<noteq> Driver then (Inl (AuthorizationError ''PERMISSION_DENIED''), d)
      else case flow_get_order d oid of
        Inl e \<Rightarrow> (Inl e, d)
      | Inr ord \<Rightarrow>
          (case get_row dc_order_id (o_id ord) (delivery_codes d) of
             None \<Rightarrow> (Inl (ConflictError ''DELIVERY_NOT_ACCEPTED''), d)
           | Some code \<Rightarrow>
               (let attempt = \<lparr>ca_id = new_id, ca_order_id = o_id ord,
                      ca_driver_id = Some (u_id driver), ca_submitted_code = submitted,
                      ca_success = False\<rparr>
                in if dc_locked code
                   then (case add_attempt attempt d of
                           (Inl e, d1) \<Rightarrow> (Inl e, d1)
                         | (Inr _, d1) \<Rightarrow> (Inl DeliveryCodeLocked, d1))
                   else if h submitted \<noteq> dc_code_hash code then reject_code attempt code d
                   else
                     (let d1 = archive_messages (o_id ord) now
                                 (set_order (o_id ord) (delivered_by_code now)
                                   (set_code (o_id ord) (\<lambda>c. c\<lparr>dc_consumed_at := Some now\<rparr>) d))
                      in case add_attempt (attempt\<lparr>ca_success := True\<rparr>) d1 of
                           (Inl e, d2) \<Rightarrow> (Inl e, d2)
                         | (Inr _, d2) \<Rightarrow> (Inr (delivered_by_code now ord), d2)))))"

section \<open>Travel time\<close>

definition radians :: "real \<Rightarrow> real" where
  "radians x = x * pi / 180"

definition haversine_a :: "real \<Rightarrow> real \<Rightarrow> real \<Rightarrow> real \<Rightarrow> real" where
  "haversine_a lat1 lon1 lat2 lon2 =
     (sin ((lat2 - lat1) / 2))\<^sup>2 + cos lat1 * cos lat2 * (sin ((lon2 - lon1) / 2))\<^sup>2"

definition travel_seconds :: "real \<Rightarrow> real \<Rightarrow> real \<Rightarrow> real \<Rightarrow> int" where
  "travel_seconds lat lng dest_lat dest_lng =
     (let a = haversine_a (radians lat) (radians lng) (radians dest_lat) (radians dest_lng);
          c = 2 * arcsin (sqrt a)
      in \<lfloor>6371000 * c / (8333 / 1000)\<rfloor>)"

definition compute_eta_seconds :: "uuid \<Rightarrow> db \<Rightarrow> int option \<times> time option" where
  "compute_eta_seconds oid d =
     (case order_desc tp_recorded_at (filter (\<lambda>p. tp_order_id p = oid) (order_tracking_points d)) of
        [] \<Rightarrow> (None, None)
      | p # _ \<Rightarrow>
          (case get_row o_id oid (orders d) of
             None \<Rightarrow> (None, None)
           | Some ord \<Rightarrow>
               (case (ad_lat (o_delivery_address ord), ad_lng (o_delivery_address ord)) of
                  (Some dlat, Some dlng) \<Rightarrow>
                    (Some (travel_seconds (tp_lat p) (tp_lng p) dlat dlng), Some (tp_recorded_at p))
                | _ \<Rightarrow> (None, Some (tp_recorded_at p)))))"

definition customer_eta :: "user \<Rightarrow> uuid \<Rightarrow> db \<Rightarrow> (int option \<times> time option) res" where
  "customer_eta caller oid d =
     (case get_row o_id oid (orders d) of
        None \<Rightarrow> Inl (NotFoundError ''ORDER_NOT_FOUND'')
      | Some ord \<Rightarrow>
          if o_deleted_at ord \<noteq> None then Inl (NotFoundError ''ORDER_NOT_FOUND'')
          else if u_role caller \<noteq> Admin \<and> o_customer_id ord \<noteq> u_id caller
          then Inl (NotFoundError ''ORDER_NOT_FOUND'')
          else Inr (compute_eta_seconds oid d))"

section \<open>Code and chat\<close>

definition get_delivery_code_for_customer :: "user \<Rightarrow> uuid \<Rightarrow> db \<Rightarrow> delivery_code res" where
  "get_delivery_code_for_customer customer oid d =
     (case flow_get_order d oid of
        Inl e \<Rightarrow> Inl e
      | Inr ord \<Rightarrow>
          if o_customer_id ord \<noteq> u_id customer \<and> u_role customer \<noteq> Admin
          then Inl (NotFoundError ''ORDER_NOT_FOUND'')
          else (case get_row dc_order_id (o_id ord) (delivery_codes d) of
                  None \<Rightarrow> Inl (NotFoundError ''CODE_NOT_AVAILABLE'')
                | Some code \<Rightarrow>
                    if o_driver_accepted_at ord = None \<or> o_delivered_at ord \<noteq> None
                    then Inl (NotFoundError ''CODE_NOT_AVAILABLE'') else Inr code))"

definition list_tracking_points :: "uuid \<Rightarrow> db \<Rightarrow> order_tracking_point list" where
  "list_tracking_points oid d =
     sort_key tp_recorded_at (filter (\<lambda>p. tp_order_id p = oid) (order_tracking_points d))"

definition list_order_messages :: "uuid \<Rightarrow> bool \<Rightarrow> db \<Rightarrow> order_message list" where
  "list_order_messages oid include_archived d =
     sort_key om_created_at
       (filter (\<lambda>m. om_order_id m = oid \<and> (include_archived \<or> om_archived_at m = None)) (order_messages d))"

definition is_order_driver :: "db \<Rightarrow> user \<Rightarrow> uuid \<Rightarrow> bool" where
  "is_order_driver d u oid =
     (case get_row d_order_id oid (deliveries d) of
        None \<Rightarrow> False | Some dl \<Rightarrow> d_driver_id dl = Some (u_id u))"

definition list_chat :: "user \<Rightarrow> uuid \<Rightarrow> db \<Rightarrow> order_message list res" where
  "list_chat caller oid d =
     (case flow_get_order d oid of
        Inl e \<Rightarrow> Inl e
      | Inr ord \<Rightarrow>
          if u_role caller = Admin then Inr (list_order_messages oid True d)
          else if \<not> (u_id caller = o_customer_id ord \<or> is_order_driver d caller (o_id ord))
          then Inl (NotFoundError ''ORDER_NOT_FOUND'')
          else if o_delivered_at ord \<noteq> None then Inr []
          else Inr (list_order_messages oid False d))"

definition post_order_message ::
  "uuid \<Rightarrow> time \<Rightarrow> user \<Rightarrow> uuid \<Rightarrow> string \<Rightarrow> string \<Rightarrow> db \<Rightarrow> order_message res \<times> db" where
  "post_order_message new_id now sender oid ciphertext nonce d =
     (case flow_get_order d oid of
        Inl e \<Rightarrow> (Inl e, d)
      | Inr ord \<Rightarrow>
          if o_driver_accepted_at ord = None then (Inl (ConflictError ''CHAT_NOT_OPEN''), d)
          else if o_delivered_at ord \<noteq> None then (Inl (ConflictError ''CHAT_CLOSED''), d)
          else (let role = (if u_role sender = Admin then Some Admin
                            else if u_id sender = o_customer_id ord then Some Customer
                            else if is_order_driver d sender (o_id ord) then Some Driver
                            else None)
                in case role of
                     None \<Rightarrow> (Inl (AuthorizationError ''PERMISSION_DENIED''), d)
                   | Some r \<Rightarrow>
                       if r = Admin then (Inl (AuthorizationError ''PERMISSION_DENIED''), d)
                       else (let m = \<lparr>om_id = new_id, om_order_id = o_id ord,
                                      om_sender_id = Some (u_id sender), om_sender_role = r,
                                      om_ciphertext = ciphertext, om_nonce = nonce,
                                      om_created_at = now, om_archived_at = None\<rparr>
                             in case insert_row om_id m (order_messages d) of
                                  None \<Rightarrow> (Inl IntegrityError, d)
                                | Some rows \<Rightarrow> (Inr m, d\<lparr>order_messages := rows\<rparr>))))"

section \<open>Lemmas: the order invariant\<close>

lemma orders_inv_other_tables [simp]:
  "orders_inv (d\<lparr>delivery_codes := x1\<rparr>) = orders_inv d"
  "orders_inv (d\<lparr>delivery_code_attempts := x2\<rparr>) = orders_inv d"
  "orders_inv (d\<lparr>order_messages := x3\<rparr>) = orders_inv d"
  "orders_inv (d\<lparr>order_tracking_points := x4\<rparr>) = orders_inv d"
  by (simp_all add: orders_inv_def assignments_inv_def active_assignments_def)

lemma flow_get_order_Inr [simp]:
  "flow_get_order d oid = Inr ord \<longleftrightarrow> get_row o_id oid (orders d) = Some ord \<and> o_deleted_at ord = None"
  by (auto simp: flow_get_order_def split: option.splits)

lemma order_ok_touch:
  assumes "order_ok dls sns ord"
    and "\<And>r. d_order_id (f r) = d_order_id r" and "\<And>r. d_status (f r) = d_status r"
  shows "order_ok (upd_row d_order_id oid f dls) sns ord"
  using assms(1)
  by (rule order_ok_mono)
    (auto simp: set_upd_row assms(2,3) simp del: if_image_distrib intro!: exI)

lemma orders_inv_touch_delivery:
  assumes inv: "orders_inv d" and f: "\<And>r. d_order_id (f r) = d_order_id r" "\<And>r. d_status (f r) = d_status r"
    and drv: "\<And>r. d_driver_id (f r) = None \<Longrightarrow> d_driver_id r = None"
  shows "orders_inv (set_delivery oid f d)"
proof -
  have "assignments_inv (set_delivery oid f d)"
    using inv drv f by (auto simp: orders_inv_def assignments_inv_def set_delivery_def set_upd_row
        active_assignments_def split: if_splits simp del: if_image_distrib)
  then show ?thesis
    using inv f by (auto simp: orders_inv_def set_delivery_def map_key_upd_row order_ok_touch)
qed

lemma add_code_Inr [simp]:
  "add_code c d = (Inr u, d') \<longleftrightarrow> dc_order_id c \<notin> dc_order_id ` set (delivery_codes d) \<and>
     d' = d\<lparr>delivery_codes := delivery_codes d @ [c]\<rparr>"
  by (auto simp: add_code_def insert_row_def)

lemma add_attempt_Inr [simp]:
  "add_attempt a d = (Inr u, d') \<longleftrightarrow> ca_id a \<notin> ca_id ` set (delivery_code_attempts d) \<and>
     d' = d\<lparr>delivery_code_attempts := delivery_code_attempts d @ [a]\<rparr>"
  by (auto simp: add_attempt_def insert_row_def)

lemma add_delivery_Inr:
  "add_delivery dl d = (Inr u, d') \<longleftrightarrow> d_id dl \<notin> d_id ` set (deliveries d) \<and>
     d_order_id dl \<notin> d_order_id ` set (deliveries d) \<and> d' = d\<lparr>deliveries := deliveries d @ [dl]\<rparr>"
  by (auto simp: add_delivery_def)

lemma claim_delivery_inv:
  assumes "orders_inv d" and "claim_delivery new_id driver ord d = (Inr u, d')"
  shows "orders_inv d'"
  using assms(2)
  by (auto simp: claim_delivery_def add_delivery_Inr split: option.splits
      intro!: orders_inv_add_delivery orders_inv_touch_delivery assms(1))
    (auto simp: new_delivery_def)

lemma claim_delivery_frame:
  assumes "claim_delivery new_id driver ord d = (Inr u, d')"
  shows "orders d' = orders d" "delivery_codes d' = delivery_codes d" "products d' = products d"
    "\<exists>dl. get_row d_order_id (o_id ord) (deliveries d') = Some dl \<and> d_driver_id dl = Some (u_id driver)"
  using assms
  by (auto simp: claim_delivery_def add_delivery_Inr new_delivery_def set_delivery_def get_row_append
      get_row_upd_row split: option.splits)

lemma driver_accept_success:
  assumes "driver_accept h n new_id now driver oid d = (Inr (k, code), d')"
  obtains (again) ord where "get_row o_id oid (orders d) = Some ord" "u_role driver = Driver"
      "o_driver_accepted_at ord \<noteq> None" "get_row dc_order_id oid (delivery_codes d) = Some code"
      "k = oid" "d' = d"
  | (fresh) ord d2 where "get_row o_id oid (orders d) = Some ord"
      "o_deleted_at ord = None" "u_role driver = Driver"
      "claim_delivery new_id driver ord
         (set_order oid (\<lambda>r. r\<lparr>o_driver_accepted_at := Some now\<rparr>) d) = (Inr (), d2)"
      "oid \<notin> dc_order_id ` set (delivery_codes d2)" "k = oid" "code = new_code h n oid"
      "d' = d2\<lparr>delivery_codes := delivery_codes d2 @ [code]\<rparr>"
proof -
  from assms obtain ord where role: "u_role driver = Driver"
    and ord: "get_row o_id oid (orders d) = Some ord" "o_deleted_at ord = None"
    by (auto simp: driver_accept_def split: if_splits sum.splits)
  have id: "o_id ord = oid" using ord(1) by (rule get_row_SomeD)
  have get: "flow_get_order d oid = Inr ord" using ord by simp
  note D = assms [unfolded driver_accept_def get Let_def]
  show thesis
  proof (cases "o_driver_accepted_at ord \<noteq> None \<and> get_row dc_order_id oid (delivery_codes d) \<noteq> None")
    case True
    with D ord role id show thesis by (auto intro: again)
  next
    case False
    have [simp]: "dc_order_id (new_code h n oid) = oid" by (simp add: new_code_def Let_def)
    from False D ord role id show thesis
      by (auto split: option.splits prod.splits sum.splits intro: fresh)
  qed
qed

lemma driver_accept_inv:
  assumes "orders_inv d" and "driver_accept h n new_id now driver oid d = (Inr r, d')"
  shows "orders_inv d'"
proof (cases r)
  case (Pair k code)
  from assms(2) show ?thesis unfolding Pair
  proof (cases rule: driver_accept_success)
    case (fresh ord d2)
    let ?f = "\<lambda>r. r\<lparr>o_driver_accepted_at := Some now\<rparr>"
    have "order_ok (deliveries d) (snapshots d) (?f ord)"
      using orders_inv_get_row [OF assms(1) fresh(1)] by (simp add: order_ok_def)
    then have "orders_inv (set_order oid ?f d)"
      using assms(1) fresh(1) by (intro orders_inv_set_order) simp_all
    then have "orders_inv d2" using fresh(4) by (rule claim_delivery_inv)
    then show ?thesis by (simp add: fresh(8))
  qed (use assms(1) in simp)
qed

lemma record_location_success:
  assumes "record_location new_id now driver oid lat lng d = (Inr p, d')"
  obtains ord where "get_row o_id oid (orders d) = Some ord" "u_role driver \<noteq> Customer"
    "tp_order_id p = oid" "tp_lat p = lat" "tp_lng p = lng"
    "d' = set_delivery oid (\<lambda>r. r\<lparr>d_current_lat := Some lat, d_current_lng := Some lng\<rparr>)
            (d\<lparr>order_tracking_points := order_tracking_points d @ [p]\<rparr>)"
    "tp_id p \<notin> tp_id ` set (order_tracking_points d)"
  using assms
  by (auto simp: record_location_def Let_def insert_row_def dest: get_row_SomeD
      split: if_splits sum.splits option.splits)

lemma record_location_inv:
  assumes "orders_inv d" and "record_location new_id now driver oid lat lng d = (Inr p, d')"
  shows "orders_inv d'"
  using assms(2)
  by (rule record_location_success) (auto intro!: orders_inv_touch_delivery simp: assms(1))

lemma reject_code_raises [simp]: "reject_code a c d = (Inr r, d') \<longleftrightarrow> False"
  by (auto simp: reject_code_def Let_def split: prod.splits sum.splits)

lemma complete_delivery_success:
  assumes "complete_delivery h new_id now driver oid submitted d = (Inr r, d')"
  obtains ord code attempt where "u_role driver = Driver"
    "get_row o_id oid (orders d) = Some ord" "o_deleted_at ord = None"
    "get_row dc_order_id oid (delivery_codes d) = Some code" "\<not> dc_locked code"
    "h submitted = dc_code_hash code" "r = delivered_by_code now ord"
    "ca_order_id attempt = oid" "ca_success attempt" "ca_submitted_code attempt = submitted"
    "d' = archive_messages oid now (set_order oid (delivered_by_code now)
            (set_code oid (\<lambda>c. c\<lparr>dc_consumed_at := Some now\<rparr>) d))
          \<lparr>delivery_code_attempts := delivery_code_attempts d @ [attempt]\<rparr>"
    "ca_id attempt \<notin> ca_id ` set (delivery_code_attempts d)"
proof -
  from assms obtain ord where role: "u_role driver = Driver"
    and ord: "get_row o_id oid (orders d) = Some ord" "o_deleted_at ord = None"
    by (auto simp: complete_delivery_def split: if_splits sum.splits)
  have id: "o_id ord = oid" using ord(1) by (rule get_row_SomeD)
  have get: "flow_get_order d oid = Inr ord" using ord by simp
  let ?a = "\<lparr>ca_id = new_id, ca_order_id = o_id ord, ca_driver_id = Some (u_id driver),
      ca_submitted_code = submitted, ca_success = True\<rparr>"
  from assms [unfolded complete_delivery_def get Let_def] ord role id that [of ord _ ?a]
  show thesis
    by (auto split: option.splits if_splits prod.splits sum.splits
        simp: archive_messages_def set_order_def set_code_def)
qed

lemma delivered_by_code_id [simp]:
  "o_id (delivered_by_code now r) = o_id r" "o_status (delivered_by_code now r) = Delivered"
  "o_delivered_at (delivered_by_code now r) = Some now"
  by (simp_all add: delivered_by_code_def)

lemma orders_inv_code_tables [simp]:
  "orders_inv (set_code oid f d) = orders_inv d"
  "orders_inv (archive_messages oid now d) = orders_inv d"
  by (simp_all add: set_code_def archive_messages_def)

lemma complete_delivery_inv:
  assumes "orders_inv d" and "complete_delivery h new_id now driver oid submitted d = (Inr r, d')"
  shows "orders_inv d'"
  using assms(2)
proof (rule complete_delivery_success)
  fix ord attempt
  let ?d = "set_code oid (\<lambda>c. c\<lparr>dc_consumed_at := Some now\<rparr>) d"
  assume ord: "get_row o_id oid (orders d) = Some ord"
    and d': "d' = archive_messages oid now (set_order oid (delivered_by_code now) ?d)
          \<lparr>delivery_code_attempts := delivery_code_attempts d @ [attempt]\<rparr>"
  have "orders_inv (set_order oid (delivered_by_code now) ?d)"
    by (rule orders_inv_set_order) (use assms(1) ord in \<open>auto simp: set_code_def order_ok_def\<close>)
  then show ?thesis by (simp add: d')
qed

lemma post_order_message_success:
  assumes "post_order_message new_id now sender oid ct nonce d = (Inr m, d')"
  obtains ord where "get_row o_id oid (orders d) = Some ord" "o_deleted_at ord = None"
    "o_driver_accepted_at ord \<noteq> None" "o_delivered_at ord = None" "u_role sender \<noteq> Admin"
    "om_order_id m = oid" "om_sender_id m = Some (u_id sender)" "om_archived_at m = None"
    "om_sender_role m = Customer \<and> u_id sender = o_customer_id ord \<or>
     om_sender_role m = Driver \<and> u_id sender \<noteq> o_customer_id ord \<and> is_order_driver d sender oid"
    "d' = d\<lparr>order_messages := order_messages d @ [m]\<rparr>"
    "om_id m \<notin> om_id ` set (order_messages d)"
proof -
  from assms obtain ord where ord: "get_row o_id oid (orders d) = Some ord" "o_deleted_at ord = None"
    by (auto simp: post_order_message_def split: sum.splits)
  have id: "o_id ord = oid" using ord(1) by (rule get_row_SomeD)
  have get: "flow_get_order d oid = Inr ord" using ord by simp
  from assms [unfolded post_order_message_def get Let_def] ord id show thesis
    by (auto simp: insert_row_def split: if_splits option.splits intro: that)
qed

lemma post_order_message_inv:
  assumes "orders_inv d" and "post_order_message new_id now sender oid ct nonce d = (Inr m, d')"
  shows "orders_inv d'"
  using assms(2) by (rule post_order_message_success) (simp add: assms(1))

section \<open>The flow as requests\<close>

datatype (plugins only: code) flow_request =
    FAccept nat uuid time user uuid
  | FLocation uuid time user uuid real real
  | FComplete uuid time user uuid string
  | FMessage uuid time user uuid string string

datatype (plugins only: code) flow_reply =
    FRCode "uuid \<times> delivery_code"
  | FRPoint order_tracking_point
  | FROrder order_row
  | FRMessage order_message

definition flow_answer :: "('a \<Rightarrow> flow_reply) \<Rightarrow> 'a res \<times> db \<Rightarrow> flow_reply res \<times> db" where
  "flow_answer f out = (case out of (Inl e, d) \<Rightarrow> (Inl e, d) | (Inr a, d) \<Rightarrow> (Inr (f a), d))"

primrec exec_flow :: "(string \<Rightarrow> string) \<Rightarrow> flow_request \<Rightarrow> db \<Rightarrow> flow_reply res \<times> db" where
  "exec_flow h (FAccept n i now u oid) d = flow_answer FRCode (driver_accept h n i now u oid d)"
| "exec_flow h (FLocation i now u oid lat lng) d = flow_answer FRPoint (record_location i now u oid lat lng d)"
| "exec_flow h (FComplete i now u oid code) d = flow_answer FROrder (complete_delivery h i now u oid code d)"
| "exec_flow h (FMessage i now u oid ct nonce) d = flow_answer FRMessage (post_order_message i now u oid ct nonce d)"

lemma flow_answer_Inr [simp]:
  "flow_answer f out = (Inr r, d') \<longleftrightarrow> (\<exists>a. out = (Inr a, d') \<and> r = f a)"
  by (auto simp: flow_answer_def split: prod.splits sum.splits)

interpretation flow: transactional "exec_flow h" orders_inv for h
proof
  fix d q r d'
  assume "orders_inv d" and "exec_flow h q d = (Inr r, d')"
  then show "orders_inv d'"
    by (cases q) (auto intro: driver_accept_inv record_location_inv complete_delivery_inv
        post_order_message_inv)
qed

section \<open>Lemmas: codes and travel time\<close>

lemma code_value_zeros: "code_value (replicate k (char_of (48::nat)) @ s) = code_value s"
proof -
  have "foldl (\<lambda>a c. 10 * a + (of_char c - 48)) 0 (replicate k (char_of (48::nat))) = (0::nat)"
    using digit_value [of 0] by (induction k) simp_all
  then show ?thesis by (simp add: code_value_def)
qed

text \<open>The haversine term is half of one minus the cosine of the central angle.\<close>

lemma haversine_a_cos:
  "haversine_a p l p' l' = (1 - (sin p * sin p' + cos p * cos p' * cos (l' - l))) / 2"
proof -
  have half: "(sin (x / 2))\<^sup>2 = (1 - cos x) / 2" for x :: real
    using cos_double_sin [of "x / 2"] by simp
  show ?thesis unfolding haversine_a_def half by (simp add: cos_diff field_simps)
qed

lemma brahmagupta:
  fixes a b c e :: real
  shows "(a * b + c * e)\<^sup>2 + (a * e - c * b)\<^sup>2 = (a\<^sup>2 + c\<^sup>2) * (b\<^sup>2 + e\<^sup>2)"
  by (simp add: power2_eq_square algebra_simps)

lemma cos_angle_bound:
  fixes p p' l :: real
  shows "\<bar>sin p * sin p' + cos p * cos p' * cos l\<bar> \<le> 1"
proof -
  let ?a = "sin p" and ?b = "sin p'" and ?c = "cos p" and ?e = "cos p' * cos l"
  have "(?a * ?b + ?c * ?e)\<^sup>2 + (?a * ?e - ?c * ?b)\<^sup>2 = (?a\<^sup>2 + ?c\<^sup>2) * (?b\<^sup>2 + ?e\<^sup>2)"
    by (rule brahmagupta)
  also have "\<dots> = ?b\<^sup>2 + ?e\<^sup>2" by simp
  finally have 1: "(?a * ?b + ?c * ?e)\<^sup>2 + (?a * ?e - ?c * ?b)\<^sup>2 = ?b\<^sup>2 + ?e\<^sup>2" .
  have "?e\<^sup>2 \<le> (cos p')\<^sup>2"
    by (simp add: power_mult_distrib mult_left_le abs_square_le_1)
  with sin_cos_squared_add [of p'] have "?b\<^sup>2 + ?e\<^sup>2 \<le> 1" by linarith
  with 1 zero_le_power2 [of "?a * ?e - ?c * ?b"] have "(?a * ?b + ?c * ?e)\<^sup>2 \<le> 1" by linarith
  then show ?thesis by (simp add: abs_square_le_1 mult.assoc)
qed

lemma haversine_a_range: "0 \<le> haversine_a p l p' l'" "haversine_a p l p' l' \<le> 1"
  using cos_angle_bound [of p p' "l' - l"] by (auto simp: haversine_a_cos abs_le_iff)

lemma travel_seconds_bounds:
  "0 \<le> travel_seconds lat lng lat' lng'"
  "of_int (travel_seconds lat lng lat' lng') \<le> 6371000 * pi / (8333 / 1000)"
proof -
  let ?a = "haversine_a (radians lat) (radians lng) (radians lat') (radians lng')"
  have le: "0 \<le> sqrt ?a" "sqrt ?a \<le> 1" using haversine_a_range by simp_all
  then have "- 1 \<le> sqrt ?a" by linarith
  from arcsin_bounded [OF this le(2)] arcsin_le_arcsin [OF _ le]
  have "0 \<le> arcsin (sqrt ?a)" "arcsin (sqrt ?a) \<le> pi / 2" by simp_all
  moreover have "of_int (travel_seconds lat lng lat' lng') \<le> 6371000 * (2 * arcsin (sqrt ?a)) / (8333 / 1000)"
    by (simp only: travel_seconds_def Let_def of_int_floor_le)
  ultimately show "0 \<le> travel_seconds lat lng lat' lng'"
    "of_int (travel_seconds lat lng lat' lng') \<le> 6371000 * pi / (8333 / 1000)"
    by (simp_all add: travel_seconds_def Let_def)
qed

section \<open>Properties\<close>

definition flow_order :: order_row where
  "flow_order = (new_order 100 sample_customer 2 11 490 sample_address 1000)
     \<lparr>o_status := Cancelled, o_cancelled_at := Some 3000, o_driver_accepted_at := Some 2000\<rparr>"

definition flow_code :: delivery_code where
  "flow_code = \<lparr>dc_order_id = 100, dc_code_hash = ''042042'', dc_code_plain = ''042042'',
     dc_attempts_used = 0, dc_locked = False, dc_consumed_at = None\<rparr>"

definition flow_db :: db where
  "flow_db = sample_db\<lparr>orders := [flow_order], delivery_codes := [flow_code]\<rparr>"

lemma archive_messages_all:
  assumes "m \<in> set (order_messages (archive_messages oid now d))" and "om_order_id m = oid"
  shows "om_archived_at m \<noteq> None"
proof -
  from assms(1) obtain m0 where
    "m = (if om_order_id m0 = oid \<and> om_archived_at m0 = None then m0\<lparr>om_archived_at := Some now\<rparr> else m0)"
    by (simp add: archive_messages_def update_where_def del: if_image_distrib) (erule imageE, blast)
  with assms(2) show ?thesis by (cases "om_archived_at m0 = None") (auto split: if_splits)
qed

lemma wrong_code_raises:
  assumes "\<And>c. get_row dc_order_id oid (delivery_codes d) = Some c \<Longrightarrow> h code \<noteq> dc_code_hash c"
  shows "\<exists>e d'. complete_delivery h i now u oid code d = (Inl e, d')"
proof (cases "complete_delivery h i now u oid code d")
  case (Pair r d')
  then show ?thesis
  proof (cases r)
    case (Inr ord)
    with Pair have "complete_delivery h i now u oid code d = (Inr ord, d')" by simp
    with assms show ?thesis by (auto elim: complete_delivery_success)
  qed simp
qed

text \<open>
  C19: the lock-out of the delivery code never takes effect. A wrong code raises, and the unit
  of work rolls back with it: after any number of requests with wrong codes the database is
  what it was, the attempts counter and the audit rows included, so the code can be guessed
  without limit.
\<close>

theorem wrong_codes_leave_no_trace:
  assumes "\<forall>q \<in> set qs. \<exists>i now u oid code. q = FComplete i now u oid code \<and>
     (\<forall>c. get_row dc_order_id oid (delivery_codes d) = Some c \<longrightarrow> h code \<noteq> dc_code_hash c)"
  shows "run_requests (exec_flow h) qs d = d"
  using assms
proof (induction qs)
  case (Cons q qs)
  then obtain i now u oid code where q: "q = FComplete i now u oid code"
    and wrong: "\<And>c. get_row dc_order_id oid (delivery_codes d) = Some c \<Longrightarrow> h code \<noteq> dc_code_hash c"
    by auto
  from wrong_code_raises [where h = h and d = d, OF wrong] obtain e d' where
    "complete_delivery h i now u oid code d = (Inl e, d')" by blast
  then have "snd (get_db (flushing (exec_flow h q)) d) = d"
    by (simp add: q get_db_flushing flow_answer_def)
  with Cons show ?case by simp
qed simp

theorem wrong_codes_leave_no_trace_witness:
  "run_requests (exec_flow (\<lambda>s. s)) (replicate 1000 (FComplete 700 5000 sample_driver 100 ''000000''))
     flow_db = flow_db"
  by (rule wrong_codes_leave_no_trace) (simp add: flow_db_def flow_code_def)

text \<open>
  Within its own session the service counts as intended: a wrong code on an unlocked row
  adds one attempt and one failed audit row, reports the attempts left, and locks code and
  order at the third.
\<close>

theorem wrong_code_counts_and_locks:
  assumes "u_role driver = Driver" and "get_row o_id oid (orders d) = Some ord"
    and "o_deleted_at ord = None" and "get_row dc_order_id oid (delivery_codes d) = Some code"
    and "\<not> dc_locked code" and "h submitted \<noteq> dc_code_hash code"
    and "new_id \<notin> ca_id ` set (delivery_code_attempts d)"
  shows "\<exists>d' a. complete_delivery h new_id now driver oid submitted d =
      (Inl (if 3 \<le> dc_attempts_used code + 1 then DeliveryCodeLocked
            else DeliveryCodeInvalid (2 - dc_attempts_used code)), d') \<and>
    get_row dc_order_id oid (delivery_codes d') =
      Some (code\<lparr>dc_attempts_used := dc_attempts_used code + 1,
                 dc_locked := (3 \<le> dc_attempts_used code + 1)\<rparr>) \<and>
    delivery_code_attempts d' = delivery_code_attempts d @ [a] \<and> \<not> ca_success a \<and>
    map o_status (orders d') = map o_status (orders d)"
proof -
  have id: "o_id ord = oid" "dc_order_id code = oid"
    using get_row_SomeD(2) [OF assms(2)] get_row_SomeD(2) [OF assms(4)] .
  have get: "flow_get_order d oid = Inr ord" using assms(2,3) by simp
  show ?thesis
    unfolding complete_delivery_def get
    using assms id
    by (auto simp: Let_def reject_code_def add_attempt_def insert_row_def set_code_def set_order_def
        get_row_upd_row map_key_upd_row)
qed

theorem wrong_code_counts_and_locks_witness:
  "\<exists>d'. complete_delivery (\<lambda>s. s) 700 5000 sample_driver 100 ''000000'' flow_db =
     (Inl (DeliveryCodeInvalid 2), d')"
proof -
  have "u_role sample_driver = Driver" "get_row o_id 100 (orders flow_db) = Some flow_order"
    "o_deleted_at flow_order = None" "get_row dc_order_id 100 (delivery_codes flow_db) = Some flow_code"
    "\<not> dc_locked flow_code" "''000000'' \<noteq> dc_code_hash flow_code"
    "700 \<notin> ca_id ` set (delivery_code_attempts flow_db)"
    by (simp_all add: flow_db_def flow_order_def flow_code_def new_order_def sample_defs)
  from wrong_code_counts_and_locks [where h = "\<lambda>s. s", OF this(1-5) this(6) this(7), of 5000]
  show ?thesis by (auto simp: flow_code_def)
qed

text \<open>
  C20: the delivery code alone decides: any driver account that submits it marks the order
  delivered, whatever status the order has (a cancelled or completed one included) and
  whoever the delivery is assigned to. The chat is archived and the customer's view is hidden
  for thirty minutes.
\<close>

theorem code_delivers_from_any_status:
  assumes "u_role driver = Driver" and "get_row o_id oid (orders d) = Some ord"
    and "o_deleted_at ord = None" and "get_row dc_order_id oid (delivery_codes d) = Some code"
    and "\<not> dc_locked code" and "h submitted = dc_code_hash code"
    and "new_id \<notin> ca_id ` set (delivery_code_attempts d)"
  shows "\<exists>d' ord'. get_db (flushing (exec_flow h (FComplete new_id now driver oid submitted))) d =
      (Inr (FROrder ord'), d') \<and>
    get_row o_id oid (orders d') = Some ord' \<and> o_status ord' = Delivered \<and>
    o_delivered_at ord' = Some now \<and> o_customer_visible_after ord' = Some (now + td_minutes 30) \<and>
    deliveries d' = deliveries d \<and>
    (\<forall>m \<in> set (order_messages d'). om_order_id m = oid \<longrightarrow> om_archived_at m \<noteq> None)"
proof -
  have id: "o_id ord = oid" "dc_order_id code = oid"
    using get_row_SomeD(2) [OF assms(2)] get_row_SomeD(2) [OF assms(4)] .
  have get: "flow_get_order d oid = Inr ord" using assms(2,3) by simp
  let ?a = "\<lparr>ca_id = new_id, ca_order_id = oid, ca_driver_id = Some (u_id driver),
      ca_submitted_code = submitted, ca_success = True\<rparr>"
  let ?d = "archive_messages oid now (set_order oid (delivered_by_code now)
            (set_code oid (\<lambda>c. c\<lparr>dc_consumed_at := Some now\<rparr>) d))
          \<lparr>delivery_code_attempts := delivery_code_attempts d @ [?a]\<rparr>"
  have "complete_delivery h new_id now driver oid submitted d = (Inr (delivered_by_code now ord), ?d)"
    unfolding complete_delivery_def get
    using assms id
    by (auto simp: Let_def add_attempt_def insert_row_def set_code_def set_order_def archive_messages_def)
  then have 1: "get_db (flushing (exec_flow h (FComplete new_id now driver oid submitted))) d =
      (Inr (FROrder (delivered_by_code now ord)), ?d)"
    by (simp add: get_db_flushing flow_answer_def)
  have 2: "get_row o_id oid (orders ?d) = Some (delivered_by_code now ord)"
    using assms(2) by (simp add: archive_messages_def set_order_def set_code_def get_row_upd_row)
  have 3: "deliveries ?d = deliveries d"
    by (simp add: archive_messages_def set_order_def set_code_def)
  have 4: "\<forall>m \<in> set (order_messages ?d). om_order_id m = oid \<longrightarrow> om_archived_at m \<noteq> None"
    using archive_messages_all by simp
  show ?thesis
    by (rule exI, rule exI, rule conjI, rule 1, rule conjI, rule 2, intro conjI 3 4)
      (simp_all add: delivered_by_code_def)
qed

theorem code_delivers_from_any_status_witness:
  "o_status flow_order = Cancelled \<and> orders_inv flow_db \<and>
   (\<exists>d' ord'. get_db (flushing (exec_flow (\<lambda>s. s) (FComplete 700 5000 sample_driver 100 ''042042''))) flow_db =
      (Inr (FROrder ord'), d') \<and> o_status ord' = Delivered)"
proof -
  have "u_role sample_driver = Driver" "get_row o_id 100 (orders flow_db) = Some flow_order"
    "o_deleted_at flow_order = None" "get_row dc_order_id 100 (delivery_codes flow_db) = Some flow_code"
    "\<not> dc_locked flow_code" "''042042'' = dc_code_hash flow_code"
    "700 \<notin> ca_id ` set (delivery_code_attempts flow_db)"
    by (simp_all add: flow_db_def flow_order_def flow_code_def new_order_def sample_defs)
  from code_delivers_from_any_status [where h = "\<lambda>s. s", OF this(1-5) this(6) this(7), of 5000]
  have "\<exists>d' ord'. get_db (flushing (exec_flow (\<lambda>s. s) (FComplete 700 5000 sample_driver 100 ''042042''))) flow_db =
      (Inr (FROrder ord'), d') \<and> o_status ord' = Delivered"
    by (elim exE conjE) (intro exI conjI, assumption+)
  moreover have "o_status flow_order = Cancelled \<and> orders_inv flow_db"
    by (simp add: flow_db_def flow_order_def new_order_def sample_defs orders_inv_def order_ok_def
        assignments_inv_def active_assignments_def)
  ultimately show ?thesis by blast
qed

text \<open>
  The order chat is a channel between the customer and the driver of the order, open from
  the driver's acceptance to the delivery: a message is stored only from one of them in that
  window, and afterwards the chat reads as empty to everyone but administrators.
\<close>

theorem chat_open_only_to_participants:
  assumes "post_order_message i now sender oid ct nonce d = (Inr m, d')"
  shows "\<exists>ord. get_row o_id oid (orders d) = Some ord \<and> o_driver_accepted_at ord \<noteq> None \<and>
    o_delivered_at ord = None \<and> u_role sender \<noteq> Admin \<and> om_sender_role m \<in> {Customer, Driver} \<and>
    (u_id sender = o_customer_id ord \<or> is_order_driver d sender oid) \<and>
    (list_chat sender oid (snd (complete_delivery h j later drv oid code d')) \<noteq> Inr [] \<longrightarrow>
       (\<nexists>ord'. fst (complete_delivery h j later drv oid code d') = Inr ord'))"
  using assms
proof (rule post_order_message_success)
  fix ord
  assume ord: "get_row o_id oid (orders d) = Some ord" "o_deleted_at ord = None"
    and acc: "o_driver_accepted_at ord \<noteq> None" "o_delivered_at ord = None"
    and who: "u_role sender \<noteq> Admin" and "om_order_id m = oid"
    and role: "om_sender_role m = Customer \<and> u_id sender = o_customer_id ord \<or>
     om_sender_role m = Driver \<and> u_id sender \<noteq> o_customer_id ord \<and> is_order_driver d sender oid"
    and d': "d' = d\<lparr>order_messages := order_messages d @ [m]\<rparr>"
  have id: "o_id ord = oid" using ord(1) by (rule get_row_SomeD)
  have "list_chat sender oid d2 = Inr []"
    if "complete_delivery h j later drv oid code d' = (Inr ord', d2)" for ord' d2
    using that
  proof (rule complete_delivery_success)
    fix a
    assume "d2 = archive_messages oid later (set_order oid (delivered_by_code later)
            (set_code oid (\<lambda>c. c\<lparr>dc_consumed_at := Some later\<rparr>) d'))
          \<lparr>delivery_code_attempts := delivery_code_attempts d' @ [a]\<rparr>"
    then have row: "get_row o_id oid (orders d2) = Some (delivered_by_code later ord)"
      and dl: "deliveries d2 = deliveries d"
      using ord(1) by (simp_all add: d' archive_messages_def set_order_def set_code_def get_row_upd_row)
    have get: "flow_get_order d2 oid = Inr (delivered_by_code later ord)"
      using row ord(2) by (simp add: delivered_by_code_def)
    show "list_chat sender oid d2 = Inr []"
      unfolding list_chat_def get using who role dl id
      by (auto simp: delivered_by_code_def is_order_driver_def)
  qed
  then show ?thesis
    using ord(1) acc who role
    by (cases "complete_delivery h j later drv oid code d'") fastforce
qed

theorem chat_open_only_to_participants_witness:
  "\<exists>m d'. post_order_message 900 2500 sample_customer 100 ''c'' ''n'' flow_db = (Inr m, d') \<and>
     om_sender_role m \<in> {Customer, Driver}"
proof -
  have "\<exists>m d'. post_order_message 900 2500 sample_customer 100 ''c'' ''n'' flow_db = (Inr m, d')"
    by (simp add: post_order_message_def flow_get_order_def flow_db_def flow_order_def new_order_def
        sample_defs Let_def insert_row_def)
  then show ?thesis using chat_open_only_to_participants by blast
qed

text \<open>
  The travel-time estimate is defined for every pair of coordinates and lies between zero
  and the time for half the circumference of the earth; a courier at the address is at zero.
\<close>

theorem eta_bounds:
  "(case compute_eta_seconds oid d of
      (Some s, t) \<Rightarrow> 0 \<le> s \<and> real_of_int s \<le> 6371000 * pi / (8333 / 1000) \<and> t \<noteq> None
    | (None, _) \<Rightarrow> True) \<and>
   travel_seconds lat lng lat lng = 0"
  using travel_seconds_bounds
  by (auto simp: compute_eta_seconds_def travel_seconds_def haversine_a_def
      split: list.splits option.splits)

text \<open>
  A delivery code is six characters, all of them digits, and no two random draws below
  one million give the same code.
\<close>

theorem generate_code_six_digits:
  assumes "n < 1000000"
  shows "length (generate_code n) = 6 \<and> code_value (generate_code n) = n \<and>
    (\<forall>c \<in> set (generate_code n). \<exists>k::nat. k < 10 \<and> c = char_of (48 + k))"
proof -
  have "length (decimal n) \<le> 6" using assms decimal_length [of n 5] by simp
  then have "length (generate_code n) = 6" by (simp add: generate_code_def Let_def)
  moreover have "code_value (generate_code n) = n"
    by (simp add: generate_code_def Let_def code_value_zeros decimal_value)
  moreover have "\<exists>k::nat. k < 10 \<and> c = char_of (48 + k)" if "c \<in> set (generate_code n)" for c
  proof -
    consider "c = char_of (48 + 0 :: nat)" | "c \<in> set (decimal n)"
      using \<open>c \<in> set (generate_code n)\<close> by (auto simp: generate_code_def Let_def)
    then show ?thesis
    proof cases
      case 1
      then show ?thesis by (intro exI [of _ "0::nat"]) simp
    qed (rule decimal_digits)
  qed
  ultimately show ?thesis by blast
qed

theorem generate_code_six_digits_witness:
  "length (generate_code 42042) = 6 \<and> code_value (generate_code 42042) = 42042"
  using generate_code_six_digits [of 42042] by simp

end
