(* ===== verification/Tracking.thy ===== *)
theory Tracking
  imports Delivery_Flow
begin

text \<open>
  Delivery tracking (\<open>src/backend/app/services/delivery_tracking_service.py\<close>): the caller's
  role on an order, the two serialisations, posting positions, the administrator's patch, and
  the events.
\<close>

section \<open>Roles on an order\<close>

datatype tracking_role = TRCustomer | TRSeller | TRDriver | TRAdmin | TRNone

definition load_order :: "db \<Rightarrow> uuid \<Rightarrow> order_row option" where
  "load_order d oid =
     (case get_row o_id oid (orders d) of
        None \<Rightarrow> None | Some ord \<Rightarrow> if o_deleted_at ord = None then Some ord else None)"

definition load_delivery :: "db \<Rightarrow> uuid \<Rightarrow> delivery option" where
  "load_delivery d oid = get_row d_order_id oid (deliveries d)"

definition driver_claims :: "db \<Rightarrow> user \<Rightarrow> uuid \<Rightarrow> driver_assignment list" where
  "driver_claims d u oid =
     filter (\<lambda>a. a_order_id a = oid \<and> a_driver_id a = Some (u_id u) \<and> a_status a \<in> {AAssigned, AAccepted})
       (driver_assignments d)"

definition resolve_role :: "db \<Rightarrow> user \<Rightarrow> order_row \<Rightarrow> tracking_role res" where
  "resolve_role d u ord =
     (if u_role u = Admin then Inr TRAdmin
      else if u_role u = Seller \<and> o_seller_id ord = u_id u then Inr TRSeller
      else if u_role u = Customer \<and> o_customer_id ord = u_id u then Inr TRCustomer
      else if u_role u = Driver
      then (if (case load_delivery d (o_id ord) of None \<Rightarrow> False | Some dl \<Rightarrow> d_driver_id dl = Some (u_id u))
            then Inr TRDriver
            else (case scalar_one_or_none (driver_claims d u (o_id ord)) of
                    Inl e \<Rightarrow> Inl e
                  | Inr (Some _) \<Rightarrow> Inr TRDriver
                  | Inr None \<Rightarrow> Inr TRNone))
      else Inr TRNone)"

definition is_internal_role :: "tracking_role \<Rightarrow> bool" where
  "is_internal_role r \<longleftrightarrow> r \<in> {TRAdmin, TRSeller, TRDriver}"

section \<open>Views\<close>

record internal_view =
  iv_order_id :: uuid
  iv_delivery_id :: uuid
  iv_status :: delivery_status
  iv_driver_id :: "uuid option"
  iv_seller_id :: uuid
  iv_started_at :: "time option"
  iv_delivered_at :: "time option"
  iv_last_known_lat :: "real option"
  iv_last_known_lng :: "real option"
  iv_last_location_at :: "time option"
  iv_current_eta_seconds :: "int option"
  iv_current_eta_updated_at :: "time option"
  iv_distance_meters :: "int option"
  iv_duration_seconds :: "int option"
  iv_customer_delivery_address :: address

text \<open>The customer's status is the delivery's if there is one, and the order's otherwise.\<close>

datatype view_status = OfDelivery delivery_status | OfOrder order_status

record customer_view =
  cv_order_id :: uuid
  cv_status :: view_status
  cv_eta_seconds :: "int option"
  cv_eta_updated_at :: "time option"
  cv_started_at :: "time option"
  cv_delivered_at :: "time option"
  cv_delivery_address :: address

datatype track_view = InternalView internal_view | CustomerView customer_view

definition build_internal_view :: "order_row \<Rightarrow> delivery \<Rightarrow> internal_view" where
  "build_internal_view ord dl =
     \<lparr>iv_order_id = o_id ord, iv_delivery_id = d_id dl, iv_status = d_status dl,
      iv_driver_id = d_driver_id dl, iv_seller_id = d_seller_id dl, iv_started_at = d_started_at dl,
      iv_delivered_at = d_delivered_at dl, iv_last_known_lat = d_current_lat dl,
      iv_last_known_lng = d_current_lng dl, iv_last_location_at = d_last_location_at dl,
      iv_current_eta_seconds = d_current_eta_seconds dl,
      iv_current_eta_updated_at = d_current_eta_updated_at dl,
      iv_distance_meters = d_distance_meters dl, iv_duration_seconds = d_duration_seconds dl,
      iv_customer_delivery_address = o_delivery_address ord\<rparr>"

definition build_customer_view :: "order_row \<Rightarrow> delivery option \<Rightarrow> customer_view" where
  "build_customer_view ord dl =
     \<lparr>cv_order_id = o_id ord,
      cv_status = (case dl of Some x \<Rightarrow> OfDelivery (d_status x) | None \<Rightarrow> OfOrder (o_status ord)),
      cv_eta_seconds = Option.bind dl d_current_eta_seconds,
      cv_eta_updated_at = Option.bind dl d_current_eta_updated_at,
      cv_started_at = Option.bind dl d_started_at,
      cv_delivered_at = (case dl of Some x \<Rightarrow> d_delivered_at x | None \<Rightarrow> o_delivered_at ord),
      cv_delivery_address = o_delivery_address ord\<rparr>"

section \<open>Operations\<close>

definition get_track_view :: "user \<Rightarrow> uuid \<Rightarrow> db \<Rightarrow> track_view res" where
  "get_track_view u oid d =
     (case load_order d oid of
        None \<Rightarrow> Inl OrderNotFound
      | Some ord \<Rightarrow>
          (case resolve_role d u ord of
             Inl e \<Rightarrow> Inl e
           | Inr TRNone \<Rightarrow> Inl OrderNotFound
           | Inr TRCustomer \<Rightarrow> Inr (CustomerView (build_customer_view ord (load_delivery d (o_id ord))))
           | Inr _ \<Rightarrow>
               (case load_delivery d (o_id ord) of
                  None \<Rightarrow> Inl (NotFoundError ''DELIVERY_NOT_STARTED'')
                | Some dl \<Rightarrow> Inr (InternalView (build_internal_view ord dl)))))"

definition move_delivery :: "time \<Rightarrow> real \<Rightarrow> real \<Rightarrow> int option \<Rightarrow> int option \<Rightarrow> delivery \<Rightarrow> delivery" where
  "move_delivery now lat lng eta distance dl =
     (let dl1 = dl\<lparr>d_current_lat := Some lat, d_current_lng := Some lng, d_last_location_at := Some now\<rparr>;
          dl2 = (case eta of None \<Rightarrow> dl1
                 | Some s \<Rightarrow> dl1\<lparr>d_current_eta_seconds := Some s, d_current_eta_updated_at := Some now\<rparr>)
      in case distance of None \<Rightarrow> dl2
         | Some m \<Rightarrow> dl2\<lparr>d_distance_meters := Some (max (or_else (d_distance_meters dl2) 0) m)\<rparr>)"

definition post_location ::
  "time \<Rightarrow> user \<Rightarrow> uuid \<Rightarrow> real \<Rightarrow> real \<Rightarrow> int option \<Rightarrow> int option \<Rightarrow> db \<Rightarrow> (order_row \<times> delivery) res \<times> db" where
  "post_location now u oid lat lng eta distance d =
     (case load_order d oid of
        None \<Rightarrow> (Inl OrderNotFound, d)
      | Some ord \<Rightarrow>
          (case resolve_role d u ord of
             Inl e \<Rightarrow> (Inl e, d)
           | Inr role \<Rightarrow>
               if role = TRNone then (Inl OrderNotFound, d)
               else if role \<notin> {TRDriver, TRSeller, TRAdmin}
               then (Inl (AuthorizationError ''PERMISSION_DENIED''), d)
               else if o_status ord \<noteq> OutForDelivery then (Inl OrderInvalidTransition, d)
               else (case load_delivery d (o_id ord) of
                       None \<Rightarrow> (Inl OrderInvalidTransition, d)
                     | Some dl \<Rightarrow>
                         if d_status dl = DDelivered then (Inl OrderInvalidTransition, d)
                         else (Inr (ord, move_delivery now lat lng eta distance dl),
                               set_delivery (o_id ord) (move_delivery now lat lng eta distance) d))))"

definition patch_delivery :: "uuid option \<Rightarrow> int option \<Rightarrow> int option \<Rightarrow> delivery \<Rightarrow> delivery" where
  "patch_delivery drv distance duration dl =
     dl\<lparr>d_driver_id := (if drv = None then d_driver_id dl else drv),
        d_distance_meters := (if distance = None then d_distance_meters dl else distance),
        d_duration_seconds := (if duration = None then d_duration_seconds dl else duration)\<rparr>"

definition admin_patch_delivery ::
  "user \<Rightarrow> uuid \<Rightarrow> uuid option \<Rightarrow> int option \<Rightarrow> int option \<Rightarrow> db \<Rightarrow> (order_row \<times> delivery) res \<times> db" where
  "admin_patch_delivery caller oid drv distance duration d =
     (if u_role caller \<noteq> Admin then (Inl OrderNotFound, d)
      else case load_order d oid of
        None \<Rightarrow> (Inl OrderNotFound, d)
      | Some ord \<Rightarrow>
          (case load_delivery d (o_id ord) of
             None \<Rightarrow> (Inl OrderNotFound, d)
           | Some dl \<Rightarrow>
               if (case drv of None \<Rightarrow> False | Some k \<Rightarrow> find_active_driver d k = None)
               then (Inl OrderInvalidTransition, d)
               else (Inr (ord, patch_delivery drv distance duration dl),
                     set_delivery (o_id ord) (patch_delivery drv distance duration) d)))"

section \<open>Events\<close>

datatype (plugins only: code) ws_event =
    EvLocation uuid "real option" "real option" "time option" "uuid option"
  | EvEta uuid "int option" "time option"
  | EvStatus uuid string "time option" "time option"
  | EvMessage string uuid uuid
  | EvTyping uuid bool uuid
  | EvSubscribed uuid
  | EvDeliverySubscribed uuid
  | EvPong
  | EvError string

definition internal_location_event :: "delivery \<Rightarrow> ws_event" where
  "internal_location_event dl =
     EvLocation (d_order_id dl) (d_current_lat dl) (d_current_lng dl) (d_last_location_at dl) (d_driver_id dl)"

definition eta_event :: "delivery \<Rightarrow> ws_event" where
  "eta_event dl = EvEta (d_order_id dl) (d_current_eta_seconds dl) (d_current_eta_updated_at dl)"

definition status_event :: "uuid \<Rightarrow> string \<Rightarrow> time option \<Rightarrow> time option \<Rightarrow> ws_event" where
  "status_event oid status started delivered = EvStatus oid status started delivered"

section \<open>Lemmas\<close>

lemma move_delivery_frame [simp]:
  "d_order_id (move_delivery now lat lng eta m dl) = d_order_id dl"
  "d_driver_id (move_delivery now lat lng eta m dl) = d_driver_id dl"
  "d_status (move_delivery now lat lng eta m dl) = d_status dl"
  by (simp_all add: move_delivery_def Let_def split: option.splits)

lemma move_delivery_position:
  "d_current_lat (move_delivery now lat lng eta m dl) = Some lat"
  "d_current_lng (move_delivery now lat lng eta m dl) = Some lng"
  "d_last_location_at (move_delivery now lat lng eta m dl) = Some now"
  by (cases eta; cases m; simp add: move_delivery_def)+

lemma move_delivery_distance:
  "d_distance_meters dl = Some n \<Longrightarrow>
   \<exists>n'. d_distance_meters (move_delivery now lat lng eta m dl) = Some n' \<and> n \<le> n'"
  by (cases eta; cases m; simp add: move_delivery_def)

lemma patch_delivery_frame [simp]:
  "d_order_id (patch_delivery drv m s dl) = d_order_id dl"
  "d_status (patch_delivery drv m s dl) = d_status dl"
  "d_driver_id (patch_delivery drv m s dl) = None \<Longrightarrow> d_driver_id dl = None"
  by (simp_all add: patch_delivery_def split: if_splits)

lemma load_order_Some:
  "load_order d oid = Some ord \<longleftrightarrow> get_row o_id oid (orders d) = Some ord \<and> o_deleted_at ord = None"
  by (auto simp: load_order_def split: option.splits)

lemma post_location_success:
  assumes "post_location now u oid lat lng eta m d = (Inr (ord, dl'), d')"
  obtains dl role where "load_order d oid = Some ord" "resolve_role d u ord = Inr role"
    "is_internal_role role" "o_status ord = OutForDelivery" "load_delivery d oid = Some dl"
    "d_status dl \<noteq> DDelivered" "dl' = move_delivery now lat lng eta m dl"
    "d' = set_delivery oid (move_delivery now lat lng eta m) d"
  using assms
  by (auto simp: post_location_def is_internal_role_def load_order_Some dest: get_row_SomeD
      split: option.splits sum.splits if_splits)

lemma admin_patch_delivery_success:
  assumes "admin_patch_delivery c oid drv m s d = (Inr (ord, dl'), d')"
  obtains dl where "u_role c = Admin" "load_order d oid = Some ord" "load_delivery d oid = Some dl"
    "drv \<noteq> None \<Longrightarrow> find_active_driver d (the drv) \<noteq> None"
    "dl' = patch_delivery drv m s dl" "d' = set_delivery oid (patch_delivery drv m s) d"
  using assms
  by (auto simp: admin_patch_delivery_def load_order_Some dest: get_row_SomeD
      split: option.splits if_splits)

lemma post_location_inv:
  "orders_inv d \<Longrightarrow> post_location now u oid lat lng eta m d = (Inr r, d') \<Longrightarrow> orders_inv d'"
  by (cases r) (auto elim!: post_location_success intro: orders_inv_touch_delivery)

lemma admin_patch_delivery_inv:
  "orders_inv d \<Longrightarrow> admin_patch_delivery c oid drv m s d = (Inr r, d') \<Longrightarrow> orders_inv d'"
  by (cases r) (auto elim!: admin_patch_delivery_success intro: orders_inv_touch_delivery)

text \<open>A customer's account never resolves to an internal role.\<close>

lemma resolve_role_customer:
  "resolve_role d u ord = Inr role \<Longrightarrow> role = TRCustomer \<longleftrightarrow> u_role u = Customer \<and> role \<noteq> TRNone"
  by (auto simp: resolve_role_def split: if_splits sum.splits option.splits)

lemma resolve_role_internal:
  "resolve_role d u ord = Inr role \<Longrightarrow> is_internal_role role \<longleftrightarrow> role \<noteq> TRNone \<and> u_role u \<noteq> Customer"
  by (cases role) (auto simp: resolve_role_def is_internal_role_def split: if_splits sum.splits option.splits)

lemma driver_claims_le_1: "orders_inv d \<Longrightarrow> length (driver_claims d u oid) \<le> 1"
proof -
  assume inv: "orders_inv d"
  have "driver_claims d u oid = filter (\<lambda>a. a_driver_id a = Some (u_id u) \<and> a_status a \<in> {AAssigned, AAccepted})
      (active_assignments d oid)"
    by (auto simp: driver_claims_def active_assignments_def is_active_assignment_def intro: filter_cong)
  also have "length \<dots> \<le> length (active_assignments d oid)" by (rule length_filter_le)
  finally show ?thesis using orders_inv_active_le_1 [OF inv, of oid] by simp
qed

lemma resolve_role_total: "orders_inv d \<Longrightarrow> \<exists>role. resolve_role d u ord = Inr role"
  using driver_claims_le_1 [of d u "o_id ord"]
  by (auto simp: resolve_role_def scalar_one_or_none_cases split: sum.splits option.splits)

section \<open>Tracking as requests\<close>

datatype (plugins only: code) tracking_request =
    TLocation time user uuid real real "int option" "int option"
  | TPatch user uuid "uuid option" "int option" "int option"

primrec exec_tracking :: "tracking_request \<Rightarrow> db \<Rightarrow> (order_row \<times> delivery) res \<times> db" where
  "exec_tracking (TLocation now u oid lat lng eta m) d = post_location now u oid lat lng eta m d"
| "exec_tracking (TPatch c oid drv m s) d = admin_patch_delivery c oid drv m s d"

interpretation tracking: transactional exec_tracking orders_inv
proof
  fix d q r d'
  assume "orders_inv d" and "exec_tracking q d = (Inr r, d')"
  then show "orders_inv d'"
    by (cases q) (auto intro: post_location_inv admin_patch_delivery_inv)
qed

section \<open>Properties\<close>

text \<open>
  C16: what a customer sees of a delivery does not depend on where it is: whatever the
  coordinates, the time of the last position, the driver and the distance are changed to, the
  customer's tracking answer stays the same.
\<close>

theorem customer_view_independent_of_position:
  assumes "u_role u = Customer"
  shows "get_track_view u oid (set_delivery k (\<lambda>dl. dl\<lparr>d_current_lat := lat dl, d_current_lng := lng dl,
      d_last_location_at := t dl, d_driver_id := drv dl, d_distance_meters := m dl\<rparr>) d) =
    get_track_view u oid d"
proof -
  let ?f = "\<lambda>dl. dl\<lparr>d_current_lat := lat dl, d_current_lng := lng dl,
      d_last_location_at := t dl, d_driver_id := drv dl, d_distance_meters := m dl\<rparr>"
  have dl: "load_delivery (set_delivery k ?f d) j = map_option (\<lambda>dl. if j = k then ?f dl else dl) (load_delivery d j)" for j
    by (auto simp: load_delivery_def set_delivery_def get_row_upd_row option.map_ident)
  have "build_customer_view ord (load_delivery (set_delivery k ?f d) j) =
      build_customer_view ord (load_delivery d j)" for ord j
    unfolding dl by (cases "load_delivery d j") (simp_all add: build_customer_view_def)
  moreover have "resolve_role d' u ord = (if o_customer_id ord = u_id u then Inr TRCustomer else Inr TRNone)" for d' ord
    using assms by (simp add: resolve_role_def)
  ultimately show ?thesis
    by (simp add: get_track_view_def load_order_def split: option.splits)
qed

definition tracking_db :: db where
  "tracking_db = sample_db\<lparr>orders := [(new_order 100 sample_customer 2 11 490 sample_address 1000)
       \<lparr>o_status := OutForDelivery, o_out_for_delivery_at := Some 3000\<rparr>],
     deliveries := [new_delivery 300 100 (Some 4) 2 DInTransit (Some 3000)]\<rparr>"

theorem customer_view_independent_of_position_witness:
  "get_track_view sample_customer 100 (set_delivery 100 (\<lambda>dl. dl\<lparr>d_current_lat := Some 59, d_current_lng := Some 10,
      d_last_location_at := Some 4000, d_driver_id := None, d_distance_meters := None\<rparr>) tracking_db) =
    get_track_view sample_customer 100 tracking_db"
  using customer_view_independent_of_position [of sample_customer 100 100 "\<lambda>_. None" "\<lambda>_. None"
        "\<lambda>_. Some 4000" "\<lambda>_. Some 10" "\<lambda>_. Some 59" tracking_db]
  by (simp add: sample_customer_def sample_user_def)

text \<open>
  Positions are accepted only during the delivery and only from its driver, its seller or
  an administrator; the accepted position is what the internal view shows next, and the
  recorded distance never decreases.
\<close>

theorem posted_position_shown_internally:
  assumes "orders_inv d" and "post_location now u oid lat lng eta m d = (Inr (ord, dl), d')"
  shows "o_status ord = OutForDelivery \<and> u_role u \<noteq> Customer \<and>
    (\<exists>v. get_track_view u oid d' = Inr (InternalView v) \<and> iv_last_known_lat v = Some lat \<and>
       iv_last_known_lng v = Some lng \<and> iv_last_location_at v = Some now \<and>
       (\<forall>old n. load_delivery d oid = Some old \<longrightarrow> d_distance_meters old = Some n \<longrightarrow>
          (\<exists>n'. iv_distance_meters v = Some n' \<and> n \<le> n')))"
  using assms(2)
proof (rule post_location_success)
  fix old role
  assume ord: "load_order d oid = Some ord" and role: "resolve_role d u ord = Inr role" "is_internal_role role"
    and st: "o_status ord = OutForDelivery" and old: "load_delivery d oid = Some old"
    and d': "d' = set_delivery oid (move_delivery now lat lng eta m) d"
  let ?new = "move_delivery now lat lng eta m old"
  have id: "o_id ord = oid" using ord by (auto simp: load_order_Some dest: get_row_SomeD)
  have new: "load_delivery d' oid = Some ?new"
    using old by (simp add: d' load_delivery_def set_delivery_def get_row_upd_row)
  have "driver_claims d' u oid = driver_claims d u oid" by (simp add: driver_claims_def d')
  then have "resolve_role d' u ord = resolve_role d u ord"
    using old new by (simp add: resolve_role_def id)
  with role(1) have role': "resolve_role d' u ord = Inr role" by simp
  have view: "get_track_view u oid d' = Inr (InternalView (build_internal_view ord ?new))"
  proof -
    have "load_order d' oid = Some ord" using ord by (simp add: load_order_def d')
    with role' role(2) new show ?thesis
      by (cases role) (simp_all add: get_track_view_def is_internal_role_def id)
  qed
  have who: "u_role u \<noteq> Customer" using resolve_role_internal [OF role(1)] role(2) by simp
  have pos: "iv_last_known_lat (build_internal_view ord ?new) = Some lat"
    "iv_last_known_lng (build_internal_view ord ?new) = Some lng"
    "iv_last_location_at (build_internal_view ord ?new) = Some now"
    by (simp_all add: build_internal_view_def move_delivery_position)
  have grows: "\<exists>n'. iv_distance_meters (build_internal_view ord ?new) = Some n' \<and> n \<le> n'"
    if "load_delivery d oid = Some old'" and "d_distance_meters old' = Some n" for old' n
    using that old move_delivery_distance [of old n now lat lng eta m]
    by (simp add: build_internal_view_def)
  show ?thesis
  proof (intro conjI exI [of _ "build_internal_view ord ?new"] allI impI)
    fix old' n
    assume "load_delivery d oid = Some old'" and "d_distance_meters old' = Some n"
    then show "\<exists>n'. iv_distance_meters (build_internal_view ord ?new) = Some n' \<and> n \<le> n'"
      by (rule grows)
  qed (fact st who view pos)+
qed

theorem posted_position_shown_internally_witness:
  "\<exists>r d'. post_location 4000 sample_driver 100 59 10 (Some 600) (Some 1500) tracking_db = (Inr r, d') \<and>
     o_status (fst r) = OutForDelivery"
proof -
  have inv: "orders_inv tracking_db"
    by (simp add: tracking_db_def orders_inv_def order_ok_def assignments_inv_def active_assignments_def
        new_order_def new_delivery_def sample_defs)
  have "\<exists>r d'. post_location 4000 sample_driver 100 59 10 (Some 600) (Some 1500) tracking_db = (Inr r, d')"
    by (simp add: post_location_def tracking_db_def load_order_def load_delivery_def resolve_role_def
        new_order_def new_delivery_def sample_defs)
  then obtain ord dl d' where
    "post_location 4000 sample_driver 100 59 10 (Some 600) (Some 1500) tracking_db = (Inr (ord, dl), d')"
    by auto
  with posted_position_shown_internally [OF inv this] show ?thesis by auto
qed

end
