(* ===== verification/Accounts.thy ===== *)
theory Accounts
  imports Tokens Strings
begin

text \<open>
  Accounts and sessions: \<open>src/backend/app/services/auth_service.py\<close> and the password policy
  of \<open>core/password_policy.py\<close>. Argon2 and SHA-256 are the fields of the parameter
  \<open>cr\<close>. E-mail addresses are \<open>CITEXT\<close> columns: they are compared without case. Strings are
  ASCII.
\<close>

section \<open>Password policy\<close>

definition common_passwords :: "string list" where
  "common_passwords =
     [''password'', ''password1'', ''password123'', ''password1234'', ''password12345'',
      ''passw0rd'', ''p@ssw0rd'', ''p@ssword1'', ''qwerty'', ''qwerty123'', ''qwerty12345'',
      ''qwertyuiop'', ''1q2w3e4r'', ''1q2w3e4r5t'', ''1qaz2wsx'', ''zaq12wsx'', ''123456'',
      ''12345678'', ''123456789'', ''1234567890'', ''123123123'', ''111111'', ''1111111111'',
      ''000000'', ''iloveyou'', ''iloveyou1'', ''iloveyou123'', ''princess'', ''princess1'',
      ''sunshine'', ''sunshine1'', ''abc12345'', ''abcd1234'', ''abcdefgh'', ''asdfghjkl'',
      ''zxcvbnm'', ''zxcvbnm123'', ''letmein'', ''letmein123'', ''trustno1'', ''football'',
      ''football1'', ''baseball'', ''baseball1'', ''welcome1'', ''welcome123'',
      ''admin12345'', ''administrator'', ''master1234'', ''master12345'', ''superman1'',
      ''superman123'', ''batman1234'', ''dragon1234'', ''starwars1'', ''pokemon12345'',
      ''mustang1234'', ''computer1'', ''computer123'', ''whatever1'', ''whatever123'',
      ''changeme1'', ''changeme123'', ''changeme12345'', ''samantha1'', ''jennifer1'',
      ''michelle1'', ''jessica123'', ''nicole1234'', ''matthew123'', ''michael1234'',
      ''jordan1234'', ''hunter1234'', ''shadow1234'', ''thomas1234'', ''football123'',
      ''qwerty1234'', ''passpass123'', ''liverpool1'', ''arsenal1234'', ''chelsea1234'',
      ''manchester1'', ''marlboro123'', ''ferrari1234'', ''monkey1234'', ''cheese1234'',
      ''freedom123'', ''secret123'', ''secret12345'', ''iloveyou12345'', ''trustme1234'',
      ''welcome1234'', ''qazwsxedc'', ''qazwsxedcrfv'', ''changeit1234'', ''temp1234test'',
      ''hello1234world'']"

definition is_common_password :: "string \<Rightarrow> bool" where
  "is_common_password password \<longleftrightarrow> lower (strip password) \<in> set common_passwords"

section \<open>Rows\<close>

record crypto =
  hash_password :: "nat \<Rightarrow> string \<Rightarrow> string"
  verify_password :: "string \<Rightarrow> string \<Rightarrow> bool"
  needs_rehash :: "string \<Rightarrow> bool"
  hash_refresh_token :: "string \<Rightarrow> string"

definition users_by_email :: "db \<Rightarrow> string \<Rightarrow> user list" where
  "users_by_email d email =
     filter (\<lambda>u. lower (u_email u) = lower email \<and> u_deleted_at u = None) (users d)"

text \<open>The unique index on \<open>users.email\<close> counts soft-deleted accounts as well.\<close>

definition add_user :: "user \<Rightarrow> db \<Rightarrow> unit res \<times> db" where
  "add_user u d =
     (if u_id u \<in> u_id ` set (users d) \<or> lower (u_email u) \<in> (\<lambda>r. lower (u_email r)) ` set (users d)
      then (Inl IntegrityError, d)
      else (Inr (), d\<lparr>users := users d @ [u]\<rparr>))"

definition add_referral :: "referral \<Rightarrow> db \<Rightarrow> unit res \<times> db" where
  "add_referral r d =
     (if rf_id r \<in> rf_id ` set (referrals d) \<or> rf_referred_user_id r \<in> rf_referred_user_id ` set (referrals d)
      then (Inl IntegrityError, d)
      else (Inr (), d\<lparr>referrals := referrals d @ [r]\<rparr>))"

definition add_refresh_token :: "refresh_token \<Rightarrow> db \<Rightarrow> unit res \<times> db" where
  "add_refresh_token t d =
     (if rt_id t \<in> rt_id ` set (refresh_tokens d) \<or> rt_token_hash t \<in> rt_token_hash ` set (refresh_tokens d)
      then (Inl IntegrityError, d)
      else (Inr (), d\<lparr>refresh_tokens := refresh_tokens d @ [t]\<rparr>))"

text \<open>\<open>plain\<close> is the random token \<open>generate_refresh_token\<close> draws.\<close>

definition create_refresh_token_row ::
  "crypto \<Rightarrow> settings \<Rightarrow> uuid \<Rightarrow> string \<Rightarrow> time \<Rightarrow> user \<Rightarrow> string option \<Rightarrow> db \<Rightarrow> unit res \<times> db" where
  "create_refresh_token_row cr cfg new_id plain now u label d =
     add_refresh_token \<lparr>rt_id = new_id, rt_user_id = u_id u, rt_token_hash = hash_refresh_token cr plain,
        rt_device_label = label, rt_issued_at = now, rt_last_used_at = None,
        rt_expires_at = now + td_days (jwt_refresh_token_expire_days cfg), rt_revoked_at = None\<rparr> d"

record 't login_response =
  lr_user_id :: uuid
  lr_role :: user_role
  lr_access_token :: 't
  lr_refresh_token :: string
  lr_expires_in :: int

definition build_login_response :: "time \<Rightarrow> user \<Rightarrow> 't \<Rightarrow> string \<Rightarrow> time \<Rightarrow> 't login_response" where
  "build_login_response now u tok plain till =
     \<lparr>lr_user_id = u_id u, lr_role = u_role u, lr_access_token = tok, lr_refresh_token = plain,
      lr_expires_in = max 0 (total_seconds_int (till - now))\<rparr>"

section \<open>Signup\<close>

record signup_request =
  sq_email :: string
  sq_password :: string
  sq_display_name :: string
  sq_phone :: "string option"
  sq_invite_token :: string
  sq_role_choice :: "string option"

text \<open>What a request draws: identifiers, the salt, the refresh token, the token id.\<close>

record draws =
  dr_ids :: "nat \<Rightarrow> uuid"
  dr_salt :: nat
  dr_refresh :: string
  dr_jti :: string

definition signup_role :: "invite_link \<Rightarrow> string option \<Rightarrow> user_role res" where
  "signup_role il choice =
     (let r = (case il_type il of AdminInvite \<Rightarrow> il_role_target il
                                | SellerReferral \<Rightarrow> Option.bind choice parse_role)
      in case r of None \<Rightarrow> Inl IntegrityError | Some role \<Rightarrow> Inr role)"

definition new_user :: "crypto \<Rightarrow> draws \<Rightarrow> time \<Rightarrow> signup_request \<Rightarrow> invite_link \<Rightarrow> user_role \<Rightarrow> user" where
  "new_user cr dr now req il role =
     \<lparr>u_id = dr_ids dr 0, u_email = sq_email req,
      u_password_hash = hash_password cr (dr_salt dr) (sq_password req), u_role = role,
      u_display_name = sq_display_name req, u_phone = sq_phone req, u_is_active = True,
      u_disabled_at = None, u_status = UActive, u_suspended_at = None, u_suspended_reason = None,
      u_avatar_url = None,
      u_referring_seller_id = (if il_type il = SellerReferral then Some (il_issuer_id il) else None),
      u_created_at = now, u_deleted_at = None\<rparr>"

definition signup ::
  "crypto \<Rightarrow> (string \<Rightarrow> claims \<Rightarrow> 't) \<Rightarrow> settings \<Rightarrow> draws \<Rightarrow> time \<Rightarrow> signup_request \<Rightarrow> db \<Rightarrow>
   't login_response res \<times> db" where
  "signup cr enc cfg dr now req d =
     (if is_common_password (sq_password req) then (Inl PasswordTooCommon, d)
      else case consume_invite now (sq_invite_token req) (sq_role_choice req) d of
        (Inl e, d1) \<Rightarrow> (Inl e, d1)
      | (Inr il, d1) \<Rightarrow>
          (case signup_role il (sq_role_choice req) of
             Inl e \<Rightarrow> (Inl e, d1)
           | Inr role \<Rightarrow>
               (case scalar_one_or_none (users_by_email d1 (sq_email req)) of
                  Inl e \<Rightarrow> (Inl e, d1)
                | Inr (Some _) \<Rightarrow> (Inl EmailTaken, d1)
                | Inr None \<Rightarrow>
                    (let u = new_user cr dr now req il role in
                     case add_user u d1 of
                       (Inl e, d2) \<Rightarrow> (Inl e, d2)
                     | (Inr _, d2) \<Rightarrow>
                         (case add_referral \<lparr>rf_id = dr_ids dr 1, rf_referrer_id = il_issuer_id il,
                                  rf_referred_user_id = u_id u, rf_invite_link_id = il_id il\<rparr> d2 of
                            (Inl e, d3) \<Rightarrow> (Inl e, d3)
                          | (Inr _, d3) \<Rightarrow>
                              (case create_access_token enc cfg (dr_jti dr) now (u_id u) role of
                                 (tok, till) \<Rightarrow>
                                   (case create_refresh_token_row cr cfg (dr_ids dr 2) (dr_refresh dr) now u None d3 of
                                      (Inl e, d4) \<Rightarrow> (Inl e, d4)
                                    | (Inr _, d4) \<Rightarrow>
                                        (Inr (build_login_response now u tok (dr_refresh dr) till), d4))))))))"

section \<open>Login\<close>

definition login ::
  "crypto \<Rightarrow> (string \<Rightarrow> claims \<Rightarrow> 't) \<Rightarrow> settings \<Rightarrow> draws \<Rightarrow> time \<Rightarrow> string \<Rightarrow> string \<Rightarrow> string option \<Rightarrow>
   db \<Rightarrow> 't login_response res \<times> db" where
  "login cr enc cfg dr now email password label d =
     (case scalar_one_or_none (users_by_email d email) of
        Inl e \<Rightarrow> (Inl e, d)
      | Inr None \<Rightarrow> (Inl InvalidCredentials, d)
      | Inr (Some u) \<Rightarrow>
          if \<not> verify_password cr password (u_password_hash u) then (Inl InvalidCredentials, d)
          else if \<not> u_is_active u then (Inl InvalidCredentials, d)
          else if u_status u = USuspended then (Inl AccountSuspended, d)
          else
            (let d1 = (if needs_rehash cr (u_password_hash u)
                       then d\<lparr>users := upd_row u_id (u_id u)
                              (\<lambda>r. r\<lparr>u_password_hash := hash_password cr (dr_salt dr) password\<rparr>) (users d)\<rparr>
                       else d)
             in case create_access_token enc cfg (dr_jti dr) now (u_id u) (u_role u) of
                  (tok, till) \<Rightarrow>
                    (case create_refresh_token_row cr cfg (dr_ids dr 0) (dr_refresh dr) now u label d1 of
                       (Inl e, d2) \<Rightarrow> (Inl e, d2)
                     | (Inr _, d2) \<Rightarrow> (Inr (build_login_response now u tok (dr_refresh dr) till), d2))))"

section \<open>Refresh, logout\<close>

definition revoke_all :: "uuid \<Rightarrow> time \<Rightarrow> db \<Rightarrow> db" where
  "revoke_all uid now d = d\<lparr>refresh_tokens :=
     update_where (\<lambda>t. rt_user_id t = uid \<and> rt_revoked_at t = None)
       (\<lambda>t. t\<lparr>rt_revoked_at := Some now\<rparr>) (refresh_tokens d)\<rparr>"

record 't refresh_response =
  rr_access_token :: 't
  rr_refresh_token :: string
  rr_expires_in :: int

text \<open>The rotation itself, on a row that is neither revoked nor expired.\<close>

definition rotate ::
  "crypto \<Rightarrow> (string \<Rightarrow> claims \<Rightarrow> 't) \<Rightarrow> settings \<Rightarrow> draws \<Rightarrow> time \<Rightarrow> refresh_token \<Rightarrow> db \<Rightarrow>
   't refresh_response res \<times> db" where
  "rotate cr enc cfg dr now row d =
     (case get_row u_id (rt_user_id row) (users d) of
        None \<Rightarrow> (Inl (AuthenticationError ''AUTH_TOKEN_INVALID''), d)
      | Some u \<Rightarrow>
          if u_deleted_at u \<noteq> None \<or> \<not> u_is_active u \<or> u_disabled_at u \<noteq> None
          then (Inl (AuthenticationError ''AUTH_TOKEN_INVALID''), d)
          else
            (let d1 = d\<lparr>refresh_tokens := upd_row rt_id (rt_id row)
                         (\<lambda>t. t\<lparr>rt_revoked_at := Some now, rt_last_used_at := Some now\<rparr>) (refresh_tokens d)\<rparr>
             in case create_access_token enc cfg (dr_jti dr) now (u_id u) (u_role u) of
                  (tok, till) \<Rightarrow>
                    (case add_refresh_token
                            \<lparr>rt_id = dr_ids dr 0, rt_user_id = u_id u,
                             rt_token_hash = hash_refresh_token cr (dr_refresh dr),
                             rt_device_label = rt_device_label row, rt_issued_at = now,
                             rt_last_used_at = None, rt_expires_at = now + td_days 7,
                             rt_revoked_at = None\<rparr> d1 of
                       (Inl e, d2) \<Rightarrow> (Inl e, d2)
                     | (Inr _, d2) \<Rightarrow>
                         (Inr \<lparr>rr_access_token = tok, rr_refresh_token = dr_refresh dr,
                               rr_expires_in = max 0 (total_seconds_int (till - now))\<rparr>, d2))))"

text \<open>
  \<open>refresh\<close> works on the session: on reuse it commits the revocation and then raises.
\<close>

definition refresh ::
  "crypto \<Rightarrow> (string \<Rightarrow> claims \<Rightarrow> 't) \<Rightarrow> settings \<Rightarrow> draws \<Rightarrow> time \<Rightarrow> string \<Rightarrow> db session \<Rightarrow>
   't refresh_response res \<times> db session" where
  "refresh cr enc cfg dr now plain s =
     (case get_row rt_token_hash (hash_refresh_token cr plain) (refresh_tokens (working s)) of
        None \<Rightarrow> (Inl InvalidTokenError, s)
      | Some row \<Rightarrow>
          if rt_revoked_at row \<noteq> None
          then (Inl TokenReused, db_commit (s\<lparr>working := revoke_all (rt_user_id row) now (working s)\<rparr>))
          else if rt_expires_at row < now then (Inl TokenExpired, s)
          else committing (rotate cr enc cfg dr now row) s)"

definition logout :: "crypto \<Rightarrow> time \<Rightarrow> string \<Rightarrow> db \<Rightarrow> unit res \<times> db" where
  "logout cr now plain d =
     (case get_row rt_token_hash (hash_refresh_token cr plain) (refresh_tokens d) of
        None \<Rightarrow> (Inr (), d)
      | Some row \<Rightarrow>
          if rt_revoked_at row \<noteq> None then (Inr (), d)
          else (Inr (), d\<lparr>refresh_tokens := upd_row rt_id (rt_id row)
                   (\<lambda>t. t\<lparr>rt_revoked_at := Some now\<rparr>) (refresh_tokens d)\<rparr>))"

definition logout_all :: "time \<Rightarrow> user \<Rightarrow> db \<Rightarrow> unit res \<times> db" where
  "logout_all now u d = (Inr (), revoke_all (u_id u) now d)"

section \<open>Profile, password, preferences\<close>

definition get_me :: "user \<Rightarrow> db \<Rightarrow> user res" where
  "get_me u d = scalar_one (filter (\<lambda>r. u_id r = u_id u) (users d))"

definition update_me ::
  "user \<Rightarrow> string option \<Rightarrow> string option \<Rightarrow> string option \<Rightarrow> db \<Rightarrow> user res \<times> db" where
  "update_me u name phone avatar d =
     (case get_me u d of
        Inl e \<Rightarrow> (Inl e, d)
      | Inr fresh \<Rightarrow>
          (let f = (\<lambda>r. r\<lparr>u_display_name := or_else name (u_display_name r),
                       u_phone := (if phone = None then u_phone r else phone),
                       u_avatar_url := (if avatar = None then u_avatar_url r else avatar)\<rparr>)
           in (Inr (f fresh), d\<lparr>users := upd_row u_id (u_id u) f (users d)\<rparr>)))"

definition change_password :: "crypto \<Rightarrow> nat \<Rightarrow> user \<Rightarrow> string \<Rightarrow> string \<Rightarrow> db \<Rightarrow> unit res \<times> db" where
  "change_password cr salt u current_password new_password d =
     (case get_me u d of
        Inl e \<Rightarrow> (Inl e, d)
      | Inr fresh \<Rightarrow>
          if \<not> verify_password cr current_password (u_password_hash fresh) then (Inl ValueError, d)
          else (Inr (), d\<lparr>users := upd_row u_id (u_id u)
                  (\<lambda>r. r\<lparr>u_password_hash := hash_password cr salt new_password\<rparr>) (users d)\<rparr>))"

definition default_prefs :: "uuid \<Rightarrow> notification_prefs" where
  "default_prefs uid = \<lparr>np_user_id = uid, np_push_enabled = True, np_email_enabled = True,
     np_order_updates = True, np_messages = True, np_marketing = False\<rparr>"

text \<open>\<open>user_id\<close> is the primary key and refers to \<open>users\<close>.\<close>

definition add_prefs :: "notification_prefs \<Rightarrow> db \<Rightarrow> unit res \<times> db" where
  "add_prefs p d =
     (if np_user_id p \<in> np_user_id ` set (user_notification_prefs d) \<or>
         np_user_id p \<notin> u_id ` set (users d)
      then (Inl IntegrityError, d)
      else (Inr (), d\<lparr>user_notification_prefs := user_notification_prefs d @ [p]\<rparr>))"

definition get_or_create_notification_prefs :: "user \<Rightarrow> db \<Rightarrow> notification_prefs res \<times> db" where
  "get_or_create_notification_prefs u d =
     (case scalar_one_or_none (filter (\<lambda>p. np_user_id p = u_id u) (user_notification_prefs d)) of
        Inl e \<Rightarrow> (Inl e, d)
      | Inr (Some p) \<Rightarrow> (Inr p, d)
      | Inr None \<Rightarrow>
          (case add_prefs (default_prefs (u_id u)) d of
             (Inl e, d1) \<Rightarrow> (Inl e, d1)
           | (Inr _, d1) \<Rightarrow> (Inr (default_prefs (u_id u)), d1)))"

definition patch_prefs ::
  "bool option \<Rightarrow> bool option \<Rightarrow> bool option \<Rightarrow> bool option \<Rightarrow> bool option \<Rightarrow>
   notification_prefs \<Rightarrow> notification_prefs" where
  "patch_prefs push email ords msgs marketing r =
     \<lparr>np_user_id = np_user_id r, np_push_enabled = or_else push (np_push_enabled r),
      np_email_enabled = or_else email (np_email_enabled r),
      np_order_updates = or_else ords (np_order_updates r),
      np_messages = or_else msgs (np_messages r),
      np_marketing = or_else marketing (np_marketing r)\<rparr>"

text \<open>The update reads or creates the row in the same way, with the row locked.\<close>

definition update_notification_prefs ::
  "user \<Rightarrow> bool option \<Rightarrow> bool option \<Rightarrow> bool option \<Rightarrow> bool option \<Rightarrow> bool option \<Rightarrow> db \<Rightarrow>
   notification_prefs res \<times> db" where
  "update_notification_prefs u push email ords msgs marketing d =
     (case get_or_create_notification_prefs u d of
        (Inl e, d1) \<Rightarrow> (Inl e, d1)
      | (Inr p, d1) \<Rightarrow>
          (let f = patch_prefs push email ords msgs marketing
           in (Inr (f p), d1\<lparr>user_notification_prefs :=
                 upd_row np_user_id (np_user_id p) f (user_notification_prefs d1)\<rparr>)))"

section \<open>Notification preferences\<close>

text \<open>One row per user, and the user exists.\<close>

definition prefs_ok :: "db \<Rightarrow> bool" where
  "prefs_ok d \<longleftrightarrow> distinct (map np_user_id (user_notification_prefs d)) \<and>
     np_user_id ` set (user_notification_prefs d) \<subseteq> u_id ` set (users d)"

lemma patch_prefs_user [simp]: "np_user_id (patch_prefs a b c e f r) = np_user_id r"
  by (simp add: patch_prefs_def)

lemma add_prefs_Inr:
  "add_prefs p d = (Inr x, d') \<longleftrightarrow> np_user_id p \<notin> np_user_id ` set (user_notification_prefs d) \<and>
     np_user_id p \<in> u_id ` set (users d) \<and>
     d' = d\<lparr>user_notification_prefs := user_notification_prefs d @ [p]\<rparr>"
  by (auto simp: add_prefs_def)

lemma add_prefs_ok: "add_prefs p d = (Inr x, d') \<Longrightarrow> prefs_ok d \<Longrightarrow> prefs_ok d'"
  unfolding add_prefs_Inr by (elim conjE) (simp add: prefs_ok_def)

lemma get_or_create_notification_prefs_Inr:
  assumes "get_or_create_notification_prefs u d = (Inr p, d')"
  shows "np_user_id p = u_id u" "\<exists>ps. d' = d\<lparr>user_notification_prefs := ps\<rparr>" "prefs_ok d \<Longrightarrow> prefs_ok d'"
proof -
  from assms have "(d' = d \<and> [p] = filter (\<lambda>p. np_user_id p = u_id u) (user_notification_prefs d)) \<or>
      (p = default_prefs (u_id u) \<and> add_prefs p d = (Inr (), d'))"
    by (auto simp: get_or_create_notification_prefs_def scalar_one_or_none_cases
        split: sum.splits option.splits prod.splits)
  then show "np_user_id p = u_id u" "\<exists>ps. d' = d\<lparr>user_notification_prefs := ps\<rparr>"
    by (auto simp: default_prefs_def add_prefs_Inr Cons_eq_filter_iff
        intro: exI [of _ "user_notification_prefs d"])
  show "prefs_ok d'" if "prefs_ok d"
    using \<open>_ \<or> _\<close> add_prefs_ok [OF _ that] that by blast
qed

lemma update_notification_prefs_Inr:
  assumes "update_notification_prefs u a b c e f d = (Inr p, d')"
  shows "np_user_id p = u_id u" "\<exists>ps. d' = d\<lparr>user_notification_prefs := ps\<rparr>"
    "prefs_ok d \<Longrightarrow> prefs_ok d'"
proof -
  from assms obtain q d1 where q: "get_or_create_notification_prefs u d = (Inr q, d1)"
    and p: "p = patch_prefs a b c e f q"
    and d': "d' = d1\<lparr>user_notification_prefs :=
        upd_row np_user_id (np_user_id q) (patch_prefs a b c e f) (user_notification_prefs d1)\<rparr>"
    by (auto simp: update_notification_prefs_def Let_def split: prod.splits sum.splits)
  note g = get_or_create_notification_prefs_Inr [OF q]
  show "np_user_id p = u_id u" using g(1) by (simp add: p)
  show "\<exists>ps. d' = d\<lparr>user_notification_prefs := ps\<rparr>" using g(2) by (auto simp: d')
  show "prefs_ok d'" if "prefs_ok d"
    using g(3) [OF that] by (simp add: d' prefs_ok_def map_key_upd_row set_map [symmetric] del: set_map)
qed

end
