(* ===== verification/Account_Properties.thy ===== *)
theory Account_Properties
  imports Accounts
begin

text \<open>
  The guarantees of invites and accounts: nobody gets an account without an invite, links are
  not used more often than allowed, refresh tokens rotate with reuse detection. The endpoints
  are units of work that may commit before they raise.
\<close>

section \<open>What signup writes\<close>

lemma add_user_Inr:
  "add_user u d = (Inr x, d') \<longleftrightarrow> u_id u \<notin> u_id ` set (users d) \<and>
     lower (u_email u) \<notin> (\<lambda>r. lower (u_email r)) ` set (users d) \<and> d' = d\<lparr>users := users d @ [u]\<rparr>"
  by (auto simp: add_user_def)

lemma add_referral_Inr:
  "add_referral r d = (Inr x, d') \<longleftrightarrow> rf_id r \<notin> rf_id ` set (referrals d) \<and>
     rf_referred_user_id r \<notin> rf_referred_user_id ` set (referrals d) \<and>
     d' = d\<lparr>referrals := referrals d @ [r]\<rparr>"
  by (auto simp: add_referral_def)

lemma add_refresh_token_Inr:
  "add_refresh_token t d = (Inr x, d') \<longleftrightarrow> rt_id t \<notin> rt_id ` set (refresh_tokens d) \<and>
     rt_token_hash t \<notin> rt_token_hash ` set (refresh_tokens d) \<and>
     d' = d\<lparr>refresh_tokens := refresh_tokens d @ [t]\<rparr>"
  by (auto simp: add_refresh_token_def)

lemma signup_success:
  assumes "signup cr enc cfg dr now req d = (Inr r, d')"
  obtains il role d1 rt where "consume_invite now (sq_invite_token req) (sq_role_choice req) d = (Inr il, d1)"
    "signup_role il (sq_role_choice req) = Inr role"
    "dr_ids dr 0 \<notin> u_id ` set (users d)"
    "dr_ids dr 0 \<notin> rf_referred_user_id ` set (referrals d)"
    "rt_id rt \<notin> rt_id ` set (refresh_tokens d)"
    "rt_token_hash rt \<notin> rt_token_hash ` set (refresh_tokens d)"
    "rt_user_id rt = dr_ids dr 0" "rt_revoked_at rt = None"
    "lr_user_id r = dr_ids dr 0"
    "d' = d1\<lparr>users := users d @ [new_user cr dr now req il role],
            referrals := referrals d @ [\<lparr>rf_id = dr_ids dr 1, rf_referrer_id = il_issuer_id il,
                rf_referred_user_id = dr_ids dr 0, rf_invite_link_id = il_id il\<rparr>],
            refresh_tokens := refresh_tokens d @ [rt]\<rparr>"
proof -
  have frame: "users d1 = users d \<and> referrals d1 = referrals d \<and> refresh_tokens d1 = refresh_tokens d"
    if "consume_invite now tok ch d = (Inr il, d1)" for tok ch il d1
    using that by (rule consume_invite_success) simp
  have [simp]: "u_id (new_user cr dr now req il role) = dr_ids dr 0" for il role
    by (simp add: new_user_def)
  let ?rt = "\<lparr>rt_id = dr_ids dr 2, rt_user_id = dr_ids dr 0,
      rt_token_hash = hash_refresh_token cr (dr_refresh dr), rt_device_label = None, rt_issued_at = now,
      rt_last_used_at = None, rt_expires_at = now + td_days (jwt_refresh_token_expire_days cfg),
      rt_revoked_at = None\<rparr>"
  from assms frame that [where rt = ?rt] show thesis
    by (auto simp: signup_def Let_def add_user_Inr add_referral_Inr add_refresh_token_Inr
        create_refresh_token_row_def build_login_response_def
        split: if_splits prod.splits sum.splits option.splits)
qed

section \<open>The invariant\<close>

text \<open>
  \<open>invited base d\<close>: every account outside \<open>base\<close> has a referral row to an invite link, its role
  is the one the link granted, and only an administrator's link grants \<open>admin\<close> or \<open>driver\<close>.
\<close>

definition granted :: "invite_link \<Rightarrow> user \<Rightarrow> bool" where
  "granted il u \<longleftrightarrow>
     (case il_type il of
        AdminInvite \<Rightarrow> il_role_target il = Some (u_role u)
      | SellerReferral \<Rightarrow> u_role u \<in> {Customer, Seller} \<and>
          u_referring_seller_id u = Some (il_issuer_id il))"

definition invited_user :: "db \<Rightarrow> user \<Rightarrow> bool" where
  "invited_user d u \<longleftrightarrow>
     (\<exists>rf \<in> set (referrals d). \<exists>il \<in> set (invite_links d).
        rf_referred_user_id rf = u_id u \<and> rf_invite_link_id rf = il_id il \<and> granted il u)"

definition accounts_inv :: "uuid set \<Rightarrow> db \<Rightarrow> bool" where
  "accounts_inv base d \<longleftrightarrow>
     invites_inv d \<and> distinct (map u_id (users d)) \<and>
     distinct (map rf_referred_user_id (referrals d)) \<and>
     distinct (map rt_id (refresh_tokens d)) \<and> distinct (map rt_token_hash (refresh_tokens d)) \<and>
     (\<forall>u \<in> set (users d). u_id u \<notin> base \<longrightarrow> invited_user d u)"

lemma granted_cong:
  "il_type il = il_type il' \<Longrightarrow> il_role_target il = il_role_target il' \<Longrightarrow>
   il_issuer_id il = il_issuer_id il' \<Longrightarrow> granted il u = granted il' u"
  by (cases "il_type il'") (simp_all add: granted_def)

text \<open>Links are updated in place: what a link granted stays granted.\<close>

lemma invited_user_links:
  assumes "invited_user d u" and "set (referrals d) \<subseteq> set (referrals d')"
    and "\<And>il. il \<in> set (invite_links d) \<Longrightarrow> \<exists>il' \<in> set (invite_links d').
      il_id il' = il_id il \<and> (\<forall>u. granted il u \<longrightarrow> granted il' u)"
  shows "invited_user d' u"
  using assms unfolding invited_user_def by (metis subsetD)

lemma accounts_inv_links:
  assumes "accounts_inv base d" and "invites_inv d'" and "users d' = users d"
    and "referrals d' = referrals d" and "refresh_tokens d' = refresh_tokens d"
    and "\<And>il. il \<in> set (invite_links d) \<Longrightarrow> \<exists>il' \<in> set (invite_links d').
      il_id il' = il_id il \<and> (\<forall>u. granted il u \<longrightarrow> granted il' u)"
  shows "accounts_inv base d'"
  using assms(1-5) invited_user_links [OF _ _ assms(6), of d] by (simp add: accounts_inv_def)

lemma accounts_inv_tokens:
  assumes "accounts_inv base d" and "distinct (map rt_id ts)" and "distinct (map rt_token_hash ts)"
  shows "accounts_inv base (d\<lparr>refresh_tokens := ts\<rparr>)"
  using assms by (simp add: accounts_inv_def invites_inv_def invited_user_def)

lemma accounts_inv_users:
  assumes "accounts_inv base d" and "\<And>u. u_id (f u) = u_id u" "\<And>u. u_role (f u) = u_role u"
    "\<And>u. u_referring_seller_id (f u) = u_referring_seller_id u"
  shows "accounts_inv base (d\<lparr>users := upd_row u_id k f (users d)\<rparr>)"
proof -
  have "granted il (f u) = granted il u" for il u by (cases "il_type il") (simp_all add: granted_def assms)
  with assms show ?thesis
    by (auto simp: accounts_inv_def invites_inv_def invited_user_def map_key_upd_row set_upd_row
        simp del: if_image_distrib)
qed

lemma add_invite_accounts_inv:
  assumes "accounts_inv base d" and "invites_inv d'"
    and "d' = d\<lparr>invite_links := update_where p (\<lambda>il. il\<lparr>il_revoked_at := t\<rparr>) (invite_links d) @ ls\<rparr>"
  shows "accounts_inv base d'"
  using assms(1,2)
proof (rule accounts_inv_links)
  fix il assume "il \<in> set (invite_links d)"
  moreover have "granted (il\<lparr>il_revoked_at := t\<rparr>) u = granted il u" for u by (rule granted_cong) simp_all
  ultimately show "\<exists>il' \<in> set (invite_links d'). il_id il' = il_id il \<and> (\<forall>u. granted il u \<longrightarrow> granted il' u)"
    unfolding assms(3)
    by (intro bexI [of _ "if p il then il\<lparr>il_revoked_at := t\<rparr> else il"])
      (auto simp: set_update_where simp del: if_image_distrib)
qed (simp_all add: assms(3))

section \<open>Every operation keeps it\<close>

lemma link_ok_other:
  "rf_invite_link_id rf \<noteq> il_id il \<Longrightarrow> link_ok (refs @ [rf]) il = link_ok refs il"
  by (simp add: link_ok_def)

lemma invites_inv_consume:
  assumes "invites_inv d" and "get_row il_token tok (invite_links d) = Some il" and "\<not> is_used il"
    and "invite_links d' = upd_row il_id (il_id il) (\<lambda>r. r\<lparr>il_used_count := il_used_count il + 1\<rparr>) (invite_links d)"
    and "referrals d' = referrals d @ [rf]" and "rf_invite_link_id rf = il_id il"
  shows "invites_inv d'"
proof -
  let ?f = "\<lambda>r. r\<lparr>il_used_count := il_used_count il + 1\<rparr>"
  have dist: "distinct (map il_id (invite_links d))" using assms(1) by (simp add: invites_inv_def)
  have mem: "il \<in> set (invite_links d)" using assms(2) by (rule get_row_SomeD)
  have keys: "map il_id (invite_links d') = map il_id (invite_links d)"
    "map il_token (invite_links d') = map il_token (invite_links d)"
    unfolding assms(4) by (simp_all add: map_key_upd_row)
  have "link_ok (referrals d) il" using assms(1) mem by (simp add: invites_inv_def)
  then have "link_ok (referrals d') (?f il)"
    using assms(3) by (auto simp: link_ok_def is_used_def assms(5,6) split: option.splits)
  moreover have "link_ok (referrals d') r" if "r \<in> set (invite_links d)" "il_id r \<noteq> il_id il" for r
    using assms(1) that by (simp add: invites_inv_def assms(5,6) link_ok_other)
  moreover have "r = il" if "r \<in> set (invite_links d)" "il_id r = il_id il" for r
    using dist that(1) mem that(2) by (rule distinct_key_eq)
  ultimately have "\<forall>r \<in> set (invite_links d'). link_ok (referrals d') r"
    unfolding assms(4) set_upd_row by (auto simp del: if_image_distrib split: if_splits)
  moreover have "filter (active_referral issuer) (invite_links d') =
      upd_row il_id (il_id il) ?f (filter (active_referral issuer) (invite_links d))" for issuer
    unfolding assms(4) by (rule filter_upd_row) (simp add: active_referral_def)
  moreover have "il_id ` set (invite_links d') = il_id ` set (invite_links d)"
    using keys(1) by (simp only: set_map [symmetric])
  ultimately show ?thesis
    using assms(1) keys mem by (auto simp: invites_inv_def assms(5,6))
qed

lemma signup_role_granted:
  assumes "consume_invite now tok choice d = (Inr il, d1)" and "signup_role il choice = Inr role"
  shows "granted il (new_user cr dr now' req il role)"
  using assms(1)
proof (rule consume_invite_success)
  fix il0
  assume perm: "role_permitted il0 choice d = Inr ()"
    and il: "il = il0\<lparr>il_used_count := il_used_count il0 + 1\<rparr>"
  show ?thesis
  proof (cases "il_type il")
    case AdminInvite
    with assms(2) show ?thesis
      by (auto simp: granted_def new_user_def signup_role_def Let_def split: option.splits)
  next
    case SellerReferral
    with role_permitted_referral [OF perm] have "choice \<in> {Some ''customer'', Some ''seller''}"
      by (simp add: il)
    moreover have "parse_role ''customer'' = Some Customer" "parse_role ''seller'' = Some Seller"
      by (simp_all add: parse_role_def)
    ultimately show ?thesis
      using SellerReferral assms(2)
      by (auto simp: granted_def new_user_def signup_role_def Let_def split: option.splits)
  qed
qed

lemma signup_inv:
  assumes "accounts_inv base d" and "signup cr enc cfg dr now req d = (Inr r, d')"
  shows "accounts_inv base d'"
  using assms(2)
proof (rule signup_success)
  fix il role d1 and rt :: refresh_token
  assume c: "consume_invite now (sq_invite_token req) (sq_role_choice req) d = (Inr il, d1)"
    and role: "signup_role il (sq_role_choice req) = Inr role"
    and fresh: "dr_ids dr 0 \<notin> u_id ` set (users d)" "dr_ids dr 0 \<notin> rf_referred_user_id ` set (referrals d)"
      "rt_id rt \<notin> rt_id ` set (refresh_tokens d)" "rt_token_hash rt \<notin> rt_token_hash ` set (refresh_tokens d)"
  let ?u = "new_user cr dr now req il role"
  let ?rf = "\<lparr>rf_id = dr_ids dr 1, rf_referrer_id = il_issuer_id il,
                rf_referred_user_id = dr_ids dr 0, rf_invite_link_id = il_id il\<rparr>"
  assume d': "d' = d1\<lparr>users := users d @ [?u], referrals := referrals d @ [?rf],
            refresh_tokens := refresh_tokens d @ [rt]\<rparr>"
  have uid: "u_id ?u = dr_ids dr 0" by (simp add: new_user_def)
  from c obtain il0 where il0: "get_row il_token (sq_invite_token req) (invite_links d) = Some il0"
    "\<not> is_used il0" and il: "il = il0\<lparr>il_used_count := il_used_count il0 + 1\<rparr>"
    and d1: "d1 = set_invite (il_id il0) (\<lambda>r. r\<lparr>il_used_count := il_used_count il0 + 1\<rparr>) d"
    by (rule consume_invite_success)
  let ?f = "\<lambda>r. r\<lparr>il_used_count := il_used_count il0 + 1\<rparr>"
  have links: "invite_links d' = upd_row il_id (il_id il0) ?f (invite_links d)" by (simp add: d' d1)
  have rf: "referrals d' = referrals d @ [?rf]" "rf_invite_link_id ?rf = il_id il0"
    by (simp_all add: d' il)
  have "invites_inv d" using assms(1) by (simp add: accounts_inv_def)
  note inv = invites_inv_consume [OF this il0 links rf]
  have "\<exists>l' \<in> set (invite_links d'). il_id l' = il_id l \<and> (\<forall>u. granted l u \<longrightarrow> granted l' u)"
    if "l \<in> set (invite_links d)" for l
  proof -
    have "granted (?f l) u = granted l u" for u by (rule granted_cong) simp_all
    then show ?thesis
      unfolding links set_upd_row using that
      by (intro bexI [of _ "if il_id l = il_id il0 then ?f l else l"]) auto
  qed
  note links_kept = this
  have "set (referrals d) \<subseteq> set (referrals d')" by (auto simp: d')
  then have "invited_user d' u" if "invited_user d u" for u
    using invited_user_links [OF that _ links_kept] by simp
  moreover have "il \<in> set (invite_links d')"
    unfolding links set_upd_row il using get_row_SomeD(1) [OF il0(1)]
    by (auto intro!: image_eqI [of _ _ il0])
  then have "invited_user d' ?u"
    unfolding invited_user_def using signup_role_granted [OF c role]
    by (intro bexI [of _ ?rf] bexI [of _ il]) (auto simp: d' uid)
  ultimately show ?thesis
    using assms(1) fresh inv by (auto simp: accounts_inv_def d' uid)
qed

lemma map_key_revoke [simp]:
  "map rt_id (update_where p (\<lambda>t. t\<lparr>rt_revoked_at := x\<rparr>) ts) = map rt_id ts"
  "map rt_token_hash (update_where p (\<lambda>t. t\<lparr>rt_revoked_at := x\<rparr>) ts) = map rt_token_hash ts"
  by (simp_all add: map_key_update_where)

lemma revoke_all_inv: "accounts_inv base d \<Longrightarrow> accounts_inv base (revoke_all uid now d)"
  unfolding revoke_all_def by (rule accounts_inv_tokens) (simp_all add: accounts_inv_def)

lemma add_refresh_token_inv:
  "accounts_inv base d \<Longrightarrow> add_refresh_token t d = (Inr x, d') \<Longrightarrow> accounts_inv base d'"
  by (auto simp: add_refresh_token_Inr intro!: accounts_inv_tokens) (auto simp: accounts_inv_def)

lemma login_inv:
  assumes "accounts_inv base d" and "login cr enc cfg dr now email pw label d = (Inr r, d')"
  shows "accounts_inv base d'"
proof -
  have "accounts_inv base (d\<lparr>users := upd_row u_id k (\<lambda>r. r\<lparr>u_password_hash := h\<rparr>) (users d)\<rparr>)" for k h
    using assms(1) by (rule accounts_inv_users) simp_all
  with assms show ?thesis
    by (auto simp: login_def Let_def create_refresh_token_row_def
        split: sum.splits option.splits if_splits prod.splits dest: add_refresh_token_inv)
qed

lemma rotate_inv:
  assumes "accounts_inv base d" and "rotate cr enc cfg dr now row d = (Inr r, d')"
  shows "accounts_inv base d'"
proof -
  let ?ts = "upd_row rt_id (rt_id row) (\<lambda>t. t\<lparr>rt_revoked_at := Some now, rt_last_used_at := Some now\<rparr>)
               (refresh_tokens d)"
  have "accounts_inv base (d\<lparr>refresh_tokens := ?ts\<rparr>)"
    using assms(1) by (rule accounts_inv_tokens) (use assms(1) in \<open>simp_all add: map_key_upd_row accounts_inv_def\<close>)
  with assms(2) show ?thesis
    by (auto simp: rotate_def Let_def split: option.splits if_splits prod.splits sum.splits
        dest: add_refresh_token_inv)
qed

lemma logout_inv:
  assumes "accounts_inv base d" and "logout cr now plain d = (Inr r, d')"
  shows "accounts_inv base d'"
proof -
  have "accounts_inv base (d\<lparr>refresh_tokens := upd_row rt_id k (\<lambda>t. t\<lparr>rt_revoked_at := Some now\<rparr>)
      (refresh_tokens d)\<rparr>)" for k
    using assms(1) by (rule accounts_inv_tokens) (use assms(1) in \<open>simp_all add: map_key_upd_row accounts_inv_def\<close>)
  with assms show ?thesis by (auto simp: logout_def split: option.splits if_splits)
qed

lemma update_me_inv:
  assumes "accounts_inv base d" and "update_me u name phone avatar d = (Inr r, d')"
  shows "accounts_inv base d'"
  using assms by (auto simp: update_me_def Let_def split: sum.splits intro!: accounts_inv_users)

lemma change_password_inv:
  assumes "accounts_inv base d" and "change_password cr salt u cur new d = (Inr r, d')"
  shows "accounts_inv base d'"
  using assms by (auto simp: change_password_def split: sum.splits if_splits intro!: accounts_inv_users)

lemma accounts_inv_new_links:
  assumes "accounts_inv base d" and "invites_inv d'" and "d' = d\<lparr>invite_links := invite_links d @ ls\<rparr>"
  shows "accounts_inv base d'"
  using assms(1,2) by (rule accounts_inv_links) (auto simp: assms(3))

lemma accounts_inv_revoked_links:
  assumes "accounts_inv base d" and "invites_inv d'"
    and "d' = d\<lparr>invite_links := update_where p (\<lambda>il. il\<lparr>il_revoked_at := Some now\<rparr>) (invite_links d) @ ls\<rparr>"
  shows "accounts_inv base d'"
  using assms by (rule add_invite_accounts_inv)

lemma create_admin_invite_ainv:
  assumes "accounts_inv base d" and "create_admin_invite i tok now u role h d = (Inr r, d')"
  shows "accounts_inv base d'"
proof -
  have "invites_inv d'" using assms by (auto simp: accounts_inv_def intro: create_admin_invite_inv)
  moreover have "\<exists>ls. d' = d\<lparr>invite_links := invite_links d @ ls\<rparr>"
    using assms(2) by (auto simp: create_admin_invite_def Let_def add_invite_Inr
        split: if_splits option.splits prod.splits sum.splits)
  ultimately show ?thesis using accounts_inv_new_links [OF assms(1)] by blast
qed

lemma get_or_create_seller_referral_ainv:
  assumes "accounts_inv base d" and "get_or_create_seller_referral i tok now u d = (Inr r, d')"
  shows "accounts_inv base d'"
proof -
  have "invites_inv d'" using assms by (auto simp: accounts_inv_def intro: get_or_create_seller_referral_inv)
  moreover have "d' = d \<or> (\<exists>ls. d' = d\<lparr>invite_links := invite_links d @ ls\<rparr>)"
    using assms(2) by (auto simp: get_or_create_seller_referral_def Let_def add_invite_Inr
        split: if_splits option.splits prod.splits sum.splits)
  ultimately show ?thesis using accounts_inv_new_links [OF assms(1)] assms(1) by blast
qed

lemma regenerate_seller_referral_ainv:
  assumes "accounts_inv base d" and "regenerate_seller_referral i tok now u d = (Inr r, d')"
  shows "accounts_inv base d'"
proof -
  have "invites_inv d'" using assms by (auto simp: accounts_inv_def intro: regenerate_seller_referral_inv)
  moreover have "\<exists>ls. d' = d\<lparr>invite_links := update_where (active_referral (u_id u))
      (\<lambda>il. il\<lparr>il_revoked_at := Some now\<rparr>) (invite_links d) @ ls\<rparr>"
    using assms(2) by (auto simp: regenerate_seller_referral_def Let_def add_invite_Inr
        split: if_splits option.splits prod.splits sum.splits)
  ultimately show ?thesis using accounts_inv_revoked_links [OF assms(1)] by blast
qed

lemma revoke_invite_ainv:
  assumes "accounts_inv base d" and "revoke_invite now u i d = (Inr r, d')"
  shows "accounts_inv base d'"
proof -
  have "invites_inv d'" using assms by (auto simp: accounts_inv_def intro: revoke_invite_inv)
  moreover have "d' = d\<lparr>invite_links := update_where (\<lambda>il. il_id il = i)
      (\<lambda>il. il\<lparr>il_revoked_at := Some now\<rparr>) (invite_links d) @ []\<rparr>"
    using assms(2) by (auto simp: revoke_invite_def set_invite_def upd_row_def split: option.splits if_splits)
  ultimately show ?thesis by (rule accounts_inv_revoked_links [OF assms(1)])
qed

section \<open>The endpoints\<close>

datatype (plugins only: code) account_request =
    ASignup draws time signup_request
  | ALogin draws time string string "string option"
  | ARefresh draws time string
  | ALogout time string
  | ALogoutAll time user
  | AUpdateMe user "string option" "string option" "string option"
  | AChangePassword nat user string string
  | AGetPrefs user
  | AUpdatePrefs user "bool option" "bool option" "bool option" "bool option" "bool option"
  | AAdminInvite uuid string time user string int
  | AGetReferral uuid string time user
  | ARegenerate uuid string time user
  | ARevokeInvite time user uuid

datatype (plugins only: code) 't account_reply =
    ALoggedIn "'t login_response"
  | ARefreshed "'t refresh_response"
  | AUser user
  | APrefs notification_prefs
  | AInvite "invite_link \<times> string"
  | ADone

definition account_answer :: "('a \<Rightarrow> 't account_reply) \<Rightarrow> 'a res \<times> 's \<Rightarrow> 't account_reply res \<times> 's" where
  "account_answer f out = (case out of (Inl e, s) \<Rightarrow> (Inl e, s) | (Inr a, s) \<Rightarrow> (Inr (f a), s))"

primrec account_endpoint ::
  "crypto \<Rightarrow> (string \<Rightarrow> claims \<Rightarrow> 't) \<Rightarrow> settings \<Rightarrow> account_request \<Rightarrow> db session \<Rightarrow>
   't account_reply res \<times> db session" where
  "account_endpoint cr enc cfg (ASignup dr now req) s =
     account_answer ALoggedIn (committing (signup cr enc cfg dr now req) s)"
| "account_endpoint cr enc cfg (ALogin dr now email pw label) s =
     account_answer ALoggedIn (committing (login cr enc cfg dr now email pw label) s)"
| "account_endpoint cr enc cfg (ARefresh dr now plain) s =
     account_answer ARefreshed (refresh cr enc cfg dr now plain s)"
| "account_endpoint cr enc cfg (ALogout now plain) s =
     account_answer (\<lambda>_. ADone) (committing (logout cr now plain) s)"
| "account_endpoint cr enc cfg (ALogoutAll now u) s =
     account_answer (\<lambda>_. ADone) (committing (logout_all now u) s)"
| "account_endpoint cr enc cfg (AUpdateMe u name phone avatar) s =
     account_answer AUser (committing (update_me u name phone avatar) s)"
| "account_endpoint cr enc cfg (AChangePassword salt u cur new) s =
     account_answer (\<lambda>_. ADone) (committing (change_password cr salt u cur new) s)"
| "account_endpoint cr enc cfg (AGetPrefs u) s =
     account_answer APrefs (committing (get_or_create_notification_prefs u) s)"
| "account_endpoint cr enc cfg (AUpdatePrefs u push email ords msgs marketing) s =
     account_answer APrefs (committing (update_notification_prefs u push email ords msgs marketing) s)"
| "account_endpoint cr enc cfg (AAdminInvite i tok now u role h) s =
     account_answer AInvite (committing (create_admin_invite i tok now u role h) s)"
| "account_endpoint cr enc cfg (AGetReferral i tok now u) s =
     account_answer AInvite (committing (get_or_create_seller_referral i tok now u) s)"
| "account_endpoint cr enc cfg (ARegenerate i tok now u) s =
     account_answer AInvite (committing (regenerate_seller_referral i tok now u) s)"
| "account_endpoint cr enc cfg (ARevokeInvite now u i) s =
     account_answer (\<lambda>_. ADone) (committing (revoke_invite now u i) s)"

text \<open>
  From a fresh session, both states of the session keep a property that the services keep, on
  every path.
\<close>

definition session_inv :: "(db \<Rightarrow> bool) \<Rightarrow> 'a res \<Rightarrow> db session \<Rightarrow> bool" where
  "session_inv P r s \<longleftrightarrow> P (committed s) \<and> (\<forall>a. r = Inr a \<longrightarrow> P (working s))"

lemma committing_session_inv:
  assumes "P d" and "\<And>a d'. svc d = (Inr a, d') \<Longrightarrow> P d'"
    and "account_answer f (committing svc \<lparr>committed = d, working = d\<rparr>) = (r, s)"
  shows "session_inv P r s"
  using assms
  by (auto simp: account_answer_def committing_def flushing_def db_commit_def session_inv_def
      split: prod.splits sum.splits)

lemma refresh_session_inv:
  assumes "P d" and "\<And>uid. P (revoke_all uid now d)"
    and "\<And>row rr d'. get_row rt_token_hash (hash_refresh_token cr plain) (refresh_tokens d) = Some row \<Longrightarrow>
      rotate cr enc cfg dr now row d = (Inr rr, d') \<Longrightarrow> P d'"
    and "account_answer f (refresh cr enc cfg dr now plain \<lparr>committed = d, working = d\<rparr>) = (r, s)"
  shows "session_inv P r s"
  using assms
  by (auto simp: refresh_def account_answer_def committing_def flushing_def db_commit_def session_inv_def
      split: prod.splits sum.splits option.splits if_splits)

lemma notification_prefs_inv:
  assumes "accounts_inv base d"
  shows "get_or_create_notification_prefs u d = (Inr p, d') \<Longrightarrow> accounts_inv base d'"
    and "update_notification_prefs u a b c e f d = (Inr p, d') \<Longrightarrow> accounts_inv base d'"
  using assms
  by (auto dest!: get_or_create_notification_prefs_Inr(2) update_notification_prefs_Inr(2)
      simp: accounts_inv_def invites_inv_def invited_user_def)

lemma account_endpoint_session_inv:
  assumes "accounts_inv base d"
    and "account_endpoint cr enc cfg q \<lparr>committed = d, working = d\<rparr> = (r, s)"
  shows "session_inv (accounts_inv base) r s"
proof (cases q)
  case (ARefresh dr now plain)
  with assms show ?thesis
    by (auto intro: refresh_session_inv revoke_all_inv rotate_inv)
next
  case (ALogoutAll now u)
  with assms(2) have "account_answer (\<lambda>_. ADone)
      (committing (logout_all now u) \<lparr>committed = d, working = d\<rparr>) = (r, s)" by simp
  from committing_session_inv [of "accounts_inv base", OF assms(1) _ this] revoke_all_inv [OF assms(1)]
  show ?thesis by (auto simp: logout_all_def)
qed (use assms in \<open>auto elim!: committing_session_inv [rotated 2] intro: signup_inv login_inv
    logout_inv update_me_inv change_password_inv create_admin_invite_ainv
    get_or_create_seller_referral_ainv regenerate_seller_referral_ainv revoke_invite_ainv
    notification_prefs_inv\<close>)

interpretation acc: unit_of_work "account_endpoint cr enc cfg" "accounts_inv base"
  for cr enc cfg base
proof
  fix d q r s and a
  assume "accounts_inv base d"
  note keep = account_endpoint_session_inv [OF this]
  show "accounts_inv base (committed s)"
    if "account_endpoint cr enc cfg q \<lparr>committed = d, working = d\<rparr> = (r, s)"
    using keep [OF that] by (simp add: session_inv_def)
  show "accounts_inv base (working s)"
    if "account_endpoint cr enc cfg q \<lparr>committed = d, working = d\<rparr> = (Inr a, s)"
    using keep [OF that] by (simp add: session_inv_def)
qed

section \<open>Properties\<close>

text \<open>
  C6: the marketplace is invite-only. After any sequence of account requests, every account
  that was not there before has a referral row to an invite link that granted its role: an
  administrator's link for exactly that role, or a seller's link for a customer or a seller
  bound to that seller. In particular only administrators' links make administrators and
  drivers.
\<close>

theorem accounts_only_by_invite:
  assumes "accounts_inv (u_id ` set (users d)) d"
    and "u \<in> set (users (run_endpoints (account_endpoint cr enc cfg) qs d))"
    and "u_id u \<notin> u_id ` set (users d)"
  shows "\<exists>rf \<in> set (referrals (run_endpoints (account_endpoint cr enc cfg) qs d)).
    \<exists>il \<in> set (invite_links (run_endpoints (account_endpoint cr enc cfg) qs d)).
      rf_referred_user_id rf = u_id u \<and> rf_invite_link_id rf = il_id il \<and>
      (u_role u \<in> {Admin, Driver} \<longrightarrow> il_type il = AdminInvite) \<and>
      (il_type il = AdminInvite \<longrightarrow> il_role_target il = Some (u_role u)) \<and>
      (il_type il = SellerReferral \<longrightarrow> u_referring_seller_id u = Some (il_issuer_id il))"
proof -
  have "accounts_inv (u_id ` set (users d)) (run_endpoints (account_endpoint cr enc cfg) qs d)"
    using assms(1) by (rule acc.endpoints_keep)
  with assms(2,3) obtain rf il where "rf \<in> set (referrals (run_endpoints (account_endpoint cr enc cfg) qs d))"
    "il \<in> set (invite_links (run_endpoints (account_endpoint cr enc cfg) qs d))"
    "rf_referred_user_id rf = u_id u" "rf_invite_link_id rf = il_id il" "granted il u"
    unfolding accounts_inv_def invited_user_def by blast
  then show ?thesis
    by (intro bexI [of _ rf] bexI [of _ il]) (cases "il_type il"; auto simp: granted_def)+
qed

definition sample_crypto :: crypto where
  "sample_crypto = \<lparr>hash_password = (\<lambda>salt pw. pw), verify_password = (\<lambda>pw h. pw = h),
     needs_rehash = (\<lambda>h. False), hash_refresh_token = (\<lambda>t. t)\<rparr>"

definition sample_signup :: signup_request where
  "sample_signup = \<lparr>sq_email = ''New@x.io'', sq_password = ''a long passphrase'',
     sq_display_name = ''New'', sq_phone = None, sq_invite_token = ''inv'', sq_role_choice = None\<rparr>"

definition sample_draws :: "uuid \<Rightarrow> string \<Rightarrow> draws" where
  "sample_draws i tok = \<lparr>dr_ids = (\<lambda>n. i + n), dr_salt = 0, dr_refresh = tok, dr_jti = ''j''\<rparr>"

definition sample_account_requests :: "account_request list" where
  "sample_account_requests =
     [AAdminInvite 50 ''inv'' 0 sample_admin ''driver'' 168,
      ASignup (sample_draws 60 ''r1'') 10 sample_signup]"

lemma sample_accounts_inv: "accounts_inv (u_id ` set (users sample_db)) sample_db"
  by (simp add: accounts_inv_def invites_inv_def sample_defs)

theorem accounts_only_by_invite_witness:
  "\<exists>il \<in> set (invite_links (run_endpoints (account_endpoint sample_crypto Pair sample_settings)
       sample_account_requests sample_db)). il_type il = AdminInvite"
proof -
  let ?d = "run_endpoints (account_endpoint sample_crypto Pair sample_settings) sample_account_requests sample_db"
  have users: "map u_id (users ?d) = [1, 2, 3, 4, 60] \<and> map u_role (users ?d) = [Admin, Seller, Customer, Driver, Driver]"
    by code_simp
  then have last: "last (users ?d) \<in> set (users ?d)" "u_id (last (users ?d)) = 60"
      "u_role (last (users ?d)) = Driver"
    by (auto simp: last_map [symmetric])
  moreover have "60 \<notin> u_id ` set (users sample_db)" by (simp add: sample_defs)
  ultimately show ?thesis
    using accounts_only_by_invite [OF sample_accounts_inv last(1)] by auto
qed

text \<open>
  C21: no invite link is used more often than allowed: at most one account ever comes from an
  administrator's link, the use counter is the number of accounts it produced, and a seller
  has at most one active referral link.
\<close>

theorem invite_links_bounded:
  assumes "accounts_inv base d"
  shows "(\<forall>il \<in> set (invite_links (run_endpoints (account_endpoint cr enc cfg) qs d)).
      il_used_count il = int (length (filter (\<lambda>rf. rf_invite_link_id rf = il_id il)
          (referrals (run_endpoints (account_endpoint cr enc cfg) qs d)))) \<and>
      (il_type il = AdminInvite \<longrightarrow> length (filter (\<lambda>rf. rf_invite_link_id rf = il_id il)
          (referrals (run_endpoints (account_endpoint cr enc cfg) qs d))) \<le> 1)) \<and>
    (\<forall>seller. length (filter (active_referral seller)
        (invite_links (run_endpoints (account_endpoint cr enc cfg) qs d))) \<le> 1)"
proof -
  have "accounts_inv base (run_endpoints (account_endpoint cr enc cfg) qs d)"
    using assms by (rule acc.endpoints_keep)
  then have "invites_inv (run_endpoints (account_endpoint cr enc cfg) qs d)"
    by (simp add: accounts_inv_def)
  then show ?thesis by (auto simp: invites_inv_def link_ok_def)
qed

theorem invite_links_bounded_witness:
  "\<forall>seller. length (filter (active_referral seller)
      (invite_links (run_endpoints (account_endpoint sample_crypto Pair sample_settings)
         sample_account_requests sample_db))) \<le> 1"
  using invite_links_bounded [OF sample_accounts_inv] by blast

text \<open>
  C7: presenting a revoked refresh token is treated as theft: the request fails with
  \<open>AUTH_TOKEN_REUSED\<close>, and although it raises, the revocation of every token of that user is
  committed and nothing else changes.
\<close>

theorem refresh_reuse_revokes_all:
  assumes "get_row rt_token_hash (hash_refresh_token cr plain) (refresh_tokens d) = Some row"
    and "rt_revoked_at row \<noteq> None"
  shows "get_db (account_endpoint cr enc cfg (ARefresh dr now plain)) d =
      (Inl TokenReused, revoke_all (rt_user_id row) now d) \<and>
    (\<forall>t \<in> set (refresh_tokens (revoke_all (rt_user_id row) now d)).
       rt_user_id t = rt_user_id row \<longrightarrow> rt_revoked_at t \<noteq> None)"
proof
  show "get_db (account_endpoint cr enc cfg (ARefresh dr now plain)) d =
      (Inl TokenReused, revoke_all (rt_user_id row) now d)"
    using assms by (simp add: get_db_def account_answer_def refresh_def db_commit_def)
  show "\<forall>t \<in> set (refresh_tokens (revoke_all (rt_user_id row) now d)).
       rt_user_id t = rt_user_id row \<longrightarrow> rt_revoked_at t \<noteq> None"
    by (auto simp: revoke_all_def set_update_where simp del: if_image_distrib split: if_splits)
qed

definition sample_token :: "uuid \<Rightarrow> string \<Rightarrow> refresh_token" where
  "sample_token i h = \<lparr>rt_id = i, rt_user_id = 3, rt_token_hash = h, rt_device_label = None,
     rt_issued_at = 0, rt_last_used_at = None, rt_expires_at = td_days 7, rt_revoked_at = None\<rparr>"

theorem refresh_reuse_revokes_all_witness:
  "map rt_revoked_at (refresh_tokens (snd (get_db (account_endpoint sample_crypto Pair sample_settings
       (ARefresh \<lparr>dr_ids = id, dr_salt = 0, dr_refresh = ''c'', dr_jti = ''j''\<rparr> 9 ''a''))
     (sample_db\<lparr>refresh_tokens :=
        [(sample_token 70 ''a'')\<lparr>rt_revoked_at := Some 5\<rparr>, sample_token 71 ''b'']\<rparr>)))) = [Some 5, Some 9]"
proof -
  let ?d = "sample_db\<lparr>refresh_tokens := [(sample_token 70 ''a'')\<lparr>rt_revoked_at := Some 5\<rparr>, sample_token 71 ''b'']\<rparr>"
  have "get_row rt_token_hash (hash_refresh_token sample_crypto ''a'') (refresh_tokens ?d) =
      Some ((sample_token 70 ''a'')\<lparr>rt_revoked_at := Some 5\<rparr>)"
    by (simp add: sample_crypto_def sample_token_def)
  note all = refresh_reuse_revokes_all [OF this, where enc = Pair
      and cfg = sample_settings and now = 9
      and dr = "\<lparr>dr_ids = id, dr_salt = 0, dr_refresh = ''c'', dr_jti = ''j''\<rparr>"]
  have "rt_user_id ((sample_token 70 ''a'')\<lparr>rt_revoked_at := Some 5\<rparr>) = 3"
    by (simp add: sample_token_def)
  with all show ?thesis by (simp add: revoke_all_def sample_token_def)
qed

lemma refresh_rotates:
  assumes "get_db (account_endpoint cr enc cfg (ARefresh dr now plain)) d = (Inr a, d')"
  obtains row u till where "get_row rt_token_hash (hash_refresh_token cr plain) (refresh_tokens d) = Some row"
    "rt_revoked_at row = None" "\<not> rt_expires_at row < now"
    "get_row u_id (rt_user_id row) (users d) = Some u"
    "hash_refresh_token cr (dr_refresh dr) \<notin> rt_token_hash ` set (refresh_tokens d)"
    "dr_ids dr 0 \<notin> rt_id ` set (refresh_tokens d)"
    "a = ARefreshed \<lparr>rr_access_token = fst (create_access_token enc cfg (dr_jti dr) now (u_id u) (u_role u)),
           rr_refresh_token = dr_refresh dr, rr_expires_in = till\<rparr>"
    "d' = d\<lparr>refresh_tokens := upd_row rt_id (rt_id row)
              (\<lambda>t. t\<lparr>rt_revoked_at := Some now, rt_last_used_at := Some now\<rparr>) (refresh_tokens d) @
            [\<lparr>rt_id = dr_ids dr 0, rt_user_id = u_id u,
              rt_token_hash = hash_refresh_token cr (dr_refresh dr),
              rt_device_label = rt_device_label row, rt_issued_at = now, rt_last_used_at = None,
              rt_expires_at = now + td_days 7, rt_revoked_at = None\<rparr>]\<rparr>"
proof -
  have keys: "rt_id ` set (upd_row rt_id k (\<lambda>t. t\<lparr>rt_revoked_at := x, rt_last_used_at := y\<rparr>) ts) = rt_id ` set ts"
    "rt_token_hash ` set (upd_row rt_id k (\<lambda>t. t\<lparr>rt_revoked_at := x, rt_last_used_at := y\<rparr>) ts) =
       rt_token_hash ` set ts" for k x y ts
    by (simp_all add: set_map [symmetric] map_key_upd_row del: set_map)
  from assms that show thesis
    by (auto simp: get_db_def account_answer_def refresh_def committing_def flushing_def db_commit_def
        rotate_def Let_def add_refresh_token_Inr keys
        split: prod.splits sum.splits option.splits if_splits)
qed

text \<open>
  C7: stealing a refresh token does not pay. Once a token has been rotated, presenting the old
  one again fails and ends the whole session: the token obtained by the rotation is refused
  from then on as well.
\<close>

theorem stolen_refresh_token_ends_session:
  assumes "accounts_inv base d"
    and "get_db (account_endpoint cr enc cfg (ARefresh dr now plain)) d = (Inr (ARefreshed rr), d1)"
    and "get_db (account_endpoint cr enc cfg (ARefresh dr' now' plain)) d1 = (r2, d2)"
    and "get_db (account_endpoint cr enc cfg (ARefresh dr'' now'' (rr_refresh_token rr))) d2 = (r3, d3)"
  shows "r2 = Inl TokenReused \<and> r3 = Inl TokenReused"
  using assms(2)
proof (rule refresh_rotates)
  fix row :: refresh_token and u :: user and till
  let ?rot = "\<lambda>t. t\<lparr>rt_revoked_at := Some now, rt_last_used_at := Some now\<rparr>"
  let ?new = "\<lparr>rt_id = dr_ids dr 0, rt_user_id = u_id u,
              rt_token_hash = hash_refresh_token cr (dr_refresh dr),
              rt_device_label = rt_device_label row, rt_issued_at = now, rt_last_used_at = None,
              rt_expires_at = now + td_days 7, rt_revoked_at = None\<rparr>"
  assume row: "get_row rt_token_hash (hash_refresh_token cr plain) (refresh_tokens d) = Some row"
    and u: "get_row u_id (rt_user_id row) (users d) = Some u"
    and fresh: "hash_refresh_token cr (dr_refresh dr) \<notin> rt_token_hash ` set (refresh_tokens d)"
    and rr: "ARefreshed rr = ARefreshed \<lparr>rr_access_token = fst (create_access_token enc cfg (dr_jti dr) now (u_id u) (u_role u)),
           rr_refresh_token = dr_refresh dr, rr_expires_in = till\<rparr>"
    and d1: "d1 = d\<lparr>refresh_tokens := upd_row rt_id (rt_id row) ?rot (refresh_tokens d) @ [?new]\<rparr>"
  have uid: "u_id u = rt_user_id row" using u by (rule get_row_SomeD)
  have inv1: "accounts_inv base d1"
    using acc.endpoint_keeps [OF assms(1), of cr enc cfg "ARefresh dr now plain"] assms(2) by simp
  have mem: "row \<in> set (refresh_tokens d)" and hash: "rt_token_hash row = hash_refresh_token cr plain"
    using get_row_SomeD [OF row] .
  have dist1: "distinct (map rt_token_hash (refresh_tokens d1))"
    using inv1 by (simp add: accounts_inv_def)
  have "?rot row \<in> set (refresh_tokens d1)"
    using mem by (simp add: d1 set_upd_row image_iff del: if_image_distrib) (metis)
  with dist1 have old: "get_row rt_token_hash (hash_refresh_token cr plain) (refresh_tokens d1) = Some (?rot row)"
    using get_row_eq_iff [OF dist1] hash by simp
  from refresh_reuse_revokes_all [OF old, of enc cfg dr' now'] assms(3)
  have r2: "r2 = Inl TokenReused" "d2 = revoke_all (rt_user_id row) now' d1" by simp_all
  have "get_row rt_token_hash (hash_refresh_token cr (dr_refresh dr)) (refresh_tokens d1) = Some ?new"
    using get_row_eq_iff [OF dist1] by (simp add: d1)
  then have new: "get_row rt_token_hash (hash_refresh_token cr (rr_refresh_token rr)) (refresh_tokens d2) =
      Some (?new\<lparr>rt_revoked_at := Some now'\<rparr>)"
    using rr by (simp add: r2(2) revoke_all_def get_row_update_where uid)
  have "r3 = Inl TokenReused"
    using refresh_reuse_revokes_all [OF new, of enc cfg dr'' now''] assms(4) by simp
  with r2 show ?thesis by simp
qed

definition sample_refresh_db :: db where
  "sample_refresh_db = sample_db\<lparr>refresh_tokens := [sample_token 70 ''a'']\<rparr>"

theorem stolen_refresh_token_ends_session_witness:
  "fst (get_db (account_endpoint sample_crypto Pair sample_settings (ARefresh (sample_draws 90 ''e'') 7 ''b''))
     (snd (get_db (account_endpoint sample_crypto Pair sample_settings (ARefresh (sample_draws 85 ''d'') 6 ''a''))
       (snd (get_db (account_endpoint sample_crypto Pair sample_settings (ARefresh (sample_draws 80 ''b'') 5 ''a''))
         sample_refresh_db))))) = Inl TokenReused"
proof -
  let ?ep = "account_endpoint sample_crypto Pair sample_settings"
  let ?o1 = "get_db (?ep (ARefresh (sample_draws 80 ''b'') 5 ''a'')) sample_refresh_db"
  let ?o2 = "get_db (?ep (ARefresh (sample_draws 85 ''d'') 6 ''a'')) (snd ?o1)"
  let ?o3 = "get_db (?ep (ARefresh (sample_draws 90 ''e'') 7 ''b'')) (snd ?o2)"
  have inv: "accounts_inv (u_id ` set (users sample_refresh_db)) sample_refresh_db"
    by (simp add: sample_refresh_db_def accounts_inv_def invites_inv_def sample_defs)
  have "\<exists>rr. fst ?o1 = Inr (ARefreshed rr) \<and> rr_refresh_token rr = ''b''"
    by (simp add: get_db_def account_answer_def refresh_def committing_def flushing_def db_commit_def
        rotate_def Let_def add_refresh_token_def sample_refresh_db_def sample_token_def sample_crypto_def
        sample_draws_def create_access_token_def timedelta_defs sample_defs)
  then obtain rr where "?o1 = (Inr (ARefreshed rr), snd ?o1)" and tok: "rr_refresh_token rr = ''b''"
    by (metis prod.collapse)
  from stolen_refresh_token_ends_session [OF inv this(1), of _ _ "fst ?o2" "snd ?o2" _ _ "fst ?o3" "snd ?o3"]
  show ?thesis by (simp add: tok)
qed

text \<open>
  A failed login tells nothing: an unknown address, a wrong password and a deactivated
  account all get the same answer, and the database is unchanged.
\<close>

theorem login_failures_indistinguishable:
  assumes "users_by_email d email = [] \<or> (\<exists>u. users_by_email d email = [u] \<and>
     (\<not> verify_password cr pw (u_password_hash u) \<or> \<not> u_is_active u))"
  shows "get_db (account_endpoint cr enc cfg (ALogin dr now email pw label)) d = (Inl InvalidCredentials, d)"
  using assms
  by (auto simp: get_db_def account_answer_def committing_def flushing_def login_def)

theorem login_failures_indistinguishable_witness:
  "get_db (account_endpoint sample_crypto Pair sample_settings
     (ALogin (sample_draws 80 ''r'') 5 ''nobody'' ''pw'' None)) sample_db = (Inl InvalidCredentials, sample_db)"
proof -
  have "users_by_email sample_db ''nobody'' = []"
    by (simp add: users_by_email_def sample_defs lower_def)
  then show ?thesis using login_failures_indistinguishable by blast
qed

text \<open>
  C22: signing up and logging in fit together: with a hasher that verifies what it hashed, the
  new account can log in with its password, in any spelling of its address that differs in
  case only.
\<close>

theorem signup_then_login:
  assumes "\<And>salt pw. verify_password cr pw (hash_password cr salt pw)"
    and "get_db (account_endpoint cr enc cfg (ASignup dr now req)) d = (Inr r, d1)"
    and "lower email = lower (sq_email req)"
    and "rt_id ` set (refresh_tokens d1) \<inter> {dr_ids dr' 0} = {}"
    and "hash_refresh_token cr (dr_refresh dr') \<notin> rt_token_hash ` set (refresh_tokens d1)"
  shows "\<exists>lr d2. get_db (account_endpoint cr enc cfg (ALogin dr' later email (sq_password req) label)) d1 =
      (Inr (ALoggedIn lr), d2) \<and> lr_user_id lr = dr_ids dr 0"
proof -
  from assms(2) obtain r' where s: "signup cr enc cfg dr now req d = (Inr r', d1)"
    by (auto simp: get_db_def account_answer_def committing_def flushing_def db_commit_def
        split: prod.splits sum.splits)
  have empty: "users_by_email d (sq_email req) = []"
  proof -
    have "users d0 = users d" if "consume_invite now tok ch d = (Inr il, d0)" for tok ch il d0
      using that by (rule consume_invite_success) simp
    with s show ?thesis
      by (auto simp: signup_def users_by_email_def scalar_one_or_none_cases Let_def
          split: if_splits prod.splits sum.splits option.splits)
  qed
  from s show ?thesis
  proof (rule signup_success)
    fix il role d0 and rt :: refresh_token
    let ?u = "new_user cr dr now req il role"
    assume "d1 = d0\<lparr>users := users d @ [?u],
            referrals := referrals d @ [\<lparr>rf_id = dr_ids dr 1, rf_referrer_id = il_issuer_id il,
                rf_referred_user_id = dr_ids dr 0, rf_invite_link_id = il_id il\<rparr>],
            refresh_tokens := refresh_tokens d @ [rt]\<rparr>"
    then have "users_by_email d1 email = [?u]"
      using empty assms(3) by (simp add: users_by_email_def new_user_def)
    then show ?thesis
      using assms(1,4,5)
      by (auto simp: get_db_def account_answer_def committing_def flushing_def db_commit_def login_def
          new_user_def create_refresh_token_row_def add_refresh_token_def build_login_response_def Let_def
          split: prod.splits)
  qed
qed

theorem signup_then_login_witness:
  "\<exists>lr d2. get_db (account_endpoint sample_crypto Pair sample_settings
      (ALogin (sample_draws 80 ''r2'') 99 ''NEW@x.io'' ''a long passphrase'' None))
      (run_endpoints (account_endpoint sample_crypto Pair sample_settings) sample_account_requests sample_db) =
      (Inr (ALoggedIn lr), d2) \<and> lr_user_id lr = 60"
proof -
  let ?ep = "account_endpoint sample_crypto Pair sample_settings"
  let ?d = "snd (get_db (?ep (AAdminInvite 50 ''inv'' 0 sample_admin ''driver'' 168)) sample_db)"
  let ?out = "get_db (?ep (ASignup (sample_draws 60 ''r1'') 10 sample_signup)) ?d"
  let ?d1 = "run_endpoints ?ep sample_account_requests sample_db"
  have d1: "snd ?out = ?d1" by (simp add: sample_account_requests_def)
  have "(case fst ?out of Inl e \<Rightarrow> False | Inr r \<Rightarrow> True)" by code_simp
  then obtain r where out: "?out = (Inr r, ?d1)"
    using d1 by (cases ?out) (auto split: sum.splits)
  have 1: "verify_password sample_crypto pw (hash_password sample_crypto salt pw)" for salt pw
    by (simp add: sample_crypto_def)
  have "map rt_id (refresh_tokens ?d1) = [62] \<and> map rt_token_hash (refresh_tokens ?d1) = [''r1'']"
    by code_simp
  then have 2: "rt_id ` set (refresh_tokens ?d1) = {62}" "rt_token_hash ` set (refresh_tokens ?d1) = {''r1''}"
    by (simp_all only: set_map [symmetric]) simp_all
  have 3: "lower ''NEW@x.io'' = lower (sq_email sample_signup)" by code_simp
  from signup_then_login [OF 1 out 3, of "sample_draws 80 ''r2''" 99 None] 2
  show ?thesis by (simp add: sample_draws_def sample_signup_def sample_crypto_def)
qed

text \<open>
  Rotation looks neither at the account's suspension nor at the configured lifetime: a
  suspended user's refresh token still yields a fresh access token, and the new refresh
  token always lasts seven days.
\<close>

theorem refresh_ignores_suspension_and_ttl:
  assumes "get_row rt_token_hash (hash_refresh_token cr plain) (refresh_tokens d) = Some row"
    and "rt_revoked_at row = None" and "now \<le> rt_expires_at row"
    and "get_row u_id (rt_user_id row) (users d) = Some u"
    and "u_deleted_at u = None" and "u_is_active u" and "u_disabled_at u = None"
    and "u_status u = USuspended"
    and "dr_ids dr 0 \<notin> rt_id ` set (refresh_tokens d)"
    and "hash_refresh_token cr (dr_refresh dr) \<notin> rt_token_hash ` set (refresh_tokens d)"
  shows "\<exists>rr d'. get_db (account_endpoint cr enc cfg (ARefresh dr now plain)) d = (Inr (ARefreshed rr), d') \<and>
    rr_access_token rr = fst (create_access_token enc cfg (dr_jti dr) now (u_id u) (u_role u)) \<and>
    rt_expires_at (last (refresh_tokens d')) = now + td_days 7"
proof -
  have keys: "rt_id ` set (upd_row rt_id k (\<lambda>t. t\<lparr>rt_revoked_at := x, rt_last_used_at := y\<rparr>) ts) = rt_id ` set ts"
    "rt_token_hash ` set (upd_row rt_id k (\<lambda>t. t\<lparr>rt_revoked_at := x, rt_last_used_at := y\<rparr>) ts) =
       rt_token_hash ` set ts" for k x y ts
    by (simp_all add: set_map [symmetric] map_key_upd_row del: set_map)
  show ?thesis
    using assms
    by (simp add: get_db_def account_answer_def refresh_def committing_def flushing_def db_commit_def
        rotate_def Let_def add_refresh_token_def keys split: prod.splits)
qed

theorem refresh_ignores_suspension_and_ttl_witness:
  "\<exists>rr d'. get_db (account_endpoint sample_crypto Pair sample_settings (ARefresh (sample_draws 80 ''b'') 5 ''a''))
     (sample_refresh_db\<lparr>users := [sample_customer\<lparr>u_status := USuspended\<rparr>]\<rparr>) = (Inr (ARefreshed rr), d')"
proof -
  let ?d = "sample_refresh_db\<lparr>users := [sample_customer\<lparr>u_status := USuspended\<rparr>]\<rparr>"
  let ?u = "sample_customer\<lparr>u_status := USuspended\<rparr>"
  have "get_row rt_token_hash (hash_refresh_token sample_crypto ''a'') (refresh_tokens ?d) = Some (sample_token 70 ''a'')"
    by (simp add: sample_crypto_def sample_token_def sample_refresh_db_def)
  moreover have "get_row u_id (rt_user_id (sample_token 70 ''a'')) (users ?d) = Some ?u"
    by (simp add: sample_token_def sample_customer_def sample_user_def)
  ultimately show ?thesis
    using refresh_ignores_suspension_and_ttl [of sample_crypto "''a''" ?d "sample_token 70 ''a''" 5 ?u
        "sample_draws 80 ''b''" Pair sample_settings]
    by (auto simp: sample_token_def sample_customer_def sample_user_def timedelta_defs sample_refresh_db_def
        sample_draws_def sample_crypto_def)
qed

end
