(* ===== verification/Admin_Properties.thy ===== *)
theory Admin_Properties
  imports Administration Catalogue_Properties Account_Properties "HOL-Library.Sublist"
begin

text \<open>
  Properties of the administrator's panel: searching and paging, suspension, moderation,
  analytics, and that its requests keep the invariants of the accounts and of the catalogue.
\<close>

section \<open>Searching\<close>

definition plain_char :: "char \<Rightarrow> bool" where
  "plain_char c \<longleftrightarrow> c \<noteq> CHR ''%'' \<and> c \<noteq> CHR ''_'' \<and> c \<noteq> CHR 0x5C"

lemma like_percent_end: "like ''%'' s"
  by (induction s) auto

lemma like_plain_prefix:
  "list_all plain_char q \<Longrightarrow> like (q @ ''%'') s \<longleftrightarrow> prefix q s"
proof (induction q arbitrary: s)
  case Nil
  show ?case using like_percent_end [of s] by simp
next
  case (Cons c q)
  then have IH: "like (q @ ''%'') t \<longleftrightarrow> prefix q t" for t by simp
  from Cons.prems have "c \<noteq> CHR ''%''" "c \<noteq> CHR ''_''" "c \<noteq> CHR 0x5C"
    by (simp_all add: plain_char_def)
  then show ?case by (cases s) (auto simp: IH)
qed

lemma like_contains:
  "list_all plain_char q \<Longrightarrow> like (''%'' @ q @ ''%'') s \<longleftrightarrow> sublist q s"
proof (induction s)
  case Nil
  then show ?case using like_plain_prefix [of q "[]"] by simp
next
  case (Cons c s)
  then show ?case
    using like_plain_prefix [of q "c # s"] by (simp add: sublist_Cons_right)
qed

lemma plain_lower: "list_all plain_char q \<Longrightarrow> list_all plain_char (lower q)"
proof (induction q)
  case (Cons c q)
  have "plain_char (lower_char c)" if "plain_char c" for c
  proof (cases "65 \<le> (of_char c :: nat) \<and> (of_char c :: nat) \<le> 90")
    case True
    then have "(of_char (lower_char c) :: nat) = of_char c + 32"
      by (simp add: lower_char_def Let_def)
    with True show ?thesis by (auto simp: plain_char_def)
  next
    case False
    then have "lower_char c = c" by (auto simp: lower_char_def Let_def)
    with that show ?thesis by simp
  qed
  with Cons show ?case by (simp add: lower_def)
qed (simp add: lower_def)

text \<open>
  For a search text without wildcards, the pattern matches exactly the texts that contain
  it, without regard to case.
\<close>

theorem search_finds_substrings:
  assumes "list_all plain_char q"
  shows "ilike (contains_pattern q) s \<longleftrightarrow> sublist (lower q) (lower s)"
proof -
  have "lower (contains_pattern q) = ''%'' @ lower q @ ''%''"
    by (simp add: contains_pattern_def lower_def lower_char_def)
  then show ?thesis
    unfolding ilike_def by (simp only: like_contains [OF plain_lower [OF assms]])
qed

theorem search_finds_substrings_witness:
  "ilike (contains_pattern ''Ann'') ''joanna@x'' \<longleftrightarrow> sublist (lower ''Ann'') (lower ''joanna@x'')"
  by (rule search_finds_substrings) (simp add: plain_char_def)

section \<open>Paging\<close>

lemma admin_page_paging: "cursor_paging key rs (admin_page key rs limit)"
proof
  fix c t
  have pos: "0 < clamp_limit limit" by (simp add: clamp_limit_def)
  show "\<exists>n. fst (admin_page key rs limit c) = take n (rows_before key rs c)"
    by (auto simp: admin_page_def Let_def min_def)
  show "fst (admin_page key rs limit c) = rows_before key rs c"
    if "snd (admin_page key rs limit c) = None"
    using that pos by (auto simp: admin_page_def Let_def min_def split: if_splits)
  show "fst (admin_page key rs limit c) \<noteq> [] \<and> t = key (last (fst (admin_page key rs limit c)))"
    if "snd (admin_page key rs limit c) = Some t"
    using that by (auto simp: admin_page_def Let_def split: if_splits)
qed

interpretation user_list: cursor_paging u_created_at "matching_users d q role status"
  "list_users d q role status limit" for d q role status limit
  unfolding list_users_def by (rule admin_page_paging)

interpretation product_list: cursor_paging p_created_at "matching_products d q status seller_id"
  "list_products d q status seller_id limit" for d q status seller_id limit
  unfolding list_products_def by (rule admin_page_paging)

interpretation order_list: cursor_paging o_placed_at "matching_orders d status"
  "admin_list_orders d status limit" for d status limit
  unfolding admin_list_orders_def by (rule admin_page_paging)

lemma follow_from_start:
  "length (filter P rows) < Suc (length rows)" "rows_before key rs None = order_desc key rs"
  by (simp_all add: rows_before_def before_cursor_def less_Suc_eq_le)

text \<open>
  C32: an administrator who follows the cursors of the user list is shown every matching user
  once, newest first, whatever the page size, when no two accounts were created at the same
  instant.
\<close>

theorem user_list_complete:
  assumes "distinct (map u_created_at (users d))"
  shows "follow_cursors (Suc (length (users d))) (list_users d q role status limit) None =
    order_desc u_created_at (matching_users d q role status)"
proof -
  have "distinct (map u_created_at (matching_users d q role status))"
    unfolding matching_users_def using assms by (rule distinct_map_filter)
  moreover have "length (rows_before u_created_at (matching_users d q role status) None) <
      Suc (length (users d))"
    unfolding follow_from_start(2) length_order_desc matching_users_def by (rule follow_from_start(1))
  ultimately have "follow_cursors (Suc (length (users d))) (list_users d q role status limit) None =
      rows_before u_created_at (matching_users d q role status) None"
    by (rule user_list.follow_all)
  then show ?thesis by (simp only: follow_from_start(2))
qed

theorem user_list_complete_witness:
  "follow_cursors 3 (list_users (empty_db\<lparr>users := [sample_admin, sample_seller\<lparr>u_created_at := 5\<rparr>]\<rparr>)
     None None None 1) None = [sample_seller\<lparr>u_created_at := 5\<rparr>, sample_admin]"
proof -
  let ?d = "empty_db\<lparr>users := [sample_admin, sample_seller\<lparr>u_created_at := 5\<rparr>]\<rparr>"
  have "distinct (map u_created_at (users ?d))" by (simp add: sample_defs)
  moreover have "Suc (length (users ?d)) = 3" by simp
  moreover have "order_desc u_created_at (matching_users ?d None None None) =
      [sample_seller\<lparr>u_created_at := 5\<rparr>, sample_admin]"
    by (simp add: matching_users_def search_ok_def order_desc_def sample_defs)
  ultimately show ?thesis using user_list_complete [of ?d None None None 1] by (simp only:)
qed

section \<open>Suspension\<close>

lemma live_userD:
  "live_user d uid = Inr u \<Longrightarrow> get_row u_id uid (users d) = Some u \<and> u_deleted_at u = None"
  by (auto simp: live_user_def split: option.splits if_splits)

lemma suspend_userD:
  assumes "suspend_user now uid reason d = (Inr u, d')"
  shows "d' = set_user uid (suspended now reason) d" and "get_row u_id uid (users d') = Some u"
    and "u_status u = USuspended"
  using assms by (auto simp: suspend_user_def set_user_def get_row_upd_row suspended_def
      dest!: live_userD split: sum.splits)

lemma get_current_userD:
  "get_current_user dec cfg t cred d = Inr v \<Longrightarrow>
   get_row u_id (u_id v) (users d) = Some v \<and> u_status v \<noteq> USuspended"
  by (auto simp: get_current_user_def split: option.splits sum.splits if_splits)
    (metis get_row_SomeD(2))

text \<open>
  C31: from the moment an administrator suspends an account, no access token opens a request as
  that user.
\<close>

theorem suspension_locks_out:
  assumes "suspend_user now uid reason d = (Inr u, d')"
    and "get_current_user dec cfg t cred d' = Inr v"
  shows "u_id v \<noteq> uid"
  using get_current_userD [OF assms(2)] suspend_userD [OF assms(1)] by auto

theorem suspension_locks_out_witness: "u_id sample_admin \<noteq> 4"
proof -
  let ?tok = "fst (create_access_token Pair sample_settings ''j'' 0 1 Admin)"
  have "suspend_user 7 4 ''spam'' sample_db = (Inr (suspended 7 ''spam'' sample_driver),
      snd (suspend_user 7 4 ''spam'' sample_db))"
    by (simp add: suspend_user_def live_user_def sample_defs)
  moreover have "get_current_user toy_dec sample_settings 5 (Some ?tok)
      (snd (suspend_user 7 4 ''spam'' sample_db)) = Inr sample_admin"
    by (simp add: get_current_user_def decode_access_token_def suspend_user_def live_user_def
        set_user_def create_access_token_def toy_dec_def sample_settings_def jwt_signing_key_def
        jwt_verification_keys_def Let_def sample_defs timedelta_defs numeric_date_def encoded_def
        from_timestamp_def)
  ultimately show ?thesis by (rule suspension_locks_out)
qed

text \<open>
  Suspending an account that was in good standing and restoring it leaves the database as
  it was.
\<close>

theorem unsuspend_undoes_suspend:
  assumes "distinct (map u_id (users d))" and "get_row u_id uid (users d) = Some u"
    and "u_status u = UActive" and "u_suspended_at u = None" and "u_suspended_reason u = None"
    and "suspend_user now uid reason d = (Inr v, d')"
  shows "snd (unsuspend_user uid d') = d"
proof -
  note susp = suspend_userD [OF assms(6)]
  have live: "u_deleted_at u = None"
    using assms(2,6) by (auto simp: suspend_user_def dest!: live_userD split: sum.splits)
  have undo: "unsuspended (suspended now reason u) = u"
    using assms(3-5) by (simp add: unsuspended_def suspended_def)
  have "users (set_user uid unsuspended d') = users d"
    unfolding susp(1) set_user_def upd_row_def update_where_def
    using get_row_SomeD [OF assms(2)] assms(1) undo
    by (auto simp: suspended_def intro!: map_idI dest: distinct_key_eq)
  moreover have "live_user d' uid = Inr (suspended now reason u)"
    using live assms(2) unfolding susp(1)
    by (simp add: live_user_def set_user_def get_row_upd_row suspended_def)
  ultimately show ?thesis
    unfolding susp(1) by (simp add: unsuspend_user_def set_user_def)
qed

theorem unsuspend_undoes_suspend_witness:
  "snd (unsuspend_user 4 (snd (suspend_user 7 4 ''spam'' sample_db))) = sample_db"
proof -
  have "suspend_user 7 4 ''spam'' sample_db = (Inr (suspended 7 ''spam'' sample_driver),
      snd (suspend_user 7 4 ''spam'' sample_db))"
    by (simp add: suspend_user_def live_user_def sample_defs)
  from unsuspend_undoes_suspend [OF _ _ _ _ _ this, of sample_driver] show ?thesis
    by (simp add: sample_defs)
qed

section \<open>Moderation\<close>

definition moderated :: "uuid \<Rightarrow> time \<Rightarrow> string \<Rightarrow> product \<Rightarrow> product" where
  "moderated pid now reason p = (if p_id p = pid then disabled now reason p else p)"

lemma moderated_fields [simp]:
  "p_id (moderated pid now reason p) = p_id p" "p_seller_id (moderated pid now reason p) = p_seller_id p"
  "p_store_id (moderated pid now reason p) = p_store_id p" "p_name (moderated pid now reason p) = p_name p"
  "p_price_minor (moderated pid now reason p) = p_price_minor p"
  "p_stock_quantity (moderated pid now reason p) = p_stock_quantity p"
  "p_is_active (moderated pid now reason p) = p_is_active p"
  "p_deleted_at (moderated pid now reason p) = p_deleted_at p"
  "p_created_at (moderated pid now reason p) = p_created_at p"
  by (simp_all add: moderated_def disabled_def)

lemma disable_productD:
  assumes "disable_product now pid reason d = (Inr p, d')"
  shows "d' = d\<lparr>products := map (moderated pid now reason) (products d)\<rparr>"
    and "p_status p = PDisabled"
  using assms
  by (auto simp: disable_product_def set_product_def upd_row_def update_where_def disabled_def
      moderated_def cong: map_cong split: sum.splits)

lemma get_row_map:
  "(\<And>r. key (g r) = key r) \<Longrightarrow> get_row key k (map g rows) = map_option g (get_row key k rows)"
  by (induction rows) auto

lemma insort_key_map:
  "(\<And>r. key (g r) = key r) \<Longrightarrow> insort_key key (g x) (map g rows) = map g (insort_key key x rows)"
  by (induction rows) auto

lemma sort_key_map:
  "(\<And>r. key (g r) = key r) \<Longrightarrow> sort_key key (map g rows) = map g (sort_key key rows)"
  by (induction rows) (simp_all add: insort_key_map)

lemma check_products_moderated:
  "check_products (map (moderated pid now reason) ps) m = check_products ps m"
  by (induction m) (auto simp: get_row_map split: option.split)

lemma order_subtotal_moderated:
  "order_subtotal (map (moderated pid now reason) ps) m = order_subtotal ps m"
proof -
  have "product_price (map (moderated pid now reason) ps) k = product_price ps k" for k
    by (simp add: product_price_def get_row_map split: option.split)
  then show ?thesis by (simp add: order_subtotal_def)
qed

lemma add_order_items_moderated:
  "add_order_items fresh n oid (map (moderated pid now reason) ps) m (d\<lparr>products := P\<rparr>) =
   (case add_order_items fresh n oid ps m d of (r, d1) \<Rightarrow> (r, d1\<lparr>products := P\<rparr>))"
proof (induction m arbitrary: n d)
  case (Cons e m)
  show ?case
  proof (cases "get_row p_id (fst e) ps")
    case (Some p)
    let ?d = "d\<lparr>order_items := order_items d @
      [\<lparr>oi_id = fresh n, oi_order_id = oid, oi_product_id = Some (p_id p),
        oi_product_name_snapshot = p_name p, oi_unit_price_minor_snapshot = p_price_minor p,
        oi_quantity = snd e\<rparr>]\<rparr>"
    have swap: "d\<lparr>products := P, order_items := is\<rparr> = d\<lparr>order_items := is, products := P\<rparr>" for "is"
      by simp
    from Some Cons [of "Suc n" ?d] show ?thesis by (simp add: get_row_map swap)
  qed (simp add: get_row_map)
qed simp

lemma fst_reload_products: "fst (reload oid (d\<lparr>products := P\<rparr>)) = fst (reload oid d)"
  by (simp add: reload_def load_order_full_def split: option.split)

lemma locked_products_moderated:
  "locked_products (d\<lparr>products := map (moderated pid now reason) (products d)\<rparr>) items =
   map (moderated pid now reason) (locked_products d items)"
  by (simp add: locked_products_def sort_key_map filter_map comp_def)

lemma create_order_moderated:
  "fst (create_order fresh t c items addr (d\<lparr>products := map (moderated pid now reason) (products d)\<rparr>)) =
   fst (create_order fresh t c items addr d)"
proof -
  let ?g = "moderated pid now reason"
  let ?ps = "locked_products d items"
  have placed: "fst (case add_order_items fresh n oid (map ?g ?ps) m
        (d\<lparr>products := P, orders := rows\<rparr>) of (Inl e, d2) \<Rightarrow> (Inl e, d2) | (Inr _, d2) \<Rightarrow> reload oid d2) =
      fst (case add_order_items fresh n oid ?ps m
        (d\<lparr>products := Q, orders := rows\<rparr>) of (Inl e, d2) \<Rightarrow> (Inl e, d2) | (Inr _, d2) \<Rightarrow> reload oid d2)"
    for n oid m P Q rows
  proof -
    have same: "(d\<lparr>products := Q, orders := rows\<rparr>)\<lparr>products := P\<rparr> = d\<lparr>products := P, orders := rows\<rparr>"
      by simp
    obtain r d1 where "add_order_items fresh n oid ?ps m (d\<lparr>products := Q, orders := rows\<rparr>) = (r, d1)"
      by fastforce
    moreover from this have "add_order_items fresh n oid (map ?g ?ps) m (d\<lparr>products := P, orders := rows\<rparr>) =
        (r, d1\<lparr>products := P\<rparr>)"
      using add_order_items_moderated [of fresh n oid pid now reason ?ps m
          P "d\<lparr>products := Q, orders := rows\<rparr>"] unfolding same by simp
    ultimately show ?thesis by (cases r) (simp_all add: fst_reload_products)
  qed
  have hd: "p_store_id (hd (map ?g ?ps)) = p_store_id (hd ?ps)" if "?ps \<noteq> []"
    using that by (cases ?ps) auto
  have nonempty: "?ps \<noteq> []" if "length (remdups (map p_seller_id ?ps)) = 1" using that by auto
  show ?thesis
    unfolding create_order_def Let_def locked_products_moderated
    by (auto simp: check_products_moderated order_subtotal_moderated placed hd nonempty comp_def image_image
        split: option.split sum.split)
qed

lemma order_desc_map:
  "(\<And>r. key (g r) = key r) \<Longrightarrow> order_desc key (map g rows) = map g (order_desc key rows)"
  by (simp add: order_desc_def sort_key_map)

lemma listing_moderated:
  assumes "\<And>p. Q (moderated pid now reason p) = Q p"
  shows "map p_id (take n (order_desc p_created_at (filter Q (map (moderated pid now reason) ps)))) =
    map p_id (take n (order_desc p_created_at (filter Q ps)))"
proof -
  have "filter Q (map (moderated pid now reason) ps) = map (moderated pid now reason) (filter Q ps)"
    using assms by (simp add: filter_map comp_def)
  then show ?thesis by (simp add: order_desc_map take_map comp_def)
qed

lemma list_products_moderated:
  "map_sum id (map p_id) (list_products_for_caller
     (d\<lparr>products := map (moderated pid now reason) (products d)\<rparr>) c store_id seller_id limit) =
   map_sum id (map p_id) (list_products_for_caller d c store_id seller_id limit)"
proof -
  have sees: "customer_sees (d\<lparr>products := P\<rparr>) c = customer_sees d c" for P
    by (simp add: customer_sees_def fun_eq_iff)
  have seller: "get_caller_seller (d\<lparr>products := P\<rparr>) c = get_caller_seller d c" for P
    by (simp add: get_caller_seller_def caller_seller_rows_def)
  have "customer_sees d c (moderated pid now reason p) = customer_sees d c p" for p
    by (simp add: customer_sees_def split: option.split)
  then show ?thesis
    by (cases "u_role c") (auto simp: list_products_for_caller_def Let_def sees seller
        listing_moderated split: sum.split)
qed

text \<open>
  Disabling a product changes its status and nothing else that matters: every caller is
  listed the same products, and an order of it is answered exactly as before.
\<close>

theorem disabled_product_still_sold:
  assumes "disable_product now pid reason d = (Inr p, d')"
  shows "map_sum id (map p_id) (list_products_for_caller d' c store_id seller_id limit) =
      map_sum id (map p_id) (list_products_for_caller d c store_id seller_id limit) \<and>
    fst (create_order fresh t c items addr d') = fst (create_order fresh t c items addr d)"
  unfolding disable_productD(1) [OF assms]
  by (intro conjI list_products_moderated create_order_moderated)

theorem disabled_product_still_sold_witness:
  "\<exists>f. fst (create_order (\<lambda>n. 100 + n) 1000 sample_customer [(20, 1)] sample_address
     (snd (disable_product 9 20 ''fake'' sample_db))) = Inr f"
proof -
  have "disable_product 9 20 ''fake'' sample_db =
      (Inr (disabled 9 ''fake'' (sample_product 20 150 (Some 5))), snd (disable_product 9 20 ''fake'' sample_db))"
    by (simp add: disable_product_def live_product_def sample_defs)
  note same = disabled_product_still_sold [OF this, of sample_customer None None 20 "\<lambda>n. 100 + n" 1000
      "[(20, 1)]" sample_address]
  have "case fst (create_order (\<lambda>n. 100 + n) 1000 sample_customer [(20, 1)] sample_address sample_db) of
      Inl e \<Rightarrow> False | Inr f \<Rightarrow> True"
    by code_simp
  then show ?thesis using same by (simp split: sum.splits)
qed

section \<open>Analytics\<close>

lemma sum_over_sellers:
  assumes "distinct sids" and "sn_seller_id ` set sns \<subseteq> set sids"
  shows "(\<Sum>sid\<leftarrow>sids. \<Sum>sn\<leftarrow>filter (\<lambda>sn. sn_seller_id sn = sid) sns. f sn) = (\<Sum>sn\<leftarrow>sns. f sn :: 'a :: comm_monoid_add)"
  using assms(2)
proof (induction sns)
  case (Cons sn sns)
  have "(\<Sum>sid\<leftarrow>sids. \<Sum>x\<leftarrow>filter (\<lambda>x. sn_seller_id x = sid) (sn # sns). f x) =
      (\<Sum>sid\<leftarrow>sids. (if sid = sn_seller_id sn then f sn else 0) +
         (\<Sum>x\<leftarrow>filter (\<lambda>x. sn_seller_id x = sid) sns. f x))"
    by (intro arg_cong [where f = sum_list] map_cong) auto
  also have "\<dots> = (\<Sum>sid\<leftarrow>sids. if sid = sn_seller_id sn then f sn else 0) + (\<Sum>x\<leftarrow>sns. f x)"
    using Cons by (simp add: sum_list_addf)
  also have "(\<Sum>sid\<leftarrow>sids. if sid = sn_seller_id sn then f sn else 0) = f sn"
    using assms(1) Cons.prems by (simp add: sum_list_distinct_conv_sum_set sum.delta)
  finally show ?case by simp
qed simp

lemma length_as_sum: "length xs = (\<Sum>x\<leftarrow>xs. 1)"
  by (induction xs) simp_all

text \<open>
  C30: the overview of the administrator and the dashboards of the sellers agree: the platform's
  turnover and number of orders are the sums of the sellers' lifetime figures.
\<close>

theorem overview_sums_dashboards:
  assumes "distinct (map s_id (sellers d))"
    and "sn_seller_id ` set (snapshots d) \<subseteq> s_id ` set (sellers d)"
  shows "an_total_gmv_minor (get_analytics_overview now d) =
      (\<Sum>s\<leftarrow>sellers d. db_lifetime_sales_amount (dashboard_of t d (s_id s))) \<and>
    an_orders_count (get_analytics_overview now d) =
      (\<Sum>s\<leftarrow>sellers d. db_lifetime_orders_count (dashboard_of t d (s_id s)))"
  using sum_over_sellers [OF assms(1), of "snapshots d" sn_total_minor]
    sum_over_sellers [OF assms(1), of "snapshots d" "\<lambda>_. 1 :: nat"] assms(2)
  by (simp add: get_analytics_overview_def dashboard_of_def seller_snapshots_def comp_def
      length_as_sum del: sum_list_replicate sum_list_triv)

theorem overview_sums_dashboards_witness:
  "an_total_gmv_minor (get_analytics_overview 9000 (sample_state 7)) =
     (\<Sum>s\<leftarrow>sellers (sample_state 7). db_lifetime_sales_amount (dashboard_of 0 (sample_state 7) (s_id s)))"
proof -
  have "map s_id (sellers (sample_state 7)) = [2]" and "map sn_seller_id (snapshots (sample_state 7)) = [2]"
    by code_simp+
  then have "distinct (map s_id (sellers (sample_state 7)))"
    and "sn_seller_id ` set (snapshots (sample_state 7)) \<subseteq> s_id ` set (sellers (sample_state 7))"
    by (simp, metis list.set_map subset_refl)
  from overview_sums_dashboards [OF this] show ?thesis by blast
qed

text \<open>
  Without the materialised view, the best sellers are listed with their dashboard figures,
  by falling revenue, at most a hundred.
\<close>

theorem top_sellers_match_dashboards:
  assumes "e \<in> set (get_top_sellers [] d limit)"
  shows "ts_lifetime_revenue_minor e = db_lifetime_sales_amount (dashboard_of t d (ts_seller_id e)) \<and>
    ts_lifetime_order_count e = db_lifetime_orders_count (dashboard_of t d (ts_seller_id e)) \<and>
    length (get_top_sellers [] d limit) \<le> 100 \<and>
    sorted_wrt (\<lambda>a b. ts_lifetime_revenue_minor b \<le> ts_lifetime_revenue_minor a) (get_top_sellers [] d limit)"
proof -
  have top: "get_top_sellers [] d limit = snapshot_entries d (clamp_limit limit)"
    by (simp add: get_top_sellers_def rollup_entries_def order_desc_def)
  have "clamp_limit limit \<le> 100" by (simp add: clamp_limit_def)
  moreover have "ts_lifetime_revenue_minor e = db_lifetime_sales_amount (dashboard_of t d (ts_seller_id e)) \<and>
      ts_lifetime_order_count e = db_lifetime_orders_count (dashboard_of t d (ts_seller_id e))"
    using assms unfolding top snapshot_entries_def
    by (auto simp: dashboard_of_def dest!: in_set_takeD)
  ultimately show ?thesis
    unfolding top snapshot_entries_def by (simp add: sorted_wrt_take sorted_order_desc)
qed

theorem top_sellers_match_dashboards_witness:
  "ts_lifetime_revenue_minor (hd (get_top_sellers [] (sample_state 7) 10)) =
     db_lifetime_sales_amount (dashboard_of 0 (sample_state 7) 2)"
proof -
  have "map ts_seller_id (get_top_sellers [] (sample_state 7) 10) = [2]" by code_simp
  then have "hd (get_top_sellers [] (sample_state 7) 10) \<in> set (get_top_sellers [] (sample_state 7) 10)"
    and "ts_seller_id (hd (get_top_sellers [] (sample_state 7) 10)) = 2"
    by auto
  from top_sellers_match_dashboards [OF this(1), of 0] this(2) show ?thesis by simp
qed

text \<open>
  With rows in the materialised view the answer does not depend on the snapshots: sales since
  the last refresh are missing from it.
\<close>

theorem top_sellers_as_of_refresh:
  assumes "rollup_entries d rollups (clamp_limit limit) \<noteq> []"
  shows "get_top_sellers rollups (d\<lparr>snapshots := sns\<rparr>) limit = get_top_sellers rollups d limit"
proof -
  have "rollup_entries (d\<lparr>snapshots := sns\<rparr>) rollups n = rollup_entries d rollups n" for n
    by (simp add: rollup_entries_def)
  with assms show ?thesis by (simp add: get_top_sellers_def)
qed

theorem top_sellers_as_of_refresh_witness:
  "get_top_sellers [(2, 5, 1)] (sample_db\<lparr>snapshots := []\<rparr>) 10 = get_top_sellers [(2, 5, 1)] sample_db 10"
  by (rule top_sellers_as_of_refresh)
    (simp add: rollup_entries_def order_desc_def clamp_limit_def sample_defs)

section \<open>The requests keep the invariants\<close>

lemma issue_is_create:
  assumes "u_role issuer = Admin" and "parse_role role = Some r"
  shows "issue_admin_invite new_id token now issuer role days d =
    create_admin_invite new_id token now issuer role (24 * days) d"
  using assms by (simp add: issue_admin_invite_def create_admin_invite_def td_days_def)

text \<open>What an administrator's request does: one account, one product, or one new link.\<close>

lemma exec_admin_cases:
  assumes "exec_admin q d = (Inr a, d')"
  obtains (account) uid f where "d' = set_user uid f d" "\<And>u. u_id (f u) = u_id u"
      "\<And>u. u_role (f u) = u_role u" "\<And>u. u_referring_seller_id (f u) = u_referring_seller_id u"
  | (product) pid f where "d' = set_product pid f d" "\<And>p. p_id (f p) = p_id p"
      "\<And>p sts. product_ok sts (f p) = product_ok sts p"
  | (invite) i tok now c role h r where "create_admin_invite i tok now c role h d = (Inr r, d')"
proof (cases q)
  case (SuspendUser now c uid reason)
  with assms show thesis
    by (intro account [of uid "suspended now reason"])
      (auto simp: suspend_user_def suspended_def admin_answer_def split: sum.splits if_splits)
next
  case (UnsuspendUser c uid)
  with assms show thesis
    by (intro account [of uid unsuspended])
      (auto simp: unsuspend_user_def unsuspended_def admin_answer_def split: sum.splits if_splits)
next
  case (IssueInvite i tok now c role days)
  from IssueInvite assms obtain r x where "u_role c = Admin" "parse_role role = Some x"
    "issue_admin_invite i tok now c role days d = (Inr r, d')"
    by (auto simp: require_roles_def admin_answer_def map_sum_Inr prod_eq_iff issue_admin_invite_def
        split: sum.splits if_splits option.splits)
  then show thesis using invite issue_is_create by metis
next
  case (DisableProduct now c pid reason)
  with assms show thesis
    by (intro product [of pid "disabled now reason"])
      (auto simp: disable_product_def disabled_def product_ok_def product_columns_ok_def
        product_checks_ok_def admin_answer_def split: sum.splits if_splits)
next
  case (RestoreProduct c pid)
  with assms show thesis
    by (intro product [of pid restored])
      (auto simp: restore_product_def restored_def product_ok_def product_columns_ok_def
        product_checks_ok_def admin_answer_def split: sum.splits if_splits)
qed

lemma catalogue_inv_tables:
  "sellers d' = sellers d \<Longrightarrow> stores d' = stores d \<Longrightarrow> products d' = products d \<Longrightarrow>
   product_images d' = product_images d \<Longrightarrow> catalogue_inv d' = catalogue_inv d"
  by (simp add: catalogue_inv_def)

lemma catalogue_inv_set_product:
  assumes "catalogue_inv d" and "\<And>p. p_id (f p) = p_id p"
    and "\<And>p sts. product_ok sts p \<Longrightarrow> product_ok sts (f p)"
  shows "catalogue_inv (set_product pid f d)"
  using assms
  by (auto simp: catalogue_inv_def row_simps set_upd_row image_image simp del: if_image_distrib)

interpretation administration: transactional exec_admin "\<lambda>d. accounts_inv base d \<and> catalogue_inv d"
  for base
proof
  fix d q a d'
  assume inv: "accounts_inv base d \<and> catalogue_inv d" and run: "exec_admin q d = (Inr a, d')"
  from run show "accounts_inv base d' \<and> catalogue_inv d'"
  proof (cases rule: exec_admin_cases)
    case (account uid f)
    with inv show ?thesis
      by (auto simp: set_user_def intro: accounts_inv_users catalogue_inv_tables [THEN iffD1, rotated 4])
  next
    case (product pid f)
    have "accounts_inv base d'"
      using inv unfolding product(1) by (simp add: set_product_def accounts_inv_def invites_inv_def invited_user_def)
    with product inv show ?thesis by (auto intro: catalogue_inv_set_product)
  next
    case (invite i tok now c role h r)
    then have "\<exists>ls. d' = d\<lparr>invite_links := ls\<rparr>"
      by (auto simp: create_admin_invite_def Let_def add_invite_Inr
          split: if_splits option.splits prod.splits sum.splits)
    then have "catalogue_inv d' = catalogue_inv d" by (intro catalogue_inv_tables) auto
    with invite inv show ?thesis by (blast intro: create_admin_invite_ainv)
  qed
qed

end
