(* ===== verification/Marketplace.thy ===== *)
theory Marketplace
  imports Delivery_Flow Tracking Admin_Properties
begin

text \<open>
  The families of requests that share the order, catalogue and account tables, put together:
  order requests, the driver flow, tracking, the catalogue and the administrator's panel, served
  in any order. The invariants of the components hold jointly, because each family either keeps
  an invariant or leaves its tables alone.
\<close>

section \<open>Everything that writes orders\<close>

datatype (plugins only: code) delivery_request =
  OrderRequest order_request | FlowRequest flow_request | TrackingRequest tracking_request

definition done_with :: "'a res \<times> db \<Rightarrow> unit res \<times> db" where
  "done_with out = (map_sum id (\<lambda>_. ()) (fst out), snd out)"

lemma done_with_Inr: "done_with out = (Inr a, d') \<longleftrightarrow> (\<exists>r. out = (Inr r, d'))"
  by (cases out) (auto simp: done_with_def map_sum_Inr)

primrec exec_delivery :: "(string \<Rightarrow> string) \<Rightarrow> delivery_request \<Rightarrow> db \<Rightarrow> unit res \<times> db" where
  "exec_delivery h (OrderRequest q) d = done_with (exec_order q d)"
| "exec_delivery h (FlowRequest q) d = done_with (exec_flow h q d)"
| "exec_delivery h (TrackingRequest q) d = done_with (exec_tracking q d)"

interpretation delivery: transactional "exec_delivery h" orders_inv for h
proof
  fix d q a d'
  assume "orders_inv d" and "exec_delivery h q d = (Inr a, d')"
  then show "orders_inv d'"
    by (cases q) (auto simp: done_with_Inr intro: os.success_keeps flow.success_keeps
        tracking.success_keeps)
qed

section \<open>What they leave alone\<close>

lemma outside_flow_tables [simp]:
  "outside_orders (set_delivery oid f d) = outside_orders d"
  "outside_orders (set_code oid g d) = outside_orders d"
  "outside_orders (archive_messages oid now d) = outside_orders d"
  "outside_orders (d\<lparr>delivery_codes := cs\<rparr>) = outside_orders d"
  "outside_orders (d\<lparr>delivery_code_attempts := ats\<rparr>) = outside_orders d"
  "outside_orders (d\<lparr>order_tracking_points := tps\<rparr>) = outside_orders d"
  "outside_orders (d\<lparr>order_messages := ms\<rparr>) = outside_orders d"
  "outside_orders (d\<lparr>deliveries := dls\<rparr>) = outside_orders d"
  by (simp_all add: outside_orders_def set_delivery_def set_code_def archive_messages_def)

lemma claim_delivery_outside:
  "claim_delivery new_id driver ord d = (Inr u, d') \<Longrightarrow> outside_orders d' = outside_orders d"
  by (auto simp: claim_delivery_def add_delivery_Inr split: option.splits)

lemma driver_accept_outside:
  assumes "driver_accept h n new_id now driver oid d = (Inr r, d')"
  shows "outside_orders d' = outside_orders d"
proof (cases r)
  case (Pair k code)
  from assms show ?thesis unfolding Pair
    by (cases rule: driver_accept_success) (auto dest: claim_delivery_outside)
qed

lemma exec_flow_outside:
  assumes "exec_flow h q d = (Inr r, d')"
  shows "outside_orders d' = outside_orders d"
  using assms
  by (cases q) (auto dest: driver_accept_outside elim!: record_location_success
      complete_delivery_success post_order_message_success)

lemma exec_tracking_outside:
  assumes "exec_tracking q d = (Inr r, d')"
  shows "outside_orders d' = outside_orders d"
  using assms
  by (cases q; cases r) (auto elim!: post_location_success admin_patch_delivery_success)

lemma exec_delivery_outside:
  assumes "exec_delivery h q d = (Inr a, d')"
  shows "outside_orders d' = outside_orders d \<or>
    (\<exists>fresh now c items addr f. create_order fresh now c items addr d = (Inr f, d'))"
  using assms
  by (cases q) (auto simp: done_with_Inr dest: exec_order_outside exec_flow_outside exec_tracking_outside)

section \<open>Placing an order and the catalogue\<close>

lemma create_order_outside:
  assumes "create_order fresh now c items addr d = (Inr f, d')"
  shows "users d' = users d" "invite_links d' = invite_links d" "referrals d' = referrals d"
    "refresh_tokens d' = refresh_tokens d" "sellers d' = sellers d" "stores d' = stores d"
    "product_images d' = product_images d"
  using assms by (auto elim: create_order_success)

lemma create_order_quantity:
  assumes "create_order fresh now c items addr d = (Inr f, d')"
  shows "0 \<le> total_qty items k"
  using assms
proof (rule create_order_success)
  fix rows
  assume rows: "map (\<lambda>i. (oi_product_id i, oi_quantity i)) rows =
      map (\<lambda>e. (Some (fst e), snd e)) (qty_by_id items)"
    and pos: "\<forall>i \<in> set rows. oi_order_id i = fresh 0 \<and> 0 < oi_quantity i"
  show ?thesis
  proof (cases "k \<in> fst ` set items")
    case True
    then have "k \<in> fst ` set (qty_by_id items)" by (simp only: qty_by_id_keys)
    then obtain q where q: "(k, q) \<in> set (qty_by_id items)" by auto
    then have "(Some k, q) \<in> set (map (\<lambda>e. (Some (fst e), snd e)) (qty_by_id items))"
      by (auto intro!: rev_image_eqI)
    then have "(Some k, q) \<in> set (map (\<lambda>i. (oi_product_id i, oi_quantity i)) rows)"
      by (simp only: rows)
    then have "0 < q" using pos by auto
    then show ?thesis by (simp add: qty_by_id_entry [OF q, symmetric])
  qed (simp add: total_qty_absent)
qed

lemma create_order_catalogue_inv:
  assumes inv: "catalogue_inv d" and run: "create_order fresh now c items addr d = (Inr f, d')"
  shows "catalogue_inv d'"
proof -
  note dist = catalogue_invD(6) [OF inv]
  have products: "products d' = map (\<lambda>p. take_stock (total_qty items (p_id p)) p) (products d)"
    using run by (rule create_order_products)
  have ok: "product_ok (stores d) (take_stock (total_qty items (p_id p)) p)" if p: "p \<in> set (products d)" for p
  proof -
    have "product_ok (stores d) p" using inv p by (rule catalogue_invD)
    moreover have "total_qty items (p_id p) \<le> s" if "p_stock_quantity p = Some s" for s
    proof (cases "p_id p \<in> fst ` set items")
      case True
      with create_order_enough [OF run dist p] that show ?thesis by blast
    next
      case False
      with \<open>product_ok (stores d) p\<close> that show ?thesis
        by (simp add: total_qty_absent product_ok_def product_checks_ok_def)
    qed
    ultimately show ?thesis
      using create_order_quantity [OF run, of "p_id p"]
      by (cases "p_stock_quantity p")
        (auto simp: product_ok_def product_columns_ok_def product_checks_ok_def take_stock_def int4_def)
  qed
  have "map p_id (products d') = map p_id (products d)" by (simp add: products)
  moreover have "p_id ` set (products d') = p_id ` set (products d)"
    using calculation by (metis list.set_map)
  moreover have "product_ok (stores d) p" if "p \<in> set (products d')" for p
    using that ok by (auto simp: products)
  ultimately show ?thesis
    using inv create_order_outside [OF run] by (simp add: catalogue_inv_def)
qed

section \<open>The joint invariant\<close>

definition market_inv :: "uuid set \<Rightarrow> db \<Rightarrow> bool" where
  "market_inv base d \<longleftrightarrow> orders_inv d \<and> catalogue_inv d \<and> accounts_inv base d"

lemma accounts_inv_tables:
  "users d' = users d \<Longrightarrow> invite_links d' = invite_links d \<Longrightarrow> referrals d' = referrals d \<Longrightarrow>
   refresh_tokens d' = refresh_tokens d \<Longrightarrow> accounts_inv base d' = accounts_inv base d"
  by (simp add: accounts_inv_def invites_inv_def invited_user_def)

lemma orders_inv_tables:
  "orders d' = orders d \<Longrightarrow> deliveries d' = deliveries d \<Longrightarrow> snapshots d' = snapshots d \<Longrightarrow>
   driver_assignments d' = driver_assignments d \<Longrightarrow> orders_inv d' = orders_inv d"
  by (simp add: orders_inv_def assignments_inv_def active_assignments_def)

lemma catalogue_step_frame:
  assumes "catalogue_step c d d'"
  shows "orders_inv d' = orders_inv d" "accounts_inv base d' = accounts_inv base d"
  using assms
  by (cases; intro orders_inv_tables accounts_inv_tables;
      simp add: set_city_def set_store_def set_product_def split: option.split)+

lemma exec_delivery_frame:
  assumes "exec_delivery h q d = (Inr a, d')"
  shows "accounts_inv base d' = accounts_inv base d" and "catalogue_inv d \<Longrightarrow> catalogue_inv d'"
proof -
  from exec_delivery_outside [OF assms]
  have "accounts_inv base d' = accounts_inv base d \<and> (catalogue_inv d \<longrightarrow> catalogue_inv d')"
  proof (elim disjE exE)
    assume "outside_orders d' = outside_orders d"
    then show ?thesis
      by (auto simp: outside_orders_def accounts_inv_tables [of d' d] catalogue_inv_tables [of d' d])
  next
    fix fresh now c items addr f
    assume run: "create_order fresh now c items addr d = (Inr f, d')"
    from create_order_outside [OF run] have "accounts_inv base d' = accounts_inv base d"
      by (intro accounts_inv_tables)
    with create_order_catalogue_inv [OF _ run] show ?thesis by blast
  qed
  then show "accounts_inv base d' = accounts_inv base d" and "catalogue_inv d \<Longrightarrow> catalogue_inv d'"
    by blast+
qed

lemma exec_admin_orders_inv:
  assumes "exec_admin q d = (Inr a, d')"
  shows "orders_inv d' = orders_inv d"
  using assms
proof (cases rule: exec_admin_cases)
  case (invite i tok now c role h r)
  then have "\<exists>ls. d' = d\<lparr>invite_links := ls\<rparr>"
    by (auto simp: create_admin_invite_def Let_def add_invite_Inr
        split: if_splits option.splits prod.splits sum.splits)
  then show ?thesis by (intro orders_inv_tables) auto
qed (intro orders_inv_tables; simp add: set_user_def set_product_def)+

section \<open>All requests\<close>

datatype (plugins only: code) market_request =
  DeliverySide delivery_request | CatalogueSide catalogue_request | AdminSide admin_request

primrec exec_market :: "(string \<Rightarrow> string) \<Rightarrow> market_request \<Rightarrow> db \<Rightarrow> unit res \<times> db" where
  "exec_market h (DeliverySide q) d = exec_delivery h q d"
| "exec_market h (CatalogueSide q) d = done_with (exec_catalogue q d)"
| "exec_market h (AdminSide q) d = done_with (exec_admin q d)"

interpretation market: transactional "exec_market h" "market_inv base" for h base
proof
  fix d q a d'
  assume inv: "market_inv base d" and run: "exec_market h q d = (Inr a, d')"
  show "market_inv base d'"
  proof (cases q)
    case (DeliverySide q')
    with run have "exec_delivery h q' d = (Inr a, d')" by simp
    with inv show ?thesis
      unfolding market_inv_def using delivery.success_keeps exec_delivery_frame by blast
  next
    case (CatalogueSide q')
    with run obtain r where r: "exec_catalogue q' d = (Inr r, d')" by (auto simp: done_with_Inr)
    have "catalogue_step (caller_of q') d d'"
      using r catalogue_invD(6) inv by (intro exec_catalogue_step) (auto simp: market_inv_def)
    with inv show ?thesis
      unfolding market_inv_def using catalogue_step_frame catalogue_step_inv by blast
  next
    case (AdminSide q')
    with run obtain r where r: "exec_admin q' d = (Inr r, d')" by (auto simp: done_with_Inr)
    with inv show ?thesis
      unfolding market_inv_def using administration.success_keeps exec_admin_orders_inv by blast
  qed
qed

end
