(* ===== verification/Order_Children.thy ===== *)
theory Order_Children
  imports Marketplace
begin

text \<open>
  The tables that hang off an order: line items, deliveries, driver assignments, tracking points,
  chat messages, delivery codes and the attempts at them. Their rows refer to existing orders, an
  order's line items add up to its total, and every request of the marketplace keeps it so.
\<close>

section \<open>Tables with a parent\<close>

definition child_table :: "('r \<Rightarrow> uuid) \<Rightarrow> ('r \<Rightarrow> uuid) \<Rightarrow> uuid set \<Rightarrow> 'r list \<Rightarrow> bool" where
  "child_table key parent ids rows \<longleftrightarrow> distinct (map key rows) \<and> parent ` set rows \<subseteq> ids"

lemma child_table_snoc:
  "child_table key parent ids rows \<Longrightarrow> key r \<notin> key ` set rows \<Longrightarrow> parent r \<in> ids \<Longrightarrow>
   child_table key parent ids (rows @ [r])"
  by (auto simp: child_table_def)

lemma child_table_mono: "child_table key parent ids rows \<Longrightarrow> ids \<subseteq> ids' \<Longrightarrow> child_table key parent ids' rows"
  by (auto simp: child_table_def)

lemma child_table_delete:
  "child_table key parent ids rows \<Longrightarrow>
   child_table key parent (ids - {k}) (delete_where (\<lambda>r. parent r = k) rows)"
  by (auto simp: child_table_def distinct_delete_where)

lemma child_table_update:
  "(\<And>r. p r \<Longrightarrow> key (f r) = key r \<and> parent (f r) = parent r) \<Longrightarrow>
   child_table key parent ids (update_where p f rows) = child_table key parent ids rows"
  by (simp add: child_table_def map_key_update_where set_map [symmetric] del: set_map)

lemma child_table_upd_row:
  "(\<And>r. key (f r) = key r \<and> parent (f r) = parent r) \<Longrightarrow>
   child_table key parent ids (upd_row key' k f rows) = child_table key parent ids rows"
  by (simp add: upd_row_def child_table_update)

section \<open>The invariant\<close>

definition order_ids :: "db \<Rightarrow> uuid set" where
  "order_ids d = o_id ` set (orders d)"

definition items_total :: "uuid \<Rightarrow> order_item list \<Rightarrow> int" where
  "items_total oid items =
     sum_list (map (\<lambda>i. oi_unit_price_minor_snapshot i * oi_quantity i)
       (filter (\<lambda>i. oi_order_id i = oid) items))"

definition order_paid_for :: "order_item list \<Rightarrow> uuid \<times> int \<times> int \<Rightarrow> bool" where
  "order_paid_for items head \<longleftrightarrow>
     (case head of (oid, sub, tot) \<Rightarrow>
        oid \<in> oi_order_id ` set items \<and> sub = items_total oid items \<and> tot = sub)"

definition head_of :: "order_row \<Rightarrow> uuid \<times> int \<times> int" where
  "head_of r = (o_id r, o_subtotal_minor r, o_total_minor r)"

definition items_ok :: "db \<Rightarrow> bool" where
  "items_ok d \<longleftrightarrow> child_table oi_id oi_order_id (order_ids d) (order_items d) \<and>
     (\<forall>i \<in> set (order_items d). 0 < oi_quantity i) \<and>
     (\<forall>head \<in> set (map head_of (orders d)). order_paid_for (order_items d) head)"

definition fulfilment_ok :: "db \<Rightarrow> bool" where
  "fulfilment_ok d \<longleftrightarrow> child_table d_id d_order_id (order_ids d) (deliveries d) \<and>
     child_table a_id a_order_id (order_ids d) (driver_assignments d)"

definition flow_ok :: "db \<Rightarrow> bool" where
  "flow_ok d \<longleftrightarrow> child_table tp_id tp_order_id (order_ids d) (order_tracking_points d) \<and>
     child_table om_id om_order_id (order_ids d) (order_messages d) \<and>
     child_table dc_order_id dc_order_id (order_ids d) (delivery_codes d) \<and>
     child_table ca_id ca_order_id (order_ids d) (delivery_code_attempts d)"

definition children_ok :: "db \<Rightarrow> bool" where
  "children_ok d \<longleftrightarrow> items_ok d \<and> fulfilment_ok d \<and> flow_ok d"

section \<open>Steps that keep the orders\<close>

text \<open>The orders keep their identifiers and totals and the line items stay.\<close>

definition heads_kept :: "db \<Rightarrow> db \<Rightarrow> bool" where
  "heads_kept d d' \<longleftrightarrow> map head_of (orders d') = map head_of (orders d) \<and> order_items d' = order_items d"

definition flow_tables ::
  "db \<Rightarrow> order_tracking_point list \<times> order_message list \<times> delivery_code list \<times>
    delivery_code_attempt list" where
  "flow_tables d = (order_tracking_points d, order_messages d, delivery_codes d, delivery_code_attempts d)"

definition plain_step :: "db \<Rightarrow> db \<Rightarrow> bool" where
  "plain_step d d' \<longleftrightarrow> heads_kept d d' \<and> flow_tables d' = flow_tables d \<and>
     (fulfilment_ok d \<longrightarrow> fulfilment_ok d')"

lemma heads_kept_ids: "heads_kept d d' \<Longrightarrow> order_ids d' = order_ids d"
proof -
  assume "heads_kept d d'"
  then have "fst ` set (map head_of (orders d')) = fst ` set (map head_of (orders d))"
    by (simp add: heads_kept_def)
  then show ?thesis by (simp add: order_ids_def head_of_def image_image)
qed

lemma heads_kept_items: "heads_kept d d' \<Longrightarrow> items_ok d' = items_ok d"
  unfolding items_ok_def using heads_kept_ids [of d d'] by (simp add: heads_kept_def)

lemma heads_kept_refl [simp]: "heads_kept d d"
  by (simp add: heads_kept_def)

lemma heads_kept_trans: "heads_kept a b \<Longrightarrow> heads_kept b c \<Longrightarrow> heads_kept a c"
  by (simp add: heads_kept_def)

lemma plain_step_keeps: "plain_step d d' \<Longrightarrow> children_ok d \<Longrightarrow> children_ok d'"
  using heads_kept_items [of d d'] heads_kept_ids [of d d']
  by (simp add: plain_step_def children_ok_def flow_ok_def flow_tables_def)

lemma plain_step_refl [simp]: "plain_step d d"
  by (simp add: plain_step_def)

lemma plain_step_trans: "plain_step a b \<Longrightarrow> plain_step b c \<Longrightarrow> plain_step a c"
  by (auto simp: plain_step_def heads_kept_def)

lemma heads_kept_set_order:
  "(\<And>r. head_of (f r) = head_of r) \<Longrightarrow> heads_kept d (set_order oid f d)"
  by (simp add: heads_kept_def set_order_def map_key_upd_row)

text \<open>What the tables of other components are does not matter.\<close>

lemma plain_step_tables:
  "orders d' = orders d \<Longrightarrow> order_items d' = order_items d \<Longrightarrow> deliveries d' = deliveries d \<Longrightarrow>
   driver_assignments d' = driver_assignments d \<Longrightarrow> flow_tables d' = flow_tables d \<Longrightarrow> plain_step d d'"
  by (simp add: plain_step_def heads_kept_def fulfilment_ok_def order_ids_def)

lemma plain_step_set_order:
  assumes "\<And>r. head_of (f r) = head_of r"
  shows "plain_step d (set_order oid f d)"
proof -
  have "heads_kept d (set_order oid f d)" using assms by (rule heads_kept_set_order)
  with heads_kept_ids [OF this] show ?thesis
    by (simp add: plain_step_def flow_tables_def fulfilment_ok_def) (simp add: set_order_def)
qed

lemma plain_step_set_delivery:
  "(\<And>r. d_id (f r) = d_id r \<and> d_order_id (f r) = d_order_id r) \<Longrightarrow> plain_step d (set_delivery oid f d)"
  by (simp add: plain_step_def heads_kept_def flow_tables_def fulfilment_ok_def set_delivery_def
      order_ids_def child_table_upd_row)

lemma plain_step_add_delivery:
  "d_id dl \<notin> d_id ` set (deliveries d) \<Longrightarrow> d_order_id dl \<in> order_ids d \<Longrightarrow>
   plain_step d (d\<lparr>deliveries := deliveries d @ [dl]\<rparr>)"
  by (simp add: plain_step_def heads_kept_def flow_tables_def fulfilment_ok_def order_ids_def
      child_table_snoc)

lemma plain_step_assignments:
  "(child_table a_id a_order_id (order_ids d) (driver_assignments d) \<Longrightarrow>
    child_table a_id a_order_id (order_ids d) as) \<Longrightarrow>
   plain_step d (d\<lparr>driver_assignments := as\<rparr>)"
  by (simp add: plain_step_def heads_kept_def flow_tables_def fulfilment_ok_def order_ids_def)

lemma get_row_order_ids: "get_row o_id oid (orders d) = Some ord \<Longrightarrow> oid \<in> order_ids d"
  by (auto simp: order_ids_def dest: get_row_SomeD)

section \<open>Order requests\<close>

lemma simple_transitions_plain:
  "accept_order now c oid d = (Inr r, d') \<Longrightarrow> plain_step d d'"
  "mark_preparing now c oid d = (Inr r, d') \<Longrightarrow> plain_step d d'"
  by (auto dest!: accept_order_success(2) mark_preparing_success(2)
      intro!: plain_step_set_order simp: head_of_def)

lemma choose_self_delivery_plain:
  assumes "choose_self_delivery i c oid d = (Inr r, d')"
  shows "plain_step d d'"
  using assms
  by (rule choose_self_delivery_success)
    (auto dest!: fulfilment_guard_Inr(2) intro!: plain_step_add_delivery
      simp: new_delivery_def get_row_order_ids)

lemma request_driver_plain:
  assumes "request_driver i now c oid d = (Inr r, d')"
  shows "plain_step d d'"
  using assms
  by (rule request_driver_success)
    (auto dest!: fulfilment_guard_Inr(2) intro!: plain_step_assignments child_table_snoc
      simp: get_row_order_ids)

lemma assign_driver_plain:
  assumes "assign_driver now c oid drv d = (Inr r, d')"
  shows "plain_step d d'"
  using assms
  by (rule assign_driver_success) (auto intro!: plain_step_assignments simp: child_table_upd_row)

lemma start_delivery_plain:
  assumes "start_delivery i s c ord d = (Inr u, d')" and "get_row o_id oid (orders d) = Some ord"
  shows "plain_step d d'"
proof -
  have "o_id ord \<in> order_ids d" using assms(2) by (auto simp: order_ids_def dest: get_row_SomeD)
  with start_delivery_success [OF assms(1)] show ?thesis
    by (auto simp: new_delivery_def intro!: plain_step_add_delivery plain_step_set_delivery)
qed

lemma out_for_delivery_plain:
  assumes "out_for_delivery i s now c oid d = (Inr r, d')"
  shows "plain_step d d'"
  using assms
proof (rule out_for_delivery_success)
  fix ord d1
  assume ord: "get_row o_id oid (orders d) = Some ord" and d1: "start_delivery i s c ord d = (Inr (), d1)"
    and d': "d' = set_order oid (\<lambda>r. r\<lparr>o_status := OutForDelivery, o_out_for_delivery_at := Some now\<rparr>) d1"
  have "plain_step d1 d'" unfolding d' by (rule plain_step_set_order) (simp add: head_of_def)
  with start_delivery_plain [OF d1 ord] show ?thesis by (rule plain_step_trans)
qed

lemma mark_delivered_plain:
  assumes "mark_delivered now c oid d = (Inr r, d')"
  shows "plain_step d d'"
  using assms
proof (rule mark_delivered_success)
  let ?d = "set_order oid (\<lambda>r. r\<lparr>o_status := Delivered, o_delivered_at := Some now\<rparr>) d"
  assume d': "d' = set_delivery oid (stamp_delivered now) ?d"
  have "plain_step d ?d" by (rule plain_step_set_order) (simp add: head_of_def)
  moreover have "plain_step ?d d'"
    unfolding d' by (rule plain_step_set_delivery) (simp add: stamp_delivered_def Let_def split: option.split)
  ultimately show ?thesis by (rule plain_step_trans)
qed

lemma write_snapshot_plain: "write_snapshot i now ord d = (Inr u, d') \<Longrightarrow> plain_step d d'"
  by (auto dest!: write_snapshot_success intro!: plain_step_tables simp: flow_tables_def)

lemma complete_order_plain:
  assumes "complete_order i now c oid d = (Inr r, d')"
  shows "plain_step d d'"
  using assms
proof (rule complete_order_success)
  fix ord
  let ?d = "set_order oid (\<lambda>r. r\<lparr>o_status := Completed, o_completed_at := Some now\<rparr>) d"
  assume "write_snapshot i now (ord\<lparr>o_status := Completed, o_completed_at := Some now\<rparr>) ?d = (Inr (), d')"
  then have "plain_step ?d d'" by (rule write_snapshot_plain)
  moreover have "plain_step d ?d" by (rule plain_step_set_order) (simp add: head_of_def)
  ultimately show ?thesis using plain_step_trans by blast
qed

lemma cancel_order_plain:
  assumes "cancel_order now c oid why d = (Inr r, d')"
  shows "plain_step d d'"
  using assms
proof (rule cancel_order_success)
  let ?f = "\<lambda>r. r\<lparr>o_status := Cancelled, o_cancelled_at := Some now, o_cancellation_reason := why\<rparr>"
  let ?d = "set_order oid ?f d"
  assume d': "d' = ?d\<lparr>driver_assignments := update_where (\<lambda>a. a_order_id a = oid \<and> is_active_assignment a)
      (\<lambda>a. a\<lparr>a_status := ACancelled\<rparr>) (driver_assignments d)\<rparr>"
  have "plain_step d ?d" by (rule plain_step_set_order) (simp add: head_of_def)
  moreover have "plain_step ?d d'"
    unfolding d' by (rule plain_step_assignments) (simp add: set_order_def child_table_update)
  ultimately show ?thesis by (rule plain_step_trans)
qed

lemma retention_settings_plain: "get_retention_settings d = (ps, d1) \<Longrightarrow> plain_step d d1"
  by (auto simp: get_retention_settings_def flow_tables_def split: option.splits intro!: plain_step_tables)

lemma update_retention_settings_plain:
  assumes "update_retention_settings c m g d = (Inr ps, d')"
  shows "plain_step d d'"
  using assms by (auto elim!: update_retention_settings_row intro!: plain_step_tables simp: flow_tables_def)

section \<open>Placing an order\<close>

lemma items_total_append:
  "items_total oid (xs @ ys) = items_total oid xs + items_total oid ys"
  by (simp add: items_total_def)

lemma items_total_none: "oid \<notin> oi_order_id ` set items \<Longrightarrow> items_total oid items = 0"
proof -
  assume "oid \<notin> oi_order_id ` set items"
  then have "filter (\<lambda>i. oi_order_id i = oid) items = []" by (auto simp: filter_empty_conv)
  then show ?thesis by (simp add: items_total_def)
qed

lemma items_total_all:
  "\<forall>i \<in> set items. oi_order_id i = oid \<Longrightarrow>
   items_total oid items = sum_list (map (\<lambda>i. oi_unit_price_minor_snapshot i * oi_quantity i) items)"
  by (simp add: items_total_def)

lemma order_paid_for_more:
  assumes "order_paid_for items head" and "fst head \<notin> oi_order_id ` set rows"
  shows "order_paid_for (items @ rows) head"
  using assms items_total_none [OF assms(2)]
  by (auto simp: order_paid_for_def items_total_append split: prod.splits)

lemma create_order_children:
  assumes ok: "children_ok d" and run: "create_order fresh now c items addr d = (Inr f, d')"
  shows "children_ok d'"
  using run
proof (rule create_order_success)
  fix seller rows
  let ?ps = "locked_products d items" and ?m = "qty_by_id items" and ?oid = "fresh 0"
  let ?ord = "new_order ?oid c seller (p_store_id (hd ?ps)) (order_subtotal ?ps ?m) addr now"
  assume new: "?oid \<notin> o_id ` set (orders d)" and nonempty: "items \<noteq> []"
    and keys: "map (\<lambda>i. (oi_product_id i, oi_quantity i)) rows = map (\<lambda>e. (Some (fst e), snd e)) ?m"
    and rows: "\<forall>i \<in> set rows. oi_order_id i = ?oid \<and> 0 < oi_quantity i"
    and tot: "sum_list (map (\<lambda>i. oi_unit_price_minor_snapshot i * oi_quantity i) rows) = order_subtotal ?ps ?m"
    and d': "d' = d\<lparr>products := decrement_stock ?m (products d), orders := orders d @ [?ord],
            order_items := order_items d @ rows\<rparr>"
    and dist: "distinct (map oi_id (order_items d)) \<longrightarrow> distinct (map oi_id (order_items d @ rows))"
  have ids: "order_ids d' = insert ?oid (order_ids d)" by (auto simp: order_ids_def d' new_order_def)
  have "?m \<noteq> []" using nonempty qty_by_id_keys [of items] by (cases items) auto
  then have "length rows \<noteq> 0" using arg_cong [OF keys, of length] by simp
  then have ne: "rows \<noteq> []" by simp
  have old: "oi_order_id ` set (order_items d) \<subseteq> order_ids d"
    using ok by (simp add: children_ok_def items_ok_def child_table_def)
  with new have none: "items_total ?oid (order_items d) = 0"
    by (intro items_total_none) (auto simp: order_ids_def)
  have "?oid \<in> oi_order_id ` set rows" using ne rows by (cases rows) auto
  moreover have "items_total ?oid rows = order_subtotal ?ps ?m"
    using items_total_all [of rows ?oid] rows tot by simp
  ultimately have "order_paid_for (order_items d @ rows) (head_of ?ord)"
    using none by (auto simp: order_paid_for_def head_of_def new_order_def items_total_append)
  moreover have "order_paid_for (order_items d @ rows) (head_of r)" if "r \<in> set (orders d)" for r
  proof (rule order_paid_for_more)
    show "order_paid_for (order_items d) (head_of r)" using ok that by (simp add: children_ok_def items_ok_def)
    show "fst (head_of r) \<notin> oi_order_id ` set rows" using rows new imageI [OF that, of o_id] by (auto simp: head_of_def)
  qed
  moreover have "child_table oi_id oi_order_id (order_ids d') (order_items d @ rows)"
    using ok dist old rows by (auto simp: children_ok_def items_ok_def child_table_def ids)
  ultimately have "items_ok d'"
    using ok rows by (auto simp: items_ok_def children_ok_def d')
  moreover have "fulfilment_ok d'" "flow_ok d'"
    using ok unfolding children_ok_def fulfilment_ok_def flow_ok_def ids
    by (auto simp: d' intro: child_table_mono)
  ultimately show ?thesis by (simp add: children_ok_def)
qed

section \<open>Removing orders\<close>

lemma items_total_delete:
  "oid \<noteq> k \<Longrightarrow> items_total oid (delete_where (\<lambda>i. oi_order_id i = k) items) = items_total oid items"
proof -
  assume "oid \<noteq> k"
  then have "filter (\<lambda>i. oi_order_id i = oid) (delete_where (\<lambda>i. oi_order_id i = k) items) =
      filter (\<lambda>i. oi_order_id i = oid) items"
    by (auto simp: delete_where_def intro: filter_cong)
  then show ?thesis by (simp add: items_total_def)
qed

lemma delete_order_row_children:
  assumes "children_ok d"
  shows "children_ok (delete_order_row oid d)"
proof -
  have ids: "order_ids (delete_order_row oid d) = order_ids d - {oid}" by (auto simp: order_ids_def)
  have "order_paid_for (delete_where (\<lambda>i. oi_order_id i = oid) (order_items d)) (head_of r)"
    if "r \<in> set (orders d)" "o_id r \<noteq> oid" for r
  proof -
    have "order_paid_for (order_items d) (head_of r)"
      using assms that(1) by (simp add: children_ok_def items_ok_def)
    with that(2) show ?thesis
      by (auto simp: order_paid_for_def head_of_def items_total_delete)
  qed
  then show ?thesis
    using assms unfolding children_ok_def items_ok_def fulfilment_ok_def flow_ok_def ids
    by (auto simp: delete_order_row_def intro: child_table_delete)
qed

lemma delete_order_children:
  assumes "children_ok d" and "delete_order i now c oid d = (Inr u, d')"
  shows "children_ok d'"
  using assms(2)
proof (rule delete_order_success)
  fix ord t ps d1 d2
  assume ps: "get_retention_settings d = (ps, d1)"
    and w: "(if o_status ord = Completed then write_snapshot i now ord d1 else (Inr (), d1)) = (Inr (), d2)"
    and d': "d' = delete_order_row oid d2"
  have "children_ok d1" using retention_settings_plain [OF ps] assms(1) by (rule plain_step_keeps)
  moreover have "plain_step d1 d2" using w by (auto dest: write_snapshot_plain split: if_splits)
  ultimately show ?thesis unfolding d' by (intro delete_order_row_children) (rule plain_step_keeps)
qed

lemma completed_head [simp]: "head_of (completed now r) = head_of r"
  by (simp add: head_of_def completed_def)

lemma auto_complete_loop_plain:
  "auto_complete_loop fresh n now ords d = (Inr k, d') \<Longrightarrow> plain_step d d'"
proof (induction ords arbitrary: n d k)
  case (Cons ord ords)
  have "plain_step d (set_order (o_id ord) (completed now) d)" by (rule plain_step_set_order) simp
  then show ?case
    using Cons by (auto split: if_splits prod.splits sum.splits
        dest!: write_snapshot_plain intro: plain_step_trans)
qed simp

lemma purge_loop_children:
  "purge_loop fresh n now ords d = (Inr k, d') \<Longrightarrow> children_ok d \<Longrightarrow> children_ok d'"
proof (induction ords arbitrary: n d k)
  case (Cons ord ords)
  from Cons.prems(1) obtain d1 k' where
    w: "(if o_status ord = Completed then write_snapshot (fresh n) now ord d else (Inr (), d)) = (Inr (), d1)"
    and rest: "purge_loop fresh (Suc n) now ords (delete_order_row (o_id ord) d1) = (Inr k', d')"
    by (auto split: prod.splits sum.splits)
  have "plain_step d d1" using w by (auto dest: write_snapshot_plain split: if_splits)
  then have "children_ok d1" using Cons.prems(2) by (rule plain_step_keeps)
  with Cons.IH [OF rest] show ?case by (simp add: delete_order_row_children)
qed simp

lemma run_purge_job_children:
  assumes "children_ok d" and "run_purge_job f f' s s' now d = (Inr c, d')"
  shows "children_ok d'"
proof (cases "get_retention_settings d")
  case (Pair ps d0)
  with assms(2) obtain k d1 k' where
    "auto_complete_loop f 0 now (filter (auto_complete_due s
        (now - td_hours (ps_order_auto_complete_grace_hours ps))) (orders d0)) d0 = (Inr k, d1)"
    "purge_loop f' 0 now (filter (purge_due s' (now - td_days (ps_retention_min_days ps))) (orders d1)) d1 =
       (Inr k', d')"
    by (auto simp: run_purge_job_def Let_def split: prod.splits sum.splits)
  with retention_settings_plain [OF Pair] assms(1) show ?thesis
    by (blast intro: purge_loop_children plain_step_keeps dest: auto_complete_loop_plain)
qed

lemma exec_order_children:
  assumes "children_ok d" and "exec_order q d = (Inr r, d')"
  shows "children_ok d'"
  using assms
  by (cases q) (auto intro: create_order_children delete_order_children run_purge_job_children
      dest!: simple_transitions_plain choose_self_delivery_plain request_driver_plain assign_driver_plain
        out_for_delivery_plain mark_delivered_plain complete_order_plain cancel_order_plain
        update_retention_settings_plain dest: plain_step_keeps)

section \<open>The driver flow and tracking\<close>

text \<open>Rows of existing orders added to the flow's tables, next to a plain step.\<close>

lemma children_ok_flow:
  assumes "children_ok d" and "heads_kept d d'" and "fulfilment_ok d \<Longrightarrow> fulfilment_ok d'"
    and "flow_ok d \<Longrightarrow> flow_ok d'"
  shows "children_ok d'"
  using assms heads_kept_items [OF assms(2)] by (simp add: children_ok_def)

lemma claim_delivery_plain:
  assumes "claim_delivery i drv ord d = (Inr u, d')" and "o_id ord \<in> order_ids d"
  shows "plain_step d d'"
  using assms
  by (auto simp: claim_delivery_def add_delivery_Inr new_delivery_def split: option.splits
      intro!: plain_step_add_delivery plain_step_set_delivery)

lemma driver_accept_children:
  assumes ok: "children_ok d" and run: "driver_accept h n i now drv oid d = (Inr r, d')"
  shows "children_ok d'"
proof (cases r)
  case (Pair k code)
  from run show ?thesis unfolding Pair
  proof (cases rule: driver_accept_success)
    case (fresh ord d2)
    let ?d = "set_order oid (\<lambda>r. r\<lparr>o_driver_accepted_at := Some now\<rparr>) d"
    have "plain_step d ?d" by (rule plain_step_set_order) (simp add: head_of_def)
    then have ok1: "children_ok ?d" and ids: "order_ids ?d = order_ids d"
      using ok plain_step_keeps heads_kept_ids by (auto simp: plain_step_def)
    have oid: "oid \<in> order_ids d" "o_id ord = oid"
      using get_row_order_ids [OF fresh(1)] get_row_SomeD [OF fresh(1)] by simp_all
    have known: "o_id ord \<in> order_ids ?d" unfolding ids oid(2) by (rule oid(1))
    have step: "plain_step ?d d2" using fresh(4) known by (rule claim_delivery_plain)
    then have ok2: "children_ok d2" using ok1 by (rule plain_step_keeps)
    have "oid \<in> order_ids d2" using step oid(1) ids heads_kept_ids by (auto simp: plain_step_def)
    with ok2 show ?thesis
      unfolding fresh(8) fresh(7)
      using fresh(5)
      by (auto simp: children_ok_def items_ok_def fulfilment_ok_def flow_ok_def order_ids_def new_code_def
          Let_def intro!: child_table_snoc)
  qed (use ok in simp)
qed

lemma record_location_children:
  assumes ok: "children_ok d" and run: "record_location i now drv oid lat lng d = (Inr p, d')"
  shows "children_ok d'"
  using run
proof (rule record_location_success)
  fix ord
  let ?d = "d\<lparr>order_tracking_points := order_tracking_points d @ [p]\<rparr>"
  assume ord: "get_row o_id oid (orders d) = Some ord" and p: "tp_order_id p = oid"
    and new: "tp_id p \<notin> tp_id ` set (order_tracking_points d)"
    and d': "d' = set_delivery oid (\<lambda>r. r\<lparr>d_current_lat := Some lat, d_current_lng := Some lng\<rparr>) ?d"
  have "children_ok ?d"
    using ok new get_row_order_ids [OF ord]
    by (auto simp: children_ok_def items_ok_def fulfilment_ok_def flow_ok_def order_ids_def p
        intro!: child_table_snoc)
  then show ?thesis
    unfolding d' by (intro plain_step_keeps [OF plain_step_set_delivery]) simp_all
qed

lemma complete_delivery_children:
  assumes ok: "children_ok d" and run: "complete_delivery h i now drv oid code d = (Inr r, d')"
  shows "children_ok d'"
  using run
proof (rule complete_delivery_success)
  fix ord c attempt
  let ?d = "set_order oid (delivered_by_code now) d"
  assume ord: "get_row o_id oid (orders d) = Some ord" and a: "ca_order_id attempt = oid"
    and new: "ca_id attempt \<notin> ca_id ` set (delivery_code_attempts d)"
    and d': "d' = archive_messages oid now (set_order oid (delivered_by_code now)
            (set_code oid (\<lambda>c. c\<lparr>dc_consumed_at := Some now\<rparr>) d))
          \<lparr>delivery_code_attempts := delivery_code_attempts d @ [attempt]\<rparr>"
  have "heads_kept d ?d" by (rule heads_kept_set_order) (simp add: head_of_def delivered_by_code_def)
  then have kept: "heads_kept d d'"
    by (simp add: d' heads_kept_def archive_messages_def set_order_def set_code_def)
  show ?thesis
  proof (rule children_ok_flow [OF ok kept])
    show "fulfilment_ok d \<Longrightarrow> fulfilment_ok d'"
      by (simp add: fulfilment_ok_def heads_kept_ids [OF kept])
        (simp add: d' archive_messages_def set_order_def set_code_def)
    assume flow: "flow_ok d"
    then have "child_table ca_id ca_order_id (order_ids d) (delivery_code_attempts d @ [attempt])"
      using new get_row_order_ids [OF ord] by (simp add: flow_ok_def a child_table_snoc)
    with flow show "flow_ok d'"
      unfolding flow_ok_def heads_kept_ids [OF kept]
      by (simp add: d' archive_messages_def set_order_def set_code_def child_table_update
          child_table_upd_row)
  qed
qed

lemma post_order_message_children:
  assumes ok: "children_ok d" and run: "post_order_message i now s oid ct nonce d = (Inr m, d')"
  shows "children_ok d'"
  using run
proof (rule post_order_message_success)
  fix ord
  assume ord: "get_row o_id oid (orders d) = Some ord" and m: "om_order_id m = oid"
    and new: "om_id m \<notin> om_id ` set (order_messages d)"
    and d': "d' = d\<lparr>order_messages := order_messages d @ [m]\<rparr>"
  from ok new get_row_order_ids [OF ord] show ?thesis
    by (auto simp: d' children_ok_def items_ok_def fulfilment_ok_def flow_ok_def order_ids_def m
        intro!: child_table_snoc)
qed

lemma exec_flow_children:
  assumes "children_ok d" and "exec_flow h q d = (Inr r, d')"
  shows "children_ok d'"
  using assms
  by (cases q) (auto intro: driver_accept_children record_location_children complete_delivery_children
      post_order_message_children)

lemma delivery_ids_kept [simp]:
  "d_id (move_delivery now lat lng eta m dl) = d_id dl"
  "d_id (patch_delivery drv distance duration dl) = d_id dl"
  by (simp_all add: move_delivery_def patch_delivery_def Let_def split: option.splits)

lemma exec_tracking_plain:
  assumes "exec_tracking q d = (Inr r, d')"
  shows "plain_step d d'"
  using assms
  by (cases q; cases r) (auto elim!: post_location_success admin_patch_delivery_success
      intro!: plain_step_set_delivery)

section \<open>The marketplace\<close>

lemma catalogue_step_plain: "catalogue_step c d d' \<Longrightarrow> plain_step d d'"
  by (erule catalogue_step.cases)
    (auto intro!: plain_step_tables simp: flow_tables_def set_city_def set_store_def set_product_def
      split: option.splits)

lemma exec_admin_plain:
  assumes "exec_admin q d = (Inr a, d')"
  shows "plain_step d d'"
  using assms
proof (cases rule: exec_admin_cases)
  case (invite i tok now c role h r)
  then have "\<exists>ls. d' = d\<lparr>invite_links := ls\<rparr>"
    by (auto simp: create_admin_invite_def Let_def add_invite_Inr
        split: if_splits option.splits prod.splits sum.splits)
  then show ?thesis by (auto intro!: plain_step_tables simp: flow_tables_def)
qed (auto intro!: plain_step_tables simp: flow_tables_def set_user_def set_product_def)

lemma exec_market_children:
  assumes inv: "market_inv base d" and ok: "children_ok d" and run: "exec_market h q d = (Inr a, d')"
  shows "children_ok d'"
proof (cases q)
  case (DeliverySide q')
  show ?thesis
  proof (cases q')
    case (TrackingRequest q'')
    with DeliverySide run obtain r where "exec_tracking q'' d = (Inr r, d')" by (auto simp: done_with_Inr)
    then show ?thesis using ok by (rule plain_step_keeps [OF exec_tracking_plain])
  qed (use DeliverySide run ok in \<open>auto simp: done_with_Inr intro: exec_order_children exec_flow_children\<close>)
next
  case (CatalogueSide q')
  with run obtain r where r: "exec_catalogue q' d = (Inr r, d')" by (auto simp: done_with_Inr)
  have "catalogue_step (caller_of q') d d'"
    using r catalogue_invD(6) inv by (intro exec_catalogue_step) (auto simp: market_inv_def)
  then show ?thesis using ok by (rule plain_step_keeps [OF catalogue_step_plain])
next
  case (AdminSide q')
  with run obtain r where "exec_admin q' d = (Inr r, d')" by (auto simp: done_with_Inr)
  then show ?thesis using ok by (rule plain_step_keeps [OF exec_admin_plain])
qed

end
