(* ===== verification/Base64url.thy ===== *)
theory Base64url
  imports Schema
begin

text \<open>
  The URL-safe base64 transport of keys and ciphertexts: \<open>_b64url_encode\<close> of
  \<open>messaging_service.py\<close>, \<open>encode_public_key_b64url\<close> and \<open>_decode_b64url_32\<close> of
  \<open>schemas/keys.py\<close>, \<open>_decode_b64url\<close> of \<open>schemas/conversations.py\<close>, over Python's
  \<open>base64\<close> module: its decoder skips the characters outside the alphabet and stops at the
  padding.
\<close>

section \<open>Python's codec\<close>

definition b64_alphabet :: string where
  "b64_alphabet = ''ABCDEFGHIJKLMNOPQRSTUVWXYZabcdefghijklmnopqrstuvwxyz0123456789-_''"

definition b64_char :: "nat \<Rightarrow> char" where
  "b64_char i = b64_alphabet ! i"

text \<open>The translation of \<open>-\<close> and \<open>_\<close> leaves \<open>+\<close> and \<open>/\<close> as they are, so both spellings decode.\<close>

definition b64_val :: "char \<Rightarrow> nat option" where
  "b64_val c =
     (if c = CHR ''+'' then Some 62 else if c = CHR ''/'' then Some 63
      else map_option fst (find (\<lambda>(i, x). x = c) (zip [0..<64] b64_alphabet)))"

fun urlsafe_b64encode :: "bytes \<Rightarrow> string" where
  "urlsafe_b64encode [] = []"
| "urlsafe_b64encode [a] =
     [b64_char (unat a div 4), b64_char (unat a mod 4 * 16), CHR ''='', CHR ''='']"
| "urlsafe_b64encode [a, b] =
     [b64_char (unat a div 4), b64_char (unat a mod 4 * 16 + unat b div 16),
      b64_char (unat b mod 16 * 4), CHR ''='']"
| "urlsafe_b64encode (a # b # c # bs) =
     [b64_char (unat a div 4), b64_char (unat a mod 4 * 16 + unat b div 16),
      b64_char (unat b mod 16 * 4 + unat c div 64), b64_char (unat c mod 64)] @ urlsafe_b64encode bs"

text \<open>\<open>a2b\<close> reads with \<open>quad\<close> sextets of the current group seen, \<open>left\<close> their unused bits.\<close>

fun a2b :: "nat \<Rightarrow> nat \<Rightarrow> nat \<Rightarrow> string \<Rightarrow> bytes res" where
  "a2b quad left pads [] = (if quad = 0 then Inr [] else Inl ValueError)"
| "a2b quad left pads (ch # s) =
     (if ch = CHR ''='' then
        (if 2 \<le> quad then (if 4 \<le> quad + Suc pads then Inr [] else a2b quad left (Suc pads) s)
         else a2b quad left pads s)
      else case b64_val ch of
        None \<Rightarrow> a2b quad left pads s
      | Some x \<Rightarrow>
          (if quad = 0 then a2b 1 x 0 s
           else if quad = 1
           then map_sum id ((#) (word_of_nat (left * 4 + x div 16))) (a2b 2 (x mod 16) 0 s)
           else if quad = 2
           then map_sum id ((#) (word_of_nat (left * 16 + x div 4))) (a2b 3 (x mod 4) 0 s)
           else map_sum id ((#) (word_of_nat (left * 64 + x))) (a2b 0 0 0 s)))"

section \<open>The application's codec\<close>

definition rstrip_pad :: "string \<Rightarrow> string" where
  "rstrip_pad s = rev (dropWhile (\<lambda>c. c = CHR ''='') (rev s))"

definition b64url_encode :: "bytes \<Rightarrow> string" where
  "b64url_encode raw = rstrip_pad (urlsafe_b64encode raw)"

text \<open>\<open>-len(v) % 4\<close>\<close>

definition padding :: "string \<Rightarrow> nat" where
  "padding v = nat (- int (length v) mod 4)"

definition decode_b64url :: "string \<Rightarrow> nat \<Rightarrow> nat \<Rightarrow> bytes res" where
  "decode_b64url v min_len max_len =
     (let padded = v @ replicate (padding v) (CHR ''='')
      in if list_ex (\<lambda>c. (128 :: nat) \<le> of_char c) padded then Inl ValueError
         else case a2b 0 0 0 padded of
           Inl e \<Rightarrow> Inl ValueError
         | Inr raw \<Rightarrow> if min_len \<le> length raw \<and> length raw \<le> max_len then Inr raw else Inl ValueError)"

definition decode_b64url_32 :: "string \<Rightarrow> bytes res" where
  "decode_b64url_32 v = decode_b64url v 32 32"

section \<open>Lemmas\<close>

lemma b64_table:
  "list_all (\<lambda>i. b64_val (b64_char i) = Some i \<and> b64_char i \<noteq> CHR ''='' \<and> of_char (b64_char i) < (128 :: nat))
     [0..<64]"
  by code_simp

lemma b64_char:
  assumes "i < 64"
  shows "b64_val (b64_char i) = Some i" and "b64_char i \<noteq> CHR ''=''"
    and "of_char (b64_char i) < (128 :: nat)"
  using b64_table assms by (auto simp: list_all_iff)

lemma unat_byte: "unat (a :: 8 word) < 256"
  using unsigned_less [of a, where ?'a = nat] by simp

lemma parts_less [simp]:
  "unat (a :: 8 word) div 4 < 64" "unat a div 16 < 16" "unat a div 64 < 4"
  using unat_byte [of a] by (simp_all add: less_mult_imp_div_less)

lemma sextets [simp]:
  "unat (a :: 8 word) mod 4 * 16 < 64"
  "unat a mod 4 * 16 + unat (b :: 8 word) div 16 < 64"
  "unat (b :: 8 word) mod 16 * 4 < 64"
  "unat b mod 16 * 4 + unat (c :: 8 word) div 64 < 64"
proof -
  have "unat a mod 4 < 4" "unat b mod 16 < 16" by simp_all
  with parts_less [of a] parts_less [of b] parts_less [of c]
  show "unat a mod 4 * 16 < 64" "unat a mod 4 * 16 + unat b div 16 < 64"
    "unat b mod 16 * 4 < 64" "unat b mod 16 * 4 + unat c div 64 < 64" by linarith+
qed

lemma a2b_Nil [simp]: "a2b 0 left pads [] = Inr []" by simp

lemma a2b_sextet [simp]:
  assumes "i < 64"
  shows "a2b 0 left pads (b64_char i # s) = a2b 1 i 0 s"
    and "a2b (Suc 0) left pads (b64_char i # s) =
      map_sum id ((#) (word_of_nat (left * 4 + i div 16))) (a2b 2 (i mod 16) 0 s)"
    and "a2b 2 left pads (b64_char i # s) =
      map_sum id ((#) (word_of_nat (left * 16 + i div 4))) (a2b 3 (i mod 4) 0 s)"
    and "a2b 3 left pads (b64_char i # s) =
      map_sum id ((#) (word_of_nat (left * 64 + i))) (a2b 0 0 0 s)"
  using b64_char [OF assms] by simp_all

lemma a2b_pad [simp]:
  "a2b 2 left 0 (CHR ''='' # CHR ''='' # s) = Inr []"
  "a2b 3 left 0 (CHR ''='' # s) = Inr []"
  by simp_all

declare a2b.simps [simp del]

lemma word_of_parts [simp]:
  "word_of_nat (unat (a :: 8 word) div 4 * 4 + unat a mod 4) = a"
  "word_of_nat (unat (a :: 8 word) div 16 * 16 + unat a mod 16) = a"
  "word_of_nat (unat (a :: 8 word) div 64 * 64 + unat a mod 64) = a"
  by (simp_all only: div_mult_mod_eq) simp_all

lemma word_of_parts_0 [simp]:
  "word_of_nat (unat (a :: 8 word) div 4 * 4 + (unat a mod 4 * 16 + unat (b :: 8 word) div 16) div 16) = a"
  "word_of_nat ((unat (a :: 8 word) mod 4 * 16 + unat (b :: 8 word) div 16) mod 16 * 16 +
     (unat b mod 16 * 4 + unat (c :: 8 word) div 64) div 4) = b"
  "word_of_nat ((unat (b :: 8 word) mod 16 * 4 + unat (c :: 8 word) div 64) mod 4 * 64 + unat c mod 64) = c"
  "word_of_nat ((unat (a :: 8 word) mod 4 * 16 + unat (b :: 8 word) div 16) mod 16 * 16 + unat b mod 16 * 4 div 4) = b"
  "word_of_nat (unat (a :: 8 word) div 4 * 4 + unat a mod 4 * 16 div 16) = a"
  by simp_all

lemma a2b_encode: "a2b 0 0 0 (urlsafe_b64encode raw) = Inr raw"
  by (induction raw rule: urlsafe_b64encode.induct) simp_all

lemma length_encode: "length (urlsafe_b64encode raw) mod 4 = 0"
  by (induction raw rule: urlsafe_b64encode.induct) simp_all

definition sextet_char :: "char \<Rightarrow> bool" where
  "sextet_char c \<longleftrightarrow> c \<noteq> CHR ''='' \<and> of_char c < (128 :: nat)"

lemma sextet_b64_char [simp]: "i < 64 \<Longrightarrow> sextet_char (b64_char i)"
  by (simp add: sextet_char_def b64_char)

lemma encode_shape:
  "\<exists>s k. urlsafe_b64encode raw = s @ replicate k (CHR ''='') \<and> k < 4 \<and> list_all sextet_char s"
proof (induction raw rule: urlsafe_b64encode.induct)
  case 1
  then show ?case by simp
next
  case (2 a)
  have "urlsafe_b64encode [a] =
      [b64_char (unat a div 4), b64_char (unat a mod 4 * 16)] @ replicate 2 (CHR ''='')"
    by (simp add: numeral_2_eq_2)
  then show ?case by (intro exI conjI) (assumption, simp_all)
next
  case (3 a b)
  have "urlsafe_b64encode [a, b] = [b64_char (unat a div 4),
      b64_char (unat a mod 4 * 16 + unat b div 16), b64_char (unat b mod 16 * 4)] @ replicate 1 (CHR ''='')"
    by simp
  then show ?case by (intro exI conjI) (assumption, simp_all)
next
  case (4 a b c bs)
  then obtain s k where IH: "urlsafe_b64encode bs = s @ replicate k (CHR ''='')" "k < 4"
      "list_all sextet_char s"
    by blast
  let ?s = "[b64_char (unat a div 4), b64_char (unat a mod 4 * 16 + unat b div 16),
      b64_char (unat b mod 16 * 4 + unat c div 64), b64_char (unat c mod 64)] @ s"
  have "urlsafe_b64encode (a # b # c # bs) = ?s @ replicate k (CHR ''='')" "list_all sextet_char ?s"
    using IH by simp_all
  with IH(2) show ?case by blast
qed

lemma rstrip_pad_append:
  assumes "list_all sextet_char s"
  shows "rstrip_pad (s @ replicate k (CHR ''='')) = s"
proof -
  have "dropWhile (\<lambda>c. c = CHR ''='') (replicate k (CHR ''='') @ t) = dropWhile (\<lambda>c. c = CHR ''='') t" for t
    by (induction k) simp_all
  moreover have "dropWhile (\<lambda>c. c = CHR ''='') (rev s) = rev s"
    using assms by (cases "rev s") (auto simp: sextet_char_def list_all_iff rev_swap)
  ultimately show ?thesis by (simp add: rstrip_pad_def)
qed

lemma encode_padding:
  "urlsafe_b64encode raw = b64url_encode raw @ replicate (padding (b64url_encode raw)) (CHR ''='')"
  "list_all sextet_char (b64url_encode raw)"
proof -
  obtain s k where s: "urlsafe_b64encode raw = s @ replicate k (CHR ''='')" "k < 4" "list_all sextet_char s"
    using encode_shape by blast
  then have enc: "b64url_encode raw = s"
    by (simp add: b64url_encode_def rstrip_pad_append)
  have "(length s + k) mod 4 = 0" using length_encode [of raw] s(1) by simp
  then have "int k = - int (length s) mod 4" using s(2) by presburger
  then have "padding s = k" by (simp add: padding_def flip: \<open>int k = _\<close>)
  with s enc show "urlsafe_b64encode raw = b64url_encode raw @ replicate (padding (b64url_encode raw)) (CHR ''='')"
    and "list_all sextet_char (b64url_encode raw)" by simp_all
qed

lemma ascii_padded:
  assumes "list_all sextet_char s"
  shows "\<not> list_ex (\<lambda>c. (128 :: nat) \<le> of_char c) (s @ replicate k (CHR ''=''))"
proof -
  have "\<not> list_ex (\<lambda>c. (128 :: nat) \<le> of_char c) (replicate k (CHR ''=''))"
    by (induction k) simp_all
  moreover have "\<not> list_ex (\<lambda>c. (128 :: nat) \<le> of_char c) s"
    using assms by (induction s) (simp_all add: sextet_char_def not_le)
  ultimately show ?thesis by simp
qed

section \<open>Properties\<close>

text \<open>
  C38: what the server encodes it decodes again: the unpadded URL-safe text of a byte string
  of an accepted length is accepted and gives back the same bytes.
\<close>

theorem b64url_roundtrip:
  "decode_b64url (b64url_encode raw) min_len max_len =
     (if min_len \<le> length raw \<and> length raw \<le> max_len then Inr raw else Inl ValueError)"
proof -
  let ?p = "b64url_encode raw @ replicate (padding (b64url_encode raw)) (CHR ''='')"
  have "\<not> list_ex (\<lambda>c. (128 :: nat) \<le> of_char c) ?p"
    by (rule ascii_padded [OF encode_padding(2)])
  moreover have "a2b 0 0 0 ?p = Inr raw"
    by (simp only: encode_padding(1) [symmetric] a2b_encode)
  ultimately show ?thesis by (simp add: decode_b64url_def Let_def)
qed

end
