(* ===== verification/Keys.thy ===== *)
theory Keys
  imports Base64url Sample_Data
begin

text \<open>
  The public-key registry (\<open>src/backend/app/services/key_service.py\<close>,
  \<open>src/backend/app/api/v1/keys.py\<close>): registering a key retires the active one, keys are
  listed newest first, revoked by their owner, and never removed, so that old ciphertexts
  stay attributable.
\<close>

section \<open>Operations\<close>

definition active_keys :: "db \<Rightarrow> uuid \<Rightarrow> user_public_key list" where
  "active_keys d uid = filter (\<lambda>k. k_user_id k = uid \<and> k_status k = KActive) (user_public_keys d)"

definition rotate_key :: "time \<Rightarrow> user_public_key \<Rightarrow> user_public_key" where
  "rotate_key now k = k\<lparr>k_status := KRotated, k_rotated_at := Some now\<rparr>"

text \<open>
  The insert is checked against the primary key, the owner's foreign key and the partial
  unique index \<open>uq_user_public_keys_one_active\<close>.
\<close>

definition add_key :: "user_public_key \<Rightarrow> db \<Rightarrow> unit res \<times> db" where
  "add_key k d =
     (if k_id k \<in> k_id ` set (user_public_keys d) \<or> k_user_id k \<notin> u_id ` set (users d) \<or>
         (k_status k = KActive \<and> active_keys d (k_user_id k) \<noteq> [])
      then (Inl IntegrityError, d)
      else (Inr (), d\<lparr>user_public_keys := user_public_keys d @ [k]\<rparr>))"

definition register_key ::
  "uuid \<Rightarrow> time \<Rightarrow> user \<Rightarrow> bytes \<Rightarrow> int \<Rightarrow> db \<Rightarrow> user_public_key res \<times> db" where
  "register_key new_id now user raw version d =
     (let d1 = d\<lparr>user_public_keys :=
            update_where (\<lambda>k. k_user_id k = u_id user \<and> k_status k = KActive) (rotate_key now)
              (user_public_keys d)\<rparr>;
          row = \<lparr>k_id = new_id, k_user_id = u_id user, k_public_key = raw, k_key_version = version,
                 k_status = KActive, k_registered_at = now, k_rotated_at = None,
                 k_revoked_at = None, k_created_at = now\<rparr>
      in case add_key row d1 of
           (Inl e, d2) \<Rightarrow> (Inl e, d2)
         | (Inr _, d2) \<Rightarrow> (Inr row, d2))"

definition get_active_key_for_user :: "db \<Rightarrow> uuid \<Rightarrow> user_public_key res" where
  "get_active_key_for_user d uid =
     (case scalar_one_or_none (active_keys d uid) of
        Inl e \<Rightarrow> Inl e | Inr None \<Rightarrow> Inl PublicKeyNotFound | Inr (Some k) \<Rightarrow> Inr k)"

definition list_keys_for_user :: "db \<Rightarrow> uuid \<Rightarrow> user_public_key list" where
  "list_keys_for_user d uid =
     order_desc k_created_at (filter (\<lambda>k. k_user_id k = uid) (user_public_keys d))"

definition revoke :: "time \<Rightarrow> user_public_key \<Rightarrow> user_public_key" where
  "revoke now k =
     (if k_status k \<noteq> KRevoked then k\<lparr>k_status := KRevoked, k_revoked_at := Some now\<rparr> else k)"

definition revoke_key :: "time \<Rightarrow> user \<Rightarrow> uuid \<Rightarrow> db \<Rightarrow> user_public_key res \<times> db" where
  "revoke_key now caller kid d =
     (case get_row k_id kid (user_public_keys d) of
        None \<Rightarrow> (Inl KeyOwnershipError, d)
      | Some k \<Rightarrow>
          if k_user_id k \<noteq> u_id caller then (Inl KeyOwnershipError, d)
          else (Inr (revoke now k),
                d\<lparr>user_public_keys := upd_row k_id kid (revoke now) (user_public_keys d)\<rparr>))"

text \<open>What the registry sends: \<open>_render\<close>.\<close>

record public_key_response =
  pk_key_id :: uuid
  pk_user_id :: uuid
  pk_public_key_b64url :: string
  pk_key_version :: int
  pk_status :: key_status
  pk_created_at :: time
  pk_rotated_at :: "time option"
  pk_revoked_at :: "time option"

definition render_key :: "user_public_key \<Rightarrow> public_key_response" where
  "render_key k =
     \<lparr>pk_key_id = k_id k, pk_user_id = k_user_id k,
      pk_public_key_b64url = b64url_encode (k_public_key k), pk_key_version = k_key_version k,
      pk_status = k_status k, pk_created_at = k_created_at k, pk_rotated_at = k_rotated_at k,
      pk_revoked_at = k_revoked_at k\<rparr>"

section \<open>The life of a key\<close>

text \<open>\<open>active\<close> turns to \<open>rotated\<close> or \<open>revoked\<close>; a rotated key can still be revoked.\<close>

inductive key_step :: "key_status \<Rightarrow> key_status \<Rightarrow> bool" where
  rotated: "key_step KActive KRotated"
| revoked_active: "key_step KActive KRevoked"
| revoked_rotated: "key_step KRotated KRevoked"

inductive_simps key_step_simps [simp]:
  "key_step KActive s" "key_step KRotated s" "key_step KRevoked s" "key_step s KActive"

text \<open>Every key stays in the table with its bytes and owner, and only moves forward.\<close>

definition key_evolves :: "user_public_key \<Rightarrow> user_public_key \<Rightarrow> bool" where
  "key_evolves k k' \<longleftrightarrow>
     k_id k' = k_id k \<and> k_user_id k' = k_user_id k \<and> k_public_key k' = k_public_key k \<and>
     k_key_version k' = k_key_version k \<and> k_created_at k' = k_created_at k \<and>
     (k_status k' = k_status k \<or> key_step\<^sup>+\<^sup>+ (k_status k) (k_status k'))"

definition keys_kept :: "db \<Rightarrow> db \<Rightarrow> bool" where
  "keys_kept d d' \<longleftrightarrow>
     (\<forall>k \<in> set (user_public_keys d). \<exists>k' \<in> set (user_public_keys d'). key_evolves k k')"

definition keys_inv :: "db \<Rightarrow> bool" where
  "keys_inv d \<longleftrightarrow>
     distinct (map k_id (user_public_keys d)) \<and>
     (\<forall>uid. length (active_keys d uid) \<le> 1)"

lemma key_evolves_refl [simp]: "key_evolves k k"
  by (simp add: key_evolves_def)

lemma key_evolves_trans: "key_evolves a b \<Longrightarrow> key_evolves b c \<Longrightarrow> key_evolves a c"
  by (auto simp: key_evolves_def dest: tranclp_trans)

lemma keys_kept_refl [simp]: "keys_kept d d"
  unfolding keys_kept_def using key_evolves_refl by blast

lemma keys_kept_trans: "keys_kept a b \<Longrightarrow> keys_kept b c \<Longrightarrow> keys_kept a c"
  unfolding keys_kept_def by (meson key_evolves_trans)

lemma keys_kept_update:
  assumes "\<And>k. p k \<Longrightarrow> key_evolves k (f k)"
    and "user_public_keys d' = update_where p f (user_public_keys d) @ new"
  shows "keys_kept d d'"
  unfolding keys_kept_def
proof (intro ballI bexI)
  fix k assume "k \<in> set (user_public_keys d)"
  then show "(if p k then f k else k) \<in> set (user_public_keys d')"
    unfolding assms(2) set_append set_update_where by blast
  show "key_evolves k (if p k then f k else k)" using assms(1) by simp
qed

lemma rotate_key_evolves: "k_status k = KActive \<Longrightarrow> key_evolves k (rotate_key now k)"
  by (auto simp: key_evolves_def rotate_key_def intro: tranclp.r_into_trancl key_step.rotated)

lemma revoke_evolves: "key_evolves k (revoke now k)"
  by (cases "k_status k")
    (auto simp: key_evolves_def revoke_def intro: tranclp.r_into_trancl)

lemma revoke_frame [simp]:
  "k_id (revoke now k) = k_id k" "k_user_id (revoke now k) = k_user_id k"
  "k_status (revoke now k) = KRevoked"
  by (simp_all add: revoke_def)

section \<open>Lemmas\<close>

lemma active_keys_rotated:
  "filter (\<lambda>k. k_user_id k = uid' \<and> k_status k = KActive)
     (update_where (\<lambda>k. k_user_id k = uid \<and> k_status k = KActive) (rotate_key now) rows) =
   (if uid' = uid then [] else filter (\<lambda>k. k_user_id k = uid' \<and> k_status k = KActive) rows)"
  by (induction rows) (auto simp: rotate_key_def)

lemma register_key_success:
  assumes "register_key new_id now user raw version d = (Inr k, d')"
  obtains "new_id \<notin> k_id ` set (user_public_keys d)" "u_id user \<in> u_id ` set (users d)"
    "k = \<lparr>k_id = new_id, k_user_id = u_id user, k_public_key = raw, k_key_version = version,
          k_status = KActive, k_registered_at = now, k_rotated_at = None, k_revoked_at = None,
          k_created_at = now\<rparr>"
    "d' = d\<lparr>user_public_keys := update_where (\<lambda>k. k_user_id k = u_id user \<and> k_status k = KActive)
              (rotate_key now) (user_public_keys d) @ [k]\<rparr>"
proof -
  have ids: "k_id ` set (update_where p (rotate_key now) rows) = k_id ` set rows" for p rows
    using map_key_update_where [of p k_id "rotate_key now" rows]
    by (simp add: rotate_key_def flip: set_map)
  show ?thesis
    using assms that
    by (auto simp: register_key_def add_key_def Let_def ids simp del: set_update_where split: if_splits)
qed

lemma active_keys_after_register:
  assumes "register_key new_id now user raw version d = (Inr k, d')"
  shows "active_keys d' uid = (if uid = u_id user then [k] else active_keys d uid)"
  using assms
  by (rule register_key_success) (auto simp: active_keys_def active_keys_rotated)

lemma register_key_keeps:
  assumes "keys_inv d" and "register_key new_id now user raw version d = (Inr k, d')"
  shows "keys_inv d'" and "keys_kept d d'"
proof -
  from assms(2) have d': "new_id \<notin> k_id ` set (user_public_keys d)" "k_id k = new_id"
    "user_public_keys d' = update_where (\<lambda>k. k_user_id k = u_id user \<and> k_status k = KActive)
              (rotate_key now) (user_public_keys d) @ [k]"
    by (auto elim!: register_key_success)
  have "map k_id (user_public_keys d') = map k_id (user_public_keys d) @ [new_id]"
    unfolding d'(3) by (simp add: map_key_update_where rotate_key_def d'(2))
  then show "keys_inv d'"
    using assms(1) d'(1) active_keys_after_register [OF assms(2)] by (auto simp: keys_inv_def)
  show "keys_kept d d'"
    by (rule keys_kept_update [OF _ d'(3)]) (simp add: rotate_key_evolves)
qed

lemma revoke_key_success:
  assumes "revoke_key now caller kid d = (Inr k', d')"
  obtains k where "get_row k_id kid (user_public_keys d) = Some k" "k_user_id k = u_id caller"
    "k' = revoke now k" "d' = d\<lparr>user_public_keys := upd_row k_id kid (revoke now) (user_public_keys d)\<rparr>"
  using assms by (auto simp: revoke_key_def split: option.splits if_splits)

lemma revoke_key_keeps:
  assumes "keys_inv d" and "revoke_key now caller kid d = (Inr k', d')"
  shows "keys_inv d'" and "keys_kept d d'"
proof -
  from assms(2) have d': "user_public_keys d' = upd_row k_id kid (revoke now) (user_public_keys d)"
    by (auto elim!: revoke_key_success)
  have "length (filter (\<lambda>k. k_user_id k = uid \<and> k_status k = KActive) (upd_row k_id kid (revoke now) rows))
      \<le> length (filter (\<lambda>k. k_user_id k = uid \<and> k_status k = KActive) rows)" for uid rows
    by (induction rows) auto
  with assms(1) show "keys_inv d'"
    by (auto simp: keys_inv_def active_keys_def d' map_key_upd_row intro: order_trans)
  show "keys_kept d d'"
    by (rule keys_kept_update [where p = "\<lambda>k. k_id k = kid" and f = "revoke now" and new = "[]"])
      (simp_all add: revoke_evolves d' upd_row_def)
qed

end
