(* ===== verification/Messaging.thy ===== *)
theory Messaging
  imports Keys Order_Retention
begin

text \<open>
  Conversations and ciphertext messages (\<open>src/backend/app/services/messaging_service.py\<close>,
  \<open>src/backend/app/api/v1/conversations.py\<close>, \<open>api/v1/admin_messages.py\<close>): who may talk to
  whom, the one conversation of a pair, posting, paging, reading, and the retention purge.
\<close>

section \<open>Eligibility\<close>

text \<open>\<open>_canonical_pair\<close>\<close>

definition canonical_pair :: "uuid \<Rightarrow> uuid \<Rightarrow> uuid \<times> uuid" where
  "canonical_pair a b = (if a < b then (a, b) else (b, a))"

text \<open>\<open>_can_converse\<close>: an administrator is not checked against the peer's existence.\<close>

definition active_user :: "db \<Rightarrow> uuid \<Rightarrow> user option" where
  "active_user d uid =
     (case get_row u_id uid (users d) of
        None \<Rightarrow> None | Some u \<Rightarrow> if u_deleted_at u = None \<and> u_is_active u then Some u else None)"

definition can_converse :: "db \<Rightarrow> user \<Rightarrow> uuid \<Rightarrow> bool" where
  "can_converse d caller peer_id =
     (if u_id caller = peer_id then False
      else if u_role caller = Admin then True
      else case active_user d peer_id of
        None \<Rightarrow> False
      | Some peer \<Rightarrow>
          if u_role peer = Admin then True
          else if u_role caller = Customer \<and> u_role peer = Seller
          then u_referring_seller_id caller = Some (u_id peer)
          else if u_role caller = Seller \<and> u_role peer = Customer
          then u_referring_seller_id peer = Some (u_id caller)
          else False)"

definition is_party :: "conversation \<Rightarrow> uuid \<Rightarrow> bool" where
  "is_party c uid \<longleftrightarrow> uid \<in> {c_user_a_id c, c_user_b_id c}"

text \<open>\<open>_load_conversation_for_caller\<close>\<close>

definition load_conversation_for_caller :: "db \<Rightarrow> user \<Rightarrow> uuid \<Rightarrow> conversation res" where
  "load_conversation_for_caller d caller cid =
     (case get_row c_id cid (conversations d) of
        None \<Rightarrow> Inl ConversationNotFound
      | Some c \<Rightarrow>
          if u_role caller = Admin then Inr c
          else if \<not> is_party c (u_id caller) then Inl ConversationNotFound
          else Inr c)"

definition peer_of :: "conversation \<Rightarrow> uuid \<Rightarrow> uuid" where
  "peer_of c caller_id = (if c_user_a_id c = caller_id then c_user_b_id c else c_user_a_id c)"

section \<open>Conversations\<close>

text \<open>
  \<open>conversations\<close> has its primary key, the foreign keys of both participants, the check
  \<open>user_a_id < user_b_id\<close> and the unique pair.
\<close>

definition pair_of :: "conversation \<Rightarrow> uuid \<times> uuid" where
  "pair_of c = (c_user_a_id c, c_user_b_id c)"

definition add_conversation :: "conversation \<Rightarrow> db \<Rightarrow> unit res \<times> db" where
  "add_conversation c d =
     (if c_id c \<in> c_id ` set (conversations d) \<or> pair_of c \<in> pair_of ` set (conversations d) \<or>
         \<not> c_user_a_id c < c_user_b_id c \<or>
         c_user_a_id c \<notin> u_id ` set (users d) \<or> c_user_b_id c \<notin> u_id ` set (users d)
      then (Inl IntegrityError, d)
      else (Inr (), d\<lparr>conversations := conversations d @ [c]\<rparr>))"

definition create_conversation :: "uuid \<Rightarrow> time \<Rightarrow> user \<Rightarrow> uuid \<Rightarrow> db \<Rightarrow> conversation res \<times> db" where
  "create_conversation new_id now caller peer_user_id d =
     (if \<not> can_converse d caller peer_user_id then (Inl ConversationIneligible, d)
      else let ab = canonical_pair (u_id caller) peer_user_id
      in case scalar_one_or_none (filter (\<lambda>c. pair_of c = ab) (conversations d)) of
           Inl e \<Rightarrow> (Inl e, d)
         | Inr (Some c) \<Rightarrow> (Inr c, d)
         | Inr None \<Rightarrow>
             (let c = \<lparr>c_id = new_id, c_user_a_id = fst ab, c_user_b_id = snd ab,
                       c_created_at = now, c_last_message_at = None\<rparr>
              in case add_conversation c d of
                   (Inl e, d') \<Rightarrow> (Inl e, d')
                 | (Inr _, d') \<Rightarrow> (Inr c, d')))"

definition list_conversations_for_caller :: "db \<Rightarrow> user \<Rightarrow> nat \<Rightarrow> conversation list" where
  "list_conversations_for_caller d caller limit =
     take limit (order_desc (\<lambda>c. or_else (c_last_message_at c) (c_created_at c))
       (filter (\<lambda>c. is_party c (u_id caller)) (conversations d)))"

definition unread_count :: "db \<Rightarrow> uuid \<Rightarrow> uuid \<Rightarrow> int" where
  "unread_count d cid caller_id =
     int (length (filter (\<lambda>m. m_conversation_id m = cid \<and> m_sender_id m \<noteq> caller_id \<and>
       m_read_at m = None \<and> m_deleted_at m = None) (messages d)))"

record conversation_response =
  cr_id :: uuid
  cr_peer_user_id :: uuid
  cr_created_at :: time
  cr_last_message_at :: "time option"
  cr_unread_count :: int

definition conversation_to_response :: "conversation \<Rightarrow> uuid \<Rightarrow> int \<Rightarrow> conversation_response" where
  "conversation_to_response c caller_id unread =
     \<lparr>cr_id = c_id c, cr_peer_user_id = peer_of c caller_id, cr_created_at = c_created_at c,
      cr_last_message_at = c_last_message_at c, cr_unread_count = unread\<rparr>"

text \<open>The inbox endpoint.\<close>

definition list_conversations :: "db \<Rightarrow> user \<Rightarrow> nat \<Rightarrow> conversation_response list" where
  "list_conversations d caller limit =
     map (\<lambda>c. conversation_to_response c (u_id caller) (unread_count d (c_id c) (u_id caller)))
       (list_conversations_for_caller d caller limit)"

section \<open>Messages\<close>

definition add_message :: "message \<Rightarrow> db \<Rightarrow> unit res \<times> db" where
  "add_message m d =
     (if m_id m \<in> m_id ` set (messages d) \<or> m_conversation_id m \<notin> c_id ` set (conversations d) \<or>
         m_sender_id m \<notin> u_id ` set (users d) \<or>
         (case m_recipient_key_id m of None \<Rightarrow> False | Some k \<Rightarrow> k \<notin> k_id ` set (user_public_keys d))
      then (Inl IntegrityError, d)
      else (Inr (), d\<lparr>messages := messages d @ [m]\<rparr>))"

definition touch_conversation :: "uuid \<Rightarrow> time \<Rightarrow> db \<Rightarrow> db" where
  "touch_conversation cid t d =
     d\<lparr>conversations := upd_row c_id cid (\<lambda>c. c\<lparr>c_last_message_at := Some t\<rparr>) (conversations d)\<rparr>"

definition store_message ::
  "uuid \<Rightarrow> time \<Rightarrow> user \<Rightarrow> uuid \<Rightarrow> bytes \<Rightarrow> bytes \<Rightarrow> bytes \<Rightarrow> uuid option \<Rightarrow> db \<Rightarrow> message res \<times> db" where
  "store_message new_id now caller cid ciphertext nonce epk recipient_key_id d =
     (case load_conversation_for_caller d caller cid of
        Inl e \<Rightarrow> (Inl e, d)
      | Inr c \<Rightarrow>
          (let m = \<lparr>m_id = new_id, m_conversation_id = c_id c, m_sender_id = u_id caller,
                    m_ciphertext = ciphertext, m_nonce = nonce, m_ephemeral_public_key = epk,
                    m_recipient_key_id = recipient_key_id, m_sent_at = now, m_read_at = None,
                    m_deleted_at = None\<rparr>
           in case add_message m d of
                (Inl e, d') \<Rightarrow> (Inl e, d')
              | (Inr _, d') \<Rightarrow> (Inr m, touch_conversation (c_id c) now d')))"

definition history :: "db \<Rightarrow> uuid \<Rightarrow> time option \<Rightarrow> message list" where
  "history d cid before =
     order_desc m_sent_at
       (filter (\<lambda>m. m_conversation_id m = cid \<and> m_deleted_at m = None \<and>
          (case before of None \<Rightarrow> True | Some t \<Rightarrow> m_sent_at m < t)) (messages d))"

definition list_messages :: "db \<Rightarrow> user \<Rightarrow> uuid \<Rightarrow> time option \<Rightarrow> nat \<Rightarrow> message list res" where
  "list_messages d caller cid before limit =
     (case load_conversation_for_caller d caller cid of
        Inl e \<Rightarrow> Inl e
      | Inr _ \<Rightarrow> Inr (take limit (history d cid before)))"

text \<open>The page the endpoint returns, with its cursor.\<close>

definition message_page ::
  "db \<Rightarrow> user \<Rightarrow> uuid \<Rightarrow> time option \<Rightarrow> nat \<Rightarrow> (message list \<times> time option) res" where
  "message_page d caller cid before limit =
     (case list_messages d caller cid before limit of
        Inl e \<Rightarrow> Inl e
      | Inr rows \<Rightarrow> Inr (rows, if length rows = limit then Some (m_sent_at (last rows)) else None))"

definition read_message :: "time \<Rightarrow> message \<Rightarrow> message" where
  "read_message now m = (if m_read_at m = None then m\<lparr>m_read_at := Some now\<rparr> else m)"

definition mark_message_read :: "time \<Rightarrow> user \<Rightarrow> uuid \<Rightarrow> uuid \<Rightarrow> db \<Rightarrow> message res \<times> db" where
  "mark_message_read now caller cid mid d =
     (case load_conversation_for_caller d caller cid of
        Inl e \<Rightarrow> (Inl e, d)
      | Inr _ \<Rightarrow>
          (case get_row m_id mid (messages d) of
             None \<Rightarrow> (Inl (NotFoundError ''NOT_FOUND''), d)
           | Some m \<Rightarrow>
               if m_conversation_id m \<noteq> cid \<or> m_deleted_at m \<noteq> None
               then (Inl (NotFoundError ''NOT_FOUND''), d)
               else if m_sender_id m = u_id caller then (Inl (NotFoundError ''NOT_FOUND''), d)
               else (Inr (read_message now m),
                     d\<lparr>messages := upd_row m_id mid (read_message now) (messages d)\<rparr>)))"

record message_response =
  mr_id :: uuid
  mr_conversation_id :: uuid
  mr_sender_id :: uuid
  mr_ciphertext_b64url :: string
  mr_nonce_b64url :: string
  mr_ephemeral_public_key_b64url :: string
  mr_recipient_key_id :: "uuid option"
  mr_sent_at :: time
  mr_read_at :: "time option"

definition message_to_response :: "message \<Rightarrow> message_response" where
  "message_to_response m =
     \<lparr>mr_id = m_id m, mr_conversation_id = m_conversation_id m, mr_sender_id = m_sender_id m,
      mr_ciphertext_b64url = b64url_encode (m_ciphertext m),
      mr_nonce_b64url = b64url_encode (m_nonce m),
      mr_ephemeral_public_key_b64url = b64url_encode (m_ephemeral_public_key m),
      mr_recipient_key_id = m_recipient_key_id m, mr_sent_at = m_sent_at m, mr_read_at = m_read_at m\<rparr>"

text \<open>The endpoint decodes the body before the service sees it (\<open>SendMessageRequest\<close>).\<close>

record send_body =
  sb_ciphertext_b64url :: string
  sb_nonce_b64url :: string
  sb_ephemeral_public_key_b64url :: string
  sb_recipient_key_id :: "uuid option"

definition decode_send_body :: "send_body \<Rightarrow> (bytes \<times> bytes \<times> bytes) res" where
  "decode_send_body b =
     (if sb_ciphertext_b64url b = [] \<or> length (sb_ciphertext_b64url b) > 131072 \<or>
         sb_nonce_b64url b = [] \<or> length (sb_nonce_b64url b) > 32 \<or>
         sb_ephemeral_public_key_b64url b = [] \<or> length (sb_ephemeral_public_key_b64url b) > 128
      then Inl ValidationError
      else case (decode_b64url (sb_ciphertext_b64url b) 1 65536, decode_b64url (sb_nonce_b64url b) 12 12,
                 decode_b64url (sb_ephemeral_public_key_b64url b) 32 32) of
        (Inr ct, Inr nonce, Inr epk) \<Rightarrow> Inr (ct, nonce, epk)
      | _ \<Rightarrow> Inl ValidationError)"

definition send_message ::
  "uuid \<Rightarrow> time \<Rightarrow> user \<Rightarrow> uuid \<Rightarrow> send_body \<Rightarrow> db \<Rightarrow> message res \<times> db" where
  "send_message new_id now caller cid body d =
     (case decode_send_body body of
        Inl e \<Rightarrow> (Inl e, d)
      | Inr (ct, nonce, epk) \<Rightarrow>
          store_message new_id now caller cid ct nonce epk (sb_recipient_key_id body) d)"

text \<open>\<open>GET /keys/{user_id}\<close>: only for people the caller may talk to.\<close>

definition get_user_active_key :: "db \<Rightarrow> user \<Rightarrow> uuid \<Rightarrow> user_public_key res" where
  "get_user_active_key d caller uid =
     (if u_id caller \<noteq> uid \<and> \<not> can_converse d caller uid then Inl PublicKeyNotFound
      else get_active_key_for_user d uid)"

section \<open>Retention\<close>

definition update_message_retention_days :: "user \<Rightarrow> int \<Rightarrow> db \<Rightarrow> int res \<times> db" where
  "update_message_retention_days caller days d =
     (if days < 7 then (Inl MessageRetentionInvalid, d)
      else case get_retention_settings d of (ps, d1) \<Rightarrow>
        (Inr days, d1\<lparr>settings_row := Some (ps\<lparr>ps_message_retention_days := days,
           ps_updated_by_user_id := Some (u_id caller)\<rparr>)\<rparr>))"

definition purge_old_messages :: "time \<Rightarrow> db \<Rightarrow> int \<times> db" where
  "purge_old_messages now d =
     (case get_retention_settings d of (ps, d1) \<Rightarrow>
        let old = (\<lambda>m. m_sent_at m < now - td_days (ps_message_retention_days ps))
        in (int (length (filter old (messages d1))), d1\<lparr>messages := delete_where old (messages d1)\<rparr>))"

section \<open>Requests\<close>

datatype (plugins only: code) messaging_request =
    OpenConversation uuid time user uuid
  | SendMessage uuid time user uuid send_body
  | ReadMessage time user uuid uuid
  | SetMessageRetention user int
  | PurgeMessages time user
  | RegisterKey uuid time user string int
  | RevokeKey time user uuid

datatype (plugins only: code) messaging_reply =
  RConversation conversation | RMessage message | RNumber int | RKey user_public_key

definition message_answer :: "('a \<Rightarrow> messaging_reply) \<Rightarrow> 'a res \<times> db \<Rightarrow> messaging_reply res \<times> db" where
  "message_answer k r = (map_sum id k (fst r), snd r)"

text \<open>The key is decoded by the schema, and the two administrator endpoints are guarded.\<close>

primrec exec_messaging :: "messaging_request \<Rightarrow> db \<Rightarrow> messaging_reply res \<times> db" where
  "exec_messaging (OpenConversation new_id now c peer) d =
     message_answer RConversation (create_conversation new_id now c peer d)"
| "exec_messaging (SendMessage new_id now c cid body) d =
     message_answer RMessage (send_message new_id now c cid body d)"
| "exec_messaging (ReadMessage now c cid mid) d = message_answer RMessage (mark_message_read now c cid mid d)"
| "exec_messaging (SetMessageRetention c days) d =
     (if u_role c \<noteq> Admin then (Inl (AuthorizationError ''PERMISSION_DENIED''), d)
      else if days < 7 \<or> 3650 < days then (Inl ValidationError, d)
      else message_answer RNumber (update_message_retention_days c days d))"
| "exec_messaging (PurgeMessages now c) d =
     (if u_role c \<noteq> Admin then (Inl (AuthorizationError ''PERMISSION_DENIED''), d)
      else (case purge_old_messages now d of (n, d') \<Rightarrow> (Inr (RNumber n), d')))"
| "exec_messaging (RegisterKey new_id now c text version) d =
     (case (if text = [] \<or> length text > 128 \<or> version < 1 then Inl ValidationError
            else decode_b64url_32 text) of
        Inl e \<Rightarrow> (Inl ValidationError, d)
      | Inr raw \<Rightarrow> message_answer RKey (register_key new_id now c raw version d))"
| "exec_messaging (RevokeKey now c kid) d = message_answer RKey (revoke_key now c kid d)"

end
