(* ===== verification/Messaging_Properties.thy ===== *)
theory Messaging_Properties
  imports Messaging Paging
begin

text \<open>
  The invariant of conversations, messages and keys, the history no request erases, the
  contract of the messaging requests, and their properties.
\<close>

section \<open>Invariant and history\<close>

definition message_ok :: "db \<Rightarrow> message \<Rightarrow> bool" where
  "message_ok d m \<longleftrightarrow> m_conversation_id m \<in> c_id ` set (conversations d) \<and>
     (case m_recipient_key_id m of None \<Rightarrow> True | Some k \<Rightarrow> k \<in> k_id ` set (user_public_keys d))"

definition conversations_ok :: "db \<Rightarrow> bool" where
  "conversations_ok d \<longleftrightarrow>
     distinct (map c_id (conversations d)) \<and> distinct (map pair_of (conversations d)) \<and>
     (\<forall>c \<in> set (conversations d). c_user_a_id c < c_user_b_id c \<and>
        c_user_a_id c \<in> u_id ` set (users d) \<and> c_user_b_id c \<in> u_id ` set (users d))"

definition messaging_inv :: "db \<Rightarrow> bool" where
  "messaging_inv d \<longleftrightarrow>
     conversations_ok d \<and> keys_inv d \<and> distinct (map m_id (messages d)) \<and>
     (\<forall>m \<in> set (messages d). message_ok d m) \<and>
     (case settings_row d of None \<Rightarrow> True | Some ps \<Rightarrow> 7 \<le> ps_message_retention_days ps)"

definition conversations_kept :: "db \<Rightarrow> db \<Rightarrow> bool" where
  "conversations_kept d d' \<longleftrightarrow>
     (\<forall>c \<in> set (conversations d). (c_id c, pair_of c) \<in> (\<lambda>c. (c_id c, pair_of c)) ` set (conversations d'))"

definition history_kept :: "db \<Rightarrow> db \<Rightarrow> bool" where
  "history_kept d d' \<longleftrightarrow> conversations_kept d d' \<and> keys_kept d d'"

lemma conversations_kept_refl [simp]: "conversations_kept d d"
  by (auto simp: conversations_kept_def)

lemma conversations_kept_trans:
  "conversations_kept a b \<Longrightarrow> conversations_kept b c \<Longrightarrow> conversations_kept a c"
  unfolding conversations_kept_def by fastforce

lemma history_kept_refl [simp]: "history_kept d d"
  by (simp add: history_kept_def)

lemma history_kept_trans: "history_kept a b \<Longrightarrow> history_kept b c \<Longrightarrow> history_kept a c"
  by (auto simp: history_kept_def intro: conversations_kept_trans keys_kept_trans)

lemma keys_kept_ids: "keys_kept d d' \<Longrightarrow> k_id ` set (user_public_keys d) \<subseteq> k_id ` set (user_public_keys d')"
  unfolding keys_kept_def key_evolves_def by (auto simp: image_iff) metis

lemma keys_kept_cong [simp]: "user_public_keys d' = user_public_keys d \<Longrightarrow> keys_kept d d'"
  unfolding keys_kept_def using key_evolves_refl by fastforce

lemma keys_inv_cong: "user_public_keys d' = user_public_keys d \<Longrightarrow> keys_inv d' = keys_inv d"
  by (simp add: keys_inv_def active_keys_def)

lemma conversations_kept_eq [simp]: "conversations d' = conversations d \<Longrightarrow> conversations_kept d d'"
  by (simp add: conversations_kept_def)

lemma conversations_ok_eq:
  "conversations d' = conversations d \<Longrightarrow> users d' = users d \<Longrightarrow> conversations_ok d' = conversations_ok d"
  by (simp add: conversations_ok_def)

lemma message_ok_eq:
  "conversations d' = conversations d \<Longrightarrow> user_public_keys d' = user_public_keys d \<Longrightarrow>
   message_ok d' = message_ok d"
  by (rule ext) (simp add: message_ok_def split: option.split)

lemma message_ok_new_rows [simp]:
  "message_ok (d\<lparr>messages := ms\<rparr>) = message_ok d"
  "message_ok (d\<lparr>settings_row := ps\<rparr>) = message_ok d"
  by (rule message_ok_eq; simp)+

lemma inv_parts_new_rows [simp]:
  "conversations_ok (d\<lparr>messages := ms\<rparr>) = conversations_ok d"
  "conversations_ok (d\<lparr>settings_row := ps\<rparr>) = conversations_ok d"
  "conversations_ok (d\<lparr>user_public_keys := ks\<rparr>) = conversations_ok d"
  "keys_inv (d\<lparr>messages := ms\<rparr>) = keys_inv d"
  "keys_inv (d\<lparr>settings_row := ps\<rparr>) = keys_inv d"
  "keys_inv (d\<lparr>conversations := cs\<rparr>) = keys_inv d"
  "keys_inv (touch_conversation cid t d) = keys_inv d"
  by (simp_all add: conversations_ok_def keys_inv_def active_keys_def touch_conversation_def)

lemma touch_conversation_frame [simp]:
  "map c_id (conversations (touch_conversation cid t d)) = map c_id (conversations d)"
  "map pair_of (conversations (touch_conversation cid t d)) = map pair_of (conversations d)"
  "users (touch_conversation cid t d) = users d"
  "messages (touch_conversation cid t d) = messages d"
  "user_public_keys (touch_conversation cid t d) = user_public_keys d"
  "settings_row (touch_conversation cid t d) = settings_row d"
  by (simp_all add: touch_conversation_def map_key_upd_row pair_of_def)

lemma ids_pairs_from_maps:
  assumes "map c_id cs' = map c_id cs" and "map pair_of cs' = map pair_of cs"
  shows "map (\<lambda>c. (c_id c, pair_of c)) cs' = map (\<lambda>c. (c_id c, pair_of c)) cs"
proof -
  have "map (\<lambda>c. (c_id c, pair_of c)) xs = zip (map c_id xs) (map pair_of xs)" for xs
    by (induction xs) simp_all
  with assms show ?thesis by simp
qed

text \<open>The invariant of the conversations reads only their identifiers and pairs.\<close>

lemma conversations_ok_alt:
  "conversations_ok d \<longleftrightarrow>
     distinct (map c_id (conversations d)) \<and> distinct (map pair_of (conversations d)) \<and>
     (\<forall>(a, b) \<in> set (map pair_of (conversations d)). a < b \<and> {a, b} \<subseteq> u_id ` set (users d))"
  by (auto simp: conversations_ok_def pair_of_def)

lemma conversations_ok_cong:
  "map c_id (conversations d') = map c_id (conversations d) \<Longrightarrow>
   map pair_of (conversations d') = map pair_of (conversations d) \<Longrightarrow>
   users d' = users d \<Longrightarrow> conversations_ok d' = conversations_ok d"
  unfolding conversations_ok_alt by simp

lemma conversations_kept_cong:
  assumes "map c_id (conversations d') = map c_id (conversations d)"
    and "map pair_of (conversations d') = map pair_of (conversations d)"
  shows "conversations_kept d d'"
proof -
  have "(\<lambda>c. (c_id c, pair_of c)) ` set (conversations d') = (\<lambda>c. (c_id c, pair_of c)) ` set (conversations d)"
    using arg_cong [OF ids_pairs_from_maps [OF assms], of set] by (simp only: set_map)
  then show ?thesis unfolding conversations_kept_def by blast
qed

lemma message_ok_mono:
  assumes "message_ok d m" and "c_id ` set (conversations d) \<subseteq> c_id ` set (conversations d')"
    and "k_id ` set (user_public_keys d) \<subseteq> k_id ` set (user_public_keys d')"
  shows "message_ok d' m"
  using assms unfolding message_ok_def by (cases "m_recipient_key_id m") auto

section \<open>What a success does\<close>

lemma create_conversation_success:
  assumes "create_conversation new_id now u peer d = (Inr c, d')"
  obtains (old) "d' = d" "c \<in> set (conversations d)" "pair_of c = canonical_pair (u_id u) peer"
      "can_converse d u peer"
  | (new) "filter (\<lambda>c. pair_of c = canonical_pair (u_id u) peer) (conversations d) = []"
      "add_conversation c d = (Inr (), d')" "pair_of c = canonical_pair (u_id u) peer" "c_id c = new_id"
      "can_converse d u peer"
proof -
  let ?ab = "canonical_pair (u_id u) peer"
  let ?rows = "filter (\<lambda>c. pair_of c = ?ab) (conversations d)"
  have elig: "can_converse d u peer" using assms by (auto simp: create_conversation_def split: if_splits)
  consider r where "?rows = [r]" | "?rows = []" | "scalar_one_or_none ?rows = Inl MultipleResultsFound"
    by (cases ?rows; cases "tl ?rows") auto
  then show thesis
  proof cases
    case (1 r)
    then have "r \<in> set ?rows" by simp
    with 1 assms elig old show thesis by (auto simp: create_conversation_def Let_def)
  next
    case 2
    with assms elig new show thesis
      by (auto simp: create_conversation_def Let_def pair_of_def split: prod.splits sum.splits)
  next
    case 3
    with assms elig show thesis by (auto simp: create_conversation_def Let_def)
  qed
qed

lemma add_conversation_success:
  assumes "add_conversation c d = (Inr u, d')"
  shows "d' = d\<lparr>conversations := conversations d @ [c]\<rparr>" and "c_id c \<notin> c_id ` set (conversations d)"
    and "pair_of c \<notin> pair_of ` set (conversations d)" and "c_user_a_id c < c_user_b_id c"
    and "c_user_a_id c \<in> u_id ` set (users d)" and "c_user_b_id c \<in> u_id ` set (users d)"
  using assms by (auto simp: add_conversation_def split: if_splits)

lemma create_conversation_result:
  assumes "create_conversation new_id now u peer d = (Inr c, d')"
  shows "c \<in> set (conversations d') \<and> pair_of c = canonical_pair (u_id u) peer"
  using assms
proof (cases rule: create_conversation_success)
  case new
  with add_conversation_success(1) [OF new(2)] show ?thesis by simp
qed simp

lemma load_conversation_success:
  assumes "load_conversation_for_caller d u cid = Inr c"
  shows "get_row c_id cid (conversations d) = Some c" and "c_id c = cid"
    and "u_role u = Admin \<or> is_party c (u_id u)"
  using assms by (auto simp: load_conversation_for_caller_def dest: get_row_SomeD split: option.splits if_splits)

lemma store_message_success:
  assumes "store_message new_id now u cid ct nonce epk key d = (Inr m, d')"
  obtains c where "get_row c_id cid (conversations d) = Some c" "u_role u = Admin \<or> is_party c (u_id u)"
    "new_id \<notin> m_id ` set (messages d)"
    "m = \<lparr>m_id = new_id, m_conversation_id = cid, m_sender_id = u_id u, m_ciphertext = ct, m_nonce = nonce,
          m_ephemeral_public_key = epk, m_recipient_key_id = key, m_sent_at = now, m_read_at = None,
          m_deleted_at = None\<rparr>"
    "message_ok d m" "d' = touch_conversation cid now (d\<lparr>messages := messages d @ [m]\<rparr>)"
proof -
  from assms obtain c where c: "load_conversation_for_caller d u cid = Inr c"
    by (auto simp: store_message_def split: sum.splits)
  note load = load_conversation_success [OF c]
  show thesis
    by (rule that [OF load(1,3)])
      (use assms c load(2) in \<open>auto simp: store_message_def add_message_def message_ok_def Let_def
        split: prod.splits if_splits option.splits\<close>)
qed

lemma send_message_success:
  assumes "send_message new_id now u cid body d = (Inr m, d')"
  obtains ct nonce epk where "decode_send_body body = Inr (ct, nonce, epk)"
    "store_message new_id now u cid ct nonce epk (sb_recipient_key_id body) d = (Inr m, d')"
  using assms by (auto simp: send_message_def split: sum.splits)

lemma mark_message_read_success:
  assumes "mark_message_read now u cid mid d = (Inr m', d')"
  obtains m c where "get_row c_id cid (conversations d) = Some c" "u_role u = Admin \<or> is_party c (u_id u)"
    "get_row m_id mid (messages d) = Some m" "m_conversation_id m = cid" "m_deleted_at m = None"
    "m_sender_id m \<noteq> u_id u" "m' = read_message now m"
    "d' = d\<lparr>messages := upd_row m_id mid (read_message now) (messages d)\<rparr>"
proof -
  from assms obtain c where c: "load_conversation_for_caller d u cid = Inr c"
    by (auto simp: mark_message_read_def split: sum.splits)
  note load = load_conversation_success [OF c]
  from assms c obtain m where m: "get_row m_id mid (messages d) = Some m"
    by (auto simp: mark_message_read_def split: option.splits)
  show thesis
    by (rule that [OF load(1,3) m]) (use assms c m in \<open>auto simp: mark_message_read_def split: if_splits\<close>)
qed

lemma read_message_frame [simp]:
  "m_id (read_message now m) = m_id m" "m_conversation_id (read_message now m) = m_conversation_id m"
  "m_sender_id (read_message now m) = m_sender_id m" "m_deleted_at (read_message now m) = m_deleted_at m"
  "m_recipient_key_id (read_message now m) = m_recipient_key_id m"
  "m_ciphertext (read_message now m) = m_ciphertext m" "m_read_at (read_message now m) \<noteq> None"
  by (auto simp: read_message_def)

lemma settings_messaging_frame:
  assumes "get_retention_settings d = (ps, d1)"
  shows "conversations d1 = conversations d" "messages d1 = messages d" "users d1 = users d"
    "user_public_keys d1 = user_public_keys d" "settings_row d1 = Some ps"
    "messaging_inv d \<Longrightarrow> 7 \<le> ps_message_retention_days ps"
    "message_ok d1 = message_ok d" "conversations_ok d1 = conversations_ok d" "keys_inv d1 = keys_inv d"
  using assms
  by (auto simp: get_retention_settings_def messaging_inv_def default_settings_def split: option.splits)

section \<open>The requests keep the invariant and the history\<close>

lemma create_conversation_keeps:
  assumes "messaging_inv d" and "create_conversation new_id now u peer d = (Inr c, d')"
  shows "messaging_inv d' \<and> history_kept d d'"
  using assms(2)
proof (cases rule: create_conversation_success)
  case old
  with assms(1) show ?thesis by simp
next
  case new
  note add = add_conversation_success [OF new(2)]
  have conv: "conversations_ok d'"
    using assms(1) add(2-) unfolding messaging_inv_def add(1) conversations_ok_def by auto
  have "keys_inv d'" using assms(1) by (simp add: messaging_inv_def add(1) keys_inv_def active_keys_def)
  moreover have "message_ok d' m" if "m \<in> set (messages d)" for m
    using assms(1) that by (auto simp: messaging_inv_def add(1) intro: message_ok_mono)
  moreover have "history_kept d d'"
    by (auto simp: history_kept_def conversations_kept_def keys_kept_def add(1) intro: key_evolves_refl)
  ultimately show ?thesis using assms(1) conv by (simp add: messaging_inv_def add(1))
qed

lemma store_message_keeps:
  assumes "messaging_inv d" and "store_message new_id now u cid ct nonce epk key d = (Inr m, d')"
  shows "messaging_inv d' \<and> history_kept d d'"
  using assms(2)
proof (rule store_message_success)
  fix c
  assume fresh: "new_id \<notin> m_id ` set (messages d)"
    and m: "m = \<lparr>m_id = new_id, m_conversation_id = cid, m_sender_id = u_id u, m_ciphertext = ct, m_nonce = nonce,
          m_ephemeral_public_key = epk, m_recipient_key_id = key, m_sent_at = now, m_read_at = None,
          m_deleted_at = None\<rparr>"
    and ok: "message_ok d m" and d': "d' = touch_conversation cid now (d\<lparr>messages := messages d @ [m]\<rparr>)"
  have ids: "c_id ` set (conversations d') = c_id ` set (conversations d)"
    using arg_cong [of _ _ set, OF touch_conversation_frame(1) [of cid now "d\<lparr>messages := messages d @ [m]\<rparr>"]]
    by (simp only: set_map d') simp
  have "message_ok d' m'" if "m' \<in> insert m (set (messages d))" for m'
    using that ok assms(1) by (auto simp: messaging_inv_def intro!: message_ok_mono [of d _ d'] simp: ids) (simp_all add: d')
  moreover have "conversations_ok d'"
    using assms(1) conversations_ok_cong [of d' d] by (simp add: messaging_inv_def d')
  moreover have "history_kept d d'"
    unfolding history_kept_def
    by (intro conjI conversations_kept_cong keys_kept_update [where p = "\<lambda>_. False" and f = id and new = "[]"])
      (simp_all add: d' update_where_def)
  ultimately show ?thesis
    using assms(1) fresh by (simp add: messaging_inv_def d' m keys_inv_def active_keys_def)
qed

lemma mark_message_read_keeps:
  assumes "messaging_inv d" and "mark_message_read now u cid mid d = (Inr m', d')"
  shows "messaging_inv d' \<and> history_kept d d'"
  using assms(2)
proof (rule mark_message_read_success)
  assume d': "d' = d\<lparr>messages := upd_row m_id mid (read_message now) (messages d)\<rparr>"
  have "message_ok d (read_message now m) = message_ok d m" for m by (simp add: message_ok_def)
  then have "\<forall>m \<in> set (messages d'). message_ok d m"
    using assms(1) unfolding d' messaging_inv_def by (auto simp: set_upd_row simp del: if_image_distrib)
  then show ?thesis
    using assms(1) by (simp add: messaging_inv_def history_kept_def map_key_upd_row d')
qed

lemma settings_change_keeps:
  assumes "messaging_inv d" and "get_retention_settings d = (ps, d1)" and "7 \<le> ps_message_retention_days ps'"
  shows "messaging_inv (d1\<lparr>settings_row := Some ps'\<rparr>) \<and> history_kept d (d1\<lparr>settings_row := Some ps'\<rparr>)"
  using assms settings_messaging_frame [OF assms(2)]
  by (simp add: messaging_inv_def history_kept_def)

lemma purge_old_messages_keeps:
  assumes "messaging_inv d" and "purge_old_messages now d = (n, d')"
  shows "messaging_inv d' \<and> history_kept d d'"
proof -
  obtain ps d1 where ps: "get_retention_settings d = (ps, d1)" by fastforce
  note frame = settings_messaging_frame [OF ps]
  obtain old where d': "d' = d1\<lparr>messages := delete_where old (messages d1)\<rparr>"
    using assms(2) by (auto simp: purge_old_messages_def ps Let_def)
  show ?thesis
    using assms(1) frame
    by (auto simp: messaging_inv_def history_kept_def d' intro: distinct_delete_where)
qed

lemma key_change_keeps:
  assumes "messaging_inv d" and "keys_inv d'" and "keys_kept d d'"
    and "d' = d\<lparr>user_public_keys := ks\<rparr>"
  shows "messaging_inv d' \<and> history_kept d d'"
proof -
  have "message_ok d' m" if "m \<in> set (messages d)" for m
    using assms(1) that keys_kept_ids [OF assms(3)]
    by (intro message_ok_mono [of d m d']) (auto simp: messaging_inv_def assms(4))
  moreover have "conversations_kept d d'" by (simp add: conversations_kept_def assms(4))
  ultimately show ?thesis
    using assms by (simp add: messaging_inv_def history_kept_def conversations_ok_def)
qed

lemma message_answer_Inr: "message_answer k r = (Inr x, d') \<longleftrightarrow> (\<exists>y. r = (Inr y, d') \<and> x = k y)"
  by (cases r; cases "fst r") (auto simp: message_answer_def)

lemma exec_messaging_keeps:
  assumes "messaging_inv d" and "exec_messaging q d = (Inr r, d')"
  shows "messaging_inv d' \<and> history_kept d d'"
proof (cases q)
  case (OpenConversation new_id now u peer)
  with assms(2) obtain c where "create_conversation new_id now u peer d = (Inr c, d')"
    by (auto simp: message_answer_Inr)
  with assms(1) show ?thesis by (rule create_conversation_keeps)
next
  case (SendMessage new_id now u cid body)
  with assms(2) obtain m where "send_message new_id now u cid body d = (Inr m, d')"
    by (auto simp: message_answer_Inr)
  then show ?thesis
    by (rule send_message_success) (rule store_message_keeps [OF assms(1)])
next
  case (ReadMessage now u cid mid)
  with assms(2) obtain m where "mark_message_read now u cid mid d = (Inr m, d')"
    by (auto simp: message_answer_Inr)
  with assms(1) show ?thesis by (rule mark_message_read_keeps)
next
  case (SetMessageRetention u days)
  obtain ps d1 where ps: "get_retention_settings d = (ps, d1)" by fastforce
  with SetMessageRetention assms(2) have "7 \<le> days"
    "d' = d1\<lparr>settings_row := Some (ps\<lparr>ps_message_retention_days := days,
       ps_updated_by_user_id := Some (u_id u)\<rparr>)\<rparr>"
    by (auto simp: message_answer_Inr update_message_retention_days_def split: if_splits)
  with settings_change_keeps [OF assms(1) ps] show ?thesis by simp
next
  case (PurgeMessages now u)
  with assms(2) obtain n where "purge_old_messages now d = (n, d')"
    by (cases "purge_old_messages now d") (auto split: if_splits)
  with assms(1) show ?thesis by (rule purge_old_messages_keeps)
next
  case (RegisterKey new_id now u t v)
  with assms(2) obtain raw k where reg: "register_key new_id now u raw v d = (Inr k, d')"
    by (auto simp: message_answer_Inr split: sum.splits if_splits)
  then obtain ks where ks: "d' = d\<lparr>user_public_keys := ks\<rparr>" by (auto elim!: register_key_success)
  have "keys_inv d" using assms(1) by (simp add: messaging_inv_def)
  from register_key_keeps [OF this reg] show ?thesis by (rule key_change_keeps [OF assms(1) _ _ ks])
next
  case (RevokeKey now u kid)
  with assms(2) obtain k where rev: "revoke_key now u kid d = (Inr k, d')" by (auto simp: message_answer_Inr)
  then obtain ks where ks: "d' = d\<lparr>user_public_keys := ks\<rparr>" by (auto elim!: revoke_key_success)
  have "keys_inv d" using assms(1) by (simp add: messaging_inv_def)
  from revoke_key_keeps [OF this rev] show ?thesis by (rule key_change_keeps [OF assms(1) _ _ ks])
qed

interpretation messaging: transactional_step exec_messaging messaging_inv history_kept
proof
  fix q d r d'
  assume "messaging_inv d" and "exec_messaging q d = (Inr r, d')"
  then show "messaging_inv d'" and "history_kept d d'" using exec_messaging_keeps by auto
next
  fix d1 d2 d3
  assume "history_kept d1 d2" and "history_kept d2 d3"
  then show "history_kept d1 d3" by (rule history_kept_trans)
qed simp

section \<open>Properties\<close>

text \<open>
  C36: whatever requests are made, no conversation and no registered key ever disappears or
  changes hands, a key keeps its bytes and its status only moves forward, and every user has
  at most one active key and every pair at most one conversation.
\<close>

theorem messaging_history_kept:
  assumes "messaging_inv d"
  shows "messaging_inv (run_requests exec_messaging qs d) \<and>
    history_kept d (run_requests exec_messaging qs d)"
  using messaging.run_keeps [OF assms] messaging.run_rel [OF assms] by simp

definition chat_db :: db where
  "chat_db = sample_db\<lparr>
     conversations := [\<lparr>c_id = 500, c_user_a_id = 2, c_user_b_id = 3, c_created_at = 0, c_last_message_at = None\<rparr>],
     user_public_keys := [\<lparr>k_id = 600, k_user_id = 3, k_public_key = replicate 32 7, k_key_version = 1,
       k_status = KActive, k_registered_at = 0, k_rotated_at = None, k_revoked_at = None, k_created_at = 0\<rparr>]\<rparr>"

lemma chat_db_inv: "messaging_inv chat_db"
proof -
  have "length (active_keys chat_db uid) \<le> 1" for uid
    by (simp add: active_keys_def chat_db_def)
  then show ?thesis
    by (simp add: messaging_inv_def conversations_ok_def keys_inv_def chat_db_def sample_defs pair_of_def)
qed

theorem messaging_history_kept_witness:
  "messaging_inv (run_requests exec_messaging
     [RegisterKey 601 5 sample_customer (b64url_encode (replicate 32 9)) 2, RevokeKey 6 sample_customer 600] chat_db)"
  using messaging_history_kept [OF chat_db_inv] by blast

text \<open>
  Registering a key makes it the one others are given, and leaves everybody else's active
  key alone.
\<close>

theorem registered_key_is_the_active_one:
  assumes "keys_inv d" and "register_key new_id now u raw v d = (Inr k, d')"
  shows "get_active_key_for_user d' (u_id u) = Inr k \<and>
    (\<forall>uid. uid = u_id u \<or> get_active_key_for_user d' uid = get_active_key_for_user d uid)"
  using active_keys_after_register [OF assms(2)] by (simp add: get_active_key_for_user_def)

theorem registered_key_is_the_active_one_witness:
  "\<exists>k d'. register_key 601 5 sample_customer (replicate 32 9) 2 chat_db = (Inr k, d') \<and>
     get_active_key_for_user d' 3 = Inr k"
proof -
  have "\<exists>k d'. register_key 601 5 sample_customer (replicate 32 9) 2 chat_db = (Inr k, d')"
    by (simp add: register_key_def add_key_def active_keys_def Let_def rotate_key_def chat_db_def sample_defs)
  then obtain k d' where reg: "register_key 601 5 sample_customer (replicate 32 9) 2 chat_db = (Inr k, d')"
    by blast
  have "keys_inv chat_db" using chat_db_inv by (simp add: messaging_inv_def)
  from registered_key_is_the_active_one [OF this reg] reg show ?thesis
    by (auto simp: sample_customer_def sample_user_def)
qed

text \<open>
  A pair has one conversation whoever opens it: once it is open, opening it from the other
  side gives the same one and changes nothing.
\<close>

theorem conversation_opens_once_from_either_side:
  assumes "messaging_inv d" and "create_conversation new_id now u (u_id v) d = (Inr c, d')"
    and "can_converse d' v (u_id u)"
  shows "create_conversation new_id' now' v (u_id u) d' = (Inr c, d')"
proof -
  have inv: "messaging_inv d'" using create_conversation_keeps [OF assms(1,2)] by simp
  have "u_id u \<noteq> u_id v" using assms(3) by (auto simp: can_converse_def)
  then have pair: "canonical_pair (u_id v) (u_id u) = canonical_pair (u_id u) (u_id v)"
    by (auto simp: canonical_pair_def)
  have c: "c \<in> set (conversations d')" "pair_of c = canonical_pair (u_id u) (u_id v)"
    using create_conversation_result [OF assms(2)] by simp_all
  then have "filter (\<lambda>r. pair_of r = canonical_pair (u_id u) (u_id v)) (conversations d') = [c]"
    using filter_key_distinct [of pair_of "conversations d'"] get_row_distinct [of pair_of "conversations d'" c] inv
    by (simp add: messaging_inv_def conversations_ok_def)
  with assms(3) show ?thesis by (simp add: create_conversation_def pair Let_def)
qed

theorem conversation_opens_once_from_either_side_witness:
  "\<exists>c d'. create_conversation 501 5 sample_customer 2 sample_db = (Inr c, d') \<and>
     create_conversation 502 6 sample_seller 3 d' = (Inr c, d')"
proof -
  have inv: "messaging_inv sample_db"
    by (simp add: messaging_inv_def conversations_ok_def keys_inv_def active_keys_def sample_defs)
  let ?d = "sample_db\<lparr>conversations := [\<lparr>c_id = 501, c_user_a_id = 2, c_user_b_id = 3, c_created_at = 5,
    c_last_message_at = None\<rparr>]\<rparr>"
  let ?c = "\<lparr>c_id = 501, c_user_a_id = 2, c_user_b_id = 3, c_created_at = 5, c_last_message_at = None\<rparr>"
  have "create_conversation 501 5 sample_customer (u_id sample_seller) sample_db = (Inr ?c, ?d)"
    by (simp add: create_conversation_def can_converse_def active_user_def canonical_pair_def Let_def
        add_conversation_def pair_of_def sample_defs)
  moreover have "can_converse ?d sample_seller (u_id sample_customer)"
    by (simp add: can_converse_def active_user_def sample_defs)
  ultimately show ?thesis
    using conversation_opens_once_from_either_side [OF inv, of 501 5 sample_customer sample_seller ?c ?d 502 6]
    by (auto simp: sample_seller_def sample_customer_def sample_user_def)
qed

subsection \<open>Paging\<close>










text \<open>
  Two messages sent at the same instant on either side of a page boundary are the case the
  cursor misses: the next page starts strictly before the last one shown.
\<close>

theorem cursor_skips_simultaneous_messages:
  assumes "history d cid before = ms @ [m, m'] @ rest" and "m_sent_at m = m_sent_at m'"
    and "load_conversation_for_caller d u cid = Inr c"
  shows "message_page d u cid before (Suc (length ms)) = Inr (ms @ [m], Some (m_sent_at m)) \<and>
    m' \<notin> set (history d cid (Some (m_sent_at m)))"
  using assms by (simp add: message_page_def list_messages_def) (simp add: history_def)

definition two_messages :: "time \<Rightarrow> db" where
  "two_messages t = chat_db\<lparr>messages := map (\<lambda>(i, at_time). \<lparr>m_id = i, m_conversation_id = 500, m_sender_id = 2,
     m_ciphertext = [1], m_nonce = replicate 12 0, m_ephemeral_public_key = replicate 32 0,
     m_recipient_key_id = None, m_sent_at = at_time, m_read_at = None, m_deleted_at = None\<rparr>) [(700, 10), (701, t)]\<rparr>"

lemma customer_reads_chat:
  "load_conversation_for_caller (two_messages t) sample_customer 500 =
     Inr \<lparr>c_id = 500, c_user_a_id = 2, c_user_b_id = 3, c_created_at = 0, c_last_message_at = None\<rparr>"
  by (simp add: load_conversation_for_caller_def two_messages_def chat_db_def sample_customer_def
      sample_user_def is_party_def)


theorem cursor_skips_simultaneous_messages_witness:
  "\<exists>m. message_page (two_messages 10) sample_customer 500 None 1 = Inr ([m], Some 10) \<and>
     map_sum id (map m_id) (list_messages (two_messages 10) sample_customer 500 (Some 10) 50) = Inr []"
proof -
  have "\<exists>m m'. history (two_messages 10) 500 None = [] @ [m, m'] @ [] \<and> m_sent_at m = 10 \<and> m_sent_at m' = 10"
    by (simp add: history_def two_messages_def order_desc_def)
  then obtain m m' where h: "history (two_messages 10) 500 None = [] @ [m, m'] @ []"
    and t: "m_sent_at m = 10" "m_sent_at m' = 10" by blast
  have "m_sent_at m = m_sent_at m'" using t by simp
  note skip = cursor_skips_simultaneous_messages [OF h this customer_reads_chat]
  have "list_messages (two_messages 10) sample_customer 500 (Some 10) 50 = Inr []"
    by (simp add: list_messages_def customer_reads_chat) (simp add: history_def two_messages_def order_desc_def)
  with skip t show ?thesis by simp
qed

end
