(* ===== verification/Devices.thy ===== *)
theory Devices
  imports Tokens
begin

text \<open>
  Push notifications: \<open>services/push_service.py\<close> and \<open>api/v1/devices.py\<close> under
  \<open>src/backend/app\<close>. What the FCM server answers is a parameter; the APNs sender is the stub of
  the code. Sending is the update of the device rows it leaves behind.
\<close>

section \<open>Senders\<close>

record push_settings =
  fcm_server_key :: string
  apns_key_pem :: string
  apns_team_id :: string

datatype (plugins only: code) sender = NoopSender | FCMSender | APNsSender

definition pick_sender :: "push_settings \<Rightarrow> string \<Rightarrow> sender" where
  "pick_sender cfg platform =
     (if platform = ''android'' \<and> fcm_server_key cfg \<noteq> [] then FCMSender
      else if platform = ''ios'' \<and> apns_key_pem cfg \<noteq> [] \<and> apns_team_id cfg \<noteq> [] then APNsSender
      else NoopSender)"

text \<open>
  What happens to the HTTP request: an exception on the way (a failing import of the client
  counts as one), or a status.
\<close>

datatype (plugins only: code) http_outcome = TransportError | HttpStatus nat

definition fcm_send :: "http_outcome \<Rightarrow> bool" where
  "fcm_send out =
     (case out of
        TransportError \<Rightarrow> True
      | HttpStatus n \<Rightarrow> if n = 200 then True else 500 \<le> n)"

definition send :: "sender \<Rightarrow> http_outcome \<Rightarrow> bool" where
  "send s out = (case s of NoopSender \<Rightarrow> True | APNsSender \<Rightarrow> True | FCMSender \<Rightarrow> fcm_send out)"

section \<open>Fan-out\<close>

definition push_target :: "uuid \<Rightarrow> user_device \<Rightarrow> bool" where
  "push_target uid dv \<longleftrightarrow> dv_user_id dv = uid \<and> dv_disabled_at dv = None"

definition load_devices :: "db \<Rightarrow> uuid \<Rightarrow> user_device list" where
  "load_devices d uid = filter (push_target uid) (user_devices d)"

definition send_one :: "push_settings \<Rightarrow> (user_device \<Rightarrow> http_outcome) \<Rightarrow> time \<Rightarrow> user_device \<Rightarrow> user_device" where
  "send_one cfg answer now dv =
     (if \<not> send (pick_sender cfg (dv_platform dv)) (answer dv)
      then dv\<lparr>dv_disabled_at := Some now\<rparr>
      else dv\<lparr>dv_last_seen_at := Some now\<rparr>)"

definition send_notification ::
  "push_settings \<Rightarrow> (user_device \<Rightarrow> http_outcome) \<Rightarrow> time \<Rightarrow> uuid \<Rightarrow> db \<Rightarrow> db" where
  "send_notification cfg answer now uid d =
     (if load_devices d uid = [] then d
      else d\<lparr>user_devices := update_where (push_target uid) (send_one cfg answer now) (user_devices d)\<rparr>)"

section \<open>Registration\<close>

text \<open>The columns of \<open>user_devices\<close>: the primary key and \<open>uq_user_devices_user_token\<close>.\<close>

definition add_device :: "user_device \<Rightarrow> db \<Rightarrow> unit res \<times> db" where
  "add_device dv d =
     (if dv_id dv \<in> dv_id ` set (user_devices d) \<or>
         (dv_user_id dv, dv_token dv) \<in> (\<lambda>x. (dv_user_id x, dv_token x)) ` set (user_devices d)
      then (Inl IntegrityError, d)
      else (Inr (), d\<lparr>user_devices := user_devices d @ [dv]\<rparr>))"

definition register_device ::
  "uuid \<Rightarrow> time \<Rightarrow> uuid \<Rightarrow> string \<Rightarrow> string \<Rightarrow> db \<Rightarrow> user_device res \<times> db" where
  "register_device new_id now uid platform token d =
     (if platform \<notin> {''ios'', ''android'', ''web''} then (Inl ValidationError, d)
      else case scalar_one_or_none
             (filter (\<lambda>dv. dv_user_id dv = uid \<and> dv_token dv = token) (user_devices d)) of
        Inl e \<Rightarrow> (Inl e, d)
      | Inr (Some existing) \<Rightarrow>
          (let dv = existing\<lparr>dv_platform := platform, dv_disabled_at := None, dv_last_seen_at := Some now\<rparr>
           in (Inr dv, d\<lparr>user_devices := upd_row dv_id (dv_id existing) (\<lambda>_. dv) (user_devices d)\<rparr>))
      | Inr None \<Rightarrow>
          (let dv = \<lparr>dv_id = new_id, dv_user_id = uid, dv_platform = platform, dv_token = token,
                     dv_last_seen_at = Some now, dv_disabled_at = None\<rparr>
           in case add_device dv d of
                (Inl e, d') \<Rightarrow> (Inl e, d')
              | (Inr _, d') \<Rightarrow> (Inr dv, d')))"

text \<open>The endpoint, with the bounds of its schema.\<close>

definition post_register_device ::
  "uuid \<Rightarrow> time \<Rightarrow> user \<Rightarrow> string \<Rightarrow> string \<Rightarrow> db \<Rightarrow> user_device res \<times> db" where
  "post_register_device new_id now u platform token d =
     (if platform \<notin> {''ios'', ''android'', ''web''} \<or> token = [] \<or> 4096 < length token
      then (Inl ValidationError, d)
      else register_device new_id now (u_id u) platform token d)"

section \<open>Properties\<close>

definition devices_inv :: "db \<Rightarrow> bool" where
  "devices_inv d \<longleftrightarrow> distinct (map dv_id (user_devices d)) \<and>
     distinct (map (\<lambda>x. (dv_user_id x, dv_token x)) (user_devices d))"

lemma update_where_devices:
  "map dv_id (update_where p (send_one cfg answer now) rows) = map dv_id rows"
  "map (\<lambda>x. (dv_user_id x, dv_token x)) (update_where p (send_one cfg answer now) rows) =
     map (\<lambda>x. (dv_user_id x, dv_token x)) rows"
  by (induction rows) (auto simp: send_one_def update_where_def)

lemma send_notification_devices_inv: "devices_inv d \<Longrightarrow> devices_inv (send_notification cfg answer now uid d)"
  by (simp add: devices_inv_def send_notification_def update_where_devices)

lemma filter_device_key:
  assumes "devices_inv d"
  shows "filter (\<lambda>dv. dv_user_id dv = uid \<and> dv_token dv = token) (user_devices d) = [] \<or>
    (\<exists>dv. filter (\<lambda>dv. dv_user_id dv = uid \<and> dv_token dv = token) (user_devices d) = [dv])"
proof -
  let ?rows = "filter (\<lambda>dv. dv_user_id dv = uid \<and> dv_token dv = token) (user_devices d)"
  have "distinct (map (\<lambda>x. (dv_user_id x, dv_token x)) ?rows)"
    using assms unfolding devices_inv_def by (intro distinct_map_filter) simp
  moreover have "\<forall>x \<in> set ?rows. (dv_user_id x, dv_token x) = (uid, token)" by simp
  ultimately show ?thesis by (cases ?rows; cases "tl ?rows") auto
qed

abbreviation renewed :: "string \<Rightarrow> time \<Rightarrow> user_device \<Rightarrow> user_device" where
  "renewed platform now dv \<equiv>
     dv\<lparr>dv_platform := platform, dv_disabled_at := None, dv_last_seen_at := Some now\<rparr>"

lemma renewed_rows:
  assumes inv: "devices_inv d"
    and one: "filter (\<lambda>x. dv_user_id x = uid \<and> dv_token x = token) (user_devices d) = [old]"
    and rows_def: "rows = upd_row dv_id (dv_id old) (\<lambda>_. renewed platform now old) (user_devices d)"
  shows "devices_inv (d\<lparr>user_devices := rows\<rparr>)"
    and "filter (\<lambda>x. dv_user_id x = uid \<and> dv_token x = token) rows = [renewed platform now old]"
proof -
  let ?q = "\<lambda>x. dv_user_id x = uid \<and> dv_token x = token" and ?dv = "renewed platform now old"
  let ?key = "\<lambda>x. (dv_user_id x, dv_token x)"
  from one have "old \<in> set (filter ?q (user_devices d))" by simp
  then have old: "old \<in> set (user_devices d)" "dv_user_id old = uid" "dv_token old = token" by auto
  have ids: "distinct (map dv_id (user_devices d))" using inv by (simp add: devices_inv_def)
  have same: "dv_id x = dv_id old \<longleftrightarrow> x = old" if "x \<in> set (user_devices d)" for x
    using distinct_key_eq [OF ids that old(1)] by auto
  have keys: "map g rows = map g (user_devices d)" if "g ?dv = g old" for g :: "user_device \<Rightarrow> 'k"
    unfolding rows_def upd_row_def update_where_def map_map
    using same that by (intro map_cong) auto
  show "devices_inv (d\<lparr>user_devices := rows\<rparr>)"
    using inv keys [of dv_id] keys [of ?key] by (simp add: devices_inv_def)
  have "filter ?q rows = upd_row dv_id (dv_id old) (\<lambda>_. ?dv) (filter ?q (user_devices d))"
    unfolding rows_def using same old by (intro filter_upd_row) auto
  then show "filter ?q rows = [?dv]" unfolding one by simp
qed

lemma post_register_device_inv:
  assumes "devices_inv d" and "post_register_device i now u platform token d = (Inr dv, d')"
  shows "devices_inv d'"
  using assms filter_device_key [OF assms(1), of "u_id u" token]
  by (auto simp: post_register_device_def register_device_def Let_def add_device_def renewed_rows(1) [OF _ _ refl]
      split: if_splits) (auto simp: devices_inv_def)

text \<open>
  Registering a device always succeeds for a known platform and a fresh identifier, is
  idempotent in the number of rows, and leaves exactly one live row for the user and token.
\<close>

lemma register_device_effect:
  assumes inv: "devices_inv d" and "platform \<in> {''ios'', ''android'', ''web''}"
    and fresh: "new_id \<notin> dv_id ` set (user_devices d)"
  obtains dv d' where "register_device new_id now uid platform token d = (Inr dv, d')"
    "devices_inv d'" "filter (\<lambda>x. dv_user_id x = uid \<and> dv_token x = token) (user_devices d') = [dv]"
    "dv_platform dv = platform" "dv_disabled_at dv = None"
proof -
  let ?q = "\<lambda>x. dv_user_id x = uid \<and> dv_token x = token"
  let ?key = "\<lambda>x. (dv_user_id x, dv_token x)"
  from filter_device_key [OF inv, of uid token] show thesis
  proof (elim disjE exE)
    assume none: "filter ?q (user_devices d) = []"
    then have "(uid, token) \<notin> ?key ` set (user_devices d)" by (auto simp: filter_empty_conv)
    let ?new = "\<lparr>dv_id = new_id, dv_user_id = uid, dv_platform = platform, dv_token = token,
      dv_last_seen_at = Some now, dv_disabled_at = None\<rparr>"
    from \<open>(uid, token) \<notin> _\<close> none fresh inv assms(2) show thesis
      by (intro that [of ?new "d\<lparr>user_devices := user_devices d @ [?new]\<rparr>"])
        (simp_all add: register_device_def add_device_def Let_def devices_inv_def)
  next
    fix old
    assume one: "filter ?q (user_devices d) = [old]"
    from renewed_rows [OF inv one refl] one assms(2) show thesis
      by (intro that [of "renewed platform now old"
            "d\<lparr>user_devices := upd_row dv_id (dv_id old) (\<lambda>_. renewed platform now old) (user_devices d)\<rparr>"])
        (auto simp: register_device_def Let_def)
  qed
qed

text \<open>
  A status below 500 other than 200 counts as a dead token, although 401 (a wrong server key)
  and 429 (too many requests) say nothing about the token: one such answer disables the device.
\<close>

theorem client_error_disables_devices:
  assumes "fcm_server_key cfg \<noteq> []" and "answer dv = HttpStatus 401"
    and "dv \<in> set (user_devices d)" and "dv_platform dv = ''android''" and "push_target uid dv"
  shows "dv\<lparr>dv_disabled_at := Some now\<rparr> \<in> set (user_devices (send_notification cfg answer now uid d))"
proof -
  have "load_devices d uid \<noteq> []" using assms(3,5) by (auto simp: load_devices_def filter_empty_conv)
  moreover have "send_one cfg answer now dv = dv\<lparr>dv_disabled_at := Some now\<rparr>"
    using assms by (simp add: send_one_def pick_sender_def send_def fcm_send_def)
  ultimately show ?thesis
    using assms(3,5) by (force simp: send_notification_def set_update_where)
qed

end
