(* ===== verification/Scheduler.thy ===== *)
theory Scheduler
  imports Order_Properties Strings
begin

text \<open>
  The background scheduler: \<open>core/scheduler.py\<close> under \<open>src/backend/app\<close>. The environment is a
  map of variables; a tick of the loop is one session around \<open>run_purge_job\<close>, given the time it
  reads, the identifiers it draws and the rows that other transactions hold locked.
\<close>

section \<open>Configuration\<close>

type_synonym env = "string \<rightharpoonup> string"

definition enabled :: "env \<Rightarrow> bool" where
  "enabled env \<longleftrightarrow>
     lower (or_else (env ''APP_ENABLE_SCHEDULER'') ''false'') \<in> {''1'', ''true'', ''yes''}"

text \<open>
  Python's \<open>int\<close> on a string: surrounding blanks, a sign, digits with single underscores
  between them; anything else is a \<open>ValueError\<close>.
\<close>

definition is_digit :: "char \<Rightarrow> bool" where
  "is_digit c \<longleftrightarrow> 48 \<le> (of_char c :: nat) \<and> (of_char c :: nat) \<le> 57"

fun digit_groups :: "string \<Rightarrow> bool" where
  "digit_groups [] = False"
| "digit_groups [c] = is_digit c"
| "digit_groups (c # c' # cs) =
     (is_digit c \<and> (if c' = CHR ''_'' then digit_groups cs else digit_groups (c' # cs)))"

definition py_int :: "string \<Rightarrow> int option" where
  "py_int s =
     (let t = strip s;
          neg = (take 1 t = ''-'');
          u = (if take 1 t \<in> {''-'', ''+''} then drop 1 t else t)
      in if \<not> digit_groups u then None
         else Some ((if neg then -1 else 1) * int (code_value (filter is_digit u))))"

definition interval_seconds :: "env \<Rightarrow> int" where
  "interval_seconds env =
     (case py_int (or_else (env ''APP_PURGE_INTERVAL_SECONDS'') ''3600'') of
        None \<Rightarrow> 3600 | Some n \<Rightarrow> n)"

section \<open>The task\<close>

datatype task = Running | Done

definition start_purge_scheduler :: "env \<Rightarrow> task option \<Rightarrow> task option" where
  "start_purge_scheduler env t =
     (if \<not> enabled env then t else if t = Some Running then t else Some Running)"

text \<open>The running task is cancelled and awaited; either way the variable is cleared.\<close>

definition stop_purge_scheduler :: "task option \<Rightarrow> task option" where
  "stop_purge_scheduler t = None"

section \<open>The loop\<close>

record tick =
  tk_now :: time
  tk_fresh :: "nat \<Rightarrow> uuid"
  tk_fresh' :: "nat \<Rightarrow> uuid"
  tk_skip :: "uuid \<Rightarrow> bool"
  tk_skip' :: "uuid \<Rightarrow> bool"

text \<open>
  The body of the loop: the job and a commit; an exception closes the session, which rolls it
  back, and is logged, so that the loop goes on.
\<close>

definition purge_tick :: "tick \<Rightarrow> db \<Rightarrow> db" where
  "purge_tick k d =
     snd (get_db (flushing (run_purge_job (tk_fresh k) (tk_fresh' k) (tk_skip k) (tk_skip' k) (tk_now k))) d)"

definition purge_ticks :: "tick list \<Rightarrow> db \<Rightarrow> db" where
  "purge_ticks ks d = fold purge_tick ks d"

section \<open>A tick makes progress\<close>

lemma write_snapshot_total:
  assumes "new_id \<notin> sn_id ` set (snapshots d)"
  obtains d' where "write_snapshot new_id now ord d = (Inr (), d')"
    "settings_row d' = settings_row d"
    "sn_id ` set (snapshots d') \<subseteq> insert new_id (sn_id ` set (snapshots d))"
proof (cases "o_id ord \<in> sn_order_id ` set (snapshots d)")
  case False
  with assms show thesis
    by (intro that [of "d\<lparr>snapshots := snapshots d @ [snapshot_of new_id now d ord]\<rparr>"])
      (auto simp: write_snapshot_def insert_row_def)
qed (use that [of d] in \<open>auto simp: write_snapshot_def\<close>)

lemma auto_complete_loop_total:
  assumes "inj fresh" and "\<And>i. n \<le> i \<Longrightarrow> fresh i \<notin> sn_id ` set (snapshots d)"
  shows "\<exists>k d'. auto_complete_loop fresh n now ords d = (Inr k, d') \<and>
    settings_row d' = settings_row d \<and>
    sn_id ` set (snapshots d') \<subseteq> sn_id ` set (snapshots d) \<union> range fresh"
  using assms(2)
proof (induction ords arbitrary: n d)
  case (Cons ord ords)
  show ?case
  proof (cases "o_status ord = Delivered")
    case True
    let ?d = "set_order (o_id ord) (completed now) d"
    have "fresh n \<notin> sn_id ` set (snapshots ?d)" using Cons.prems by (simp add: set_order_def)
    then obtain d1 where d1: "write_snapshot (fresh n) now (completed now ord) ?d = (Inr (), d1)"
      "settings_row d1 = settings_row ?d"
      "sn_id ` set (snapshots d1) \<subseteq> insert (fresh n) (sn_id ` set (snapshots ?d))"
      by (rule write_snapshot_total)
    have "fresh i \<notin> sn_id ` set (snapshots d1)" if "Suc n \<le> i" for i
    proof -
      have "fresh i \<noteq> fresh n" using that by (simp add: inj_eq [OF assms(1)])
      then show ?thesis using d1(3) Cons.prems [of i] that by (auto simp: set_order_def)
    qed
    from Cons.IH [OF this] obtain k d' where
      l: "auto_complete_loop fresh (Suc n) now ords d1 = (Inr k, d')" and
      set: "settings_row d' = settings_row d1" and
      ids: "sn_id ` set (snapshots d') \<subseteq> sn_id ` set (snapshots d1) \<union> range fresh" by blast
    have "auto_complete_loop fresh n now (ord # ords) d = (Inr (Suc k), d')"
      using True d1(1) l by simp
    moreover have "settings_row d' = settings_row d" using set d1(2) by (simp add: set_order_def)
    moreover have "sn_id ` set (snapshots d') \<subseteq> sn_id ` set (snapshots d) \<union> range fresh"
    proof (rule subset_trans [OF ids Un_least])
      have "snapshots ?d = snapshots d" by (simp add: set_order_def)
      with d1(3) have "sn_id ` set (snapshots d1) \<subseteq> insert (fresh n) (sn_id ` set (snapshots d))"
        by (simp only:)
      then show "sn_id ` set (snapshots d1) \<subseteq> sn_id ` set (snapshots d) \<union> range fresh"
        by (rule subset_trans) simp
    qed simp
    ultimately show ?thesis by blast
  qed (use Cons in auto)
qed simp

definition draws_fresh :: "tick \<Rightarrow> db \<Rightarrow> bool" where
  "draws_fresh k d \<longleftrightarrow> inj (tk_fresh k) \<and> range (tk_fresh k) \<inter> sn_id ` set (snapshots d) = {}"

lemma get_retention_settings_ids:
  "get_retention_settings d = (ps, d0) \<Longrightarrow> snapshots d0 = snapshots d \<and> settings_row d0 = Some ps"
  by (auto simp: get_retention_settings_def split: option.splits)

lemma fold_delete_settings:
  "settings_row (fold (\<lambda>ord. delete_order_row (o_id ord)) ords d) = settings_row d"
  by (induction ords arbitrary: d) simp_all

lemma purge_tick_total:
  assumes "orders_inv d" and "draws_fresh k d" and "get_retention_settings d = (ps, d0)"
  obtains c where
    "run_purge_job (tk_fresh k) (tk_fresh' k) (tk_skip k) (tk_skip' k) (tk_now k) d =
       (Inr c, purge_tick k d)"
    "settings_row (purge_tick k d) = Some ps"
    "sn_id ` set (snapshots (purge_tick k d)) \<subseteq> sn_id ` set (snapshots d) \<union> range (tk_fresh k)"
proof -
  note fr = get_retention_settings_frame [OF assms(3)]
  let ?due = "filter (auto_complete_due (tk_skip k)
     (tk_now k - td_hours (ps_order_auto_complete_grace_hours ps))) (orders d0)"
  have inv0: "orders_inv d0" using assms(1) fr by simp
  then have dist: "distinct (map o_id (orders d0))" by (simp add: orders_inv_def)
  from assms(2) fr(2) have "fresh i \<notin> sn_id ` set (snapshots d0)" if "fresh = tk_fresh k" for fresh i
    using that by (auto simp: draws_fresh_def)
  then obtain n d1 where ac: "auto_complete_loop (tk_fresh k) 0 (tk_now k) ?due d0 = (Inr n, d1)"
    and d1: "settings_row d1 = settings_row d0"
      "sn_id ` set (snapshots d1) \<subseteq> sn_id ` set (snapshots d0) \<union> range (tk_fresh k)"
    using auto_complete_loop_total [of "tk_fresh k" 0 d0 "tk_now k" ?due] assms(2)
    unfolding draws_fresh_def by blast
  have rows: "get_row o_id (o_id ord) (orders d0) = Some ord \<and> o_status ord = Delivered"
    if "ord \<in> set ?due" for ord
    using that get_row_distinct [OF dist] by (simp add: auto_complete_due_def)
  have inv1: "orders_inv d1"
    using auto_complete_loop_effect [OF inv0 distinct_map_filter [OF dist] rows ac] by simp
  then have dist1: "distinct (map o_id (orders d1))" by (simp add: orders_inv_def)
  let ?gone = "filter (purge_due (tk_skip' k) (tk_now k - td_days (ps_retention_min_days ps))) (orders d1)"
  have pu: "purge_loop (tk_fresh' k) 0 (tk_now k) ?gone d1 =
      (Inr (length ?gone), fold (\<lambda>ord. delete_order_row (o_id ord)) ?gone d1)"
    by (rule purge_loop_effect [OF inv1]) (simp_all add: distinct_map_filter [OF dist1])
  have job: "run_purge_job (tk_fresh k) (tk_fresh' k) (tk_skip k) (tk_skip' k) (tk_now k) d =
      (Inr \<lparr>purged_count = length ?gone, auto_completed_count = n\<rparr>,
       fold (\<lambda>ord. delete_order_row (o_id ord)) ?gone d1)"
    by (simp add: run_purge_job_def assms(3) ac pu Let_def)
  then have "purge_tick k d = fold (\<lambda>ord. delete_order_row (o_id ord)) ?gone d1"
    by (simp add: purge_tick_def get_db_flushing)
  with job d1 fr show thesis
    by (intro that) (simp_all add: fold_delete_settings fold_delete_order_row)
qed

section \<open>The life of a delivered order under the scheduler\<close>

definition waiting :: "uuid \<Rightarrow> time \<Rightarrow> db \<Rightarrow> bool" where
  "waiting oid t d \<longleftrightarrow> (\<exists>ord \<in> set (orders d). o_id ord = oid \<and> o_status ord = Delivered \<and>
     o_deleted_at ord = None \<and> o_delivered_at ord = Some t)"

text \<open>Recorded, and where the row is still there, completed at \<open>t\<close> at the latest.\<close>

definition settled :: "uuid \<Rightarrow> time \<Rightarrow> db \<Rightarrow> bool" where
  "settled oid t d \<longleftrightarrow> oid \<in> sn_order_id ` set (snapshots d) \<and>
     (\<forall>ord \<in> set (orders d). o_id ord = oid \<longrightarrow> o_status ord = Completed \<and>
        o_deleted_at ord = None \<and> (\<exists>t'. o_completed_at ord = Some t' \<and> t' \<le> t))"

lemma settled_later: "settled oid t d \<Longrightarrow> t \<le> t' \<Longrightarrow> settled oid t' d"
  by (force simp: settled_def)

definition draws_distinct :: "tick list \<Rightarrow> db \<Rightarrow> bool" where
  "draws_distinct ks d \<longleftrightarrow> (\<forall>k \<in> set ks. draws_fresh k d) \<and>
     sorted_wrt (\<lambda>a b. range (tk_fresh a) \<inter> range (tk_fresh b) = {}) ks"

definition run_state :: "tick list \<Rightarrow> platform_settings \<Rightarrow> db \<Rightarrow> bool" where
  "run_state ks ps d \<longleftrightarrow>
     orders_inv d \<and> draws_distinct ks d \<and> fst (get_retention_settings d) = ps"

lemma run_state_tick:
  assumes "run_state (k # ks) ps d"
  obtains c where
    "run_purge_job (tk_fresh k) (tk_fresh' k) (tk_skip k) (tk_skip' k) (tk_now k) d =
       (Inr c, purge_tick k d)"
    "get_retention_settings d = (ps, snd (get_retention_settings d))" "orders_inv d"
    "run_state ks ps (purge_tick k d)"
proof -
  let ?d = "purge_tick k d"
  have inv: "orders_inv d" and fresh: "draws_fresh k d"
    and ps: "get_retention_settings d = (ps, snd (get_retention_settings d))"
    using assms by (auto simp: run_state_def draws_distinct_def)
  obtain c where job: "run_purge_job (tk_fresh k) (tk_fresh' k) (tk_skip k) (tk_skip' k) (tk_now k) d = (Inr c, ?d)"
    and set: "settings_row ?d = Some ps"
    and ids: "sn_id ` set (snapshots ?d) \<subseteq> sn_id ` set (snapshots d) \<union> range (tk_fresh k)"
    using inv fresh ps by (rule purge_tick_total)
  have "draws_fresh k' ?d" if "k' \<in> set ks" for k'
  proof -
    let ?R = "range (tk_fresh k')" and ?S = "sn_id ` set (snapshots d)"
    have inj: "inj (tk_fresh k')" and disj: "?R \<inter> ?S = {}" "range (tk_fresh k) \<inter> ?R = {}"
      using assms that by (simp_all add: run_state_def draws_distinct_def draws_fresh_def)
    have "?R \<inter> sn_id ` set (snapshots ?d) \<subseteq> ?R \<inter> (?S \<union> range (tk_fresh k))"
      by (rule Int_mono [OF subset_refl ids])
    also have "\<dots> = {}" using disj by (simp only: Int_Un_distrib Int_commute Un_empty)
    finally show ?thesis using inj by (simp only: draws_fresh_def subset_empty)
  qed
  then have "draws_distinct ks ?d"
    using assms by (simp add: run_state_def draws_distinct_def)
  moreover have "orders_inv ?d" using run_purge_job_effect(1) [OF inv job ps] .
  moreover have "fst (get_retention_settings ?d) = ps" by (simp add: get_retention_settings_def set)
  ultimately show thesis using job ps inv by (intro that) (simp_all add: run_state_def)
qed

text \<open>What one tick does to the rows of one order.\<close>

lemma tick_orders:
  assumes "run_state (k # ks) ps d"
  shows "orders (purge_tick k d) =
      filter (\<lambda>r. \<not> purge_due (tk_skip' k) (tk_now k - td_days (ps_retention_min_days ps)) r)
       (map (\<lambda>r. if auto_complete_due (tk_skip k)
                     (tk_now k - td_hours (ps_order_auto_complete_grace_hours ps)) r
                 then completed (tk_now k) r else r) (orders d))"
    and "\<exists>sns. snapshots (purge_tick k d) = snapshots d @ sns"
    and "orders_inv (purge_tick k d)"
proof -
  obtain c where job: "run_purge_job (tk_fresh k) (tk_fresh' k) (tk_skip k) (tk_skip' k) (tk_now k) d =
       (Inr c, purge_tick k d)"
    and ps: "get_retention_settings d = (ps, snd (get_retention_settings d))" and inv: "orders_inv d"
    using assms by (rule run_state_tick)
  note E = run_purge_job_effect [OF inv job ps]
  show "orders (purge_tick k d) =
      filter (\<lambda>r. \<not> purge_due (tk_skip' k) (tk_now k - td_days (ps_retention_min_days ps)) r)
       (map (\<lambda>r. if auto_complete_due (tk_skip k)
                     (tk_now k - td_hours (ps_order_auto_complete_grace_hours ps)) r
                 then completed (tk_now k) r else r) (orders d))" by (rule E(2))
  show "\<exists>sns. snapshots (purge_tick k d) = snapshots d @ sns" by (rule E(5))
  show "orders_inv (purge_tick k d)" by (rule E(1))
qed

lemma tick_settled:
  assumes "run_state (k # ks) ps d" and "settled oid t d"
  shows "settled oid t (purge_tick k d)"
  using tick_orders(2) [OF assms(1)] assms(2)
  by (auto simp: settled_def tick_orders(1) [OF assms(1)] auto_complete_due_def)

lemma tick_purges:
  assumes "run_state (k # ks) ps d" and "settled oid t d"
    and "t + td_days (ps_retention_min_days ps) \<le> tk_now k" and "\<not> tk_skip' k oid"
  shows "oid \<notin> o_id ` set (orders (purge_tick k d))"
  using assms(2-4)
  by (force simp: settled_def tick_orders(1) [OF assms(1)] auto_complete_due_def purge_due_def)

lemma tick_absent:
  assumes "run_state (k # ks) ps d" and "oid \<notin> o_id ` set (orders d)"
  shows "oid \<notin> o_id ` set (orders (purge_tick k d))"
  using assms(2) by (force simp: tick_orders(1) [OF assms(1)] completed_def)

lemma tick_waiting:
  assumes run: "run_state (k # ks) ps d" and "waiting oid t d"
    and "1 \<le> ps_retention_min_days ps"
  defines "due \<equiv> \<not> tk_skip k oid \<and> t + td_hours (ps_order_auto_complete_grace_hours ps) \<le> tk_now k"
  shows "if due then settled oid (tk_now k) (purge_tick k d) else waiting oid t (purge_tick k d)"
proof -
  let ?due = "auto_complete_due (tk_skip k) (tk_now k - td_hours (ps_order_auto_complete_grace_hours ps))"
  let ?gone = "purge_due (tk_skip' k) (tk_now k - td_days (ps_retention_min_days ps))"
  from assms(2) obtain ord where ord: "ord \<in> set (orders d)" "o_id ord = oid" "o_status ord = Delivered"
    "o_deleted_at ord = None" "o_delivered_at ord = Some t" by (auto simp: waiting_def)
  have due: "?due ord = due" using ord by (auto simp: due_def auto_complete_due_def)
  let ?ord = "if due then completed (tk_now k) ord else ord"
  have "\<not> ?gone ?ord"
    using ord assms(3) by (simp add: purge_due_def completed_def timedelta_defs)
  then have mem: "?ord \<in> set (orders (purge_tick k d))"
    using ord(1) due by (auto simp: tick_orders(1) [OF run])
  show ?thesis
  proof (cases due)
    case True
    have inv: "orders_inv (purge_tick k d)" by (rule tick_orders(3) [OF run])
    have "o_status r = Completed \<and> o_deleted_at r = None \<and> o_completed_at r = Some (tk_now k)"
      if "r \<in> set (orders (purge_tick k d))" "o_id r = oid" for r
    proof -
      have "r = ?ord"
        using inv mem that ord(2)
        by (intro distinct_key_eq [of o_id "orders (purge_tick k d)"])
          (simp_all add: orders_inv_def completed_def)
      then show ?thesis using True ord(4) by (simp add: completed_def)
    qed
    moreover have "oid \<in> sn_order_id ` set (snapshots (purge_tick k d))"
      using orders_inv_completed_known [OF inv mem] True ord(2) by (simp add: completed_def)
    ultimately have "settled oid (tk_now k) (purge_tick k d)"
      by (auto simp: settled_def)
    then show ?thesis using True by simp
  next
    case False
    with mem ord show ?thesis by (auto simp: waiting_def)
  qed
qed

section \<open>Runs of the loop\<close>

lemma purge_ticks_simps [simp]:
  "purge_ticks [] d = d"
  "purge_ticks (k # ks) d = purge_ticks ks (purge_tick k d)"
  "purge_ticks (ks @ ks') d = purge_ticks ks' (purge_ticks ks d)"
  by (simp_all add: purge_ticks_def)

lemma run_state_step: "run_state (k # ks) ps d \<Longrightarrow> run_state ks ps (purge_tick k d)"
  by (erule run_state_tick)

lemma run_state_append: "run_state (ks @ ks') ps d \<Longrightarrow> run_state ks' ps (purge_ticks ks d)"
  by (induction ks arbitrary: d) (auto intro: run_state_step)

lemma ticks_settled:
  "run_state (ks @ ks') ps d \<Longrightarrow> settled oid t d \<Longrightarrow> settled oid t (purge_ticks ks d)"
  by (induction ks arbitrary: d) (auto intro: run_state_step tick_settled)

lemma ticks_absent:
  "run_state (ks @ ks') ps d \<Longrightarrow> oid \<notin> o_id ` set (orders d) \<Longrightarrow>
   oid \<notin> o_id ` set (orders (purge_ticks ks d))"
proof (induction ks arbitrary: d)
  case (Cons k ks)
  from Cons.prems have run: "run_state (k # ks @ ks') ps d" by simp
  have "oid \<notin> o_id ` set (orders (purge_ticks ks (purge_tick k d)))"
    using run_state_step [OF run] tick_absent [OF run Cons.prems(2)] by (rule Cons.IH)
  then show ?case by simp
qed simp

lemma ticks_waiting:
  assumes "run_state (ks @ ks') ps d" and "waiting oid t d" and "1 \<le> ps_retention_min_days ps"
    and "\<forall>k \<in> set ks. tk_now k \<le> T"
  shows "waiting oid t (purge_ticks ks d) \<or> settled oid T (purge_ticks ks d)"
  using assms
proof (induction ks arbitrary: d)
  case (Cons k ks)
  from Cons.prems(1) have run: "run_state (k # ks @ ks') ps d" by simp
  note rest = run_state_step [OF run]
  have T: "tk_now k \<le> T" "\<forall>k \<in> set ks. tk_now k \<le> T" using Cons.prems(4) by simp_all
  from tick_waiting [OF run Cons.prems(2,3)]
  consider "waiting oid t (purge_tick k d)" | "settled oid (tk_now k) (purge_tick k d)"
    by (auto split: if_splits)
  then show ?case
  proof cases
    case 1
    from Cons.IH [OF rest 1 Cons.prems(3) T(2)] show ?thesis by simp
  next
    case 2
    from ticks_settled [OF rest settled_later [OF 2 T(1)]] show ?thesis by simp
  qed
qed simp

text \<open>
  C10: as long as the scheduler runs, a delivered order does not stay for ever. After a tick that
  comes when the grace period is over and one that comes when the retention period is over, too,
  neither of them finding the row locked, the order is gone and its analytics snapshot is there,
  whatever ticks come before, between and after. The identifiers the ticks draw are new.
\<close>

theorem scheduler_purges_delivered_orders:
  assumes "orders_inv d" and "ord \<in> set (orders d)" and "o_status ord = Delivered"
    and "o_deleted_at ord = None" and "o_delivered_at ord = Some t"
    and "fst (get_retention_settings d) = ps" and "1 \<le> ps_retention_min_days ps"
    and "sorted (map tk_now (early @ k1 # between @ k2 # late))"
    and "t + td_hours (ps_order_auto_complete_grace_hours ps) \<le> tk_now k1"
    and "tk_now k1 + td_days (ps_retention_min_days ps) \<le> tk_now k2"
    and "\<not> tk_skip k1 (o_id ord)" and "\<not> tk_skip' k2 (o_id ord)"
    and "draws_distinct (early @ k1 # between @ k2 # late) d"
  shows "o_id ord \<notin> o_id ` set (orders (purge_ticks (early @ k1 # between @ k2 # late) d)) \<and>
    o_id ord \<in> sn_order_id ` set (snapshots (purge_ticks (early @ k1 # between @ k2 # late) d))"
proof -
  let ?oid = "o_id ord" and ?T = "tk_now k1"
  have run: "run_state (early @ k1 # between @ k2 # late) ps d"
    using assms by (simp add: run_state_def)
  have "waiting ?oid t d" using assms(2-5) by (auto simp: waiting_def)
  moreover have "\<forall>k \<in> set early. tk_now k \<le> ?T" using assms(8) by (simp add: sorted_append)
  ultimately have "waiting ?oid t (purge_ticks early d) \<or> settled ?oid ?T (purge_ticks early d)"
    using ticks_waiting [OF run] assms(7) by blast
  note run1 = run_state_append [OF run]
  define d1 where "d1 = purge_tick k1 (purge_ticks early d)"
  have "settled ?oid ?T d1"
    using \<open>_ \<or> _\<close> tick_waiting [OF run1, of ?oid t] tick_settled [OF run1, of ?oid ?T] assms(7,9,11)
    by (auto simp: d1_def)
  define d2 where "d2 = purge_ticks between d1"
  have run2: "run_state (between @ k2 # late) ps d1"
    unfolding d1_def by (rule run_state_step [OF run1])
  note run3 = run_state_append [OF run2, folded d2_def]
  have d2: "settled ?oid ?T d2"
    unfolding d2_def by (rule ticks_settled [OF run2 \<open>settled ?oid ?T d1\<close>])
  have run4: "run_state (late @ []) ps (purge_tick k2 d2)" using run_state_step [OF run3] by simp
  have end_eq: "purge_ticks (early @ k1 # between @ k2 # late) d = purge_ticks late (purge_tick k2 d2)"
    by (simp add: d1_def d2_def)
  have "?oid \<notin> o_id ` set (orders (purge_tick k2 d2))"
    by (rule tick_purges [OF run3 d2 assms(10,12)])
  moreover have "settled ?oid ?T (purge_ticks late (purge_tick k2 d2))"
    by (rule ticks_settled [OF run4 tick_settled [OF run3 d2]])
  ultimately show ?thesis
    unfolding end_eq using ticks_absent [OF run4] by (simp add: settled_def)
qed

definition sample_tick :: "nat \<Rightarrow> time \<Rightarrow> tick" where
  "sample_tick i now =
     \<lparr>tk_now = now, tk_fresh = (\<lambda>n. 1000 + 2 * n + i), tk_fresh' = (\<lambda>n. 3000 + n),
      tk_skip = (\<lambda>_. False), tk_skip' = (\<lambda>_. False)\<rparr>"

lemma sample_ticks_distinct:
  "snapshots d = [] \<Longrightarrow> draws_distinct [sample_tick 0 t1, sample_tick 1 t2] d"
proof -
  have "1000 + 2 * m \<noteq> Suc (1000 + 2 * n)" for m n :: nat by presburger
  then show "snapshots d = [] \<Longrightarrow> ?thesis"
    by (auto simp: draws_distinct_def draws_fresh_def sample_tick_def inj_def)
qed

theorem scheduler_purges_delivered_orders_witness:
  "100 \<notin> o_id ` set (orders (purge_ticks
       [sample_tick 0 (5000 + td_hours 72), sample_tick 1 (5000 + td_hours 72 + td_days 30)]
       (sample_state 6))) \<and>
   100 \<in> sn_order_id ` set (snapshots (purge_ticks
       [sample_tick 0 (5000 + td_hours 72), sample_tick 1 (5000 + td_hours 72 + td_days 30)]
       (sample_state 6)))"
proof -
  define ord where "ord = hd (orders (sample_state 6))"
  have ne: "orders (sample_state 6) \<noteq> []" by code_simp
  have ord: "o_status ord = Delivered" "o_deleted_at ord = None" "o_delivered_at ord = Some 5000"
    "o_id ord = 100" unfolding ord_def by code_simp+
  have mem: "ord \<in> set (orders (sample_state 6))" using ne by (simp add: ord_def)
  have ps: "fst (get_retention_settings (sample_state 6)) = default_settings" by code_simp
  have "snapshots (sample_state 6) = []" by code_simp
  note fresh = sample_ticks_distinct [OF this]
  show ?thesis
    using scheduler_purges_delivered_orders [OF sample_state_inv mem ord(1-3) ps, of "[]"
        "sample_tick 0 (5000 + td_hours 72)" "[]" "sample_tick 1 (5000 + td_hours 72 + td_days 30)" "[]"]
      fresh ord(4)
    by (simp add: sample_tick_def default_settings_def timedelta_defs)
qed

end
