(* ===== verification/Backend.thy ===== *)
theory Backend
  imports Order_Children Messaging_Properties Devices Scheduler
begin

text \<open>
  The backend as a whole: the requests of all components that write the database, the account
  endpoints with their own commits, and the ticks of the scheduler, served one after the other.
  Each family leaves the tables of the others alone; the frames are stated by erasing the tables
  a family writes.
\<close>

section \<open>What the account endpoints leave alone\<close>

definition apart_from_accounts :: "db \<Rightarrow> db" where
  "apart_from_accounts d = d\<lparr>users := [], invite_links := [], referrals := [], refresh_tokens := [],
     user_notification_prefs := []\<rparr>"

definition account_frame :: "db \<Rightarrow> db \<Rightarrow> bool" where
  "account_frame d d' \<longleftrightarrow> apart_from_accounts d' = apart_from_accounts d \<and>
     u_id ` set (users d) \<subseteq> u_id ` set (users d') \<and> (prefs_ok d \<longrightarrow> prefs_ok d')"

lemma account_frame_refl [simp]: "account_frame d d"
  by (simp add: account_frame_def)

lemma account_frame_trans: "account_frame a b \<Longrightarrow> account_frame b c \<Longrightarrow> account_frame a c"
  by (auto simp: account_frame_def)

lemma apart_from_accounts_tables [simp]:
  "apart_from_accounts (d\<lparr>users := a\<rparr>) = apart_from_accounts d"
  "apart_from_accounts (d\<lparr>invite_links := b\<rparr>) = apart_from_accounts d"
  "apart_from_accounts (d\<lparr>referrals := c\<rparr>) = apart_from_accounts d"
  "apart_from_accounts (d\<lparr>refresh_tokens := e\<rparr>) = apart_from_accounts d"
  "apart_from_accounts (d\<lparr>user_notification_prefs := ps\<rparr>) = apart_from_accounts d"
  by (simp_all add: apart_from_accounts_def)

lemma upd_row_ids: "(\<And>r. key (f r) = key r) \<Longrightarrow> key ` set (upd_row key k f rows) = key ` set rows"
  by (simp only: set_map [symmetric] map_key_upd_row)

lemma account_frame_steps:
  "account_frame d (revoke_all uid now d)"
  "account_frame d (set_invite i f d)"
  "account_frame d (d\<lparr>invite_links := ils\<rparr>)"
  "account_frame d (d\<lparr>refresh_tokens := ts\<rparr>)"
  "(\<And>u. u_id (g u) = u_id u) \<Longrightarrow> account_frame d (d\<lparr>users := upd_row u_id uid g (users d)\<rparr>)"
  by (simp_all add: account_frame_def revoke_all_def set_invite_def upd_row_ids prefs_ok_def)

lemma add_refresh_token_frame: "add_refresh_token t d = (Inr x, d') \<Longrightarrow> account_frame d d'"
  by (auto simp: add_refresh_token_def account_frame_steps split: if_splits)

lemma add_invite_frame: "add_invite il d = (Inr x, d') \<Longrightarrow> account_frame d d'"
  by (auto simp: add_invite_Inr account_frame_steps)

lemma signup_frame:
  assumes "signup cr enc cfg dr now req d = (Inr r, d')"
  shows "account_frame d d'"
  using assms
proof (rule signup_success)
  fix il role d1 rt
  assume "consume_invite now (sq_invite_token req) (sq_role_choice req) d = (Inr il, d1)"
  then obtain i f where "d1 = set_invite i f d" by (rule consume_invite_success)
  then show ?thesis if "d' = d1\<lparr>users := users d @ [new_user cr dr now req il role],
            referrals := rfs, refresh_tokens := ts\<rparr>" for rfs ts
    using that by (auto simp: account_frame_def set_invite_def prefs_ok_def)
qed

lemma account_frame_rehash:
  "account_frame (d\<lparr>users := upd_row u_id uid (\<lambda>r. r\<lparr>u_password_hash := x\<rparr>) (users d)\<rparr>) d' \<Longrightarrow>
   account_frame d d'"
  by (erule account_frame_trans [rotated]) (simp add: account_frame_steps)

lemma login_frame: "login cr enc cfg dr now email pw label d = (Inr r, d') \<Longrightarrow> account_frame d d'"
  by (auto simp: login_def create_refresh_token_row_def Let_def create_access_token_def
      dest!: add_refresh_token_frame intro: account_frame_rehash
      split: sum.splits option.splits if_splits prod.splits)

lemma rotate_frame: "rotate cr enc cfg dr now row d = (Inr r, d') \<Longrightarrow> account_frame d d'"
  by (auto simp: rotate_def Let_def create_access_token_def
      dest!: add_refresh_token_frame intro: account_frame_trans [OF account_frame_steps(4)]
      split: sum.splits option.splits if_splits prod.splits)

lemma logout_frame: "logout cr now plain d = (Inr r, d') \<Longrightarrow> account_frame d d'"
  by (auto simp: logout_def account_frame_steps split: option.splits if_splits)

lemma profile_frame:
  "update_me u name phone avatar d = (Inr r, d') \<Longrightarrow> account_frame d d'"
  "change_password cr salt u cur new d = (Inr x, d') \<Longrightarrow> account_frame d d'"
  by (auto simp: update_me_def change_password_def Let_def account_frame_steps
      split: sum.splits if_splits)

lemma prefs_frame:
  "get_or_create_notification_prefs u d = (Inr p, d') \<Longrightarrow> account_frame d d'"
  "update_notification_prefs u a b c e f d = (Inr p, d') \<Longrightarrow> account_frame d d'"
proof -
  assume run: "get_or_create_notification_prefs u d = (Inr p, d')"
  obtain ps where "d' = d\<lparr>user_notification_prefs := ps\<rparr>"
    using get_or_create_notification_prefs_Inr(2) [OF run] by blast
  then show "account_frame d d'"
    using get_or_create_notification_prefs_Inr(3) [OF run] by (simp add: account_frame_def)
next
  assume run: "update_notification_prefs u a b c e f d = (Inr p, d')"
  obtain ps where "d' = d\<lparr>user_notification_prefs := ps\<rparr>"
    using update_notification_prefs_Inr(2) [OF run] by blast
  then show "account_frame d d'"
    using update_notification_prefs_Inr(3) [OF run] by (simp add: account_frame_def)
qed

lemma invite_frame:
  "create_admin_invite i tok now u role h d = (Inr r, d') \<Longrightarrow> account_frame d d'"
  "get_or_create_seller_referral i tok now u d = (Inr r, d') \<Longrightarrow> account_frame d d'"
  "revoke_invite now u i d = (Inr x, d') \<Longrightarrow> account_frame d d'"
  by (auto simp: create_admin_invite_def get_or_create_seller_referral_def revoke_invite_def Let_def
      account_frame_steps dest!: add_invite_frame split: sum.splits option.splits if_splits prod.splits)

lemma regenerate_frame:
  "regenerate_seller_referral i tok now u d = (Inr r, d') \<Longrightarrow> account_frame d d'"
  by (auto simp: regenerate_seller_referral_def Let_def
      dest!: add_invite_frame intro: account_frame_trans [OF account_frame_steps(3)]
      split: sum.splits option.splits if_splits prod.splits)

interpretation account_frame: unit_of_work "account_endpoint cr enc cfg" "account_frame d0"
  for cr enc cfg d0
proof
  fix d q r s and a
  assume d: "account_frame d0 d"
  have keep: "session_inv (account_frame d0) r s"
    if "account_endpoint cr enc cfg q \<lparr>committed = d, working = d\<rparr> = (r, s)" for r s
  proof (cases q)
    case (ARefresh dr now plain)
    with that d show ?thesis
      by (auto intro!: refresh_session_inv [where P = "account_frame d0" and d = d]
          intro: account_frame_trans account_frame_steps(1) rotate_frame)
  next
    case (ALogoutAll now u)
    with that have "account_answer (\<lambda>_. ADone)
        (committing (logout_all now u) \<lparr>committed = d, working = d\<rparr>) = (r, s)" by simp
    from committing_session_inv [of "account_frame d0", OF d _ this] d show ?thesis
      by (auto simp: logout_all_def intro: account_frame_trans account_frame_steps(1))
  qed (use that d in \<open>auto elim!: committing_session_inv [where P = "account_frame d0", rotated 2]
      intro: account_frame_trans signup_frame login_frame logout_frame profile_frame invite_frame
      prefs_frame regenerate_frame\<close>)
  show "account_frame d0 (committed s)"
    if "account_endpoint cr enc cfg q \<lparr>committed = d, working = d\<rparr> = (r, s)"
    using keep [OF that] by (simp add: session_inv_def)
  show "account_frame d0 (working s)"
    if "account_endpoint cr enc cfg q \<lparr>committed = d, working = d\<rparr> = (Inr a, s)"
    using keep [OF that] by (simp add: session_inv_def)
qed

section \<open>What messaging and the devices leave alone\<close>

definition apart_from_messages :: "db \<Rightarrow> db" where
  "apart_from_messages d =
     d\<lparr>conversations := [], messages := [], user_public_keys := [], settings_row := None\<rparr>"

lemma apart_from_messages_tables [simp]:
  "apart_from_messages (d\<lparr>conversations := a\<rparr>) = apart_from_messages d"
  "apart_from_messages (d\<lparr>messages := b\<rparr>) = apart_from_messages d"
  "apart_from_messages (d\<lparr>user_public_keys := c\<rparr>) = apart_from_messages d"
  "apart_from_messages (d\<lparr>settings_row := e\<rparr>) = apart_from_messages d"
  by (simp_all add: apart_from_messages_def)

lemma get_retention_settings_apart:
  "get_retention_settings d = (ps, d1) \<Longrightarrow> apart_from_messages d1 = apart_from_messages d"
  by (auto simp: get_retention_settings_def split: option.splits)

lemma exec_messaging_apart:
  assumes "exec_messaging q d = (Inr a, d')"
  shows "apart_from_messages d' = apart_from_messages d"
proof (cases q)
  case (SetMessageRetention c days)
  obtain ps d1 where ps: "get_retention_settings d = (ps, d1)" by fastforce
  with SetMessageRetention assms get_retention_settings_apart [OF ps] show ?thesis
    by (auto simp: message_answer_def update_message_retention_days_def split: if_splits)
next
  case (PurgeMessages now c)
  obtain ps d1 where ps: "get_retention_settings d = (ps, d1)" by fastforce
  with PurgeMessages assms get_retention_settings_apart [OF ps] show ?thesis
    by (auto simp: purge_old_messages_def Let_def split: if_splits)
qed (use assms in \<open>auto simp: message_answer_def map_sum_Inr prod_eq_iff create_conversation_def
    add_conversation_def send_message_def store_message_def add_message_def touch_conversation_def
    mark_message_read_def register_key_def add_key_def revoke_key_def Let_def
    split: sum.splits option.splits if_splits prod.splits\<close>)

lemma post_register_device_apart:
  assumes "post_register_device i now u platform token d = (Inr dv, d')"
  obtains dvs where "d' = d\<lparr>user_devices := dvs\<rparr>"
  using assms
  by (auto simp: post_register_device_def register_device_def add_device_def Let_def
      split: sum.splits option.splits if_splits)

section \<open>What the market leaves alone\<close>

definition messaging_part ::
  "db \<Rightarrow> conversation list \<times> message list \<times> user_public_key list \<times> int" where
  "messaging_part d = (conversations d, messages d, user_public_keys d, message_days d)"

definition people_kept :: "db \<Rightarrow> db \<Rightarrow> bool" where
  "people_kept d d' \<longleftrightarrow> u_id ` set (users d) \<subseteq> u_id ` set (users d') \<and>
     s_user_id ` set (sellers d') = s_user_id ` set (sellers d)"

definition market_frame :: "db \<Rightarrow> db \<Rightarrow> bool" where
  "market_frame d d' \<longleftrightarrow> messaging_part d' = messaging_part d \<and> user_devices d' = user_devices d \<and>
     user_notification_prefs d' = user_notification_prefs d \<and> people_kept d d'"

lemma upd_row_image:
  "(\<And>r. g (f r) = g r) \<Longrightarrow> g ` set (upd_row key k f rows) = g ` set rows"
  by (simp only: set_map [symmetric] map_key_upd_row)

lemma market_frame_tables:
  "market_frame d (set_store i f d)"
  "market_frame d (set_product i h d)"
  "market_frame d (set_city sid city d)"
  "(\<And>u. u_id (g u) = u_id u) \<Longrightarrow> market_frame d (set_user uid g d)"
  "market_frame d (d\<lparr>invite_links := ils\<rparr>)"
  "market_frame d (d\<lparr>stores := sts\<rparr>)"
  "market_frame d (d\<lparr>product_images := pis\<rparr>)"
  "market_frame d (d\<lparr>products := ps, product_images := pis\<rparr>)"
  by (simp_all add: market_frame_def messaging_part_def message_days_def people_kept_def
      set_store_def set_product_def set_city_def set_user_def upd_row_image)

lemma market_frame_trans: "market_frame a b \<Longrightarrow> market_frame b c \<Longrightarrow> market_frame a c"
  unfolding market_frame_def people_kept_def by (simp, elim conjE, erule subset_trans)

lemma catalogue_step_market_frame: "catalogue_step c d d' \<Longrightarrow> market_frame d d'"
  by (erule catalogue_step.cases)
    (auto intro: market_frame_tables market_frame_trans [OF market_frame_tables(3)]
      market_frame_trans [OF market_frame_tables(2)] split: option.split)

lemma exec_market_frame:
  assumes "market_inv base d" and "exec_market h q d = (Inr a, d')"
  shows "market_frame d d'"
proof (cases q)
  case (DeliverySide q')
  with assms(2) have "exec_delivery h q' d = (Inr a, d')" by simp
  from exec_delivery_outside [OF this] show ?thesis
  proof (elim disjE exE)
    assume "outside_orders d' = outside_orders d"
    then show ?thesis
      by (simp add: outside_orders_def market_frame_def messaging_part_def people_kept_def)
  next
    fix fresh now c items addr f
    assume "create_order fresh now c items addr d = (Inr f, d')"
    then show ?thesis
      by (rule create_order_success)
        (simp add: market_frame_def messaging_part_def message_days_def people_kept_def)
  qed
next
  case (CatalogueSide q')
  with assms obtain r where r: "exec_catalogue q' d = (Inr r, d')" by (auto simp: done_with_Inr)
  have "catalogue_step (caller_of q') d d'"
    using r catalogue_invD(6) assms(1) by (intro exec_catalogue_step) (auto simp: market_inv_def)
  then show ?thesis by (rule catalogue_step_market_frame)
next
  case (AdminSide q')
  with assms(2) obtain r where "exec_admin q' d = (Inr r, d')" by (auto simp: done_with_Inr)
  then show ?thesis
  proof (cases rule: exec_admin_cases)
    case (invite i tok now c role h r)
    then have "\<exists>ls. d' = d\<lparr>invite_links := ls\<rparr>"
      by (auto simp: create_admin_invite_def Let_def add_invite_Inr
          split: if_splits option.splits prod.splits sum.splits)
    then show ?thesis by (auto intro: market_frame_tables)
  qed (auto intro: market_frame_tables)
qed

section \<open>All requests\<close>

datatype (plugins only: code) backend_request =
  MarketRequest market_request
| AccountRequest account_request
| MessagingRequest messaging_request
| DeviceRequest uuid time user string string
| PurgeTick tick

primrec serve_request ::
  "crypto \<Rightarrow> (string \<Rightarrow> claims \<Rightarrow> 't) \<Rightarrow> settings \<Rightarrow> (string \<Rightarrow> string) \<Rightarrow> backend_request \<Rightarrow> db \<Rightarrow> db" where
  "serve_request cr enc cfg h (MarketRequest q) d = snd (get_db (flushing (exec_market h q)) d)"
| "serve_request cr enc cfg h (AccountRequest q) d = snd (get_db (account_endpoint cr enc cfg q) d)"
| "serve_request cr enc cfg h (MessagingRequest q) d = snd (get_db (flushing (exec_messaging q)) d)"
| "serve_request cr enc cfg h (DeviceRequest i now u platform token) d =
     snd (get_db (flushing (post_register_device i now u platform token)) d)"
| "serve_request cr enc cfg h (PurgeTick k) d = purge_tick k d"

definition serve_requests ::
  "crypto \<Rightarrow> (string \<Rightarrow> claims \<Rightarrow> 't) \<Rightarrow> settings \<Rightarrow> (string \<Rightarrow> string) \<Rightarrow> backend_request list \<Rightarrow> db \<Rightarrow> db" where
  "serve_requests cr enc cfg h qs d = fold (serve_request cr enc cfg h) qs d"

lemma serve_requests_keeps:
  assumes "\<And>q d. P d \<Longrightarrow> P (serve_request cr enc cfg h q d)" and "P d"
  shows "P (serve_requests cr enc cfg h qs d)"
  unfolding serve_requests_def using assms(2) by (induction qs arbitrary: d) (simp_all add: assms(1))

definition backend_inv :: "uuid set \<Rightarrow> db \<Rightarrow> bool" where
  "backend_inv base d \<longleftrightarrow>
     market_inv base d \<and> children_ok d \<and> messaging_inv d \<and> devices_inv d \<and> prefs_ok d"

lemma purge_tick_request:
  "purge_tick k d = serve_request cr enc cfg h (MarketRequest (DeliverySide (OrderRequest
     (QPurge (tk_fresh k) (tk_fresh' k) (tk_skip k) (tk_skip' k) (tk_now k))))) d"
  by (auto simp: purge_tick_def get_db_flushing done_with_def reply_def split: prod.split sum.split)

lemma messaging_inv_part:
  assumes "messaging_inv d" and "messaging_part d' = messaging_part d"
    and "u_id ` set (users d) \<subseteq> u_id ` set (users d')"
  shows "messaging_inv d'"
proof -
  have eq: "conversations d' = conversations d" "messages d' = messages d"
    "user_public_keys d' = user_public_keys d" "message_days d' = message_days d"
    using assms(2) by (simp_all add: messaging_part_def)
  have days: "(case settings_row x of None \<Rightarrow> True | Some ps \<Rightarrow> 7 \<le> ps_message_retention_days ps) \<longleftrightarrow>
      7 \<le> message_days x" for x
    by (simp add: message_days_def split: option.split)
  have message_ok: "message_ok d' = message_ok d"
    by (intro ext) (simp add: message_ok_def eq split: option.split)
  have "conversations_ok d'"
    using assms(1,3) by (auto simp: messaging_inv_def conversations_ok_def eq)
  then show ?thesis
    using assms(1) unfolding messaging_inv_def days
    by (simp add: eq keys_inv_def active_keys_def message_ok)
qed

lemma prefs_ok_users:
  "prefs_ok d \<Longrightarrow> user_notification_prefs d' = user_notification_prefs d \<Longrightarrow>
   u_id ` set (users d) \<subseteq> u_id ` set (users d') \<Longrightarrow> prefs_ok d'"
  unfolding prefs_ok_def by (metis subset_trans)

text \<open>Each family keeps the invariant of the whole.\<close>

interpretation market_whole: transactional "exec_market h" "backend_inv base" for h base
proof
  fix d q a d'
  assume inv: "backend_inv base d" and run: "exec_market h q d = (Inr a, d')"
  have "market_inv base d" using inv by (simp add: backend_inv_def)
  then have "market_inv base d'" using run by (rule market.success_keeps)
  moreover have "market_frame d d'" using \<open>market_inv base d\<close> run by (rule exec_market_frame)
  moreover have "children_ok d'"
    using exec_market_children [OF \<open>market_inv base d\<close> _ run] inv by (simp add: backend_inv_def)
  ultimately show "backend_inv base d'"
    using inv unfolding backend_inv_def market_frame_def people_kept_def
    by (auto intro: messaging_inv_part prefs_ok_users simp: devices_inv_def)
qed

lemma apart_from_messages_market:
  assumes "apart_from_messages d' = apart_from_messages d"
  shows "market_inv base d' = market_inv base d" "devices_inv d' = devices_inv d"
    "sellers d' = sellers d" "users d' = users d" "prefs_ok d' = prefs_ok d" "plain_step d d'"
proof -
  from assms have eq: "users d' = users d" "invite_links d' = invite_links d" "referrals d' = referrals d"
    "refresh_tokens d' = refresh_tokens d" "sellers d' = sellers d" "stores d' = stores d"
    "products d' = products d" "product_images d' = product_images d" "orders d' = orders d"
    "deliveries d' = deliveries d" "snapshots d' = snapshots d"
    "driver_assignments d' = driver_assignments d" "user_devices d' = user_devices d"
    "user_notification_prefs d' = user_notification_prefs d" "order_items d' = order_items d"
    "flow_tables d' = flow_tables d"
    by (cases d; cases d'; simp add: apart_from_messages_def flow_tables_def)+
  then show "market_inv base d' = market_inv base d" "devices_inv d' = devices_inv d"
    "sellers d' = sellers d" "users d' = users d" "prefs_ok d' = prefs_ok d" "plain_step d d'"
    using plain_step_tables [of d' d] orders_inv_tables [of d' d] catalogue_inv_tables [of d' d] accounts_inv_tables [of d' d base]
    by (simp_all add: market_inv_def devices_inv_def prefs_ok_def)
qed

interpretation messaging_whole: transactional exec_messaging "backend_inv base" for base
proof
  fix d q a d'
  assume inv: "backend_inv base d" and run: "exec_messaging q d = (Inr a, d')"
  have "messaging_inv d'" using inv run by (auto simp: backend_inv_def intro: messaging.success_keeps)
  with inv apart_from_messages_market [OF exec_messaging_apart [OF run]] plain_step_keeps
  show "backend_inv base d'" by (simp add: backend_inv_def)
qed

lemma account_frame_rest:
  assumes "account_frame d d'" and "market_inv base d" and "accounts_inv base d'"
    and "messaging_inv d" and "devices_inv d" and "children_ok d" and "prefs_ok d"
  shows "backend_inv base d'"
proof -
  from assms(1) have apart: "apart_from_accounts d' = apart_from_accounts d"
    and ids: "u_id ` set (users d) \<subseteq> u_id ` set (users d')"
    and prefs: "prefs_ok d'" using assms(7) by (simp_all add: account_frame_def)
  from apart have eq: "sellers d' = sellers d" "stores d' = stores d"
    "products d' = products d" "product_images d' = product_images d" "orders d' = orders d"
    "deliveries d' = deliveries d" "snapshots d' = snapshots d"
    "driver_assignments d' = driver_assignments d" "user_devices d' = user_devices d"
    "conversations d' = conversations d" "messages d' = messages d"
    "user_public_keys d' = user_public_keys d" "settings_row d' = settings_row d"
    "order_items d' = order_items d" "flow_tables d' = flow_tables d"
    by (cases d; cases d'; simp add: apart_from_accounts_def flow_tables_def)+
  then have "plain_step d d'" by (intro plain_step_tables)
  then have children: "children_ok d'" using assms(6) by (rule plain_step_keeps)
  from eq have "messaging_part d' = messaging_part d" by (simp add: messaging_part_def message_days_def)
  with assms(4) have "messaging_inv d'" using ids by (rule messaging_inv_part)
  then show ?thesis
    using assms eq prefs children orders_inv_tables [of d' d] catalogue_inv_tables [of d' d]
    by (simp add: backend_inv_def market_inv_def devices_inv_def)
qed

lemma serve_request_keeps:
  assumes "backend_inv base d"
  shows "backend_inv base (serve_request cr enc cfg h q d)"
proof (cases q)
  case (AccountRequest q')
  let ?d = "snd (get_db (account_endpoint cr enc cfg q') d)"
  have "account_frame d ?d" by (rule account_frame.endpoint_keeps) simp
  moreover have "accounts_inv base ?d"
    using assms by (auto simp: backend_inv_def market_inv_def intro: acc.endpoint_keeps)
  ultimately show ?thesis
    unfolding AccountRequest serve_request.simps
    using assms by (intro account_frame_rest) (auto simp: backend_inv_def)
next
  case (DeviceRequest i now u platform token)
  show ?thesis
  proof (cases rule: get_db_flushing_cases [of "post_register_device i now u platform token" d])
    case (ok dv d')
    from ok(1) obtain dvs where d': "d' = d\<lparr>user_devices := dvs\<rparr>"
      by (rule post_register_device_apart)
    have "devices_inv d'" using assms ok(1)
      by (auto simp: backend_inv_def intro: post_register_device_inv)
    moreover have "market_inv base d' = market_inv base d"
      using orders_inv_tables [of d' d] catalogue_inv_tables [of d' d] accounts_inv_tables [of d' d base]
      by (simp add: market_inv_def d')
    moreover have "plain_step d d'" unfolding d' by (rule plain_step_tables) (simp_all add: flow_tables_def)
    then have "children_ok d'" using assms by (auto simp: backend_inv_def intro: plain_step_keeps)
    moreover have "prefs_ok d' = prefs_ok d" by (simp add: prefs_ok_def d')
    moreover have "messaging_inv d'"
      by (rule messaging_inv_part [of d])
        (use assms in \<open>simp_all add: backend_inv_def messaging_part_def message_days_def d'\<close>)
    ultimately show ?thesis
      unfolding DeviceRequest serve_request.simps ok(2) snd_conv
      using assms by (simp add: backend_inv_def)
  next
    case failed
    with assms DeviceRequest show ?thesis by simp
  qed
next
  case (PurgeTick k)
  then show ?thesis
    unfolding PurgeTick serve_request.simps(5) purge_tick_request [of k d cr enc cfg h]
    using assms by (simp add: market_whole.request_keeps)
qed (use assms in \<open>simp_all add: market_whole.request_keeps messaging_whole.request_keeps\<close>)

section \<open>Seller profiles\<close>

definition profile_owners :: "db \<Rightarrow> uuid set" where
  "profile_owners d = s_user_id ` set (sellers d)"

lemma apart_from_accounts_sellers:
  "apart_from_accounts d' = apart_from_accounts d \<Longrightarrow> sellers d' = sellers d"
  by (cases d; cases d'; simp add: apart_from_accounts_def)

text \<open>No request creates a seller profile: the owners of profiles stay the same for ever.\<close>

lemma serve_request_profiles:
  assumes inv: "backend_inv base d"
  shows "profile_owners (serve_request cr enc cfg h q d) = profile_owners d"
proof -
  have market: "profile_owners (snd (get_db (flushing (exec_market h q')) d)) =
      profile_owners d" for q'
  proof (cases rule: get_db_flushing_cases [of "exec_market h q'" d])
    case (ok a d')
    then show ?thesis
      using exec_market_frame [of base d h q' a d'] inv
      by (simp add: backend_inv_def market_frame_def people_kept_def profile_owners_def)
  qed simp
  show ?thesis
  proof (cases q)
    case (AccountRequest q')
    have "account_frame d (snd (get_db (account_endpoint cr enc cfg q') d))"
      by (rule account_frame.endpoint_keeps) simp
    then have "sellers (snd (get_db (account_endpoint cr enc cfg q') d)) = sellers d"
      unfolding account_frame_def by (intro apart_from_accounts_sellers) (rule conjunct1)
    then show ?thesis by (simp add: AccountRequest profile_owners_def)
  next
    case (MessagingRequest q')
    show ?thesis
    proof (cases rule: get_db_flushing_cases [of "exec_messaging q'" d])
      case (ok a d')
      from apart_from_messages_market(3) [OF exec_messaging_apart [OF ok(1)]] ok(2) show ?thesis
        by (simp add: MessagingRequest profile_owners_def)
    qed (simp add: MessagingRequest)
  next
    case (DeviceRequest i now u platform token)
    then show ?thesis
      by (cases rule: get_db_flushing_cases [of "post_register_device i now u platform token" d])
        (auto simp: profile_owners_def elim: post_register_device_apart)
  next
    case (PurgeTick k)
    show ?thesis
      unfolding PurgeTick serve_request.simps(5) purge_tick_request [of k d cr enc cfg h]
        serve_request.simps(1) by (rule market)
  qed (use market in simp)
qed

lemma serve_requests_profiles:
  assumes "backend_inv base d"
  shows "profile_owners (serve_requests cr enc cfg h qs d) = profile_owners d"
proof -
  let ?P = "\<lambda>d'. backend_inv base d' \<and> profile_owners d' = profile_owners d"
  have "?P (serve_requests cr enc cfg h qs d)"
  proof (rule serve_requests_keeps)
    fix q d' assume P: "?P d'"
    then have "profile_owners (serve_request cr enc cfg h q d') = profile_owners d'"
      by (intro serve_request_profiles) (rule conjunct1)
    with P show "?P (serve_request cr enc cfg h q d')" using serve_request_keeps [of base d'] by simp
  qed (use assms in simp)
  then show ?thesis by blast
qed

lemma without_profile:
  assumes "u_id u \<notin> profile_owners d"
  shows "get_caller_seller d u = Inl SellerProfileMissing"
    and "isl (fst (exec_catalogue (PostStore i t u b) d))"
    and "fst (get_or_create_seller_referral i tok t u d) = Inl (AuthorizationError ''PERMISSION_DENIED'')"
proof -
  have rows: "caller_seller_rows d (u_id u) = []"
    using assms by (force simp: profile_owners_def caller_seller_rows_def filter_empty_conv)
  then show seller: "get_caller_seller d u = Inl SellerProfileMissing"
    by (simp add: get_caller_seller_def)
  show "isl (fst (exec_catalogue (PostStore i t u b) d))"
    by (simp add: create_store_def store_reply_def seller split: sum.split)
  show "fst (get_or_create_seller_referral i tok t u d) = Inl (AuthorizationError ''PERMISSION_DENIED'')"
    by (simp add: get_or_create_seller_referral_def rows)
qed

text \<open>
  C9: an account that signs up never gets a seller profile, whatever requests are served
  afterwards: although its role may be seller, it can open no store, every seller endpoint answers
  that the profile is missing, and it gets no referral link to invite customers with. Profiles come
  only from outside the backend.
\<close>

theorem signed_up_sellers_cannot_sell:
  assumes "backend_inv base d" and "profile_owners d \<subseteq> u_id ` set (users d)"
    and "get_db (account_endpoint cr enc cfg (ASignup dr now req)) d = (Inr (ALoggedIn lr), d1)"
    and "u_id u = lr_user_id lr" and "d' = serve_requests cr enc cfg h qs d1"
  shows "get_caller_seller d' u = Inl SellerProfileMissing \<and>
    isl (fst (exec_catalogue (PostStore i t u b) d')) \<and>
    fst (get_or_create_seller_referral i tok t u d') = Inl (AuthorizationError ''PERMISSION_DENIED'')"
proof -
  have d1: "d1 = serve_request cr enc cfg h (AccountRequest (ASignup dr now req)) d"
    using assms(3) by simp
  from assms(3) have "signup cr enc cfg dr now req d = (Inr lr, d1)"
    by (auto simp: get_db_def account_answer_def committing_def flushing_def db_commit_def
        split: prod.splits sum.splits)
  then have "lr_user_id lr \<notin> u_id ` set (users d)" by (rule signup_success) simp
  then have "u_id u \<notin> profile_owners d" using assms(2,4) by auto
  moreover have "backend_inv base d1" unfolding d1 using assms(1) by (rule serve_request_keeps)
  then have "profile_owners d' = profile_owners d"
    unfolding assms(5) d1 using serve_request_profiles [OF assms(1)] serve_requests_profiles by metis
  ultimately have "u_id u \<notin> profile_owners d'" by simp
  from without_profile [OF this] show ?thesis by simp
qed

lemma sample_backend_inv: "backend_inv (u_id ` set (users sample_db)) sample_db"
  unfolding backend_inv_def market_inv_def messaging_inv_def devices_inv_def
  using sample_db_inv sample_catalogue_inv sample_accounts_inv
  by (simp add: conversations_ok_def keys_inv_def active_keys_def prefs_ok_def children_ok_def items_ok_def
      fulfilment_ok_def flow_ok_def child_table_def sample_defs)

definition invited_db :: db where
  "invited_db = serve_request sample_crypto Pair sample_settings id
     (AccountRequest (AAdminInvite 50 ''inv'' 0 sample_admin ''seller'' 168)) sample_db"

definition new_seller :: user where
  "new_seller = (sample_user 60 Seller None)\<lparr>u_email := ''New@x.io''\<rparr>"

theorem signed_up_sellers_cannot_sell_witness:
  "get_caller_seller (snd (get_db (account_endpoint sample_crypto Pair sample_settings
     (ASignup (sample_draws 60 ''r1'') 10 sample_signup)) invited_db)) new_seller = Inl SellerProfileMissing"
proof -
  let ?out = "get_db (account_endpoint sample_crypto Pair sample_settings
     (ASignup (sample_draws 60 ''r1'') 10 sample_signup)) invited_db"
  have inv: "backend_inv (u_id ` set (users sample_db)) invited_db"
    unfolding invited_db_def by (rule serve_request_keeps [OF sample_backend_inv])
  have "map s_user_id (sellers invited_db) = [2] \<and> 2 \<in> set (map u_id (users invited_db))" by code_simp
  then have fk: "profile_owners invited_db \<subseteq> u_id ` set (users invited_db)"
    unfolding profile_owners_def set_map [symmetric] by simp
  have "(case fst ?out of Inr (ALoggedIn lr) \<Rightarrow> lr_user_id lr = 60 \<and> lr_role lr = Seller | _ \<Rightarrow> False)"
    by code_simp
  then obtain lr where "?out = (Inr (ALoggedIn lr), snd ?out)" "lr_user_id lr = 60"
    by (auto simp: prod_eq_iff split: sum.splits account_reply.splits)
  then show ?thesis
    using signed_up_sellers_cannot_sell [OF inv fk, of sample_crypto Pair sample_settings
        "sample_draws 60 ''r1''" 10 sample_signup lr "snd ?out" new_seller _ id "[]"]
    by (simp add: new_seller_def sample_user_def serve_requests_def)
qed

end
