(* ===== verification/Seeding.thy ===== *)
theory Seeding
  imports Backend
begin

text \<open>
  The seed script \<open>scripts/seed_dev.py\<close> under \<open>src/backend/app\<close>, the only code that creates a
  seller profile. One call is one session that commits at its end; an integrity error leaves it
  rolled back. Argon2 is a parameter, the identifiers, salts and the token are drawn.
\<close>

section \<open>The rows\<close>

record seed_draws =
  sd_admin :: uuid
  sd_seller :: uuid
  sd_store :: uuid
  sd_product :: "nat \<Rightarrow> uuid"
  sd_invite :: uuid
  sd_token :: string
  sd_customer :: uuid
  sd_referral :: uuid
  sd_driver :: uuid
  sd_salt :: "nat \<Rightarrow> nat"

definition seed_password :: string where "seed_password = ''DevPass123!''"
definition admin_email :: string where "admin_email = ''admin@example.com''"
definition seller_email :: string where "seller_email = ''seller@example.com''"
definition customer_email :: string where "customer_email = ''customer@example.com''"
definition driver_email :: string where "driver_email = ''driver@example.com''"

definition seed_user ::
  "(nat \<Rightarrow> string \<Rightarrow> string) \<Rightarrow> nat \<Rightarrow> time \<Rightarrow> uuid \<Rightarrow> string \<Rightarrow> user_role \<Rightarrow> string \<Rightarrow> uuid option \<Rightarrow> user" where
  "seed_user hash salt now i email role name ref =
     \<lparr>u_id = i, u_email = email, u_password_hash = hash salt seed_password, u_role = role,
      u_display_name = name, u_phone = None, u_is_active = True, u_disabled_at = None,
      u_status = UActive, u_suspended_at = None, u_suspended_reason = None, u_avatar_url = None,
      u_referring_seller_id = ref, u_created_at = now, u_deleted_at = None\<rparr>"

definition seed_seller :: "seed_draws \<Rightarrow> seller" where
  "seed_seller dr = \<lparr>s_id = sd_seller dr, s_user_id = sd_seller dr, s_display_name = ''Seed Seller Shop'',
     s_city = ''New York'', s_deleted_at = None\<rparr>"

definition seed_store :: "seed_draws \<Rightarrow> time \<Rightarrow> store" where
  "seed_store dr now = \<lparr>st_id = sd_store dr, st_seller_id = sd_seller dr, st_name = ''Seed Store'',
     st_slug = ''seed-store'', st_description = ''Sample store for development.'', st_is_active = True,
     st_is_public = False, st_created_at = now, st_deleted_at = None\<rparr>"

definition products_data :: "(string \<times> string \<times> int \<times> int option) list" where
  "products_data =
     [(''Widget Alpha'', ''A fine widget.'', 1500, Some 100),
      (''Gadget Beta'', ''A useful gadget.'', 2999, Some 50),
      (''Thingamajig Gamma'', ''A mysterious thingamajig.'', 499, None)]"

definition seed_product :: "seed_draws \<Rightarrow> time \<Rightarrow> nat \<times> string \<times> string \<times> int \<times> int option \<Rightarrow> product" where
  "seed_product dr now row =
     (case row of (n, name, desc, price, stock) \<Rightarrow>
        \<lparr>p_id = sd_product dr n, p_seller_id = sd_seller dr, p_store_id = sd_store dr, p_name = name,
         p_description = desc, p_price_minor = price, p_stock_quantity = stock, p_is_active = True,
         p_status = PActive, p_disabled_at = None, p_disabled_reason = None, p_created_at = now,
         p_deleted_at = None\<rparr>)"

definition seed_invite :: "seed_draws \<Rightarrow> time \<Rightarrow> invite_link" where
  "seed_invite dr now =
     \<lparr>il_id = sd_invite dr, il_issuer_id = sd_seller dr, il_type = SellerReferral,
      il_token = sd_token dr, il_role_target = None, il_max_uses = None, il_used_count = 1,
      il_expires_at = None, il_revoked_at = None, il_created_at = now\<rparr>"

definition seed_referral :: "seed_draws \<Rightarrow> referral" where
  "seed_referral dr = \<lparr>rf_id = sd_referral dr, rf_referrer_id = sd_seller dr,
     rf_referred_user_id = sd_customer dr, rf_invite_link_id = sd_invite dr\<rparr>"

section \<open>The script\<close>

definition add_seller :: "seller \<Rightarrow> db \<Rightarrow> unit res \<times> db" where
  "add_seller s d =
     (if s_id s \<in> s_id ` set (sellers d) \<or> s_user_id s \<in> s_user_id ` set (sellers d) \<or>
         s_user_id s \<notin> u_id ` set (users d)
      then (Inl IntegrityError, d)
      else (Inr (), d\<lparr>sellers := sellers d @ [s]\<rparr>))"

definition add_product :: "product \<Rightarrow> db \<Rightarrow> unit res \<times> db" where
  "add_product p d =
     (if \<not> product_checks_ok p \<or> p_id p \<in> p_id ` set (products d) then (Inl IntegrityError, d)
      else (Inr (), d\<lparr>products := products d @ [p]\<rparr>))"

text \<open>\<open>ON CONFLICT (id) DO NOTHING\<close>; the columns that are not named have their defaults.\<close>

definition add_settings :: "db \<Rightarrow> unit res \<times> db" where
  "add_settings d =
     (Inr (), if settings_row d = None then d\<lparr>settings_row := Some default_settings\<rparr> else d)"

primrec inserts :: "(db \<Rightarrow> unit res \<times> db) list \<Rightarrow> db \<Rightarrow> unit res \<times> db" where
  "inserts [] d = (Inr (), d)"
| "inserts (f # fs) d =
     (case f d of (Inl e, d') \<Rightarrow> (Inl e, d') | (Inr _, d') \<Rightarrow> inserts fs d')"

definition users_with_email :: "string \<Rightarrow> db \<Rightarrow> user list" where
  "users_with_email email d = filter (\<lambda>u. lower (u_email u) = lower email) (users d)"

definition seed_inserts ::
  "(nat \<Rightarrow> string \<Rightarrow> string) \<Rightarrow> seed_draws \<Rightarrow> time \<Rightarrow> (db \<Rightarrow> unit res \<times> db) list" where
  "seed_inserts hash dr now =
     [add_user (seed_user hash (sd_salt dr 0) now (sd_admin dr) admin_email Admin ''Platform Admin'' None),
      add_user (seed_user hash (sd_salt dr 1) now (sd_seller dr) seller_email Seller ''Seed Seller'' None),
      add_seller (seed_seller dr),
      add_store (seed_store dr now)] @
     map (\<lambda>row. add_product (seed_product dr now row)) (enumerate 0 products_data) @
     [add_invite (seed_invite dr now),
      add_user (seed_user hash (sd_salt dr 2) now (sd_customer dr) customer_email Customer
        ''Seed Customer'' (Some (sd_seller dr))),
      add_referral (seed_referral dr),
      add_user (seed_user hash (sd_salt dr 3) now (sd_driver dr) driver_email Driver ''Seed Driver'' None),
      add_settings]"

definition seed :: "(nat \<Rightarrow> string \<Rightarrow> string) \<Rightarrow> seed_draws \<Rightarrow> time \<Rightarrow> db \<Rightarrow> unit res \<times> db" where
  "seed hash dr now d =
     (case scalar_one_or_none (users_with_email admin_email d) of
        Inl e \<Rightarrow> (Inl e, d)
      | Inr (Some _) \<Rightarrow> (Inr (), d)
      | Inr None \<Rightarrow> inserts (seed_inserts hash dr now) d)"

definition seed_moderation_samples :: "time \<Rightarrow> db \<Rightarrow> unit res \<times> db" where
  "seed_moderation_samples now d =
     (case scalar_one_or_none (users_with_email driver_email d) of
        Inl e \<Rightarrow> (Inl e, d)
      | Inr driver \<Rightarrow>
          (let d1 = (case driver of
                       None \<Rightarrow> d
                     | Some u \<Rightarrow>
                         if u_status u = USuspended then d
                         else set_user (u_id u)
                           (suspended now ''Demo: TOS violation (seed moderation sample)'') d)
           in (Inr (),
               case sort_key p_created_at (products d1) of
                 [] \<Rightarrow> d1
               | p # _ \<Rightarrow>
                   if p_status p = PDisabled then d1
                   else set_product (p_id p) (disabled now ''Demo: flagged (seed moderation sample)'') d1)))"

text \<open>\<open>main\<close>: the second session is not opened when the first raises.\<close>

definition seed_main ::
  "(nat \<Rightarrow> string \<Rightarrow> string) \<Rightarrow> seed_draws \<Rightarrow> time \<Rightarrow> time \<Rightarrow> bool \<Rightarrow> db \<Rightarrow> unit res \<times> db" where
  "seed_main hash dr now now' with_samples d =
     (case get_db (flushing (seed hash dr now)) d of
        (Inl e, d1) \<Rightarrow> (Inl e, d1)
      | (Inr _, d1) \<Rightarrow>
          if with_samples then get_db (flushing (seed_moderation_samples now')) d1 else (Inr (), d1))"

section \<open>Seeding twice\<close>

lemma seed_emails:
  "lower admin_email = admin_email" "lower seller_email = seller_email"
  "lower customer_email = customer_email" "lower driver_email = driver_email"
  by code_simp+

lemma seed_emails_differ:
  "admin_email \<noteq> seller_email" "seller_email \<noteq> admin_email"
  "admin_email \<noteq> customer_email" "customer_email \<noteq> admin_email"
  "admin_email \<noteq> driver_email" "driver_email \<noteq> admin_email"
  "seller_email \<noteq> customer_email" "customer_email \<noteq> seller_email"
  "seller_email \<noteq> driver_email" "driver_email \<noteq> seller_email"
  "customer_email \<noteq> driver_email" "driver_email \<noteq> customer_email"
  by code_simp+

definition keeps_admin :: "(db \<Rightarrow> unit res \<times> db) \<Rightarrow> bool" where
  "keeps_admin f \<longleftrightarrow> (\<forall>d d'. f d = (Inr (), d') \<longrightarrow>
     users_with_email admin_email d' = users_with_email admin_email d)"

lemma inserts_keep_admin:
  "list_all keeps_admin fs \<Longrightarrow> inserts fs d = (Inr (), d') \<Longrightarrow>
   users_with_email admin_email d' = users_with_email admin_email d"
  by (induction fs arbitrary: d) (auto simp: keeps_admin_def split: prod.splits sum.splits)

lemma seed_steps_keep_admin:
  "lower (u_email u) \<noteq> admin_email \<Longrightarrow> keeps_admin (add_user u)"
  "keeps_admin (add_seller s)" "keeps_admin (add_store st)" "keeps_admin (add_product p)"
  "keeps_admin (add_invite il)" "keeps_admin (add_referral rf)" "keeps_admin add_settings"
  by (auto simp: keeps_admin_def users_with_email_def add_user_def add_seller_def add_store_def
      add_product_def add_invite_def add_referral_def add_settings_def seed_emails split: if_splits)

lemma seed_user_sel [simp]:
  "u_id (seed_user hash salt now i email role name ref) = i"
  "u_email (seed_user hash salt now i email role name ref) = email"
  "u_role (seed_user hash salt now i email role name ref) = role"
  "u_referring_seller_id (seed_user hash salt now i email role name ref) = ref"
  by (simp_all add: seed_user_def)

lemma seed_creates_admin:
  assumes "inserts (seed_inserts hash dr now) d = (Inr (), d')"
    and "users_with_email admin_email d = []"
  shows "\<exists>u. users_with_email admin_email d' = [u]"
proof -
  let ?u = "seed_user hash (sd_salt dr 0) now (sd_admin dr) admin_email Admin ''Platform Admin'' None"
  obtain rest where rest: "seed_inserts hash dr now = add_user ?u # rest"
    and keep: "list_all keeps_admin rest"
    by (simp add: seed_inserts_def seed_steps_keep_admin list_all_iff ball_Un seed_emails
        seed_emails_differ)
  from assms(1) rest obtain d1 where d1: "add_user ?u d = (Inr (), d1)" "inserts rest d1 = (Inr (), d')"
    by (auto split: prod.splits sum.splits)
  then have "users_with_email admin_email d1 = [?u]"
    using assms(2) by (auto simp: users_with_email_def add_user_def seed_emails split: if_splits)
  with inserts_keep_admin [OF keep d1(2)] show ?thesis by simp
qed

text \<open>
  Seeding is idempotent: after a seeding that did not fail, another one with whatever
  draws changes nothing and reports success, and so does the whole script without the samples.
\<close>

theorem seeding_twice:
  assumes "seed_main hash dr now t False d = (Inr (), d1)"
  shows "seed_main hash dr' now' t' False d1 = (Inr (), d1)"
proof -
  from assms have run: "seed hash dr now d = (Inr (), d1)"
    by (auto simp: seed_main_def get_db_flushing split: prod.splits sum.splits)
  have "\<exists>u. users_with_email admin_email d1 = [u]"
  proof (cases "scalar_one_or_none (users_with_email admin_email d)")
    case (Inr r)
    show ?thesis
    proof (cases r)
      case None
      with Inr have "users_with_email admin_email d = []" by (simp add: scalar_one_or_none_cases)
      moreover have "inserts (seed_inserts hash dr now) d = (Inr (), d1)"
        using run Inr None by (simp add: seed_def)
      ultimately show ?thesis by (intro seed_creates_admin)
    next
      case (Some u)
      with Inr run show ?thesis by (auto simp: seed_def scalar_one_or_none_cases)
    qed
  qed (use run in \<open>simp add: seed_def\<close>)
  then show ?thesis by (auto simp: seed_main_def seed_def get_db_flushing)
qed

section \<open>The seeded marketplace\<close>

text \<open>The identifiers the seed draws on an empty database are different where they must be.\<close>

definition seed_draws_ok :: "seed_draws \<Rightarrow> bool" where
  "seed_draws_ok dr \<longleftrightarrow> distinct [sd_admin dr, sd_seller dr, sd_customer dr, sd_driver dr] \<and>
     distinct (map (sd_product dr) [0, 1, 2])"

lemma enumerate_products_data:
  "enumerate 0 products_data =
     [(0, ''Widget Alpha'', ''A fine widget.'', 1500, Some 100),
      (1, ''Gadget Beta'', ''A useful gadget.'', 2999, Some 50),
      (2, ''Thingamajig Gamma'', ''A mysterious thingamajig.'', 499, None)]"
  by (simp add: products_data_def)

text \<open>
  A database without rows but for the settings, which migration 0001 inserts; \<open>None\<close> stands for
  tables created from the ORM classes.
\<close>

definition fresh_db :: "platform_settings option \<Rightarrow> db" where
  "fresh_db st = empty_db\<lparr>settings_row := st\<rparr>"

definition settings_fit :: "platform_settings option \<Rightarrow> bool" where
  "settings_fit st \<longleftrightarrow> (case st of None \<Rightarrow> True | Some ps \<Rightarrow> 7 \<le> ps_message_retention_days ps)"

definition seeded ::
  "(nat \<Rightarrow> string \<Rightarrow> string) \<Rightarrow> seed_draws \<Rightarrow> time \<Rightarrow> platform_settings option \<Rightarrow> db" where
  "seeded hash dr now st = empty_db
     \<lparr>users := [seed_user hash (sd_salt dr 0) now (sd_admin dr) admin_email Admin ''Platform Admin'' None,
        seed_user hash (sd_salt dr 1) now (sd_seller dr) seller_email Seller ''Seed Seller'' None,
        seed_user hash (sd_salt dr 2) now (sd_customer dr) customer_email Customer ''Seed Customer''
          (Some (sd_seller dr)),
        seed_user hash (sd_salt dr 3) now (sd_driver dr) driver_email Driver ''Seed Driver'' None],
      invite_links := [seed_invite dr now], referrals := [seed_referral dr],
      sellers := [seed_seller dr], stores := [seed_store dr now],
      products := map (seed_product dr now) (enumerate 0 products_data),
      settings_row := Some (or_else st default_settings)\<rparr>"

lemma seed_product_ok: "x \<in> set (enumerate 0 products_data) \<Longrightarrow> product_checks_ok (seed_product dr now x)"
  unfolding enumerate_products_data by (auto simp: product_checks_ok_def seed_product_def)

lemma seed_fresh:
  assumes "seed_draws_ok dr"
  shows "seed hash dr now (fresh_db st) = (Inr (), seeded hash dr now st)"
  using assms
  by (cases st) (simp_all add: fresh_db_def seed_emails seed_emails_differ seed_def users_with_email_def
      empty_db_def seed_inserts_def enumerate_products_data
      seed_draws_ok_def add_user_def add_seller_def add_store_def add_product_def add_invite_def
      add_referral_def add_settings_def seeded_def seed_seller_def seed_store_def seed_product_def
      seed_invite_def seed_referral_def active_referral_def product_checks_ok_def)

lemma seeded_orders_inv: "orders_inv (seeded hash dr now st)"
  by (simp add: seeded_def empty_db_def orders_inv_def assignments_inv_def active_assignments_def)

lemma seeded_catalogue_inv:
  assumes "seed_draws_ok dr"
  shows "catalogue_inv (seeded hash dr now st)"
  using assms
  by (simp add: seeded_def empty_db_def catalogue_inv_def seed_draws_ok_def enumerate_products_data
      seed_seller_def seed_store_def seed_product_def product_ok_def product_columns_ok_def
      product_checks_ok_def int4_def int8_def)

lemma seeded_accounts_inv:
  assumes "seed_draws_ok dr"
  shows "accounts_inv {sd_admin dr, sd_seller dr, sd_driver dr} (seeded hash dr now st)"
  using assms
  by (simp add: seeded_def empty_db_def accounts_inv_def invites_inv_def link_ok_def seed_draws_ok_def
      seed_invite_def seed_referral_def invited_user_def granted_def active_referral_def)

lemma seeded_rest:
  "settings_fit st \<Longrightarrow> messaging_inv (seeded hash dr now st)"
  "devices_inv (seeded hash dr now st)" "prefs_ok (seeded hash dr now st)"
  "children_ok (seeded hash dr now st)"
  by (cases st; simp add: seeded_def empty_db_def messaging_inv_def conversations_ok_def keys_inv_def
      active_keys_def default_settings_def devices_inv_def settings_fit_def prefs_ok_def children_ok_def
      items_ok_def fulfilment_ok_def flow_ok_def child_table_def)+

lemma seeded_backend_inv:
  assumes "seed_draws_ok dr" and "settings_fit st"
  shows "backend_inv {sd_admin dr, sd_seller dr, sd_driver dr} (seeded hash dr now st)"
  unfolding backend_inv_def market_inv_def
  by (intro conjI seeded_orders_inv seeded_catalogue_inv seeded_accounts_inv seeded_rest assms)

section \<open>The moderation samples\<close>

lemma backend_inv_set_user:
  assumes inv: "backend_inv base d" and f: "\<And>u. u_id (f u) = u_id u" "\<And>u. u_role (f u) = u_role u"
    "\<And>u. u_referring_seller_id (f u) = u_referring_seller_id u"
  shows "backend_inv base (set_user uid f d)"
proof -
  let ?d = "set_user uid f d"
  have ids: "u_id ` set (users d) \<subseteq> u_id ` set (users ?d)" by (simp add: set_user_def upd_row_image f)
  have "accounts_inv base ?d"
    unfolding set_user_def using inv f by (intro accounts_inv_users) (auto simp: backend_inv_def market_inv_def)
  moreover have "orders_inv ?d = orders_inv d" "catalogue_inv ?d = catalogue_inv d"
    by (intro orders_inv_tables catalogue_inv_tables; simp add: set_user_def)+
  moreover have "devices_inv ?d = devices_inv d" by (simp add: set_user_def devices_inv_def)
  moreover have "plain_step d ?d" by (rule plain_step_tables) (simp_all add: set_user_def flow_tables_def)
  moreover have "messaging_inv ?d"
    by (rule messaging_inv_part [of d]) (use inv ids in \<open>simp_all add: backend_inv_def set_user_def
      messaging_part_def message_days_def\<close>)
  moreover have "prefs_ok ?d"
    by (rule prefs_ok_users [of d]) (use inv ids in \<open>simp_all add: backend_inv_def set_user_def\<close>)
  ultimately show ?thesis
    using inv plain_step_keeps [of d ?d] by (simp add: backend_inv_def market_inv_def)
qed

lemma backend_inv_set_product:
  assumes inv: "backend_inv base d" and f: "\<And>p. p_id (f p) = p_id p"
    "\<And>p sts. product_ok sts p \<Longrightarrow> product_ok sts (f p)"
  shows "backend_inv base (set_product pid f d)"
proof -
  let ?d = "set_product pid f d"
  have "catalogue_inv ?d"
    using inv f by (intro catalogue_inv_set_product) (auto simp: backend_inv_def market_inv_def)
  moreover have "orders_inv ?d = orders_inv d" "accounts_inv base ?d = accounts_inv base d"
    by (intro orders_inv_tables accounts_inv_tables; simp add: set_product_def)+
  moreover have "devices_inv ?d = devices_inv d" "prefs_ok ?d = prefs_ok d"
    by (simp_all add: set_product_def devices_inv_def prefs_ok_def)
  moreover have "plain_step d ?d" by (rule plain_step_tables) (simp_all add: set_product_def flow_tables_def)
  moreover have "messaging_inv ?d"
    by (rule messaging_inv_part [of d])
      (use inv in \<open>simp_all add: backend_inv_def set_product_def messaging_part_def message_days_def\<close>)
  ultimately show ?thesis
    using inv plain_step_keeps [of d ?d] by (simp add: backend_inv_def market_inv_def)
qed

lemma seed_moderation_samples_inv:
  assumes "backend_inv base d" and "seed_moderation_samples now d = (Inr u, d')"
  shows "backend_inv base d'"
proof -
  have susp: "backend_inv base (set_user k (suspended now why) d)" for k why
    using assms(1) by (rule backend_inv_set_user) (simp_all add: suspended_def)
  have dis: "backend_inv base (set_product k (disabled now why) x)" if "backend_inv base x" for k why x
    using that by (rule backend_inv_set_product)
      (simp_all add: disabled_def product_ok_def product_columns_ok_def product_checks_ok_def)
  from assms(2) show ?thesis
    using susp dis assms(1)
    by (auto simp: seed_moderation_samples_def Let_def split: sum.splits option.splits list.splits if_splits)
qed

lemma seeded_samples_succeed: "\<exists>d. seed_moderation_samples now (seeded hash dr t st) = (Inr (), d)"
  by (simp add: seed_moderation_samples_def users_with_email_def seeded_def seed_emails seed_emails_differ
      Let_def)

text \<open>
  C34: the seed script, with or without its moderation samples, leaves a database without rows,
  with or without the settings row of the migrations, in a consistent state in which the customer
  is the only invited account; and so every state the backend reaches from it is consistent.
\<close>

theorem seeded_backend_consistent:
  assumes "seed_draws_ok dr" and "settings_fit st"
    and "seed_main hash dr now now' with_samples (fresh_db st) = (r, d)"
  shows "r = Inr () \<and>
    backend_inv {sd_admin dr, sd_seller dr, sd_driver dr} (serve_requests cr enc cfg h qs d)"
proof -
  have inv: "backend_inv {sd_admin dr, sd_seller dr, sd_driver dr} (seeded hash dr now st)"
    using assms(1,2) by (rule seeded_backend_inv)
  have "r = Inr () \<and> backend_inv {sd_admin dr, sd_seller dr, sd_driver dr} d"
  proof (cases with_samples)
    case True
    obtain d2 where "seed_moderation_samples now' (seeded hash dr now st) = (Inr (), d2)"
      using seeded_samples_succeed by blast
    with seed_moderation_samples_inv [OF inv this] True assms(3) show ?thesis
      by (simp add: seed_main_def get_db_flushing seed_fresh [OF assms(1)])
  next
    case False
    with inv assms(3) show ?thesis by (simp add: seed_main_def get_db_flushing seed_fresh [OF assms(1)])
  qed
  then show ?thesis using serve_requests_keeps serve_request_keeps by metis
qed

definition sample_seed_draws :: seed_draws where
  "sample_seed_draws = \<lparr>sd_admin = 1, sd_seller = 2, sd_store = 3, sd_product = (\<lambda>n. 10 + n),
     sd_invite = 4, sd_token = ''tok'', sd_customer = 5, sd_referral = 6, sd_driver = 7,
     sd_salt = id\<rparr>"

lemma sample_seed_ids:
  "sd_admin sample_seed_draws = 1" "sd_seller sample_seed_draws = 2" "sd_driver sample_seed_draws = 7"
  by (simp_all add: sample_seed_draws_def)

lemma sample_seed_draws_ok: "seed_draws_ok sample_seed_draws"
  by (simp add: seed_draws_ok_def sample_seed_draws_def)

theorem seeding_twice_witness:
  "seed_main (\<lambda>_ pw. pw) (sample_seed_draws\<lparr>sd_admin := 99\<rparr>) 7 8 False
     (seeded (\<lambda>_ pw. pw) sample_seed_draws 0 None) = (Inr (), seeded (\<lambda>_ pw. pw) sample_seed_draws 0 None)"
proof (rule seeding_twice)
  show "seed_main (\<lambda>_ pw. pw) sample_seed_draws 0 1 False (fresh_db None) =
      (Inr (), seeded (\<lambda>_ pw. pw) sample_seed_draws 0 None)"
    by (simp add: seed_main_def get_db_flushing seed_fresh [OF sample_seed_draws_ok])
qed

text \<open>On the seeded database the referred customer can order from the seeded store at once.\<close>

definition seeded_customer :: user where
  "seeded_customer = seed_user (\<lambda>_ pw. pw) 2 0 5 customer_email Customer ''Seed Customer'' (Some 2)"

theorem seeded_backend_consistent_witness:
  "backend_inv {1, 2, 7} (serve_requests sample_crypto Pair sample_settings id
     [MarketRequest (DeliverySide (OrderRequest (QCreate (\<lambda>n. 100 + n) 1000 seeded_customer
        [(10, 2)] sample_address))),
      AccountRequest (AUpdatePrefs seeded_customer None (Some False) None None None),
      AccountRequest (ALogin (sample_draws 70 ''r'') 2000 ''driver@example.com'' ''DevPass123!'' None)]
     (snd (seed_main (\<lambda>_ pw. pw) sample_seed_draws 0 1 True (fresh_db (Some default_settings)))))"
proof -
  let ?out = "seed_main (\<lambda>_ pw. pw) sample_seed_draws 0 1 True (fresh_db (Some default_settings))"
  have fit: "settings_fit (Some default_settings)" by (simp add: settings_fit_def default_settings_def)
  have "?out = (fst ?out, snd ?out)" by simp
  from seeded_backend_consistent [OF sample_seed_draws_ok fit this] show ?thesis
    unfolding sample_seed_ids by (rule conjunct2)
qed

lemma seeded_customer_orders:
  "map o_total_minor (orders (snd (create_order (\<lambda>n. 100 + n) 1000 seeded_customer [(10, 2), (12, 1)]
     sample_address (seeded (\<lambda>_ pw. pw) sample_seed_draws 0 None)))) = [3499]"
  by code_simp

end
