(* ===== verification/Gateway.thy ===== *)
theory Gateway
  imports Tracking Tokens Messaging_Properties
begin

text \<open>
  The WebSocket gateway (\<open>src/backend/app/ws/gateway.py\<close>): the registry of connections, the
  frames a client sends and what the handler does with them, the broadcasts of the REST
  endpoints. One event loop runs everything, so each frame, connect, disconnect and broadcast
  is one step; the database may change between the steps. A set of subscribers is sent to in no
  particular order, so what a step sends is a set of pairs of connection and event. Sending
  itself never fails towards the handler, which swallows its exceptions.
\<close>

section \<open>The registry\<close>

type_synonym conn_id = nat

text \<open>A connection with the user the handler authenticated.\<close>

record ws_connection =
  wc_user :: user
  wc_conversations :: "uuid set"
  wc_delivery_orders :: "uuid set"

record topic =
  t_internal :: "conn_id set"
  t_customer :: "conn_id set"

datatype delivery_role = Internal | ForCustomer

record registry =
  live :: "conn_id \<rightharpoonup> ws_connection"
  subs :: "uuid \<rightharpoonup> conn_id set"
  delivery_subs :: "uuid \<rightharpoonup> topic"

definition empty_registry :: registry where
  "empty_registry = \<lparr>live = Map.empty, subs = Map.empty, delivery_subs = Map.empty\<rparr>"

definition no_topic :: topic where
  "no_topic = \<lparr>t_internal = {}, t_customer = {}\<rparr>"

definition subscribe :: "conn_id \<Rightarrow> uuid \<Rightarrow> registry \<Rightarrow> registry" where
  "subscribe c cid g =
     g\<lparr>live := (live g)(c := map_option (\<lambda>w. w\<lparr>wc_conversations := insert cid (wc_conversations w)\<rparr>) (live g c)),
       subs := (subs g)(cid \<mapsto> insert c (or_else (subs g cid) {}))\<rparr>"

text \<open>Removing a subscriber from a topic; the topic goes with its last one.\<close>

definition drop_sub :: "conn_id \<Rightarrow> conn_id set option \<Rightarrow> conn_id set option" where
  "drop_sub c s =
     (case s of None \<Rightarrow> None | Some S \<Rightarrow> if S - {c} = {} then None else Some (S - {c}))"

definition drop_delivery_sub :: "conn_id \<Rightarrow> topic option \<Rightarrow> topic option" where
  "drop_delivery_sub c t =
     (case t of None \<Rightarrow> None
      | Some T \<Rightarrow>
          (let T' = \<lparr>t_internal = t_internal T - {c}, t_customer = t_customer T - {c}\<rparr>
           in if T' = no_topic then None else Some T'))"

definition unsubscribe :: "conn_id \<Rightarrow> uuid \<Rightarrow> registry \<Rightarrow> registry" where
  "unsubscribe c cid g =
     g\<lparr>live := (live g)(c := map_option (\<lambda>w. w\<lparr>wc_conversations := wc_conversations w - {cid}\<rparr>) (live g c)),
       subs := (subs g)(cid := drop_sub c (subs g cid))\<rparr>"

definition subscribers_of :: "registry \<Rightarrow> uuid \<Rightarrow> conn_id set" where
  "subscribers_of g cid = or_else (subs g cid) {}"

definition add_to_topic :: "conn_id \<Rightarrow> delivery_role \<Rightarrow> topic \<Rightarrow> topic" where
  "add_to_topic c role T =
     (case role of
        Internal \<Rightarrow> T\<lparr>t_internal := insert c (t_internal T)\<rparr>
      | ForCustomer \<Rightarrow> T\<lparr>t_customer := insert c (t_customer T)\<rparr>)"

definition subscribe_delivery :: "conn_id \<Rightarrow> uuid \<Rightarrow> delivery_role \<Rightarrow> registry \<Rightarrow> registry" where
  "subscribe_delivery c oid role g =
     g\<lparr>live := (live g)(c := map_option (\<lambda>w. w\<lparr>wc_delivery_orders := insert oid (wc_delivery_orders w)\<rparr>) (live g c)),
       delivery_subs := (delivery_subs g)(oid \<mapsto> add_to_topic c role (or_else (delivery_subs g oid) no_topic))\<rparr>"

definition unsubscribe_delivery :: "conn_id \<Rightarrow> uuid \<Rightarrow> registry \<Rightarrow> registry" where
  "unsubscribe_delivery c oid g =
     g\<lparr>live := (live g)(c := map_option (\<lambda>w. w\<lparr>wc_delivery_orders := wc_delivery_orders w - {oid}\<rparr>) (live g c)),
       delivery_subs := (delivery_subs g)(oid := drop_delivery_sub c (delivery_subs g oid))\<rparr>"

definition delivery_internal_subscribers :: "registry \<Rightarrow> uuid \<Rightarrow> conn_id set" where
  "delivery_internal_subscribers g oid =
     (case delivery_subs g oid of None \<Rightarrow> {} | Some T \<Rightarrow> t_internal T)"

definition delivery_customer_subscribers :: "registry \<Rightarrow> uuid \<Rightarrow> conn_id set" where
  "delivery_customer_subscribers g oid =
     (case delivery_subs g oid of None \<Rightarrow> {} | Some T \<Rightarrow> t_customer T)"

text \<open>
  \<open>disconnect_all\<close> leaves the topics the connection says it is in; the connection itself is
  forgotten with the end of its handler.
\<close>

definition disconnect_all :: "conn_id \<Rightarrow> registry \<Rightarrow> registry" where
  "disconnect_all c g =
     (case live g c of
        None \<Rightarrow> g
      | Some w \<Rightarrow>
          \<lparr>live = (live g)(c := None),
           subs = (\<lambda>cid. if cid \<in> wc_conversations w then drop_sub c (subs g cid) else subs g cid),
           delivery_subs = (\<lambda>oid. if oid \<in> wc_delivery_orders w then drop_delivery_sub c (delivery_subs g oid)
                                  else delivery_subs g oid)\<rparr>)"

section \<open>Broadcasts\<close>

type_synonym sent = "(conn_id \<times> ws_event) set"

definition broadcast_event :: "registry \<Rightarrow> uuid \<Rightarrow> ws_event \<Rightarrow> sent" where
  "broadcast_event g cid ev = (\<lambda>c. (c, ev)) ` subscribers_of g cid"

definition broadcast_message_new :: "registry \<Rightarrow> uuid \<Rightarrow> uuid \<Rightarrow> sent" where
  "broadcast_message_new g cid mid = broadcast_event g cid (EvMessage ''message.new'' cid mid)"

definition broadcast_message_read :: "registry \<Rightarrow> uuid \<Rightarrow> uuid \<Rightarrow> sent" where
  "broadcast_message_read g cid mid = broadcast_event g cid (EvMessage ''message.read'' cid mid)"

definition broadcast_delivery_location_internal :: "registry \<Rightarrow> uuid \<Rightarrow> ws_event \<Rightarrow> sent" where
  "broadcast_delivery_location_internal g oid ev =
     (\<lambda>c. (c, ev)) ` delivery_internal_subscribers g oid"

definition broadcast_delivery_event_all :: "registry \<Rightarrow> uuid \<Rightarrow> ws_event \<Rightarrow> sent" where
  "broadcast_delivery_event_all g oid ev =
     (\<lambda>c. (c, ev)) ` (delivery_internal_subscribers g oid \<union> delivery_customer_subscribers g oid)"

section \<open>Frames\<close>

text \<open>
  An identifier field of a frame: absent or \<open>null\<close>, a string that is empty, not a UUID or one,
  or some other JSON value, with its truth value.
\<close>

datatype json_id = Null | EmptyString | BadString | NonString bool | Id uuid

datatype py_error = PyValueError | PyTypeError | PyAttributeError

text \<open>\<open>uuid.UUID(x)\<close>\<close>

primrec parse_uuid :: "json_id \<Rightarrow> py_error + uuid" where
  "parse_uuid Null = Inl PyTypeError"
| "parse_uuid EmptyString = Inl PyValueError"
| "parse_uuid BadString = Inl PyValueError"
| "parse_uuid (NonString b) = Inl PyAttributeError"
| "parse_uuid (Id u) = Inr u"

definition falsy :: "json_id \<Rightarrow> bool" where
  "falsy x \<longleftrightarrow> x \<in> {Null, EmptyString, NonString False}"

text \<open>The keys of a message object; a value that is no string is \<open>None\<close> in \<open>type\<close> and \<open>state\<close>.\<close>

record ws_message =
  f_type :: "string option"
  f_conversation_id :: json_id
  f_delivery_order_id :: json_id
  f_state :: "string option"

datatype (plugins only: code) frame = InvalidJson | NotObject | Message ws_message

text \<open>What becomes of the handler's loop: it goes on, closes with a code, or an exception ends it.\<close>

datatype outcome = Continue | Close nat | Crash

definition is_participant :: "db \<Rightarrow> uuid \<Rightarrow> user \<Rightarrow> bool" where
  "is_participant d cid u =
     (case get_row c_id cid (conversations d) of
        None \<Rightarrow> False
      | Some c \<Rightarrow> if u_role u = Admin then True else is_party c (u_id u))"

definition resolve_delivery_role :: "db \<Rightarrow> uuid \<Rightarrow> user \<Rightarrow> delivery_role option res" where
  "resolve_delivery_role d oid u =
     (case load_order d oid of
        None \<Rightarrow> Inr None
      | Some ord \<Rightarrow>
          (case resolve_role d u ord of
             Inl e \<Rightarrow> Inl e
           | Inr TRNone \<Rightarrow> Inr None
           | Inr TRCustomer \<Rightarrow> Inr (Some ForCustomer)
           | Inr _ \<Rightarrow> Inr (Some Internal)))"

definition on_subscribe :: "db \<Rightarrow> conn_id \<Rightarrow> user \<Rightarrow> ws_message \<Rightarrow> registry \<Rightarrow> outcome \<times> sent \<times> registry" where
  "on_subscribe d c u m g =
     (if f_delivery_order_id m \<noteq> Null then
        (case parse_uuid (f_delivery_order_id m) of
           Inl PyAttributeError \<Rightarrow> (Crash, {}, g)
         | Inl _ \<Rightarrow> (Continue, {(c, EvError ''invalid_delivery_order_id'')}, g)
         | Inr oid \<Rightarrow>
             (case resolve_delivery_role d oid u of
                Inl e \<Rightarrow> (Crash, {}, g)
              | Inr None \<Rightarrow> (Close 4403, {}, g)
              | Inr (Some role) \<Rightarrow>
                  (Continue, {(c, EvDeliverySubscribed oid)}, subscribe_delivery c oid role g)))
      else if falsy (f_conversation_id m)
      then (Continue, {(c, EvError ''missing_conversation_id'')}, g)
      else (case parse_uuid (f_conversation_id m) of
              Inl PyValueError \<Rightarrow> (Continue, {(c, EvError ''invalid_conversation_id'')}, g)
            | Inl _ \<Rightarrow> (Crash, {}, g)
            | Inr cid \<Rightarrow>
                if \<not> is_participant d cid u then (Close 4403, {}, g)
                else (Continue, {(c, EvSubscribed cid)}, subscribe c cid g)))"

definition on_unsubscribe :: "conn_id \<Rightarrow> ws_message \<Rightarrow> registry \<Rightarrow> outcome \<times> sent \<times> registry" where
  "on_unsubscribe c m g =
     (if f_delivery_order_id m \<noteq> Null then
        (case parse_uuid (f_delivery_order_id m) of
           Inl PyAttributeError \<Rightarrow> (Crash, {}, g)
         | Inl _ \<Rightarrow> (Continue, {}, g)
         | Inr oid \<Rightarrow> (Continue, {}, unsubscribe_delivery c oid g))
      else if falsy (f_conversation_id m) then (Continue, {}, g)
      else (case parse_uuid (f_conversation_id m) of
              Inl PyValueError \<Rightarrow> (Continue, {}, g)
            | Inl _ \<Rightarrow> (Crash, {}, g)
            | Inr cid \<Rightarrow> (Continue, {}, unsubscribe c cid g)))"

text \<open>A typing notice goes to the subscribers of other users, if the sender is subscribed.\<close>

definition typing_to :: "registry \<Rightarrow> user \<Rightarrow> uuid \<Rightarrow> conn_id set" where
  "typing_to g u cid =
     {c \<in> subscribers_of g cid. map_option (\<lambda>w. u_id (wc_user w)) (live g c) \<noteq> Some (u_id u)}"

definition on_typing :: "conn_id \<Rightarrow> user \<Rightarrow> ws_message \<Rightarrow> registry \<Rightarrow> outcome \<times> sent \<times> registry" where
  "on_typing c u m g =
     (if f_state m \<notin> {Some ''start'', Some ''stop''} \<or> falsy (f_conversation_id m) then (Continue, {}, g)
      else case parse_uuid (f_conversation_id m) of
        Inl PyValueError \<Rightarrow> (Continue, {}, g)
      | Inl _ \<Rightarrow> (Crash, {}, g)
      | Inr cid \<Rightarrow>
          if (case live g c of None \<Rightarrow> True | Some w \<Rightarrow> cid \<notin> wc_conversations w) then (Continue, {}, g)
          else (Continue,
                (\<lambda>k. (k, EvTyping cid (f_state m = Some ''start'') (u_id u))) ` typing_to g u cid, g))"

definition handle_frame :: "db \<Rightarrow> conn_id \<Rightarrow> user \<Rightarrow> frame \<Rightarrow> registry \<Rightarrow> outcome \<times> sent \<times> registry" where
  "handle_frame d c u f g =
     (case f of
        InvalidJson \<Rightarrow> (Continue, {(c, EvError ''invalid_json'')}, g)
      | NotObject \<Rightarrow> (Crash, {}, g)
      | Message m \<Rightarrow>
          if f_type m = Some ''ping'' then (Continue, {(c, EvPong)}, g)
          else if f_type m = Some ''subscribe'' then on_subscribe d c u m g
          else if f_type m = Some ''unsubscribe'' then on_unsubscribe c m g
          else if f_type m = Some ''typing'' then on_typing c u m g
          else (Continue, {(c, EvError ''unknown_type'')}, g))"

section \<open>The gateway in its world\<close>

text \<open>
  A handshake with a fresh connection, a frame, a client that goes away. Whatever ends the loop,
  the \<open>finally\<close> clause takes the connection out of the registry.
\<close>

definition connect ::
  "(time \<Rightarrow> 't \<Rightarrow> string \<Rightarrow> jwt_error + jwt_payload) \<Rightarrow> settings \<Rightarrow> time \<Rightarrow> 't option \<Rightarrow> conn_id \<Rightarrow> db \<Rightarrow> registry \<Rightarrow> registry" where
  "connect dec cfg now cred c d g =
     (case ws_authenticate dec cfg now cred d of
        None \<Rightarrow> g
      | Some u \<Rightarrow>
          if live g c \<noteq> None then g
          else g\<lparr>live := (live g)(c \<mapsto> \<lparr>wc_user = u, wc_conversations = {}, wc_delivery_orders = {}\<rparr>)\<rparr>)"

definition receive :: "db \<Rightarrow> conn_id \<Rightarrow> frame \<Rightarrow> registry \<Rightarrow> sent \<times> registry" where
  "receive d c f g =
     (case live g c of
        None \<Rightarrow> ({}, g)
      | Some w \<Rightarrow>
          (case handle_frame d c (wc_user w) f g of
             (Continue, out, g') \<Rightarrow> (out, g')
           | (_, out, g') \<Rightarrow> (out, disconnect_all c g')))"

text \<open>The REST endpoints that broadcast; they do so before \<open>get_db\<close> commits.\<close>

definition post_location_endpoint ::
  "time \<Rightarrow> user \<Rightarrow> uuid \<Rightarrow> real \<Rightarrow> real \<Rightarrow> int option \<Rightarrow> int option \<Rightarrow> db \<Rightarrow> registry \<Rightarrow> sent \<times> db" where
  "post_location_endpoint now u oid lat lng eta m d g =
     (case get_db (flushing (post_location now u oid lat lng eta m)) d of
        (Inl e, d') \<Rightarrow> ({}, d')
      | (Inr (ord, dl), d') \<Rightarrow>
          (broadcast_delivery_location_internal g (o_id ord) (internal_location_event dl) \<union>
           (if eta \<noteq> None then broadcast_delivery_event_all g (o_id ord) (eta_event dl) else {}), d'))"

definition out_for_delivery_endpoint ::
  "uuid \<Rightarrow> time \<Rightarrow> time \<Rightarrow> user \<Rightarrow> uuid \<Rightarrow> db \<Rightarrow> registry \<Rightarrow> sent \<times> db" where
  "out_for_delivery_endpoint new_id started now u oid d g =
     (case get_db (flushing (out_for_delivery new_id started now u oid)) d of
        (Inl e, d') \<Rightarrow> ({}, d')
      | (Inr f, d') \<Rightarrow>
          (broadcast_delivery_event_all g (o_id (f_order f))
             (status_event (o_id (f_order f)) ''out_for_delivery'' (Option.bind (f_delivery f) d_started_at) None), d'))"

definition delivered_endpoint :: "time \<Rightarrow> user \<Rightarrow> uuid \<Rightarrow> db \<Rightarrow> registry \<Rightarrow> sent \<times> db" where
  "delivered_endpoint now u oid d g =
     (case get_db (flushing (mark_delivered now u oid)) d of
        (Inl e, d') \<Rightarrow> ({}, d')
      | (Inr f, d') \<Rightarrow>
          (broadcast_delivery_event_all g (o_id (f_order f))
             (status_event (o_id (f_order f)) ''delivered'' None (o_delivered_at (f_order f))), d'))"

definition send_message_endpoint ::
  "uuid \<Rightarrow> time \<Rightarrow> user \<Rightarrow> uuid \<Rightarrow> send_body \<Rightarrow> db \<Rightarrow> registry \<Rightarrow> sent \<times> db" where
  "send_message_endpoint new_id now u cid body d g =
     (case get_db (flushing (send_message new_id now u cid body)) d of
        (Inl e, d') \<Rightarrow> ({}, d')
      | (Inr m, d') \<Rightarrow> (broadcast_message_new g cid (m_id m), d'))"

definition mark_read_endpoint :: "time \<Rightarrow> user \<Rightarrow> uuid \<Rightarrow> uuid \<Rightarrow> db \<Rightarrow> registry \<Rightarrow> sent \<times> db" where
  "mark_read_endpoint now u cid mid d g =
     (case get_db (flushing (mark_message_read now u cid mid)) d of
        (Inl e, d') \<Rightarrow> ({}, d')
      | (Inr m, d') \<Rightarrow> (broadcast_message_read g cid (m_id m), d'))"

datatype (plugins only: code) 't gateway_input =
    Connect conn_id time "'t option"
  | Receive conn_id frame
  | Hangup conn_id
  | PostLocation time user uuid real real "int option" "int option"
  | StartDelivery uuid time time user uuid
  | EndDelivery time user uuid
  | SendChat uuid time user uuid send_body
  | ReadChat time user uuid uuid

primrec exec_gateway ::
  "(time \<Rightarrow> 't \<Rightarrow> string \<Rightarrow> jwt_error + jwt_payload) \<Rightarrow> settings \<Rightarrow> 't gateway_input \<Rightarrow> db \<Rightarrow> registry \<Rightarrow>
   sent \<times> db \<times> registry" where
  "exec_gateway dec cfg (Connect c now cred) d g = ({}, d, connect dec cfg now cred c d g)"
| "exec_gateway dec cfg (Receive c f) d g = (case receive d c f g of (out, g') \<Rightarrow> (out, d, g'))"
| "exec_gateway dec cfg (Hangup c) d g = ({}, d, disconnect_all c g)"
| "exec_gateway dec cfg (PostLocation now u oid lat lng eta m) d g =
     (case post_location_endpoint now u oid lat lng eta m d g of (out, d') \<Rightarrow> (out, d', g))"
| "exec_gateway dec cfg (StartDelivery i started now u oid) d g =
     (case out_for_delivery_endpoint i started now u oid d g of (out, d') \<Rightarrow> (out, d', g))"
| "exec_gateway dec cfg (EndDelivery now u oid) d g =
     (case delivered_endpoint now u oid d g of (out, d') \<Rightarrow> (out, d', g))"
| "exec_gateway dec cfg (SendChat i now u cid body) d g =
     (case send_message_endpoint i now u cid body d g of (out, d') \<Rightarrow> (out, d', g))"
| "exec_gateway dec cfg (ReadChat now u cid mid) d g =
     (case mark_read_endpoint now u cid mid d g of (out, d') \<Rightarrow> (out, d', g))"

text \<open>
  The reachable states: from the empty registry, by these inputs, with other requests changing
  the database in between in any way that keeps the conversations.
\<close>

inductive reachable ::
  "(time \<Rightarrow> 't \<Rightarrow> string \<Rightarrow> jwt_error + jwt_payload) \<Rightarrow> settings \<Rightarrow> db \<Rightarrow> registry \<Rightarrow> bool"
  for dec cfg where
  start: "reachable dec cfg d empty_registry"
| input: "reachable dec cfg d g \<Longrightarrow> exec_gateway dec cfg q d g = (out, d', g') \<Longrightarrow> reachable dec cfg d' g'"
| other: "reachable dec cfg d g \<Longrightarrow> conversations_kept d d' \<Longrightarrow> reachable dec cfg d' g"

end
