(* ===== verification/Gateway_Properties.thy ===== *)
theory Gateway_Properties
  imports Gateway
begin

text \<open>
  The invariant of the connection registry, the publish/subscribe contract it fulfils, the
  audience of every event over all reachable states, and the outcome of every frame.
\<close>

section \<open>The invariant of the registry\<close>

definition connected :: "registry \<Rightarrow> conn_id \<Rightarrow> (ws_connection \<Rightarrow> bool) \<Rightarrow> bool" where
  "connected g c P \<longleftrightarrow> (case live g c of None \<Rightarrow> False | Some w \<Rightarrow> P w)"

definition chats_ok :: "registry \<Rightarrow> bool" where
  "chats_ok g \<longleftrightarrow>
     (\<forall>c cid. c \<in> subscribers_of g cid \<longleftrightarrow> connected g c (\<lambda>w. cid \<in> wc_conversations w)) \<and>
     Some {} \<notin> range (subs g)"

definition tracks_ok :: "registry \<Rightarrow> bool" where
  "tracks_ok g \<longleftrightarrow>
     (\<forall>c oid. c \<in> delivery_internal_subscribers g oid \<longleftrightarrow>
        connected g c (\<lambda>w. oid \<in> wc_delivery_orders w \<and> u_role (wc_user w) \<noteq> Customer)) \<and>
     (\<forall>c oid. c \<in> delivery_customer_subscribers g oid \<longleftrightarrow>
        connected g c (\<lambda>w. oid \<in> wc_delivery_orders w \<and> u_role (wc_user w) = Customer)) \<and>
     Some no_topic \<notin> range (delivery_subs g)"

definition registry_ok :: "registry \<Rightarrow> bool" where
  "registry_ok g \<longleftrightarrow> chats_ok g \<and> tracks_ok g"

definition role_of :: "user \<Rightarrow> delivery_role" where
  "role_of u = (if u_role u = Customer then ForCustomer else Internal)"

lemma connected_upd [simp]:
  "connected (g\<lparr>subs := x\<rparr>) = connected g" "connected (g\<lparr>delivery_subs := y\<rparr>) = connected g"
  by (auto simp: connected_def fun_eq_iff)

subsection \<open>Subscribers after an operation\<close>

lemma subscribers_simps [simp]:
  "subscribers_of (subscribe c cid g) k = (if k = cid then insert c (subscribers_of g k) else subscribers_of g k)"
  "subscribers_of (unsubscribe c cid g) k = (if k = cid then subscribers_of g k - {c} else subscribers_of g k)"
  "subscribers_of (subscribe_delivery c oid role g) k = subscribers_of g k"
  "subscribers_of (unsubscribe_delivery c oid g) k = subscribers_of g k"
  by (auto simp: subscribers_of_def subscribe_def unsubscribe_def subscribe_delivery_def
      unsubscribe_delivery_def drop_sub_def split: option.splits)

lemma internal_simps [simp]:
  "delivery_internal_subscribers (subscribe_delivery c oid role g) k =
     (if k = oid \<and> role = Internal then insert c (delivery_internal_subscribers g k)
      else delivery_internal_subscribers g k)"
  "delivery_internal_subscribers (unsubscribe_delivery c oid g) k =
     (if k = oid then delivery_internal_subscribers g k - {c} else delivery_internal_subscribers g k)"
  "delivery_internal_subscribers (subscribe c cid g) k = delivery_internal_subscribers g k"
  "delivery_internal_subscribers (unsubscribe c cid g) k = delivery_internal_subscribers g k"
  by (cases role; cases "delivery_subs g oid";
      auto simp: delivery_internal_subscribers_def subscribe_delivery_def unsubscribe_delivery_def subscribe_def
        unsubscribe_def add_to_topic_def drop_delivery_sub_def no_topic_def Let_def)+

lemma customer_simps [simp]:
  "delivery_customer_subscribers (subscribe_delivery c oid role g) k =
     (if k = oid \<and> role = ForCustomer then insert c (delivery_customer_subscribers g k)
      else delivery_customer_subscribers g k)"
  "delivery_customer_subscribers (unsubscribe_delivery c oid g) k =
     (if k = oid then delivery_customer_subscribers g k - {c} else delivery_customer_subscribers g k)"
  "delivery_customer_subscribers (subscribe c cid g) k = delivery_customer_subscribers g k"
  "delivery_customer_subscribers (unsubscribe c cid g) k = delivery_customer_subscribers g k"
  by (cases role; cases "delivery_subs g oid";
      auto simp: delivery_customer_subscribers_def subscribe_delivery_def unsubscribe_delivery_def subscribe_def
        unsubscribe_def add_to_topic_def drop_delivery_sub_def no_topic_def Let_def)+

lemma connected_simps [simp]:
  "connected (subscribe c cid g) k P =
     connected g k (\<lambda>w. P (if k = c then w\<lparr>wc_conversations := insert cid (wc_conversations w)\<rparr> else w))"
  "connected (unsubscribe c cid g) k P =
     connected g k (\<lambda>w. P (if k = c then w\<lparr>wc_conversations := wc_conversations w - {cid}\<rparr> else w))"
  "connected (subscribe_delivery c oid role g) k P =
     connected g k (\<lambda>w. P (if k = c then w\<lparr>wc_delivery_orders := insert oid (wc_delivery_orders w)\<rparr> else w))"
  "connected (unsubscribe_delivery c oid g) k P =
     connected g k (\<lambda>w. P (if k = c then w\<lparr>wc_delivery_orders := wc_delivery_orders w - {oid}\<rparr> else w))"
  by (auto simp: connected_def subscribe_def unsubscribe_def subscribe_delivery_def unsubscribe_delivery_def
      split: option.splits)

lemma connected_disconnect [simp]: "connected (disconnect_all c g) k P = (k \<noteq> c \<and> connected g k P)"
  by (auto simp: connected_def disconnect_all_def split: option.splits)

lemma drop_sub_members: "or_else (drop_sub c s) {} = or_else s {} - {c}"
  by (auto simp: drop_sub_def split: option.splits)

lemma drop_delivery_sub_members:
  "(case drop_delivery_sub c t of None \<Rightarrow> {} | Some T \<Rightarrow> t_internal T) =
     (case t of None \<Rightarrow> {} | Some T \<Rightarrow> t_internal T) - {c}"
  "(case drop_delivery_sub c t of None \<Rightarrow> {} | Some T \<Rightarrow> t_customer T) =
     (case t of None \<Rightarrow> {} | Some T \<Rightarrow> t_customer T) - {c}"
  by (cases t; auto simp: drop_delivery_sub_def no_topic_def Let_def)+

lemma disconnect_members:
  assumes "registry_ok g"
  shows "subscribers_of (disconnect_all c g) k = subscribers_of g k - {c}"
    and "delivery_internal_subscribers (disconnect_all c g) k = delivery_internal_subscribers g k - {c}"
    and "delivery_customer_subscribers (disconnect_all c g) k = delivery_customer_subscribers g k - {c}"
proof -
  note ok = assms [unfolded registry_ok_def chats_ok_def tracks_ok_def]
  have absent: "c \<notin> subscribers_of g k" if "\<not> connected g c (\<lambda>w. k \<in> wc_conversations w)"
    using ok that by blast
  have absent': "c \<notin> delivery_internal_subscribers g k \<and> c \<notin> delivery_customer_subscribers g k"
    if "\<not> connected g c (\<lambda>w. k \<in> wc_delivery_orders w)"
    using ok that by (auto simp: connected_def split: option.splits)
  show "subscribers_of (disconnect_all c g) k = subscribers_of g k - {c}"
    using absent
    by (auto simp: disconnect_all_def connected_def subscribers_of_def drop_sub_members split: option.splits)
  show "delivery_internal_subscribers (disconnect_all c g) k = delivery_internal_subscribers g k - {c}"
    and "delivery_customer_subscribers (disconnect_all c g) k = delivery_customer_subscribers g k - {c}"
    using absent'
    by (cases "live g c"; auto simp: disconnect_all_def connected_def delivery_internal_subscribers_def
        delivery_customer_subscribers_def drop_delivery_sub_members)+
qed

subsection \<open>No empty topics\<close>

lemma no_empty_subs [simp]:
  "Some {} \<notin> range (subs (subscribe c cid g)) \<longleftrightarrow> Some {} \<notin> subs g ` (- {cid})"
  "Some {} \<notin> range (subs (unsubscribe c cid g)) \<longleftrightarrow> Some {} \<notin> subs g ` (- {cid})"
  "subs (subscribe_delivery c oid role g) = subs g" "subs (unsubscribe_delivery c oid g) = subs g"
  by (auto simp: subscribe_def unsubscribe_def subscribe_delivery_def unsubscribe_delivery_def drop_sub_def
      image_iff split: option.splits if_splits)

lemma add_to_topic_nonempty [simp]: "add_to_topic c role T \<noteq> no_topic"
  by (cases role; cases T) (auto simp: add_to_topic_def no_topic_def)

lemma no_empty_topics [simp]:
  "Some no_topic \<notin> range (delivery_subs (subscribe_delivery c oid role g)) \<longleftrightarrow>
     Some no_topic \<notin> delivery_subs g ` (- {oid})"
  "Some no_topic \<notin> range (delivery_subs (unsubscribe_delivery c oid g)) \<longleftrightarrow>
     Some no_topic \<notin> delivery_subs g ` (- {oid})"
  "delivery_subs (subscribe c cid g) = delivery_subs g" "delivery_subs (unsubscribe c cid g) = delivery_subs g"
  by (auto simp: subscribe_def unsubscribe_def subscribe_delivery_def unsubscribe_delivery_def
      drop_delivery_sub_def add_to_topic_nonempty [THEN not_sym] image_iff Let_def
      split: option.splits if_splits)

lemma no_empty_disconnect:
  "Some {} \<notin> range (subs g) \<Longrightarrow> Some {} \<notin> range (subs (disconnect_all c g))"
  "Some no_topic \<notin> range (delivery_subs g) \<Longrightarrow> Some no_topic \<notin> range (delivery_subs (disconnect_all c g))"
  by (auto simp: disconnect_all_def drop_sub_def drop_delivery_sub_def image_iff Let_def
      split: option.splits if_splits)

subsection \<open>Every operation keeps the invariant\<close>

lemma registry_ok_empty [simp]: "registry_ok empty_registry"
  by (simp add: registry_ok_def chats_ok_def tracks_ok_def empty_registry_def subscribers_of_def
      delivery_internal_subscribers_def delivery_customer_subscribers_def connected_def)

lemma connected_True: "connected g c (\<lambda>w. True) \<longleftrightarrow> c \<in> dom (live g)"
  by (auto simp: connected_def split: option.splits)

lemma subscribe_ok: "registry_ok g \<Longrightarrow> c \<in> dom (live g) \<Longrightarrow> registry_ok (subscribe c cid g)"
  unfolding registry_ok_def chats_ok_def tracks_ok_def
  by (simp, auto simp: connected_def split: option.splits if_splits)

lemma unsubscribe_ok: "registry_ok g \<Longrightarrow> registry_ok (unsubscribe c cid g)"
  unfolding registry_ok_def chats_ok_def tracks_ok_def
  by (simp, auto simp: connected_def split: option.splits if_splits)

lemma subscribe_delivery_ok:
  "registry_ok g \<Longrightarrow> live g c = Some w \<Longrightarrow> registry_ok (subscribe_delivery c oid (role_of (wc_user w)) g)"
  unfolding registry_ok_def chats_ok_def tracks_ok_def
  by (simp, auto simp: connected_def role_of_def split: option.splits if_splits)

lemma unsubscribe_delivery_ok: "registry_ok g \<Longrightarrow> registry_ok (unsubscribe_delivery c oid g)"
  unfolding registry_ok_def chats_ok_def tracks_ok_def
  by (simp, auto simp: connected_def split: option.splits if_splits)

lemma disconnect_ok: "registry_ok g \<Longrightarrow> registry_ok (disconnect_all c g)"
proof -
  assume ok: "registry_ok g"
  then show ?thesis
    unfolding registry_ok_def [of "disconnect_all c g"] chats_ok_def tracks_ok_def disconnect_members [OF ok]
    using no_empty_disconnect [of g c]
    by (auto simp: registry_ok_def chats_ok_def tracks_ok_def)
qed

section \<open>What a topic registry promises\<close>

text \<open>
  The contract of publish and subscribe, for connections that are alive: joining, leaving and
  hanging up change the membership of a topic by exactly that connection. A run of operations
  then leaves the relation a plain set of pairs would have.
\<close>

datatype (plugins only: code) topic_op = Join conn_id uuid | Part conn_id uuid | Quit conn_id

primrec op_conn :: "topic_op \<Rightarrow> conn_id" where
  "op_conn (Join c k) = c" | "op_conn (Part c k) = c" | "op_conn (Quit c) = c"

type_synonym pairs = "conn_id set \<times> (conn_id \<times> uuid) set"

primrec spec_op :: "topic_op \<Rightarrow> pairs \<Rightarrow> pairs" where
  "spec_op (Join c k) p = (fst p, insert (c, k) (snd p))"
| "spec_op (Part c k) p = (fst p, snd p - {(c, k)})"
| "spec_op (Quit c) p = (fst p - {c}, snd p - {c} \<times> UNIV)"

primrec spec_run :: "topic_op list \<Rightarrow> pairs \<Rightarrow> pairs" where
  "spec_run [] p = p"
| "spec_run (q # qs) p = spec_run qs (if op_conn q \<in> fst p then spec_op q p else p)"

primrec topic_step ::
  "(conn_id \<Rightarrow> uuid \<Rightarrow> 's \<Rightarrow> 's) \<Rightarrow> (conn_id \<Rightarrow> uuid \<Rightarrow> 's \<Rightarrow> 's) \<Rightarrow> (conn_id \<Rightarrow> 's \<Rightarrow> 's) \<Rightarrow> topic_op \<Rightarrow> 's \<Rightarrow> 's" where
  "topic_step join part quit (Join c k) s = join c k s"
| "topic_step join part quit (Part c k) s = part c k s"
| "topic_step join part quit (Quit c) s = quit c s"

text \<open>A connection that is not alive has no handler that could act.\<close>

primrec topic_run ::
  "('s \<Rightarrow> conn_id set) \<Rightarrow> (conn_id \<Rightarrow> uuid \<Rightarrow> 's \<Rightarrow> 's) \<Rightarrow> (conn_id \<Rightarrow> uuid \<Rightarrow> 's \<Rightarrow> 's) \<Rightarrow>
   (conn_id \<Rightarrow> 's \<Rightarrow> 's) \<Rightarrow> topic_op list \<Rightarrow> 's \<Rightarrow> 's" where
  "topic_run alive join part quit [] s = s"
| "topic_run alive join part quit (q # qs) s =
     topic_run alive join part quit qs (if op_conn q \<in> alive s then topic_step join part quit q s else s)"

locale topics =
  fixes alive :: "'s \<Rightarrow> conn_id set"
    and members :: "'s \<Rightarrow> uuid \<Rightarrow> conn_id set"
    and join part :: "conn_id \<Rightarrow> uuid \<Rightarrow> 's \<Rightarrow> 's"
    and quit :: "conn_id \<Rightarrow> 's \<Rightarrow> 's"
    and ok :: "'s \<Rightarrow> bool"
  assumes ok_join: "ok s \<Longrightarrow> c \<in> alive s \<Longrightarrow> ok (join c k s)"
    and ok_part: "ok s \<Longrightarrow> c \<in> alive s \<Longrightarrow> ok (part c k s)"
    and ok_quit: "ok s \<Longrightarrow> c \<in> alive s \<Longrightarrow> ok (quit c s)"
    and alive_join: "ok s \<Longrightarrow> c \<in> alive s \<Longrightarrow> alive (join c k s) = alive s"
    and alive_part: "ok s \<Longrightarrow> c \<in> alive s \<Longrightarrow> alive (part c k s) = alive s"
    and alive_quit: "ok s \<Longrightarrow> c \<in> alive s \<Longrightarrow> alive (quit c s) = alive s - {c}"
    and members_join: "ok s \<Longrightarrow> c \<in> alive s \<Longrightarrow>
          members (join c k s) j = (if j = k then insert c (members s j) else members s j)"
    and members_part: "ok s \<Longrightarrow> c \<in> alive s \<Longrightarrow>
          members (part c k s) j = (if j = k then members s j - {c} else members s j)"
    and members_quit: "ok s \<Longrightarrow> c \<in> alive s \<Longrightarrow> members (quit c s) j = members s j - {c}"
begin

definition abs :: "'s \<Rightarrow> pairs" where
  "abs s = (alive s, {(c, k). c \<in> members s k})"

lemma step_ok: "ok s \<Longrightarrow> op_conn q \<in> alive s \<Longrightarrow> ok (topic_step join part quit q s)"
  by (cases q) (simp_all add: ok_join ok_part ok_quit)

lemma step_refines: "ok s \<Longrightarrow> op_conn q \<in> alive s \<Longrightarrow> abs (topic_step join part quit q s) = spec_op q (abs s)"
  by (cases q) (auto simp: abs_def alive_join alive_part alive_quit members_join members_part
      members_quit split: if_splits)

lemma run_ok: "ok s \<Longrightarrow> ok (topic_run alive join part quit qs s)"
  by (induction qs arbitrary: s) (simp_all add: step_ok)

lemma run_refines: "ok s \<Longrightarrow> abs (topic_run alive join part quit qs s) = spec_run qs (abs s)"
proof (induction qs arbitrary: s)
  case (Cons q qs)
  have "fst (abs s) = alive s" by (simp add: abs_def)
  with Cons show ?case by (simp add: step_ok step_refines)
qed simp

end

definition join_delivery :: "conn_id \<Rightarrow> uuid \<Rightarrow> registry \<Rightarrow> registry" where
  "join_delivery c oid g =
     (case live g c of None \<Rightarrow> g | Some w \<Rightarrow> subscribe_delivery c oid (role_of (wc_user w)) g)"

definition delivery_subscribers :: "registry \<Rightarrow> uuid \<Rightarrow> conn_id set" where
  "delivery_subscribers g oid = delivery_internal_subscribers g oid \<union> delivery_customer_subscribers g oid"

lemma dom_live [simp]:
  "dom (live (subscribe c cid g)) = dom (live g)"
  "dom (live (unsubscribe c cid g)) = dom (live g)"
  "dom (live (subscribe_delivery c oid role g)) = dom (live g)"
  "dom (live (unsubscribe_delivery c oid g)) = dom (live g)"
  "dom (live (disconnect_all c g)) = dom (live g) - {c}"
  by (simp_all add: set_eq_iff conj_commute flip: connected_True)

interpretation chats: topics "\<lambda>g. dom (live g)" subscribers_of subscribe unsubscribe disconnect_all registry_ok
  by unfold_locales (simp_all add: subscribe_ok unsubscribe_ok disconnect_ok disconnect_members)

interpretation tracks: topics "\<lambda>g. dom (live g)" delivery_subscribers join_delivery unsubscribe_delivery
    disconnect_all registry_ok
proof
  fix g c k j
  assume ok: "registry_ok g" and c: "c \<in> dom (live g)"
  then obtain w where w: "live g c = Some w" by blast
  show "registry_ok (join_delivery c k g)" using ok w by (simp add: join_delivery_def subscribe_delivery_ok)
  show "dom (live (join_delivery c k g)) = dom (live g)" by (simp add: join_delivery_def w)
  show "delivery_subscribers (join_delivery c k g) j =
      (if j = k then insert c (delivery_subscribers g j) else delivery_subscribers g j)"
    by (auto simp: join_delivery_def w delivery_subscribers_def role_of_def)
  show "delivery_subscribers (unsubscribe_delivery c k g) j =
      (if j = k then delivery_subscribers g j - {c} else delivery_subscribers g j)"
    by (auto simp: delivery_subscribers_def)
  show "delivery_subscribers (disconnect_all c g) j = delivery_subscribers g j - {c}"
    by (auto simp: delivery_subscribers_def disconnect_members [OF ok])
qed (simp_all add: unsubscribe_delivery_ok disconnect_ok)

section \<open>Frames and inputs keep the invariant\<close>

lemma resolve_delivery_role_of:
  "resolve_delivery_role d oid u = Inr (Some role) \<Longrightarrow> role = role_of u"
  by (auto simp: resolve_delivery_role_def role_of_def dest!: resolve_role_customer
      split: option.splits sum.splits tracking_role.splits)

definition frame_effect :: "db \<Rightarrow> conn_id \<Rightarrow> user \<Rightarrow> registry \<Rightarrow> registry \<Rightarrow> bool" where
  "frame_effect d c u g g' \<longleftrightarrow>
     g' = g \<or> (\<exists>cid. g' = subscribe c cid g \<and> is_participant d cid u) \<or>
     (\<exists>oid. g' = subscribe_delivery c oid (role_of u) g \<and>
        resolve_delivery_role d oid u = Inr (Some (role_of u))) \<or>
     (\<exists>cid. g' = unsubscribe c cid g) \<or> (\<exists>oid. g' = unsubscribe_delivery c oid g)"

lemma on_subscribe_effect: "on_subscribe d c u m g = (r, out, g') \<Longrightarrow> frame_effect d c u g g'"
  unfolding frame_effect_def on_subscribe_def
  by (auto split: if_splits sum.splits option.splits py_error.splits dest: resolve_delivery_role_of)

lemma on_unsubscribe_effect: "on_unsubscribe c m g = (r, out, g') \<Longrightarrow> frame_effect d c u g g'"
  unfolding frame_effect_def on_unsubscribe_def
  by (auto split: if_splits sum.splits py_error.splits)

lemma on_typing_effect: "on_typing c u m g = (r, out, g') \<Longrightarrow> g' = g"
  unfolding on_typing_def by (auto split: if_splits sum.splits py_error.splits)

lemma frame_effect_same: "g' = g \<Longrightarrow> frame_effect d c u g g'"
  by (simp add: frame_effect_def)

lemma handle_frame_effect:
  assumes "handle_frame d c u f g = (r, out, g')"
  shows "frame_effect d c u g g'"
proof (cases f)
  case (Message m)
  consider "f_type m = Some ''subscribe''" | "f_type m = Some ''unsubscribe''"
    | "f_type m = Some ''typing''" | "f_type m \<notin> {Some ''subscribe'', Some ''unsubscribe'', Some ''typing''}"
    by blast
  then show ?thesis
  proof cases
    case 1
    with assms Message have "on_subscribe d c u m g = (r, out, g')" by (simp add: handle_frame_def)
    then show ?thesis by (rule on_subscribe_effect)
  next
    case 2
    with assms Message have "on_unsubscribe c m g = (r, out, g')" by (simp add: handle_frame_def)
    then show ?thesis by (rule on_unsubscribe_effect)
  next
    case 3
    with assms Message have "on_typing c u m g = (r, out, g')" by (simp add: handle_frame_def)
    then show ?thesis by (intro frame_effect_same on_typing_effect)
  next
    case 4
    with assms Message show ?thesis
      by (intro frame_effect_same) (simp add: handle_frame_def split: if_splits)
  qed
qed (use assms in \<open>simp_all add: handle_frame_def frame_effect_same\<close>)

lemma frame_effectE:
  assumes "frame_effect d c u g g'"
  obtains "g' = g"
  | cid where "g' = subscribe c cid g" "is_participant d cid u"
  | oid where "g' = subscribe_delivery c oid (role_of u) g"
      "resolve_delivery_role d oid u = Inr (Some (role_of u))"
  | cid where "g' = unsubscribe c cid g"
  | oid where "g' = unsubscribe_delivery c oid g"
  using assms unfolding frame_effect_def by blast

lemma handle_frame_ok:
  assumes "registry_ok g" and "live g c = Some w" and "handle_frame d c (wc_user w) f g = (r, out, g')"
  shows "registry_ok g'"
  using handle_frame_effect [OF assms(3)]
  by (rule frame_effectE)
    (use assms(1,2) in \<open>auto intro: subscribe_ok subscribe_delivery_ok unsubscribe_ok unsubscribe_delivery_ok\<close>)

lemma receive_cases:
  assumes "receive d c f g = (out, g')"
  obtains "live g c = None" "out = {}" "g' = g"
  | w r g1 where "live g c = Some w" "handle_frame d c (wc_user w) f g = (r, out, g1)"
      "g' = (if r = Continue then g1 else disconnect_all c g1)"
  using assms by (auto simp: receive_def split: option.splits prod.splits outcome.splits)

lemma receive_ok: "registry_ok g \<Longrightarrow> receive d c f g = (out, g') \<Longrightarrow> registry_ok g'"
  by (erule receive_cases) (auto intro: handle_frame_ok disconnect_ok split: if_splits)

lemma connect_ok: "registry_ok g \<Longrightarrow> registry_ok (connect dec cfg now cred c d g)"
proof (cases "ws_authenticate dec cfg now cred d = None \<or> live g c \<noteq> None")
  case True
  then show "registry_ok g \<Longrightarrow> registry_ok (connect dec cfg now cred c d g)"
    by (auto simp: connect_def split: option.splits)
next
  case False
  then obtain u where u: "ws_authenticate dec cfg now cred d = Some u" "live g c = None" by auto
  let ?w = "\<lparr>wc_user = u, wc_conversations = {}, wc_delivery_orders = {}\<rparr>"
  have "connect dec cfg now cred c d g = g\<lparr>live := (live g)(c \<mapsto> ?w)\<rparr>" using u by (simp add: connect_def)
  then show "registry_ok g \<Longrightarrow> registry_ok (connect dec cfg now cred c d g)"
    using u(2)
    by (fastforce simp: registry_ok_def chats_ok_def tracks_ok_def connected_def subscribers_of_def
        delivery_internal_subscribers_def delivery_customer_subscribers_def)
qed

lemma exec_gateway_ok:
  assumes "registry_ok g" and "exec_gateway dec cfg q d g = (out, d', g')"
  shows "registry_ok g'"
proof (cases q)
  case (Receive c f)
  with assms show ?thesis by (auto intro: receive_ok split: prod.splits)
qed (use assms in \<open>auto intro: connect_ok disconnect_ok split: prod.splits\<close>)

lemma reachable_ok: "reachable dec cfg d g \<Longrightarrow> registry_ok g"
  by (induction rule: reachable.induct) (auto intro: exec_gateway_ok)

section \<open>Who is sent what\<close>

definition is_location :: "ws_event \<Rightarrow> bool" where
  "is_location ev = (case ev of EvLocation _ _ _ _ _ \<Rightarrow> True | _ \<Rightarrow> False)"

text \<open>The conversation whose content an event carries.\<close>

definition about_chat :: "ws_event \<Rightarrow> uuid option" where
  "about_chat ev = (case ev of EvMessage _ cid _ \<Rightarrow> Some cid | EvTyping cid _ _ \<Rightarrow> Some cid | _ \<Rightarrow> None)"

lemma event_kinds [simp]:
  "is_location (internal_location_event dl)" "\<not> is_location (eta_event dl)"
  "\<not> is_location (status_event oid st t t')"
  "about_chat (internal_location_event dl) = None" "about_chat (eta_event dl) = None"
  "about_chat (status_event oid st t t') = None"
  by (simp_all add: is_location_def about_chat_def internal_location_event_def eta_event_def status_event_def)

lemma handle_frame_sent:
  assumes "handle_frame d c u f g = (r, out, g')" and "(k, ev) \<in> out"
  shows "\<not> is_location ev \<and>
    (about_chat ev = None \<or> (\<exists>cid. about_chat ev = Some cid \<and> k \<in> subscribers_of g cid))"
proof -
  have "(\<not> is_location ev \<and> about_chat ev = None) \<or>
      (\<exists>cid b. ev = EvTyping cid b (u_id u) \<and> k \<in> subscribers_of g cid)"
  proof (cases f)
    case (Message m)
    have "\<not> is_location ev \<and> about_chat ev = None"
      if "on_subscribe d c u m g = (r, out, g')"
      using that assms(2) unfolding on_subscribe_def
      by (auto simp: is_location_def about_chat_def split: if_splits sum.splits option.splits py_error.splits)
    moreover have "out = {}" if "on_unsubscribe c m g = (r, out, g')"
      using that unfolding on_unsubscribe_def by (auto split: if_splits sum.splits py_error.splits)
    moreover have "\<exists>cid b. ev = EvTyping cid b (u_id u) \<and> k \<in> subscribers_of g cid"
      if "on_typing c u m g = (r, out, g')"
      using that assms(2) unfolding on_typing_def
      by (auto simp: typing_to_def split: if_splits sum.splits py_error.splits)
    moreover have "\<not> is_location ev \<and> about_chat ev = None"
      if "f_type m \<notin> {Some ''subscribe'', Some ''unsubscribe'', Some ''typing''}"
      using that assms Message by (auto simp: handle_frame_def is_location_def about_chat_def split: if_splits)
    ultimately show ?thesis
      using assms Message by (simp only: handle_frame_def frame.case split: if_splits) (auto split: if_splits)
  qed (use assms in \<open>auto simp: handle_frame_def is_location_def about_chat_def\<close>)
  then show ?thesis by (auto simp: is_location_def about_chat_def)
qed

section \<open>Conversations and their audience\<close>

definition entitled :: "db \<Rightarrow> uuid \<Rightarrow> user \<Rightarrow> bool" where
  "entitled d cid u \<longleftrightarrow>
     (\<exists>c \<in> set (conversations d). c_id c = cid \<and> (u_role u = Admin \<or> is_party c (u_id u)))"

lemma is_participant_entitled: "is_participant d cid u \<Longrightarrow> entitled d cid u"
  by (auto simp: is_participant_def entitled_def dest: get_row_SomeD split: option.splits if_splits)

lemma entitled_kept: "entitled d cid u \<Longrightarrow> conversations_kept d d' \<Longrightarrow> entitled d' cid u"
  unfolding entitled_def conversations_kept_def is_party_def pair_of_def by fastforce

definition audience_ok :: "db \<Rightarrow> registry \<Rightarrow> bool" where
  "audience_ok d g \<longleftrightarrow>
     (\<forall>c w. live g c = Some w \<longrightarrow> (\<forall>cid \<in> wc_conversations w. entitled d cid (wc_user w)))"

lemma audience_ok_effect:
  assumes "audience_ok d g" and "live g c = Some w" and "frame_effect d c (wc_user w) g g'"
  shows "audience_ok d g'"
  using assms(3)
proof (rule frame_effectE)
  fix cid assume "g' = subscribe c cid g" and "is_participant d cid (wc_user w)"
  then show ?thesis
    using assms(1,2) by (auto simp: audience_ok_def subscribe_def dest: is_participant_entitled split: if_splits)
qed (use assms(1,2) in \<open>auto simp: audience_ok_def unsubscribe_def subscribe_delivery_def
      unsubscribe_delivery_def split: if_splits\<close>)

lemma audience_ok_disconnect: "audience_ok d g \<Longrightarrow> audience_ok d (disconnect_all c g)"
  by (auto simp: audience_ok_def disconnect_all_def split: option.splits if_splits)

lemma audience_ok_connect: "audience_ok d g \<Longrightarrow> audience_ok d (connect dec cfg now cred c d g)"
  by (auto simp: audience_ok_def connect_def split: option.splits)

lemma audience_ok_kept: "audience_ok d g \<Longrightarrow> conversations_kept d d' \<Longrightarrow> audience_ok d' g"
  unfolding audience_ok_def using entitled_kept by blast

lemma audience_ok_receive:
  assumes "audience_ok d g" and "receive d c f g = (out, g')"
  shows "audience_ok d g'"
  using assms(2)
proof (rule receive_cases)
  fix w r g1
  assume w: "live g c = Some w" and f: "handle_frame d c (wc_user w) f g = (r, out, g1)"
    and g': "g' = (if r = Continue then g1 else disconnect_all c g1)"
  have "audience_ok d g1" by (rule audience_ok_effect [OF assms(1) w handle_frame_effect [OF f]])
  then show ?thesis by (simp add: g' audience_ok_disconnect)
qed (use assms(1) in simp)

text \<open>None of the broadcasting endpoints loses a conversation.\<close>

lemma flushing_conversations:
  assumes "get_db (flushing svc) d = (r, d')"
    and "\<And>a d'. svc d = (Inr a, d') \<Longrightarrow> conversations_kept d d'"
  shows "conversations_kept d d'"
  using assms by (cases rule: get_db_flushing_cases [of svc d]) auto

lemma service_conversations:
  "post_location now u oid lat lng eta m d = (Inr a, d') \<Longrightarrow> conversations_kept d d'"
  "out_for_delivery i st now u oid d = (Inr f, d') \<Longrightarrow> conversations_kept d d'"
  "mark_delivered now u oid d = (Inr f, d') \<Longrightarrow> conversations_kept d d'"
  "send_message i now u cid body d = (Inr ms, d') \<Longrightarrow> conversations_kept d d'"
  "mark_message_read now u cid mid d = (Inr ms, d') \<Longrightarrow> conversations_kept d d'"
proof -
  show "post_location now u oid lat lng eta m d = (Inr a, d') \<Longrightarrow> conversations_kept d d'"
    by (cases a) (auto elim!: post_location_success simp: set_delivery_def)
  have "start_delivery i st u ord d = (Inr x, d1) \<Longrightarrow> conversations d1 = conversations d" for ord x d1
    by (auto simp: set_delivery_def dest!: start_delivery_success)
  then show "out_for_delivery i st now u oid d = (Inr f, d') \<Longrightarrow> conversations_kept d d'"
    by (auto elim!: out_for_delivery_success simp: set_order_def)
  show "mark_delivered now u oid d = (Inr f, d') \<Longrightarrow> conversations_kept d d'"
    by (erule mark_delivered_success) (simp add: set_delivery_def set_order_def)
  show "send_message i now u cid body d = (Inr ms, d') \<Longrightarrow> conversations_kept d d'"
    by (erule send_message_success, erule store_message_success) (simp add: conversations_kept_cong)
  show "mark_message_read now u cid mid d = (Inr ms, d') \<Longrightarrow> conversations_kept d d'"
    by (erule mark_message_read_success) simp
qed

lemma exec_gateway_conversations:
  assumes "exec_gateway dec cfg q d g = (out, d', g')"
  shows "conversations_kept d d'"
proof (cases q)
  case (PostLocation now u oid lat lng eta m)
  with assms show ?thesis
    by (auto simp: post_location_endpoint_def split: prod.splits sum.splits
        intro: flushing_conversations service_conversations(1))
next
  case (StartDelivery i st now u oid)
  with assms show ?thesis
    by (auto simp: out_for_delivery_endpoint_def split: prod.splits sum.splits
        intro: flushing_conversations service_conversations(2))
next
  case (EndDelivery now u oid)
  with assms show ?thesis
    by (auto simp: delivered_endpoint_def split: prod.splits sum.splits
        intro: flushing_conversations service_conversations(3))
next
  case (SendChat i now u cid body)
  with assms show ?thesis
    by (auto simp: send_message_endpoint_def split: prod.splits sum.splits
        intro: flushing_conversations service_conversations(4))
next
  case (ReadChat now u cid mid)
  with assms show ?thesis
    by (auto simp: mark_read_endpoint_def split: prod.splits sum.splits
        intro: flushing_conversations service_conversations(5))
qed (use assms in \<open>auto split: prod.splits\<close>)

lemma exec_gateway_audience:
  assumes "audience_ok d g" and "exec_gateway dec cfg q d g = (out, d', g')"
  shows "audience_ok d' g'"
proof -
  have kept: "conversations_kept d d'" by (rule exec_gateway_conversations [OF assms(2)])
  have "audience_ok d g'"
  proof (cases q)
    case (Receive c f)
    with assms show ?thesis by (auto intro: audience_ok_receive split: prod.splits)
  qed (use assms in \<open>auto intro: audience_ok_connect audience_ok_disconnect split: prod.splits\<close>)
  with kept show ?thesis by (rule audience_ok_kept [rotated])
qed

lemma reachable_audience: "reachable dec cfg d g \<Longrightarrow> audience_ok d g"
proof (induction rule: reachable.induct)
  case (start d)
  show ?case by (simp add: audience_ok_def empty_registry_def)
qed (auto intro: exec_gateway_audience audience_ok_kept)

section \<open>What an input sends\<close>

lemma exec_gateway_sent:
  assumes "exec_gateway dec cfg q d g = (out, d', g')" and "(k, ev) \<in> out"
  shows "(is_location ev \<longrightarrow> (\<exists>oid. k \<in> delivery_internal_subscribers g oid)) \<and>
    (about_chat ev = None \<or> (\<exists>cid. about_chat ev = Some cid \<and> k \<in> subscribers_of g cid))"
proof (cases q)
  case (Receive c f)
  with assms(1) have "receive d c f g = (out, g')" by (auto split: prod.splits)
  then show ?thesis
    by (rule receive_cases) (use assms(2) handle_frame_sent in blast)+
next
  case (PostLocation now u oid lat lng eta m)
  with assms have "\<exists>(ord :: order_row) (dl :: delivery). (k, ev) \<in> broadcast_delivery_location_internal g (o_id ord) (internal_location_event dl)
      \<union> broadcast_delivery_event_all g (o_id ord) (eta_event dl)"
    by (auto simp: post_location_endpoint_def split: prod.splits sum.splits if_splits)
  then show ?thesis
    by (auto simp: broadcast_delivery_location_internal_def broadcast_delivery_event_all_def)
next
  case (StartDelivery i st now u oid)
  with assms show ?thesis
    by (auto simp: out_for_delivery_endpoint_def broadcast_delivery_event_all_def
        split: prod.splits sum.splits)
next
  case (EndDelivery now u oid)
  with assms show ?thesis
    by (auto simp: delivered_endpoint_def broadcast_delivery_event_all_def split: prod.splits sum.splits)
next
  case (SendChat i now u cid body)
  with assms have "(k, ev) \<in> \<Union>(range (broadcast_message_new g cid))"
    by (auto simp: send_message_endpoint_def split: prod.splits sum.splits)
  then show ?thesis
    by (auto simp: broadcast_message_new_def broadcast_event_def is_location_def about_chat_def)
next
  case (ReadChat now u cid mid)
  with assms have "(k, ev) \<in> \<Union>(range (broadcast_message_read g cid))"
    by (auto simp: mark_read_endpoint_def split: prod.splits sum.splits)
  then show ?thesis
    by (auto simp: broadcast_message_read_def broadcast_event_def is_location_def about_chat_def)
qed (use assms in auto)

section \<open>Properties\<close>

text \<open>
  C39: the position of a driver never reaches a customer's socket: whatever connections were
  opened, whatever frames and requests came before and whatever else changed the database, a
  location event is sent only to live connections of accounts that are not customers.
\<close>

theorem position_never_sent_to_customer:
  assumes "reachable dec cfg d g" and "exec_gateway dec cfg q d g = (out, d', g')"
    and "(c, EvLocation oid lat lng t drv) \<in> out"
  shows "\<exists>w. live g c = Some w \<and> u_role (wc_user w) \<noteq> Customer"
proof -
  obtain k where "c \<in> delivery_internal_subscribers g k"
    using exec_gateway_sent [OF assms(2,3)] by (auto simp: is_location_def)
  with reachable_ok [OF assms(1)] show ?thesis
    by (auto simp: registry_ok_def tracks_ok_def connected_def split: option.splits)
qed

text \<open>
  C23: chat events, new messages, read marks and typing notices alike, reach only connections of
  the two parties of that conversation and of administrators.
\<close>

theorem chat_events_reach_parties_only:
  assumes "reachable dec cfg d g" and "exec_gateway dec cfg q d g = (out, d', g')"
    and "(c, ev) \<in> out" and "about_chat ev = Some cid"
  shows "\<exists>w. live g c = Some w \<and> entitled d cid (wc_user w)"
proof -
  have "c \<in> subscribers_of g cid" using exec_gateway_sent [OF assms(2,3)] assms(4) by auto
  with reachable_ok [OF assms(1)] have "connected g c (\<lambda>w. cid \<in> wc_conversations w)"
    by (simp add: registry_ok_def chats_ok_def)
  with reachable_audience [OF assms(1)] show ?thesis
    by (auto simp: connected_def audience_ok_def split: option.splits)
qed

text \<open>
  C40: the nested sets of the registry implement a plain relation between connections and
  topics: after any sequence of subscriptions, unsubscriptions and disconnections the
  subscribers are those the relation has, for conversations and for deliveries, so a connection
  that hung up is in none.
\<close>

theorem registry_implements_relation:
  assumes "registry_ok g"
  shows "(c \<in> subscribers_of (topic_run (\<lambda>g. dom (live g)) subscribe unsubscribe disconnect_all qs g) k \<longleftrightarrow>
      (c, k) \<in> snd (spec_run qs (dom (live g), {(c, k). c \<in> subscribers_of g k}))) \<and>
    (c \<in> delivery_subscribers
        (topic_run (\<lambda>g. dom (live g)) join_delivery unsubscribe_delivery disconnect_all qs g) k \<longleftrightarrow>
      (c, k) \<in> snd (spec_run qs (dom (live g), {(c, k). c \<in> delivery_subscribers g k})))"
  using chats.run_refines [OF assms, of qs] tracks.run_refines [OF assms, of qs]
  by (simp_all add: chats.abs_def tracks.abs_def prod_eq_iff set_eq_iff)

definition bad_id :: "json_id \<Rightarrow> bool" where
  "bad_id x \<longleftrightarrow> (case x of NonString b \<Rightarrow> True | _ \<Rightarrow> False)"

text \<open>The identifier a message of a kind makes the handler parse.\<close>

definition parsed_id :: "ws_message \<Rightarrow> json_id" where
  "parsed_id m =
     (if f_type m \<in> {Some ''subscribe'', Some ''unsubscribe''} \<and> f_delivery_order_id m \<noteq> Null
      then f_delivery_order_id m
      else if f_type m \<in> {Some ''subscribe'', Some ''unsubscribe''} \<or>
              f_type m = Some ''typing'' \<and> f_state m \<in> {Some ''start'', Some ''stop''}
      then (if falsy (f_conversation_id m) then Null else f_conversation_id m)
      else Null)"

definition forbidden :: "db \<Rightarrow> user \<Rightarrow> ws_message \<Rightarrow> bool" where
  "forbidden d u m \<longleftrightarrow> f_type m = Some ''subscribe'' \<and>
     (case f_delivery_order_id m of
        Id oid \<Rightarrow> resolve_delivery_role d oid u = Inr None
      | Null \<Rightarrow> (case f_conversation_id m of Id cid \<Rightarrow> \<not> is_participant d cid u | _ \<Rightarrow> False)
      | _ \<Rightarrow> False)"

lemma resolve_delivery_role_total:
  "orders_inv d \<Longrightarrow> \<exists>r. resolve_delivery_role d oid u = Inr r"
proof -
  assume inv: "orders_inv d"
  have "resolve_role d u ord \<noteq> Inl e" for ord e using resolve_role_total [OF inv, of u ord] by auto
  then show ?thesis
    by (auto simp: resolve_delivery_role_def split: option.splits sum.splits tracking_role.splits)
qed

lemma on_subscribe_outcome:
  assumes "orders_inv d" and "f_type m = Some ''subscribe''"
  shows "fst (on_subscribe d c u m g) =
    (if bad_id (parsed_id m) then Crash else if forbidden d u m then Close 4403 else Continue)"
proof (cases "f_delivery_order_id m")
  case (Id oid)
  obtain r where "resolve_delivery_role d oid u = Inr r" using resolve_delivery_role_total [OF assms(1)] by blast
  with assms(2) Id show ?thesis
    by (cases r) (simp_all add: on_subscribe_def parsed_id_def bad_id_def forbidden_def)
next
  case Null
  with assms(2) show ?thesis
    by (cases "f_conversation_id m")
      (simp_all add: on_subscribe_def parsed_id_def bad_id_def forbidden_def falsy_def)
qed (use assms(2) in \<open>simp_all add: on_subscribe_def parsed_id_def bad_id_def forbidden_def\<close>)

lemma on_unsubscribe_outcome:
  assumes "f_type m = Some ''unsubscribe''"
  shows "fst (on_unsubscribe c m g) = (if bad_id (parsed_id m) then Crash else Continue)"
  using assms
  by (cases "f_delivery_order_id m"; cases "f_conversation_id m")
    (simp_all add: on_unsubscribe_def parsed_id_def bad_id_def falsy_def)

lemma on_typing_outcome:
  assumes "f_type m = Some ''typing''"
  shows "fst (on_typing c u m g) = (if bad_id (parsed_id m) then Crash else Continue)"
  using assms
  by (cases "f_conversation_id m")
    (simp_all add: on_typing_def parsed_id_def bad_id_def falsy_def)

text \<open>
  A frame ends the connection exactly when it is JSON but no object, when an identifier it
  uses is a value other than a string, or when it asks for a conversation or an order that is
  not the caller's; only the last closes with 4403, the others end the handler with an exception.
\<close>

theorem frame_outcome:
  assumes "orders_inv d"
  shows "fst (handle_frame d c u f g) =
    (case f of
       InvalidJson \<Rightarrow> Continue
     | NotObject \<Rightarrow> Crash
     | Message m \<Rightarrow>
         if bad_id (parsed_id m) then Crash else if forbidden d u m then Close 4403 else Continue)"
proof (cases f)
  case (Message m)
  have "\<not> bad_id (parsed_id m) \<and> \<not> forbidden d u m"
    if "f_type m \<notin> {Some ''subscribe'', Some ''unsubscribe'', Some ''typing''}"
    using that by (simp add: parsed_id_def bad_id_def forbidden_def)
  moreover have "\<not> forbidden d u m" if "f_type m \<noteq> Some ''subscribe''"
    using that by (simp add: forbidden_def)
  ultimately show ?thesis
    using Message on_subscribe_outcome [OF assms] on_unsubscribe_outcome on_typing_outcome
    by (simp add: handle_frame_def)
qed (simp_all add: handle_frame_def)

text \<open>A small run: the customer and the driver of an order, both connected and subscribed.\<close>

definition subscribe_frame :: "uuid \<Rightarrow> frame" where
  "subscribe_frame oid = Message \<lparr>f_type = Some ''subscribe'', f_conversation_id = Null,
     f_delivery_order_id = Id oid, f_state = None\<rparr>"

definition two_watchers :: registry where
  "two_watchers = \<lparr>live = [1 \<mapsto> \<lparr>wc_user = sample_driver, wc_conversations = {}, wc_delivery_orders = {100}\<rparr>,
      2 \<mapsto> \<lparr>wc_user = sample_customer, wc_conversations = {500}, wc_delivery_orders = {100}\<rparr>],
     subs = [500 \<mapsto> {2}], delivery_subs = [100 \<mapsto> \<lparr>t_internal = {1}, t_customer = {2}\<rparr>]\<rparr>"

lemma two_watchers_ok: "registry_ok two_watchers"
  by (auto simp: registry_ok_def chats_ok_def tracks_ok_def two_watchers_def subscribers_of_def connected_def
      delivery_internal_subscribers_def delivery_customer_subscribers_def no_topic_def sample_driver_def
      sample_customer_def sample_user_def image_iff split: option.splits if_splits)

theorem registry_implements_relation_witness:
  "1 \<notin> delivery_subscribers
     (topic_run (\<lambda>g. dom (live g)) join_delivery unsubscribe_delivery disconnect_all [Join 1 101, Quit 1] two_watchers) 101"
  using registry_implements_relation [OF two_watchers_ok, of 1 "[Join 1 101, Quit 1]" 101]
  by (simp add: two_watchers_def)

theorem frame_outcome_witness:
  "fst (handle_frame sample_db 2 sample_customer (subscribe_frame 999) two_watchers) = Close 4403"
proof -
  have "orders_inv sample_db"
    by (simp add: orders_inv_def assignments_inv_def active_assignments_def sample_defs)
  from frame_outcome [OF this, of 2 sample_customer "subscribe_frame 999" two_watchers] show ?thesis
    by (simp add: subscribe_frame_def bad_id_def parsed_id_def forbidden_def resolve_delivery_role_def
        load_order_def sample_defs)
qed

text \<open>The same two connections come about from handshakes and frames.\<close>

primrec run_inputs ::
  "(time \<Rightarrow> 't \<Rightarrow> string \<Rightarrow> jwt_error + jwt_payload) \<Rightarrow> settings \<Rightarrow> 't gateway_input list \<Rightarrow> db \<times> registry \<Rightarrow>
   db \<times> registry" where
  "run_inputs dec cfg [] s = s"
| "run_inputs dec cfg (q # qs) s = run_inputs dec cfg qs (snd (exec_gateway dec cfg q (fst s) (snd s)))"

lemma reachable_run_inputs:
  "reachable dec cfg (fst s) (snd s) \<Longrightarrow>
   reachable dec cfg (fst (run_inputs dec cfg qs s)) (snd (run_inputs dec cfg qs s))"
proof (induction qs arbitrary: s)
  case (Cons q qs)
  obtain out d' g' where q: "exec_gateway dec cfg q (fst s) (snd s) = (out, d', g')"
    by (cases "exec_gateway dec cfg q (fst s) (snd s)")
  have "reachable dec cfg d' g'" by (rule reachable.input [OF Cons.prems q])
  with Cons.IH [of "(d', g')"] show ?case by (simp add: q)
qed simp

definition token_for :: "user \<Rightarrow> string \<times> claims" where
  "token_for u = fst (create_access_token Pair sample_settings ''j'' 0 (u_id u) (u_role u))"

definition open_chat :: "uuid \<Rightarrow> frame" where
  "open_chat cid = Message \<lparr>f_type = Some ''subscribe'', f_conversation_id = Id cid,
     f_delivery_order_id = Null, f_state = None\<rparr>"

definition gateway_db :: db where
  "gateway_db = tracking_db\<lparr>conversations := [\<lparr>c_id = 500, c_user_a_id = 2, c_user_b_id = 3,
     c_created_at = 0, c_last_message_at = None\<rparr>],
     messages := [\<lparr>m_id = 700, m_conversation_id = 500, m_sender_id = 2, m_ciphertext = [], m_nonce = [],
     m_ephemeral_public_key = [], m_recipient_key_id = None, m_sent_at = 0, m_read_at = None, m_deleted_at = None\<rparr>]\<rparr>"

definition watching :: "db \<times> registry" where
  "watching = run_inputs toy_dec sample_settings
     [Connect 1 5 (Some (token_for sample_driver)), Connect 2 5 (Some (token_for sample_customer)),
      Receive 1 (subscribe_frame 100), Receive 2 (subscribe_frame 100), Receive 2 (open_chat 500)]
     (gateway_db, empty_registry)"

lemma watching_reachable: "reachable toy_dec sample_settings (fst watching) (snd watching)"
  unfolding watching_def by (rule reachable_run_inputs) (simp add: reachable.start)

lemma watching_location:
  "(1, EvLocation 100 (Some 59) (Some 10) (Some 4000) (Some 4)) \<in>
     fst (exec_gateway toy_dec sample_settings (PostLocation 4000 sample_driver 100 59 10 None None)
       (fst watching) (snd watching))"
  by code_simp

theorem position_never_sent_to_customer_witness:
  "(1, EvLocation 100 (Some 59) (Some 10) (Some 4000) (Some 4)) \<in>
     fst (exec_gateway toy_dec sample_settings (PostLocation 4000 sample_driver 100 59 10 None None)
       (fst watching) (snd watching)) \<and>
   (\<exists>w. live (snd watching) 1 = Some w \<and> u_role (wc_user w) \<noteq> Customer)"
proof -
  let ?q = "PostLocation 4000 sample_driver 100 59 10 None None"
  obtain out d' g' where q: "exec_gateway toy_dec sample_settings ?q (fst watching) (snd watching) = (out, d', g')"
    by (cases "exec_gateway toy_dec sample_settings ?q (fst watching) (snd watching)")
  with watching_location have "(1, EvLocation 100 (Some 59) (Some 10) (Some 4000) (Some 4)) \<in> out" by simp
  from position_never_sent_to_customer [OF watching_reachable q this] watching_location show ?thesis by blast
qed

lemma watching_chat:
  "(2, EvMessage ''message.read'' 500 700) \<in>
     fst (exec_gateway toy_dec sample_settings (ReadChat 4000 sample_customer 500 700) (fst watching) (snd watching))"
  by code_simp

theorem chat_events_reach_parties_only_witness:
  "\<exists>w. live (snd watching) 2 = Some w \<and> entitled (fst watching) 500 (wc_user w)"
proof -
  let ?q = "ReadChat 4000 sample_customer 500 700"
  obtain out d' g' where q: "exec_gateway toy_dec sample_settings ?q (fst watching) (snd watching) = (out, d', g')"
    by (cases "exec_gateway toy_dec sample_settings ?q (fst watching) (snd watching)")
  with watching_chat have "(2, EvMessage ''message.read'' 500 700) \<in> out" by simp
  from chat_events_reach_parties_only [OF watching_reachable q this] show ?thesis by (simp add: about_chat_def)
qed

end
