(* ===== verification/Application.thy ===== *)
theory Application
  imports Scheduler Tokens
begin

text \<open>
  The application shell under \<open>src/backend/app\<close>: the settings read at start and their check
  (\<open>core/config.py\<close>), the pre-flight check of the deployment (\<open>scripts/check_env.py\<close>), the
  middlewares, exception handlers and probes of \<open>main.py\<close>, the gate of \<open>/metrics\<close>
  (\<open>core/observability.py\<close>). The environment maps the names of variables, in upper case, to their
  values; an \<open>.env\<close> file is part of it. How pydantic reads a number is a parameter.
\<close>

section \<open>Settings\<close>

text \<open>The JWT fields are the record of \<open>Tokens\<close>; the other fields without a reader here are left out.\<close>

record app_settings =
  jwt_settings :: settings
  environment :: string
  cors_origins :: string
  metrics_token :: string

definition insecure_jwt_default :: string where
  "insecure_jwt_default = ''change_me_phase_3''"

text \<open>What keeps the process from starting.\<close>

datatype (plugins only: code) start_error = SettingsInvalid | RuntimeError

definition validate_jwt_secret :: "app_settings \<Rightarrow> start_error + app_settings" where
  "validate_jwt_secret cfg =
     (if jwt_secret (jwt_settings cfg) = insecure_jwt_default then
        (if environment cfg \<in> {''dev'', ''test''} then Inr cfg else Inl RuntimeError)
      else Inr cfg)"

definition int_setting :: "(string \<Rightarrow> int option) \<Rightarrow> env \<Rightarrow> string \<Rightarrow> int \<Rightarrow> int option" where
  "int_setting parse env name dflt =
     (case env name of None \<Rightarrow> Some dflt | Some s \<Rightarrow> parse s)"

definition load_settings :: "(string \<Rightarrow> int option) \<Rightarrow> env \<Rightarrow> start_error + app_settings" where
  "load_settings parse env =
     (let mode = or_else (env ''APP_ENVIRONMENT'') ''dev'' in
      case (int_setting parse env ''APP_JWT_ACCESS_TOKEN_EXPIRE_MINUTES'' 15,
            int_setting parse env ''APP_JWT_REFRESH_TOKEN_EXPIRE_DAYS'' 7) of
        (Some minutes, Some days) \<Rightarrow>
          if mode \<notin> {''dev'', ''test'', ''prod''} then Inl SettingsInvalid
          else validate_jwt_secret
            \<lparr>jwt_settings =
               \<lparr>jwt_secret = or_else (env ''APP_JWT_SECRET'') insecure_jwt_default,
                jwt_secret_primary = or_else (env ''APP_JWT_SECRET_PRIMARY'') [],
                jwt_secret_secondary = or_else (env ''APP_JWT_SECRET_SECONDARY'') [],
                jwt_access_token_expire_minutes = minutes,
                jwt_refresh_token_expire_days = days\<rparr>,
             environment = mode, cors_origins = or_else (env ''APP_CORS_ORIGINS'') [],
             metrics_token = or_else (env ''APP_METRICS_TOKEN'') []\<rparr>
      | _ \<Rightarrow> Inl SettingsInvalid)"

text \<open>\<open>s.split(",")\<close>.\<close>

fun split_commas :: "string \<Rightarrow> string list" where
  "split_commas [] = [[]]"
| "split_commas (c # cs) =
     (if c = CHR '','' then [] # split_commas cs
      else (case split_commas cs of [] \<Rightarrow> [[c]] | p # ps \<Rightarrow> (c # p) # ps))"

definition cors_origins_list :: "app_settings \<Rightarrow> string list" where
  "cors_origins_list cfg =
     (let raw = filter (\<lambda>s. s \<noteq> []) (map strip (split_commas (cors_origins cfg)))
      in if raw \<noteq> [] then raw
         else if environment cfg \<in> {''dev'', ''test''} then [''*''] else [])"

text \<open>The arguments of the CORS middleware: origins, and whether credentials are allowed.\<close>

definition cors_config :: "app_settings \<Rightarrow> string list \<times> bool" where
  "cors_config cfg = (let origins = cors_origins_list cfg in (origins, origins \<noteq> [''*'']))"

section \<open>The pre-flight check\<close>

definition required_in_prod :: "(string \<times> bool \<times> string option) list" where
  "required_in_prod =
     [(''APP_ENVIRONMENT'', True, None),
      (''APP_DATABASE_URL'', True, None),
      (''APP_DATABASE_URL_SYNC'', True, None),
      (''APP_JWT_SECRET_PRIMARY'', True, Some ''change_me_phase_3''),
      (''APP_CORS_ORIGINS'', True, Some ''''),
      (''APP_S3_BUCKET'', True, Some ''''),
      (''APP_S3_REGION'', True, Some ''''),
      (''APP_S3_CDN_BASE_URL'', False, Some ''''),
      (''APP_FCM_SERVER_KEY'', False, Some ''''),
      (''APP_APNS_KEY_PEM'', False, Some ''''),
      (''APP_SENTRY_DSN'', False, Some ''''),
      (''APP_METRICS_TOKEN'', False, Some '''')]"

datatype (plugins only: code) complaint = NotSet string | InsecureDefault string

text \<open>One round of the loop: what it adds to \<open>missing\<close> and to \<open>warnings\<close>.\<close>

definition check_var :: "env \<Rightarrow> string \<times> bool \<times> string option \<Rightarrow>
    complaint list \<times> complaint list \<Rightarrow> complaint list \<times> complaint list" where
  "check_var env row acc =
     (case row of (var, required, bad_literal) \<Rightarrow> case acc of (missing, warnings) \<Rightarrow>
        let val = or_else (env var) [] in
        if val = [] then
          (if required then (missing @ [NotSet var], warnings) else (missing, warnings @ [NotSet var]))
        else if bad_literal \<noteq> None \<and> Some val = bad_literal
        then (missing @ [InsecureDefault var], warnings)
        else (missing, warnings))"

definition check_env :: "env \<Rightarrow> int \<times> complaint list \<times> complaint list" where
  "check_env env =
     (if or_else (env ''APP_ENVIRONMENT'') ''dev'' \<noteq> ''prod'' then (0, [], [])
      else case fold (check_var env) required_in_prod ([], []) of
        (missing, warnings) \<Rightarrow> (if missing \<noteq> [] then 1 else 0, missing, warnings))"

section \<open>Middlewares\<close>

text \<open>Header names are lower case, as ASGI passes them.\<close>

type_synonym headers = "(string \<times> string) list"

datatype (plugins only: code) asgi_scope = HttpScope headers | WebSocketScope headers | LifespanScope

datatype (plugins only: code) asgi_message = ResponseStart nat headers | ResponseBody string | OtherMessage

definition quoted :: "string \<Rightarrow> string" where
  "quoted s = [CHR 0x27] @ s @ [CHR 0x27]"

definition security_headers :: headers where
  "security_headers =
     [(''strict-transport-security'', ''max-age=63072000; includeSubDomains''),
      (''x-content-type-options'', ''nosniff''),
      (''referrer-policy'', ''strict-origin-when-cross-origin''),
      (''permissions-policy'', ''camera=(), microphone=(), geolocation=(self)''),
      (''content-security-policy'',
      ''default-src '' @ quoted ''none'' @ ''; frame-ancestors '' @ quoted ''none'')]"

primrec send_with_headers :: "asgi_message \<Rightarrow> asgi_message" where
  "send_with_headers (ResponseStart st hs) =
     ResponseStart st (hs @ filter (\<lambda>h. fst h \<notin> fst ` set hs) security_headers)"
| "send_with_headers (ResponseBody b) = ResponseBody b"
| "send_with_headers OtherMessage = OtherMessage"

definition security_headers_middleware :: "asgi_scope \<Rightarrow> asgi_message list \<Rightarrow> asgi_message list" where
  "security_headers_middleware scope msgs =
     (case scope of HttpScope _ \<Rightarrow> map send_with_headers msgs | _ \<Rightarrow> msgs)"

text \<open>\<open>dict(headers)\<close> keeps the last of two equal names; \<open>fresh\<close> is \<open>str(uuid4())\<close>.\<close>

definition request_id :: "string \<Rightarrow> headers \<Rightarrow> string" where
  "request_id fresh hs =
     (let given = or_else (map_of (rev hs) ''x-request-id'') [] in if given \<noteq> [] then given else fresh)"

primrec send_with_request_id :: "string \<Rightarrow> asgi_message \<Rightarrow> asgi_message" where
  "send_with_request_id rid (ResponseStart st hs) = ResponseStart st (hs @ [(''x-request-id'', rid)])"
| "send_with_request_id rid (ResponseBody b) = ResponseBody b"
| "send_with_request_id rid OtherMessage = OtherMessage"

definition request_id_middleware :: "string \<Rightarrow> asgi_scope \<Rightarrow> asgi_message list \<Rightarrow> asgi_message list" where
  "request_id_middleware fresh scope msgs =
     (case scope of
        HttpScope hs \<Rightarrow> map (send_with_request_id (request_id fresh hs)) msgs
      | WebSocketScope hs \<Rightarrow> map (send_with_request_id (request_id fresh hs)) msgs
      | LifespanScope \<Rightarrow> msgs)"

text \<open>The middleware added last is the outer one.\<close>

definition serve :: "string \<Rightarrow> asgi_scope \<Rightarrow> asgi_message list \<Rightarrow> asgi_message list" where
  "serve fresh scope msgs =
     request_id_middleware fresh scope (security_headers_middleware scope msgs)"

section \<open>Exception handlers\<close>

text \<open>
  The values of a pydantic error: what JSON can say, an exception with its text, a dictionary.
\<close>

datatype py_value = PyJson string | PyExc string | PyDict "(string \<times> py_value) list"

definition plain :: "py_value \<Rightarrow> py_value" where
  "plain v = (case v of PyExc s \<Rightarrow> PyJson s | _ \<Rightarrow> v)"

definition sanitize :: "(string \<times> py_value) list \<Rightarrow> (string \<times> py_value) list" where
  "sanitize err =
     map (\<lambda>(k, v). (k,
       case v of
         PyDict entries \<Rightarrow>
           if k = ''ctx'' then PyDict (map (\<lambda>(ck, cv). (ck, plain cv)) entries) else v
       | _ \<Rightarrow> plain v)) err"

datatype (plugins only: code) raised =
  RaisedApp app_exception | RaisedValidation "(string \<times> py_value) list list" | RaisedOther

datatype (plugins only: code) detail = NoDetail | Details "(string \<times> py_value) list list"

text \<open>Status and envelope code; the message and the details of an \<open>AppException\<close> are its own.\<close>

primrec handle_exception :: "raised \<Rightarrow> nat \<times> string \<times> detail" where
  "handle_exception (RaisedApp e) = (http_status e, error_code e, NoDetail)"
| "handle_exception (RaisedValidation errs) =
     (422, ''VALIDATION_FAILED'', Details (map sanitize errs))"
| "handle_exception RaisedOther = (500, ''INTERNAL_ERROR'', NoDetail)"

section \<open>Probes and metrics\<close>

definition healthz_ready :: "bool \<Rightarrow> nat \<times> string" where
  "healthz_ready db_answers = (if db_answers then (200, ''ready'') else (503, ''not_ready''))"

definition metrics_endpoint :: "app_settings \<Rightarrow> headers \<Rightarrow> string \<Rightarrow> nat \<times> string" where
  "metrics_endpoint cfg hs output =
     (let token = or_else (map_of hs ''x-metrics-token'') [];
          expected = metrics_token cfg
      in if expected = [] \<or> token \<noteq> expected then (404, []) else (200, output))"

section \<open>Properties of a deployment\<close>

lemma check_var_mono:
  "set (fst acc) \<subseteq> set (fst (fold (check_var env) rows acc))"
proof (induction rows arbitrary: acc)
  case (Cons row rows)
  have "set (fst acc) \<subseteq> set (fst (check_var env row acc))"
    by (cases row; cases acc) (auto simp: check_var_def Let_def)
  then show ?case using Cons.IH [of "check_var env row acc"] by simp
qed simp

lemma check_var_passed:
  assumes "fst (fold (check_var env) rows acc) = []" and "(var, True, bad) \<in> set rows"
  shows "or_else (env var) [] \<noteq> [] \<and> Some (or_else (env var) []) \<noteq> bad"
  using assms
proof (induction rows arbitrary: acc)
  case (Cons row rows)
  show ?case
  proof (cases "row = (var, True, bad)")
    case True
    have "fst (check_var env row acc) = []"
      using check_var_mono [of "check_var env row acc" env rows] Cons.prems(1) by simp
    with True show ?thesis by (cases acc) (auto simp: check_var_def Let_def split: if_splits)
  next
    case False
    with Cons show ?thesis by auto
  qed
qed simp

lemma check_env_passed:
  assumes "fst (check_env env) = 0" and "env ''APP_ENVIRONMENT'' = Some ''prod''"
    and "(var, True, bad) \<in> set required_in_prod"
  shows "or_else (env var) [] \<noteq> [] \<and> Some (or_else (env var) []) \<noteq> bad"
proof (rule check_var_passed [OF _ assms(3)])
  show "fst (fold (check_var env) required_in_prod ([], [])) = []"
    using assms(1,2) by (simp add: check_env_def split: prod.splits if_splits)
qed

lemma load_settingsD:
  assumes "load_settings parse env = Inr cfg"
  shows "jwt_secret (jwt_settings cfg) = or_else (env ''APP_JWT_SECRET'') insecure_jwt_default"
    and "jwt_secret_primary (jwt_settings cfg) = or_else (env ''APP_JWT_SECRET_PRIMARY'') []"
    and "jwt_secret_secondary (jwt_settings cfg) = or_else (env ''APP_JWT_SECRET_SECONDARY'') []"
    and "environment cfg = or_else (env ''APP_ENVIRONMENT'') ''dev''"
    and "cors_origins cfg = or_else (env ''APP_CORS_ORIGINS'') []"
    and "jwt_secret (jwt_settings cfg) = insecure_jwt_default \<Longrightarrow> environment cfg \<in> {''dev'', ''test''}"
  using assms
  by (auto simp: load_settings_def validate_jwt_secret_def Let_def split: option.splits if_splits)

text \<open>
  C33: a production deployment that passes the pre-flight check and starts signs its tokens with
  a key that is neither empty nor the published default, and accepts no token signed with that
  default unless the key under rotation is the default; credentials are not offered to an
  origin list that is just the wildcard.
\<close>

theorem checked_deployment_secure:
  assumes "fst (check_env env) = 0" and "env ''APP_ENVIRONMENT'' = Some ''prod''"
    and "load_settings parse env = Inr cfg"
  shows "jwt_signing_key (jwt_settings cfg) \<noteq> [] \<and> jwt_signing_key (jwt_settings cfg) \<noteq> insecure_jwt_default \<and>
    jwt_signing_key (jwt_settings cfg) \<in> set (jwt_verification_keys (jwt_settings cfg)) \<and>
    (insecure_jwt_default \<in> set (jwt_verification_keys (jwt_settings cfg)) \<longrightarrow>
       jwt_secret_secondary (jwt_settings cfg) = insecure_jwt_default) \<and>
    cors_origins cfg \<noteq> [] \<and> cors_config cfg \<noteq> ([''*''], True)"
proof -
  note cfg = load_settingsD [OF assms(3)]
  have "(''APP_JWT_SECRET_PRIMARY'', True, Some insecure_jwt_default) \<in> set required_in_prod"
    and "(''APP_CORS_ORIGINS'', True, Some []) \<in> set required_in_prod"
    by (simp_all add: required_in_prod_def insecure_jwt_default_def)
  then have prim: "jwt_secret_primary (jwt_settings cfg) \<noteq> [] \<and> jwt_secret_primary (jwt_settings cfg) \<noteq> insecure_jwt_default"
    and cors: "cors_origins cfg \<noteq> []"
    using check_env_passed [OF assms(1,2)] cfg(2,5) by fastforce+
  have "environment cfg = ''prod''" using cfg(4) assms(2) by simp
  then have sec: "jwt_secret (jwt_settings cfg) \<noteq> insecure_jwt_default" using cfg(6) by auto
  have key: "jwt_signing_key (jwt_settings cfg) = jwt_secret_primary (jwt_settings cfg)"
    using prim by (simp add: jwt_signing_key_def)
  have "set (jwt_verification_keys (jwt_settings cfg)) \<subseteq>
      {jwt_secret_primary (jwt_settings cfg), jwt_secret (jwt_settings cfg), jwt_secret_secondary (jwt_settings cfg)}"
    by (auto simp: jwt_verification_keys_def Let_def)
  then show ?thesis
    using prim sec cors key signing_key_verifies [of "jwt_settings cfg"] by (auto simp: cors_config_def Let_def)
qed

definition prod_env :: env where
  "prod_env = map_of
     [(''APP_ENVIRONMENT'', ''prod''), (''APP_DATABASE_URL'', ''u''), (''APP_DATABASE_URL_SYNC'', ''u''),
      (''APP_JWT_SECRET_PRIMARY'', ''s3cret''), (''APP_CORS_ORIGINS'', ''https://a, *''),
      (''APP_S3_BUCKET'', ''b''), (''APP_S3_REGION'', ''r'')]"

definition started :: "env \<Rightarrow> app_settings" where
  "started env = (case load_settings (\<lambda>_. None) env of Inr cfg \<Rightarrow> cfg)"

theorem checked_deployment_secure_witness:
  "jwt_signing_key (jwt_settings (started (prod_env(''APP_JWT_SECRET'' \<mapsto> ''old'')))) = ''s3cret'' \<and>
   insecure_jwt_default \<notin> set (jwt_verification_keys (jwt_settings (started (prod_env(''APP_JWT_SECRET'' \<mapsto> ''old'')))))"
proof -
  let ?env = "prod_env(''APP_JWT_SECRET'' \<mapsto> ''old'')"
  have "fst (check_env ?env) = 0" by code_simp
  moreover have "?env ''APP_ENVIRONMENT'' = Some ''prod''" by code_simp
  moreover have "(case load_settings (\<lambda>_. None) ?env of Inl e \<Rightarrow> False | Inr cfg \<Rightarrow> True)" by code_simp
  then have "load_settings (\<lambda>_. None) ?env = Inr (started ?env)"
    by (simp add: started_def split: sum.splits)
  ultimately have "insecure_jwt_default \<in> set (jwt_verification_keys (jwt_settings (started ?env))) \<longrightarrow>
      jwt_secret_secondary (jwt_settings (started ?env)) = insecure_jwt_default"
    using checked_deployment_secure by blast
  moreover have "jwt_secret_secondary (jwt_settings (started ?env)) \<noteq> insecure_jwt_default" by code_simp
  moreover have "jwt_signing_key (jwt_settings (started ?env)) = ''s3cret''" by code_simp
  ultimately show ?thesis by blast
qed

text \<open>
  The check asks for \<open>APP_JWT_SECRET_PRIMARY\<close> only, as the rotation procedure does, but the
  settings refuse to start while the deprecated \<open>APP_JWT_SECRET\<close> has its default.
\<close>

lemma primary_only_deployment_fails:
  "fst (check_env prod_env) = 0 \<and> load_settings (\<lambda>_. None) prod_env = Inl RuntimeError"
  by code_simp

text \<open>The other way round, the settings accept the published default as the primary secret.\<close>

lemma default_primary_accepted:
  "jwt_signing_key (jwt_settings (started (map_of [(''APP_ENVIRONMENT'', ''prod''), (''APP_JWT_SECRET'', ''old''),
     (''APP_JWT_SECRET_PRIMARY'', ''change_me_phase_3'')]))) = insecure_jwt_default"
  by code_simp

text \<open>A wildcard beside another origin is passed on together with credentials.\<close>

lemma wildcard_with_credentials:
  "cors_config (started (prod_env(''APP_JWT_SECRET'' \<mapsto> ''old''))) = ([''https://a'', ''*''], True)"
  by code_simp

section \<open>Properties of the shell\<close>

lemma security_names_distinct: "distinct (map fst security_headers)"
  by (simp add: security_headers_def)

lemma serve_http:
  "serve fresh (HttpScope req) msgs =
     map (send_with_request_id (request_id fresh req) \<circ> send_with_headers) msgs"
  by (simp add: serve_def request_id_middleware_def security_headers_middleware_def)

lemma served_start:
  assumes "ResponseStart st hs \<in> set (serve fresh (HttpScope req) msgs)"
  obtains own where "ResponseStart st own \<in> set msgs"
    "hs = own @ filter (\<lambda>h. fst h \<notin> fst ` set own) security_headers @
       [(''x-request-id'', request_id fresh req)]"
proof -
  from assms obtain m where m: "m \<in> set msgs"
    "send_with_request_id (request_id fresh req) (send_with_headers m) = ResponseStart st hs"
    by (auto simp: serve_http)
  with that show thesis by (cases m) auto
qed

lemma filter_distinct_key:
  "distinct (map fst xs) \<Longrightarrow> (n, v) \<in> set xs \<Longrightarrow> filter (\<lambda>h. fst h = n) xs = [(n, v)]"
  by (induction xs) (auto simp: filter_empty_conv image_iff)

text \<open>
  Every HTTP response that passes the middlewares keeps the headers the application gave
  it, carries each of the five security headers, exactly once and with the value of the list
  where the application did not set it, and ends with the identifier of the request, which is
  the client's where it sent one and the fresh one otherwise.
\<close>

theorem responses_carry_headers:
  assumes "ResponseStart st hs \<in> set (serve fresh (HttpScope req) msgs)"
  shows "\<exists>own. ResponseStart st own \<in> set msgs \<and> take (length own) hs = own \<and>
    fst ` set security_headers \<subseteq> fst ` set hs \<and>
    (\<forall>(n, v) \<in> set security_headers. n \<notin> fst ` set own \<longrightarrow> filter (\<lambda>h. fst h = n) hs = [(n, v)]) \<and>
    last hs = (''x-request-id'', request_id fresh req)"
  using assms
proof (rule served_start)
  fix own
  assume own: "ResponseStart st own \<in> set msgs"
    and hs: "hs = own @ filter (\<lambda>h. fst h \<notin> fst ` set own) security_headers @
      [(''x-request-id'', request_id fresh req)]"
  have "filter (\<lambda>h. fst h = n) hs = [(n, v)]"
    if nv: "(n, v) \<in> set security_headers" and new: "n \<notin> fst ` set own" for n v
  proof -
    have "n \<noteq> ''x-request-id''" using nv by (auto simp: security_headers_def)
    moreover have "filter (\<lambda>h. fst h = n) own = []" using new by (force simp: filter_empty_conv)
    moreover have "filter (\<lambda>h. fst h = n) (filter (\<lambda>h. fst h \<notin> fst ` set own) security_headers) =
        filter (\<lambda>h. fst h = n) security_headers"
      using new by (auto simp: filter_filter intro: filter_cong)
    ultimately show ?thesis
      using filter_distinct_key [OF security_names_distinct nv] by (simp add: hs)
  qed
  moreover have "fst ` set security_headers \<subseteq> fst ` set hs" by (auto simp: hs)
  ultimately show ?thesis using own by (intro exI [of _ own]) (auto simp: hs)
qed

theorem responses_carry_headers_witness:
  "\<exists>hs. ResponseStart 200 hs \<in> set (serve ''u'' (HttpScope [(''x-request-id'', ''abc'')])
       [ResponseStart 200 [(''referrer-policy'', ''no-referrer'')], ResponseBody ''ok'']) \<and>
     last hs = (''x-request-id'', ''abc'') \<and> hd hs = (''referrer-policy'', ''no-referrer'')"
proof -
  let ?msgs = "[ResponseStart 200 [(''referrer-policy'', ''no-referrer'')], ResponseBody ''ok'']"
  let ?served = "serve ''u'' (HttpScope [(''x-request-id'', ''abc'')]) ?msgs"
  obtain hs where hs: "ResponseStart 200 hs \<in> set ?served" by (auto simp: serve_http)
  from responses_carry_headers [OF this] obtain own where
    own: "ResponseStart 200 own \<in> set ?msgs" and keep: "take (length own) hs = own" and
    rid: "last hs = (''x-request-id'', request_id ''u'' [(''x-request-id'', ''abc'')])" by blast
  from own have "own = [(''referrer-policy'', ''no-referrer'')]" by simp
  with keep have "hd hs = (''referrer-policy'', ''no-referrer'')" by (cases hs) simp_all
  moreover from rid have "last hs = (''x-request-id'', ''abc'')" by (simp add: request_id_def)
  ultimately show ?thesis using hs by blast
qed

text \<open>What the validation handler makes of a pydantic error can be written as JSON.\<close>

primrec serialisable :: "py_value \<Rightarrow> bool" where
  "serialisable (PyJson s) = True"
| "serialisable (PyExc s) = False"
| "serialisable (PyDict es) = list_all snd (map (map_prod id serialisable) es)"

lemma serialisable_dict: "serialisable (PyDict es) \<longleftrightarrow> (\<forall>e \<in> set es. serialisable (snd e))"
  by (simp add: list_all_iff)

declare serialisable.simps(3) [simp del]

lemma serialisable_plain: "serialisable (plain v) \<longleftrightarrow> serialisable v \<or> (\<exists>s. v = PyExc s)"
  by (cases v) (simp_all add: plain_def)

lemma sanitize_keys [simp]: "map fst (sanitize err) = map fst err"
  by (simp add: sanitize_def split_beta)

lemma sanitize_serialisable:
  assumes "\<And>k v. (k, v) \<in> set err \<Longrightarrow> serialisable v \<or> (\<exists>s. v = PyExc s) \<or>
      k = ''ctx'' \<and> (\<exists>es. v = PyDict es \<and> (\<forall>e \<in> set es. serialisable (snd e) \<or> (\<exists>s. snd e = PyExc s)))"
  shows "list_all (\<lambda>e. serialisable (snd e)) (sanitize err)"
  unfolding list_all_iff
proof
  fix e assume "e \<in> set (sanitize err)"
  then obtain k v where kv: "(k, v) \<in> set err" and e: "e = (k, case v of
      PyDict entries \<Rightarrow> if k = ''ctx'' then PyDict (map (\<lambda>(ck, cv). (ck, plain cv)) entries) else v
    | _ \<Rightarrow> plain v)"
    by (auto simp: sanitize_def)
  show "serialisable (snd e)"
    using assms [OF kv] unfolding e
    by (cases v) (auto simp: serialisable_dict serialisable_plain split_beta)
qed

lemma metrics_gate:
  "fst (metrics_endpoint cfg hs output) = 200 \<longleftrightarrow>
     metrics_token cfg \<noteq> [] \<and> map_of hs ''x-metrics-token'' = Some (metrics_token cfg)"
  by (cases "map_of hs ''x-metrics-token''") (auto simp: metrics_endpoint_def Let_def)

end
