(* ===== verification/Uploads.thy ===== *)
theory Uploads
  imports Strings Schema
begin

text \<open>
  Uploads: \<open>services/upload_service.py\<close> with \<open>api/v1/uploads.py\<close> under \<open>src/backend/app\<close>. The
  object store (boto3) is a parameter: the URL it signs for bucket, key, content type and
  lifetime, and the size \<open>head_object\<close> reports for a key, or \<open>None\<close>.
\<close>

record upload_settings =
  s3_bucket :: string
  s3_region :: string
  aws_access_key_id :: string
  aws_secret_access_key :: string
  s3_cdn_base_url :: string
  s3_upload_max_bytes :: int
  s3_presign_expires_seconds :: int

datatype (plugins only: code) purpose = ProductImage | Avatar

definition content_type_to_ext :: "string \<rightharpoonup> string" where
  "content_type_to_ext =
     map_of [(''image/jpeg'', ''jpg''), (''image/png'', ''png''), (''image/webp'', ''webp'')]"

definition allowed_content_types :: "string list" where
  "allowed_content_types = [''image/jpeg'', ''image/png'', ''image/webp'']"

definition is_configured :: "upload_settings \<Rightarrow> bool" where
  "is_configured cfg \<longleftrightarrow> s3_bucket cfg \<noteq> [] \<and> aws_access_key_id cfg \<noteq> [] \<and> aws_secret_access_key cfg \<noteq> []"

text \<open>\<open>uuid.hex\<close> is 32 lower-case digits; \<open>str(uuid)\<close> groups them 8-4-4-4-12.\<close>

definition hex_digit :: "nat \<Rightarrow> char" where
  "hex_digit k = (if k < 10 then char_of (48 + k) else char_of (87 + k))"

primrec hex :: "nat \<Rightarrow> nat \<Rightarrow> string" where
  "hex 0 n = []"
| "hex (Suc k) n = hex k (n div 16) @ [hex_digit (n mod 16)]"

definition uuid_hex :: "uuid \<Rightarrow> string" where
  "uuid_hex u = hex 32 u"

definition uuid_str :: "uuid \<Rightarrow> string" where
  "uuid_str u = (let s = uuid_hex u in
     take 8 s @ ''-'' @ take 4 (drop 8 s) @ ''-'' @ take 4 (drop 12 s) @ ''-'' @
     take 4 (drop 16 s) @ ''-'' @ drop 20 s)"

definition key_prefix :: "purpose \<Rightarrow> string" where
  "key_prefix p = (case p of ProductImage \<Rightarrow> ''product-images'' | Avatar \<Rightarrow> ''avatars'')"

definition build_key :: "uuid \<Rightarrow> purpose \<Rightarrow> uuid \<Rightarrow> string \<Rightarrow> string res" where
  "build_key obj_id p uid content_type =
     (case content_type_to_ext content_type of
        None \<Rightarrow> Inl KeyError
      | Some ext \<Rightarrow> Inr (key_prefix p @ ''/'' @ uuid_str uid @ ''/'' @ uuid_hex obj_id @ ''.'' @ ext))"

record presigned =
  pu_upload_url :: string
  pu_s3_key :: string
  pu_expires_at :: time
  pu_max_bytes :: int
  pu_content_type :: string

definition presign_upload ::
  "(string \<Rightarrow> string \<Rightarrow> string \<Rightarrow> int \<Rightarrow> string) \<Rightarrow> upload_settings \<Rightarrow> uuid \<Rightarrow> time \<Rightarrow> uuid \<Rightarrow> purpose \<Rightarrow>
   string \<Rightarrow> presigned res" where
  "presign_upload sign cfg obj_id now uid p content_type =
     (if content_type \<notin> set allowed_content_types then Inl UploadInvalidContentType
      else if \<not> is_configured cfg then Inl UploadNotConfigured
      else case build_key obj_id p uid content_type of
        Inl e \<Rightarrow> Inl e
      | Inr key \<Rightarrow>
          Inr \<lparr>pu_upload_url = sign (s3_bucket cfg) key content_type (s3_presign_expires_seconds cfg),
               pu_s3_key = key, pu_expires_at = now + td_seconds (s3_presign_expires_seconds cfg),
               pu_max_bytes = s3_upload_max_bytes cfg, pu_content_type = content_type\<rparr>)"

fun has_dotdot :: "string \<Rightarrow> bool" where
  "has_dotdot [] = False"
| "has_dotdot [a] = False"
| "has_dotdot (a # b # s) = ((a = CHR ''.'' \<and> b = CHR ''.'') \<or> has_dotdot (b # s))"

definition rstrip_slash :: "string \<Rightarrow> string" where
  "rstrip_slash s = rev (dropWhile (\<lambda>c. c = CHR ''/'') (rev s))"

definition public_url :: "upload_settings \<Rightarrow> string \<Rightarrow> string" where
  "public_url cfg key =
     (let base = rstrip_slash (s3_cdn_base_url cfg)
      in if base \<noteq> [] then base @ ''/'' @ key
         else ''https://'' @ s3_bucket cfg @ ''.s3.'' @ s3_region cfg @ ''.amazonaws.com/'' @ key)"

definition confirm_upload ::
  "(string \<Rightarrow> string \<Rightarrow> int option) \<Rightarrow> upload_settings \<Rightarrow> string \<Rightarrow> (string \<times> string) res" where
  "confirm_upload head_object cfg key =
     (if \<not> is_configured cfg then Inl UploadNotConfigured
      else if has_dotdot key \<or> take 1 key = ''/'' then Inl UploadObjectMissing
      else case head_object (s3_bucket cfg) key of
        None \<Rightarrow> Inl UploadObjectMissing
      | Some n \<Rightarrow>
          if n \<le> 0 \<or> s3_upload_max_bytes cfg < n then Inl UploadObjectMissing
          else Inr (key, public_url cfg key))"

text \<open>
  The endpoints: the body is validated against \<open>PresignRequest\<close> and \<open>ConfirmRequest\<close> before the
  service is called.
\<close>

definition parse_purpose :: "string \<rightharpoonup> purpose" where
  "parse_purpose = map_of [(''product_image'', ProductImage), (''avatar'', Avatar)]"

record presign_request =
  pr_purpose :: string
  pr_filename :: string
  pr_content_type :: string

definition presign_endpoint ::
  "(string \<Rightarrow> string \<Rightarrow> string \<Rightarrow> int \<Rightarrow> string) \<Rightarrow> upload_settings \<Rightarrow> uuid \<Rightarrow> time \<Rightarrow> uuid \<Rightarrow>
   presign_request \<Rightarrow> presigned res" where
  "presign_endpoint sign cfg obj_id now uid body =
     (case parse_purpose (pr_purpose body) of
        None \<Rightarrow> Inl ValidationError
      | Some p \<Rightarrow>
          if \<not> text_ok 1 255 (pr_filename body) \<or> \<not> text_ok 3 64 (pr_content_type body)
          then Inl ValidationError
          else presign_upload sign cfg obj_id now uid p (pr_content_type body))"

definition confirm_endpoint ::
  "(string \<Rightarrow> string \<Rightarrow> int option) \<Rightarrow> upload_settings \<Rightarrow> string \<Rightarrow> (string \<times> string) res" where
  "confirm_endpoint head_object cfg key =
     (if \<not> text_ok 1 1024 key then Inl ValidationError else confirm_upload head_object cfg key)"

section \<open>Properties\<close>

definition hex_char :: "char \<Rightarrow> bool" where
  "hex_char c \<longleftrightarrow> c \<in> set ''0123456789abcdef''"

lemma hex_digit_char: "k < 16 \<Longrightarrow> hex_char (hex_digit k)"
proof -
  have "list_all (\<lambda>k. hex_char (hex_digit k)) [0..<16]" by code_simp
  then show "k < 16 \<Longrightarrow> ?thesis" by (simp add: list_all_iff)
qed

lemma hex_chars: "list_all hex_char (hex k n)"
  by (induction k arbitrary: n) (simp_all add: hex_digit_char)

lemma length_hex [simp]: "length (hex k n) = k"
  by (induction k arbitrary: n) simp_all

lemma hex_digit_inject: "j < 16 \<Longrightarrow> k < 16 \<Longrightarrow> hex_digit j = hex_digit k \<longleftrightarrow> j = k"
proof -
  have "list_all (\<lambda>j. list_all (\<lambda>k. hex_digit j = hex_digit k \<longrightarrow> j = k) [0..<16]) [0..<16]" by code_simp
  then have "\<forall>j \<in> {0..<16}. \<forall>k \<in> {0..<16}. hex_digit j = hex_digit k \<longrightarrow> j = k"
    by (simp only: list_all_iff set_upt)
  then show "j < 16 \<Longrightarrow> k < 16 \<Longrightarrow> ?thesis" by (meson atLeastLessThan_iff le0)
qed

lemma hex_inject: "m < 16 ^ k \<Longrightarrow> n < 16 ^ k \<Longrightarrow> hex k m = hex k n \<Longrightarrow> m = n"
proof (induction k arbitrary: m n)
  case (Suc k)
  then have "hex k (m div 16) = hex k (n div 16)" and "m mod 16 = n mod 16"
    by (simp_all add: hex_digit_inject)
  moreover have "m div 16 < 16 ^ k" "n div 16 < 16 ^ k"
    using Suc.prems by (simp_all add: less_mult_imp_div_less mult.commute)
  ultimately show ?case using Suc.IH by (metis div_mult_mod_eq)
qed simp

lemma has_dotdot_append:
  "has_dotdot (s @ t) \<longleftrightarrow> has_dotdot s \<or> has_dotdot t \<or>
     (s \<noteq> [] \<and> t \<noteq> [] \<and> last s = CHR ''.'' \<and> hd t = CHR ''.'')"
proof (induction s rule: has_dotdot.induct)
  case (2 a)
  then show ?case by (cases t) auto
next
  case (3 a b s)
  then show ?case by (cases s; cases t) auto
qed simp

lemma no_dots: "CHR ''.'' \<notin> set s \<Longrightarrow> \<not> has_dotdot s"
  by (induction s rule: has_dotdot.induct) auto

lemma hex_no_dot: "list_all hex_char s \<Longrightarrow> CHR ''.'' \<notin> set s"
proof -
  have "\<not> hex_char CHR ''.''" by code_simp
  then show "list_all hex_char s \<Longrightarrow> ?thesis" unfolding list_all_iff by blast
qed

lemma uuid_str_no_dot: "CHR ''.'' \<notin> set (uuid_str u)"
  using hex_no_dot [OF hex_chars [of 32 u]]
  by (auto simp: uuid_str_def uuid_hex_def Let_def dest: in_set_takeD in_set_dropD)

lemma build_key_safe:
  assumes "build_key obj_id p uid content_type = Inr key"
  shows "\<not> has_dotdot key \<and> take 1 key \<noteq> ''/''"
proof -
  from assms obtain ext where key: "key = (key_prefix p @ ''/'' @ uuid_str uid @ ''/'' @ uuid_hex obj_id) @ ''.'' @ ext"
    and ext: "ext \<in> {''jpg'', ''png'', ''webp''}"
    by (auto simp: build_key_def content_type_to_ext_def split: option.splits if_splits)
  define stem where "stem = key_prefix p @ ''/'' @ uuid_str uid @ ''/'' @ uuid_hex obj_id"
  have dot: "CHR ''.'' \<notin> set stem"
    using uuid_str_no_dot [of uid] hex_no_dot [OF hex_chars [of 32 obj_id]]
    by (cases p) (simp_all add: stem_def key_prefix_def uuid_hex_def)
  have "stem \<noteq> []" by (simp add: stem_def)
  with dot have "last stem \<noteq> CHR ''.''" using last_in_set by metis
  moreover have "\<not> has_dotdot (''.'' @ ext)" using ext by auto
  moreover have "key = stem @ ''.'' @ ext" by (simp add: key stem_def)
  ultimately have "\<not> has_dotdot key" using no_dots [OF dot] by (simp only: has_dotdot_append) blast
  moreover have "take 1 key \<noteq> ''/''" unfolding key by (cases p) (simp_all add: key_prefix_def)
  ultimately show ?thesis by simp
qed

text \<open>
  An upload that was presigned and stored with an allowed size can be confirmed.
\<close>

theorem presigned_upload_confirmed:
  assumes "presign_upload sign cfg obj_id now uid p content_type = Inr pu"
    and "head_object (s3_bucket cfg) (pu_s3_key pu) = Some n" and "0 < n"
    and "n \<le> pu_max_bytes pu"
  shows "confirm_upload head_object cfg (pu_s3_key pu) =
    Inr (pu_s3_key pu, public_url cfg (pu_s3_key pu))"
proof -
  from assms(1) have "build_key obj_id p uid content_type = Inr (pu_s3_key pu)"
    and cfg: "is_configured cfg" "pu_max_bytes pu = s3_upload_max_bytes cfg"
    by (auto simp: presign_upload_def split: if_splits sum.splits)
  with build_key_safe assms(2-4) show ?thesis by (simp add: confirm_upload_def)
qed

lemma length_hex_uuid: "length (uuid_hex u) = 32"
  by (simp add: uuid_hex_def)

lemma length_uuid_str: "length (uuid_str u) = 36"
  by (simp add: uuid_str_def length_hex_uuid Let_def)

lemma build_key_length:
  assumes "build_key obj_id p uid content_type = Inr key"
  shows "0 < length key \<and> length key \<le> 89"
proof -
  from assms obtain ext where "key = key_prefix p @ ''/'' @ uuid_str uid @ ''/'' @ uuid_hex obj_id @ ''.'' @ ext"
    and "ext \<in> {''jpg'', ''png'', ''webp''}"
    by (auto simp: build_key_def content_type_to_ext_def split: option.splits if_splits)
  moreover have "length (key_prefix p) \<le> 14" by (cases p) (simp_all add: key_prefix_def)
  moreover note length_uuid_str [of uid]
  ultimately show ?thesis by (auto simp: length_hex_uuid)
qed

text \<open>Every key the first endpoint issues passes the validation of the second one.\<close>

lemma presigned_key_valid:
  assumes "presign_endpoint sign cfg obj_id now uid body = Inr pu"
  shows "confirm_endpoint head_object cfg (pu_s3_key pu) = confirm_upload head_object cfg (pu_s3_key pu)"
proof -
  from assms obtain p where "build_key obj_id p uid (pr_content_type body) = Inr (pu_s3_key pu)"
    by (auto simp: presign_endpoint_def presign_upload_def split: if_splits sum.splits option.splits)
  then have "0 < length (pu_s3_key pu) \<and> length (pu_s3_key pu) \<le> 89" by (rule build_key_length)
  then have "text_ok 1 1024 (pu_s3_key pu)" unfolding text_ok_def by linarith
  then show ?thesis by (simp add: confirm_endpoint_def)
qed

lemma chunks_eq: "s = take 8 s @ take 4 (drop 8 s) @ take 4 (drop 12 s) @ take 4 (drop 16 s) @ drop 20 s"
proof -
  have chunk: "take 4 (drop n s) @ drop (n + 4) s = drop n s" for n
    using append_take_drop_id [of 4 "drop n s"] by (simp add: add.commute)
  show ?thesis
    using chunk [of 8] chunk [of 12] chunk [of 16] append_take_drop_id [of 8 s] by simp
qed

lemma uuid_str_inject:
  assumes "u < 2 ^ 128" and "v < 2 ^ 128" and "uuid_str u = uuid_str v"
  shows "u = v"
proof -
  have len: "length (uuid_hex u) = 32" "length (uuid_hex v) = 32" by (simp_all add: uuid_hex_def)
  from assms(3) len have "take 8 (uuid_hex u) = take 8 (uuid_hex v)"
    "take 4 (drop 8 (uuid_hex u)) = take 4 (drop 8 (uuid_hex v))"
    "take 4 (drop 12 (uuid_hex u)) = take 4 (drop 12 (uuid_hex v))"
    "take 4 (drop 16 (uuid_hex u)) = take 4 (drop 16 (uuid_hex v))"
    "drop 20 (uuid_hex u) = drop 20 (uuid_hex v)"
    by (simp_all add: uuid_str_def Let_def append_eq_append_conv)
  then have "uuid_hex u = uuid_hex v" by (subst chunks_eq [of "uuid_hex u"], subst chunks_eq [of "uuid_hex v"]) simp
  then show ?thesis using assms(1,2) hex_inject [of u 32 v] by (simp add: uuid_hex_def)
qed

text \<open>
  Two uploads never share a key unless purpose, user and drawn identifier are the same: nobody
  can overwrite the object of another user.
\<close>

theorem upload_keys_do_not_clash:
  assumes "build_key obj_id p uid content_type = Inr key"
    and "build_key obj_id' p' uid' content_type' = Inr key"
    and "uid < 2 ^ 128" "uid' < 2 ^ 128" "obj_id < 2 ^ 128" "obj_id' < 2 ^ 128"
  shows "p' = p \<and> uid' = uid \<and> obj_id' = obj_id"
proof -
  from assms(1) obtain ext where
    "key = key_prefix p @ ''/'' @ uuid_str uid @ ''/'' @ uuid_hex obj_id @ ''.'' @ ext"
    by (auto simp: build_key_def split: option.splits)
  moreover from assms(2) obtain ext' where
    "key = key_prefix p' @ ''/'' @ uuid_str uid' @ ''/'' @ uuid_hex obj_id' @ ''.'' @ ext'"
    by (auto simp: build_key_def split: option.splits)
  ultimately have
    key: "key_prefix p @ ''/'' @ uuid_str uid @ ''/'' @ uuid_hex obj_id @ ''.'' @ ext =
          key_prefix p' @ ''/'' @ uuid_str uid' @ ''/'' @ uuid_hex obj_id' @ ''.'' @ ext'"
    by simp
  then have p: "p' = p" by (cases p; cases p') (simp_all add: key_prefix_def)
  from key have "uuid_str uid @ ''/'' @ uuid_hex obj_id @ ''.'' @ ext =
      uuid_str uid' @ ''/'' @ uuid_hex obj_id' @ ''.'' @ ext'"
    by (simp add: p)
  then have "uuid_str uid = uuid_str uid'" and "uuid_hex obj_id @ ''.'' @ ext = uuid_hex obj_id' @ ''.'' @ ext'"
    by (simp_all add: append_eq_append_conv length_uuid_str)
  moreover from this(2) have "uuid_hex obj_id = uuid_hex obj_id'"
    by (simp add: append_eq_append_conv uuid_hex_def)
  ultimately show ?thesis
    using p assms(3-6) uuid_str_inject [of uid uid'] hex_inject [of obj_id 32 obj_id']
    by (simp add: uuid_hex_def)
qed

definition sample_upload_settings :: upload_settings where
  "sample_upload_settings = \<lparr>s3_bucket = ''b'', s3_region = ''r'', aws_access_key_id = ''k'',
     aws_secret_access_key = ''s'', s3_cdn_base_url = ''https://cdn/'', s3_upload_max_bytes = 100,
     s3_presign_expires_seconds = 60\<rparr>"

theorem upload_keys_do_not_clash_witness:
  "build_key 7 Avatar 3 ''image/png'' = build_key (3 + 4) Avatar 3 ''image/png'' \<and> (7 :: uuid) = 3 + 4"
proof -
  obtain key where "build_key 7 Avatar 3 ''image/png'' = Inr key"
    by (simp add: build_key_def content_type_to_ext_def)
  from upload_keys_do_not_clash [OF this, of "3 + 4" Avatar 3 "''image/png''"] this show ?thesis by simp
qed

theorem presigned_upload_confirmed_witness:
  "\<exists>pu. presign_upload (\<lambda>b k t n. k) sample_upload_settings 7 0 3 Avatar ''image/png'' = Inr pu \<and>
     confirm_upload (\<lambda>_ _. Some 10) sample_upload_settings (pu_s3_key pu) =
       Inr (pu_s3_key pu, public_url sample_upload_settings (pu_s3_key pu))"
proof -
  obtain pu where pu: "presign_upload (\<lambda>b k t n. k) sample_upload_settings 7 0 3 Avatar ''image/png'' = Inr pu"
    and "pu_max_bytes pu = 100"
    by (simp add: presign_upload_def is_configured_def build_key_def content_type_to_ext_def
        allowed_content_types_def sample_upload_settings_def)
  with presigned_upload_confirmed [OF pu, of "\<lambda>_ _. Some 10" 10] show ?thesis by auto
qed

text \<open>
  Confirming asks for no owner and no prefix: any stored object of an allowed size is confirmed
  for anybody.
\<close>

theorem confirm_ignores_prefix:
  "confirm_upload (\<lambda>_ _. Some 10) sample_upload_settings ''backups/dump.sql'' =
   Inr (''backups/dump.sql'', ''https://cdn/backups/dump.sql'')"
  by code_simp

end
