(* ===== verification/Ddl.thy ===== *)
theory Ddl
  imports Prelude
begin

text \<open>
  The database schema as the migrations see it: the part of the catalogue of PostgreSQL that their
  operations change, and what each operation does to it according to the documentation of
  PostgreSQL. Tables may hold rows at any time, so a column without a default that admits no
  \<open>NULL\<close> cannot be added. Comments on columns are left out.
\<close>

section \<open>Columns, constraints, operations\<close>

datatype (plugins only: code) sql_type =
  TUuid | TText | TCitext | TVarchar nat | TInteger | TBigInt | TBoolean | TTimestamptz | TDouble
| TBytea | TJsonb | TEnum string

datatype (plugins only: code) nullness = NotNull | Null

text \<open>A server default is a string literal or an SQL expression.\<close>

datatype (plugins only: code) server_default = Literal string | Expr string

datatype (plugins only: code) on_delete = NoAction | Cascade | Restrict | SetNull

text \<open>
  The constraints of a table by name: the columns of a key, the expression of a check, the
  referring columns of a foreign key with the columns of the key it refers to.
\<close>

datatype (plugins only: code) constr =
  Primary string "string list"
| Unique string "string list"
| Check string string
| Foreign string "string list" string "string list" on_delete

text \<open>\<open>sa.Column(name, type, *args, nullable=...)\<close>; a foreign key may be left unnamed.\<close>

datatype (plugins only: code) column_arg =
  PrimaryKey
| Fk "string option" string string on_delete
| ServerDefault server_default
| UniqueColumn
| Indexed

datatype (plugins only: code) column_def = Column string sql_type nullness "column_arg list"

record index =
  ix_name :: string
  ix_table :: string
  ix_columns :: "string list"
  ix_unique :: bool
  ix_where :: "string option"

datatype (plugins only: code) ddl =
  CreateExtension string
| CreateType bool string "string list"
| DropType string
| CreateTable string "column_def list" "constr list"
| DropTable string
| AddColumn string column_def
| DropColumn string string
| AddConstraint string constr
| DropConstraint string string
| CreateIndex bool index
| DropIndex bool string
| CreateView string string "string list" "string list"
| DropView string
| CommentOn string
| WriteRows string "string list"

section \<open>The catalogue\<close>

record column =
  c_name :: string
  c_type :: sql_type
  c_nullable :: bool
  c_default :: "server_default option"

record table =
  t_name :: string
  t_columns :: "column list"
  t_constraints :: "constr list"

record view =
  v_name :: string
  v_table :: string
  v_uses :: "string list"
  v_columns :: "string list"

record catalog =
  cat_extensions :: "string list"
  cat_types :: "(string \<times> string list) list"
  cat_tables :: "table list"
  cat_indexes :: "index list"
  cat_views :: "view list"

definition empty_catalog :: catalog where
  "empty_catalog = \<lparr>cat_extensions = [], cat_types = [], cat_tables = [], cat_indexes = [],
     cat_views = []\<rparr>"

datatype (plugins only: code) sql_error =
  DuplicateObject string | UndefinedObject string | DependentObjects string | NotNullViolation string

abbreviation find_table :: "string \<Rightarrow> table list \<Rightarrow> table option" where
  "find_table \<equiv> get_row t_name"

definition column_names :: "table \<Rightarrow> string list" where
  "column_names tb = map c_name (t_columns tb)"

primrec con_name :: "constr \<Rightarrow> string" where
  "con_name (Primary n cs) = n"
| "con_name (Unique n cs) = n"
| "con_name (Check n e) = n"
| "con_name (Foreign n cs t rs od) = n"

primrec con_columns :: "constr \<Rightarrow> string list" where
  "con_columns (Primary n cs) = cs"
| "con_columns (Unique n cs) = cs"
| "con_columns (Check n e) = []"
| "con_columns (Foreign n cs t rs od) = cs"

primrec is_key :: "constr \<Rightarrow> bool" where
  "is_key (Primary n cs) \<longleftrightarrow> True"
| "is_key (Unique n cs) \<longleftrightarrow> True"
| "is_key (Check n e) \<longleftrightarrow> False"
| "is_key (Foreign n cs t rs od) \<longleftrightarrow> False"

text \<open>A key is backed by an index of its name, which is a relation like tables and views.\<close>

definition table_keys :: "table \<Rightarrow> constr list" where
  "table_keys tb = filter is_key (t_constraints tb)"

definition table_relations :: "table \<Rightarrow> string list" where
  "table_relations tb = t_name tb # map con_name (table_keys tb)"

definition relations :: "catalog \<Rightarrow> string list" where
  "relations s = concat (map table_relations (cat_tables s)) @ map ix_name (cat_indexes s) @
     map v_name (cat_views s)"

text \<open>Whether an SQL expression has an identifier as a word; the word read so far is kept reversed.\<close>

definition word_char :: "char \<Rightarrow> bool" where
  "word_char c \<longleftrightarrow>
     c \<in> set ''abcdefghijklmnopqrstuvwxyz_0123456789ABCDEFGHIJKLMNOPQRSTUVWXYZ''"

fun mentioned :: "string \<Rightarrow> string \<Rightarrow> string \<Rightarrow> bool" where
  "mentioned rc w [] \<longleftrightarrow> w = rc"
| "mentioned rc w (x # e) \<longleftrightarrow>
     (if word_char x then mentioned rc (x # w) e else if w = rc then True else mentioned rc [] e)"

definition mentions :: "string \<Rightarrow> string \<Rightarrow> bool" where
  "mentions e c = mentioned (rev c) [] e"

primrec con_uses :: "string \<Rightarrow> constr \<Rightarrow> bool" where
  "con_uses c (Primary n cs) \<longleftrightarrow> c \<in> set cs"
| "con_uses c (Unique n cs) \<longleftrightarrow> c \<in> set cs"
| "con_uses c (Check n e) \<longleftrightarrow> mentions e c"
| "con_uses c (Foreign n cs t rs od) \<longleftrightarrow> c \<in> set cs"

definition index_uses :: "string \<Rightarrow> index \<Rightarrow> bool" where
  "index_uses c i \<longleftrightarrow> c \<in> set (ix_columns i) \<or>
     (case ix_where i of None \<Rightarrow> False | Some e \<Rightarrow> mentions e c)"

definition refers_to :: "string \<Rightarrow> (string list \<Rightarrow> bool) \<Rightarrow> constr \<Rightarrow> bool" where
  "refers_to t P c = (case c of Foreign n cs t' rs od \<Rightarrow> t' = t \<and> P rs | _ \<Rightarrow> False)"

definition referred :: "string \<Rightarrow> (string list \<Rightarrow> bool) \<Rightarrow> table list \<Rightarrow> bool" where
  "referred t P tbs \<longleftrightarrow> list_ex (\<lambda>tb. list_ex (refers_to t P) (t_constraints tb)) tbs"

definition type_known :: "catalog \<Rightarrow> sql_type \<Rightarrow> bool" where
  "type_known s ty = (case ty of
     TEnum n \<Rightarrow> n \<in> set (map fst (cat_types s))
   | TCitext \<Rightarrow> ''citext'' \<in> set (cat_extensions s)
   | _ \<Rightarrow> True)"

definition uses_type :: "string \<Rightarrow> sql_type \<Rightarrow> bool" where
  "uses_type n ty = (case ty of TEnum m \<Rightarrow> m = n | _ \<Rightarrow> False)"

section \<open>Definitions of columns\<close>

primrec def_name :: "column_def \<Rightarrow> string" where
  "def_name (Column n ty nl args) = n"

primrec default_of :: "column_arg list \<Rightarrow> server_default option" where
  "default_of [] = None"
| "default_of (a # args) = (case a of ServerDefault x \<Rightarrow> Some x | _ \<Rightarrow> default_of args)"

primrec column_of :: "column_def \<Rightarrow> column" where
  "column_of (Column n ty nl args) =
     \<lparr>c_name = n, c_type = ty, c_nullable = (nl = Null), c_default = default_of args\<rparr>"

text \<open>The constraints written at a column; PostgreSQL names the unnamed ones.\<close>

primrec arg_constraint :: "string \<Rightarrow> string \<Rightarrow> column_arg \<Rightarrow> constr option" where
  "arg_constraint t c PrimaryKey = Some (Primary (t @ ''_pkey'') [c])"
| "arg_constraint t c (Fk n rt rc od) =
     Some (Foreign (case n of Some n \<Rightarrow> n | None \<Rightarrow> t @ ''_'' @ c @ ''_fkey'') [c] rt [rc] od)"
| "arg_constraint t c (ServerDefault x) = None"
| "arg_constraint t c UniqueColumn = Some (Unique (t @ ''_'' @ c @ ''_key'') [c])"
| "arg_constraint t c Indexed = None"

primrec column_constraints :: "string \<Rightarrow> column_def \<Rightarrow> constr list" where
  "column_constraints t (Column n ty nl args) = List.map_filter (arg_constraint t n) args"

section \<open>The operations\<close>

definition key_exists :: "string \<Rightarrow> string list \<Rightarrow> table list \<Rightarrow> bool" where
  "key_exists t cs tbs =
     (case find_table t tbs of None \<Rightarrow> False | Some tb \<Rightarrow> cs \<in> con_columns ` set (table_keys tb))"

primrec target_exists :: "table list \<Rightarrow> constr \<Rightarrow> bool" where
  "target_exists tbs (Primary n cs) \<longleftrightarrow> True"
| "target_exists tbs (Unique n cs) \<longleftrightarrow> True"
| "target_exists tbs (Check n e) \<longleftrightarrow> True"
| "target_exists tbs (Foreign n cs t rs od) \<longleftrightarrow> key_exists t rs tbs"

text \<open>
  Adding a constraint to a table of the schema, which may be the target itself. That the columns
  in the expression of a check exist is not looked at.
\<close>

definition constraint_error :: "catalog \<Rightarrow> table \<Rightarrow> constr \<Rightarrow> sql_error option" where
  "constraint_error s tb c =
     (if con_name c \<in> con_name ` set (t_constraints tb) then Some (DuplicateObject (con_name c))
      else if is_key c \<and> (con_name c = t_name tb \<or> con_name c \<in> set (relations s))
      then Some (DuplicateObject (con_name c))
      else if \<not> set (con_columns c) \<subseteq> set (column_names tb) \<or> \<not> target_exists (tb # cat_tables s) c
      then Some (UndefinedObject (con_name c))
      else None)"

fun add_constraints :: "catalog \<Rightarrow> constr list \<Rightarrow> table \<Rightarrow> sql_error + table" where
  "add_constraints s [] tb = Inr tb"
| "add_constraints s (c # cs) tb =
     (case constraint_error s tb c of
        Some e \<Rightarrow> Inl e
      | None \<Rightarrow> add_constraints s cs (tb\<lparr>t_constraints := t_constraints tb @ [c]\<rparr>))"

definition set_table :: "string \<Rightarrow> (table \<Rightarrow> table) \<Rightarrow> catalog \<Rightarrow> catalog" where
  "set_table t f s = s\<lparr>cat_tables := upd_row t_name t f (cat_tables s)\<rparr>"

definition relation_columns :: "catalog \<Rightarrow> string \<Rightarrow> string list option" where
  "relation_columns s r =
     (case find_table r (cat_tables s) of
        Some tb \<Rightarrow> Some (column_names tb)
      | None \<Rightarrow> map_option v_columns (get_row v_name r (cat_views s)))"

definition create_table :: "string \<Rightarrow> column_def list \<Rightarrow> constr list \<Rightarrow> catalog \<Rightarrow> sql_error + catalog" where
  "create_table t cols cons s =
     (if t \<in> set (relations s) then Inl (DuplicateObject t)
      else if \<not> distinct (map def_name cols) then Inl (DuplicateObject t)
      else if \<not> list_all (type_known s) (map (c_type \<circ> column_of) cols) then Inl (UndefinedObject t)
      else case add_constraints s (concat (map (column_constraints t) cols) @ cons)
             \<lparr>t_name = t, t_columns = map column_of cols, t_constraints = []\<rparr> of
        Inl e \<Rightarrow> Inl e
      | Inr tb \<Rightarrow> Inr (s\<lparr>cat_tables := cat_tables s @ [tb]\<rparr>))"

definition drop_table :: "string \<Rightarrow> catalog \<Rightarrow> sql_error + catalog" where
  "drop_table t s =
     (let others = filter (\<lambda>tb. t_name tb \<noteq> t) (cat_tables s) in
      if t \<notin> t_name ` set (cat_tables s) then Inl (UndefinedObject t)
      else if referred t (\<lambda>_. True) others \<or> list_ex (\<lambda>v. v_table v = t) (cat_views s)
      then Inl (DependentObjects t)
      else Inr (s\<lparr>cat_tables := others,
                  cat_indexes := filter (\<lambda>i. ix_table i \<noteq> t) (cat_indexes s)\<rparr>))"

definition add_column :: "string \<Rightarrow> column_def \<Rightarrow> catalog \<Rightarrow> sql_error + catalog" where
  "add_column t c s =
     (case find_table t (cat_tables s) of
        None \<Rightarrow> Inl (UndefinedObject t)
      | Some tb \<Rightarrow>
          if def_name c \<in> set (column_names tb) then Inl (DuplicateObject (def_name c))
          else if \<not> type_known s (c_type (column_of c)) then Inl (UndefinedObject (def_name c))
          else if \<not> c_nullable (column_of c) \<and> c_default (column_of c) = None
          then Inl (NotNullViolation (def_name c))
          else case add_constraints s (column_constraints t c)
                 (tb\<lparr>t_columns := t_columns tb @ [column_of c]\<rparr>) of
            Inl e \<Rightarrow> Inl e
          | Inr tb' \<Rightarrow> Inr (set_table t (\<lambda>_. tb') s))"

definition without_column :: "string \<Rightarrow> table \<Rightarrow> table" where
  "without_column c tb = tb\<lparr>t_columns := filter (\<lambda>x. c_name x \<noteq> c) (t_columns tb),
     t_constraints := filter (\<lambda>x. \<not> con_uses c x) (t_constraints tb)\<rparr>"

text \<open>A column goes with its indexes and constraints, unless another object needs it.\<close>

definition drop_column :: "string \<Rightarrow> string \<Rightarrow> catalog \<Rightarrow> sql_error + catalog" where
  "drop_column t c s =
     (case find_table t (cat_tables s) of
        None \<Rightarrow> Inl (UndefinedObject t)
      | Some tb \<Rightarrow>
          if c \<notin> set (column_names tb) then Inl (UndefinedObject c)
          else if referred t (\<lambda>rs. c \<in> set rs) (cat_tables s) \<or>
                  list_ex (\<lambda>v. v_table v = t \<and> c \<in> set (v_uses v)) (cat_views s)
          then Inl (DependentObjects c)
          else Inr (set_table t (without_column c)
                 (s\<lparr>cat_indexes := filter (\<lambda>i. \<not> (ix_table i = t \<and> index_uses c i)) (cat_indexes s)\<rparr>)))"

definition add_constraint :: "string \<Rightarrow> constr \<Rightarrow> catalog \<Rightarrow> sql_error + catalog" where
  "add_constraint t c s =
     (case find_table t (cat_tables s) of
        None \<Rightarrow> Inl (UndefinedObject t)
      | Some tb \<Rightarrow> (case add_constraints s [c] tb of
            Inl e \<Rightarrow> Inl e
          | Inr tb' \<Rightarrow> Inr (set_table t (\<lambda>_. tb') s)))"

definition drop_constraint :: "string \<Rightarrow> string \<Rightarrow> catalog \<Rightarrow> sql_error + catalog" where
  "drop_constraint t n s =
     (case find_table t (cat_tables s) of
        None \<Rightarrow> Inl (UndefinedObject t)
      | Some tb \<Rightarrow> (case get_row con_name n (t_constraints tb) of
            None \<Rightarrow> Inl (UndefinedObject n)
          | Some c \<Rightarrow>
              if is_key c \<and> referred t (\<lambda>rs. rs = con_columns c) (cat_tables s)
              then Inl (DependentObjects n)
              else Inr (set_table t (\<lambda>tb. tb\<lparr>t_constraints :=
                     filter (\<lambda>x. con_name x \<noteq> n) (t_constraints tb)\<rparr>) s)))"

definition create_index :: "bool \<Rightarrow> index \<Rightarrow> catalog \<Rightarrow> sql_error + catalog" where
  "create_index if_not_exists i s =
     (if ix_name i \<in> set (relations s)
      then if if_not_exists then Inr s else Inl (DuplicateObject (ix_name i))
      else case relation_columns s (ix_table i) of
        None \<Rightarrow> Inl (UndefinedObject (ix_table i))
      | Some cs \<Rightarrow> if set (ix_columns i) \<subseteq> set cs
                 then Inr (s\<lparr>cat_indexes := cat_indexes s @ [i]\<rparr>)
                 else Inl (UndefinedObject (ix_name i)))"

definition create_view ::
  "string \<Rightarrow> string \<Rightarrow> string list \<Rightarrow> string list \<Rightarrow> catalog \<Rightarrow> sql_error + catalog" where
  "create_view v t used cs s =
     (if v \<in> set (relations s) then Inl (DuplicateObject v)
      else case find_table t (cat_tables s) of
        None \<Rightarrow> Inl (UndefinedObject t)
      | Some tb \<Rightarrow>
          if set used \<subseteq> set (column_names tb)
          then Inr (s\<lparr>cat_views := cat_views s @
                 [\<lparr>v_name = v, v_table = t, v_uses = used, v_columns = cs\<rparr>]\<rparr>)
          else Inl (UndefinedObject v))"

primrec apply_ddl :: "ddl \<Rightarrow> catalog \<Rightarrow> sql_error + catalog" where
  "apply_ddl (CreateExtension n) s =
     Inr (if n \<in> set (cat_extensions s) then s else s\<lparr>cat_extensions := cat_extensions s @ [n]\<rparr>)"
| "apply_ddl (CreateType checkfirst n ls) s =
     (if n \<in> set (map fst (cat_types s))
      then if checkfirst then Inr s else Inl (DuplicateObject n)
      else Inr (s\<lparr>cat_types := cat_types s @ [(n, ls)]\<rparr>))"
| "apply_ddl (DropType n) s =
     (if list_ex (\<lambda>tb. list_ex (\<lambda>c. uses_type n (c_type c)) (t_columns tb)) (cat_tables s) then Inl (DependentObjects n)
      else Inr (s\<lparr>cat_types := filter (\<lambda>x. fst x \<noteq> n) (cat_types s)\<rparr>))"
| "apply_ddl (CreateTable t cols cons) s = create_table t cols cons s"
| "apply_ddl (DropTable t) s = drop_table t s"
| "apply_ddl (AddColumn t c) s = add_column t c s"
| "apply_ddl (DropColumn t c) s = drop_column t c s"
| "apply_ddl (AddConstraint t c) s = add_constraint t c s"
| "apply_ddl (DropConstraint t n) s = drop_constraint t n s"
| "apply_ddl (CreateIndex if_not_exists i) s = create_index if_not_exists i s"
| "apply_ddl (DropIndex if_exists n) s =
     (if n \<in> ix_name ` set (cat_indexes s)
      then Inr (s\<lparr>cat_indexes := filter (\<lambda>i. ix_name i \<noteq> n) (cat_indexes s)\<rparr>)
      else if if_exists then Inr s else Inl (UndefinedObject n))"
| "apply_ddl (CreateView v t used cs) s = create_view v t used cs s"
| "apply_ddl (DropView v) s =
     Inr (s\<lparr>cat_views := filter (\<lambda>x. v_name x \<noteq> v) (cat_views s),
            cat_indexes := filter (\<lambda>i. ix_table i \<noteq> v) (cat_indexes s)\<rparr>)"
| "apply_ddl (CommentOn r) s = (case relation_columns s r of None \<Rightarrow> Inl (UndefinedObject r) | Some _ \<Rightarrow> Inr s)"
| "apply_ddl (WriteRows t cs) s =
     (case find_table t (cat_tables s) of
        None \<Rightarrow> Inl (UndefinedObject t)
      | Some tb \<Rightarrow> if set cs \<subseteq> set (column_names tb) then Inr s else Inl (UndefinedObject t))"

fun run_ddl :: "ddl list \<Rightarrow> catalog \<Rightarrow> sql_error + catalog" where
  "run_ddl [] s = Inr s"
| "run_ddl (q # qs) s = (case apply_ddl q s of Inl e \<Rightarrow> Inl e | Inr s' \<Rightarrow> run_ddl qs s')"

lemma run_append:
  "run_ddl (xs @ ys) s = (case run_ddl xs s of Inl e \<Rightarrow> Inl e | Inr s' \<Rightarrow> run_ddl ys s')"
  by (induction xs arbitrary: s) (auto split: sum.split)

end
