(* ===== verification/Migrations.thy ===== *)
theory Migrations
  imports Ddl
begin

text \<open>
  The migrations \<open>src/backend/alembic/versions/*.py\<close>: the operations of every \<open>upgrade\<close> and
  \<open>downgrade\<close> in their order. Column comments, storage options of indexes and the texts of comments on tables are
  left out; of statements that write rows the table and the columns they touch are kept.
\<close>

abbreviation plain_index :: "string \<Rightarrow> string \<Rightarrow> string list \<Rightarrow> index" where
  "plain_index n t cs \<equiv> \<lparr>ix_name = n, ix_table = t, ix_columns = cs, ix_unique = False, ix_where = None\<rparr>"

abbreviation partial_index :: "string \<Rightarrow> string \<Rightarrow> string list \<Rightarrow> string \<Rightarrow> index" where
  "partial_index n t cs w \<equiv>
     \<lparr>ix_name = n, ix_table = t, ix_columns = cs, ix_unique = False, ix_where = Some w\<rparr>"

abbreviation unique_index :: "string \<Rightarrow> string \<Rightarrow> string list \<Rightarrow> string option \<Rightarrow> index" where
  "unique_index n t cs w \<equiv> \<lparr>ix_name = n, ix_table = t, ix_columns = cs, ix_unique = True, ix_where = w\<rparr>"

definition create_extensions_and_types :: "ddl list" where
  "create_extensions_and_types =
     [CreateExtension ''pgcrypto'',
      CreateExtension ''citext'',
      CreateType False ''user_role'' [''admin'', ''seller'', ''customer'', ''driver''],
      CreateType False ''order_status'' [''pending'', ''accepted'', ''preparing'',
        ''out_for_delivery'', ''delivered'', ''completed'', ''cancelled''],
      CreateType False ''delivery_status'' [''pending'', ''in_transit'', ''delivered'',
        ''failed''],
      CreateType False ''driver_assignment_status'' [''requested'', ''assigned'', ''accepted'',
        ''declined'', ''cancelled''],
      CreateType False ''invite_link_type'' [''admin_invite'', ''seller_referral'']]"

definition create_users :: "ddl list" where
  "create_users =
     [CreateTable ''users''
       [Column ''id'' TUuid NotNull [PrimaryKey],
        Column ''email'' TCitext NotNull [],
        Column ''password_hash'' TText NotNull [],
        Column ''role'' (TEnum ''user_role'') NotNull [],
        Column ''display_name'' (TVarchar 255) NotNull [],
        Column ''phone'' (TVarchar 32) Null [],
        Column ''is_active'' TBoolean NotNull [ServerDefault (Expr ''true'')],
        Column ''disabled_at'' TTimestamptz Null [],
        Column ''referring_seller_id'' TUuid Null [],
        Column ''created_at'' TTimestamptz NotNull [ServerDefault (Expr ''now()'')],
        Column ''updated_at'' TTimestamptz NotNull [ServerDefault (Expr ''now()'')],
        Column ''deleted_at'' TTimestamptz Null []]
       [Unique ''uq_users_email'' [''email'']],
      CreateIndex False (plain_index ''ix_users_role'' ''users'' [''role'']),
      CreateIndex False (plain_index ''ix_users_deleted_at'' ''users'' [''deleted_at'']),
      CreateIndex False (plain_index ''ix_users_referring_seller_id'' ''users''
        [''referring_seller_id''])]"

definition create_refresh_tokens :: "ddl list" where
  "create_refresh_tokens =
     [CreateTable ''refresh_tokens''
       [Column ''id'' TUuid NotNull [PrimaryKey],
        Column ''user_id'' TUuid NotNull [Fk (Some ''fk_refresh_tokens_user_id'') ''users''
          ''id'' Cascade],
        Column ''token_hash'' (TVarchar 64) NotNull [],
        Column ''device_label'' (TVarchar 255) Null [],
        Column ''issued_at'' TTimestamptz NotNull [ServerDefault (Expr ''now()'')],
        Column ''last_used_at'' TTimestamptz Null [],
        Column ''expires_at'' TTimestamptz NotNull [],
        Column ''revoked_at'' TTimestamptz Null []]
       [Unique ''uq_refresh_tokens_token_hash'' [''token_hash'']],
      CreateIndex False (plain_index ''ix_refresh_tokens_user_id'' ''refresh_tokens''
        [''user_id'']),
      CreateIndex False (unique_index ''ix_refresh_tokens_token_hash'' ''refresh_tokens''
        [''token_hash''] None),
      CreateIndex False (plain_index ''ix_refresh_tokens_expires_at'' ''refresh_tokens''
        [''expires_at''])]"

definition create_invite_links :: "ddl list" where
  "create_invite_links =
     [CreateTable ''invite_links''
       [Column ''id'' TUuid NotNull [PrimaryKey],
        Column ''issuer_id'' TUuid NotNull [Fk (Some ''fk_invite_links_issuer_id'') ''users''
          ''id'' Restrict],
        Column ''type'' (TEnum ''invite_link_type'') NotNull [],
        Column ''token'' (TVarchar 64) NotNull [],
        Column ''role_target'' (TEnum ''user_role'') Null [],
        Column ''max_uses'' TInteger Null [],
        Column ''used_count'' TInteger NotNull [ServerDefault (Expr ''0'')],
        Column ''expires_at'' TTimestamptz Null [],
        Column ''revoked_at'' TTimestamptz Null [],
        Column ''created_at'' TTimestamptz NotNull [ServerDefault (Expr ''now()'')],
        Column ''updated_at'' TTimestamptz NotNull [ServerDefault (Expr ''now()'')]]
       [Unique ''uq_invite_links_token'' [''token'']],
      CreateIndex False (unique_index ''ix_invite_links_token'' ''invite_links'' [''token'']
        None),
      CreateIndex False (plain_index ''ix_invite_links_issuer_id'' ''invite_links''
        [''issuer_id'']),
      CreateIndex False (plain_index ''ix_invite_links_expires_at'' ''invite_links''
        [''expires_at'']),
      CreateIndex False (unique_index ''uq_invite_links_active_seller_referral''
        ''invite_links'' [''issuer_id''] (Some
        ''type = 'seller_referral' AND revoked_at IS NULL''))]"

definition create_referrals :: "ddl list" where
  "create_referrals =
     [CreateTable ''referrals''
       [Column ''id'' TUuid NotNull [PrimaryKey],
        Column ''referrer_id'' TUuid NotNull [Fk (Some ''fk_referrals_referrer_id'') ''users''
          ''id'' Restrict],
        Column ''referred_user_id'' TUuid NotNull [Fk (Some ''fk_referrals_referred_user_id'')
          ''users'' ''id'' Restrict],
        Column ''invite_link_id'' TUuid NotNull [Fk (Some ''fk_referrals_invite_link_id'')
          ''invite_links'' ''id'' Restrict],
        Column ''created_at'' TTimestamptz NotNull [ServerDefault (Expr ''now()'')]]
       [Unique ''uq_referrals_referred_user_id'' [''referred_user_id'']],
      CreateIndex False (plain_index ''ix_referrals_referrer_id'' ''referrals''
        [''referrer_id'']),
      CreateIndex False (plain_index ''ix_referrals_invite_link_id'' ''referrals''
        [''invite_link_id''])]"

definition create_sellers :: "ddl list" where
  "create_sellers =
     [CreateTable ''sellers''
       [Column ''id'' TUuid NotNull [PrimaryKey],
        Column ''user_id'' TUuid NotNull [Fk (Some ''fk_sellers_user_id'') ''users'' ''id''
          Restrict],
        Column ''display_name'' (TVarchar 255) NotNull [],
        Column ''bio'' TText Null [],
        Column ''city'' TText NotNull [],
        Column ''country_code'' (TVarchar 2) NotNull [],
        Column ''created_at'' TTimestamptz NotNull [ServerDefault (Expr ''now()'')],
        Column ''updated_at'' TTimestamptz NotNull [ServerDefault (Expr ''now()'')],
        Column ''deleted_at'' TTimestamptz Null []]
       [Unique ''uq_sellers_user_id'' [''user_id'']],
      CreateIndex False (plain_index ''ix_sellers_city'' ''sellers'' [''city''])]"

definition create_stores :: "ddl list" where
  "create_stores =
     [CreateTable ''stores''
       [Column ''id'' TUuid NotNull [PrimaryKey],
        Column ''seller_id'' TUuid NotNull [Fk (Some ''fk_stores_seller_id'') ''sellers'' ''id''
          Restrict],
        Column ''name'' (TVarchar 255) NotNull [],
        Column ''slug'' (TVarchar 255) NotNull [],
        Column ''description'' TText NotNull [ServerDefault (Literal '''')],
        Column ''is_active'' TBoolean NotNull [ServerDefault (Expr ''true'')],
        Column ''created_at'' TTimestamptz NotNull [ServerDefault (Expr ''now()'')],
        Column ''updated_at'' TTimestamptz NotNull [ServerDefault (Expr ''now()'')],
        Column ''deleted_at'' TTimestamptz Null []]
       [Unique ''uq_stores_seller_id'' [''seller_id''],
        Unique ''uq_stores_slug'' [''slug'']],
      CreateIndex False (plain_index ''ix_stores_slug'' ''stores'' [''slug''])]"

definition create_products :: "ddl list" where
  "create_products =
     [CreateTable ''products''
       [Column ''id'' TUuid NotNull [PrimaryKey],
        Column ''seller_id'' TUuid NotNull [Fk (Some ''fk_products_seller_id'') ''sellers''
          ''id'' Restrict],
        Column ''store_id'' TUuid NotNull [Fk (Some ''fk_products_store_id'') ''stores'' ''id''
          Restrict],
        Column ''name'' (TVarchar 255) NotNull [],
        Column ''description'' TText NotNull [ServerDefault (Literal '''')],
        Column ''price_minor'' TBigInt NotNull [],
        Column ''stock_quantity'' TInteger Null [],
        Column ''is_active'' TBoolean NotNull [ServerDefault (Expr ''true'')],
        Column ''created_at'' TTimestamptz NotNull [ServerDefault (Expr ''now()'')],
        Column ''updated_at'' TTimestamptz NotNull [ServerDefault (Expr ''now()'')],
        Column ''deleted_at'' TTimestamptz Null []]
       [Check ''ck_products_price_minor_positive'' ''price_minor > 0'',
        Check ''ck_products_stock_quantity_non_negative''
          ''stock_quantity IS NULL OR stock_quantity >= 0''],
      CreateIndex False (plain_index ''ix_products_seller_id_is_active'' ''products''
        [''seller_id'', ''is_active'']),
      CreateIndex False (plain_index ''ix_products_store_id_is_active'' ''products''
        [''store_id'', ''is_active''])]"

definition create_product_images :: "ddl list" where
  "create_product_images =
     [CreateTable ''product_images''
       [Column ''id'' TUuid NotNull [PrimaryKey],
        Column ''product_id'' TUuid NotNull [Fk (Some ''fk_product_images_product_id'')
          ''products'' ''id'' Cascade],
        Column ''s3_key'' TText NotNull [],
        Column ''display_order'' TInteger NotNull [ServerDefault (Literal ''0'')],
        Column ''created_at'' TTimestamptz NotNull [ServerDefault (Expr ''now()'')]]
       [],
      CreateIndex False (plain_index ''ix_product_images_product_id'' ''product_images''
        [''product_id''])]"

definition create_cart_items :: "ddl list" where
  "create_cart_items =
     [CreateTable ''cart_items''
       [Column ''id'' TUuid NotNull [PrimaryKey],
        Column ''customer_id'' TUuid NotNull [Fk (Some ''fk_cart_items_customer_id'') ''users''
          ''id'' Cascade],
        Column ''product_id'' TUuid NotNull [Fk (Some ''fk_cart_items_product_id'') ''products''
          ''id'' Cascade],
        Column ''quantity'' TInteger NotNull [],
        Column ''added_at'' TTimestamptz NotNull [ServerDefault (Expr ''now()'')],
        Column ''updated_at'' TTimestamptz NotNull [ServerDefault (Expr ''now()'')]]
       [Check ''ck_cart_items_quantity_positive'' ''quantity > 0'',
        Unique ''uq_cart_items_customer_product'' [''customer_id'', ''product_id'']],
      CreateIndex False (plain_index ''ix_cart_items_customer_id'' ''cart_items''
        [''customer_id''])]"

definition create_orders :: "ddl list" where
  "create_orders =
     [CreateTable ''orders''
       [Column ''id'' TUuid NotNull [PrimaryKey],
        Column ''customer_id'' TUuid NotNull [Fk (Some ''fk_orders_customer_id'') ''users''
          ''id'' Restrict],
        Column ''seller_id'' TUuid NotNull [Fk (Some ''fk_orders_seller_id'') ''sellers'' ''id''
          Restrict],
        Column ''store_id'' TUuid NotNull [Fk (Some ''fk_orders_store_id'') ''stores'' ''id''
          Restrict],
        Column ''status'' (TEnum ''order_status'') NotNull [],
        Column ''subtotal_minor'' TBigInt NotNull [],
        Column ''total_minor'' TBigInt NotNull [],
        Column ''delivery_address'' TJsonb NotNull [],
        Column ''placed_at'' TTimestamptz NotNull [ServerDefault (Expr ''now()'')],
        Column ''accepted_at'' TTimestamptz Null [],
        Column ''preparing_at'' TTimestamptz Null [],
        Column ''out_for_delivery_at'' TTimestamptz Null [],
        Column ''delivered_at'' TTimestamptz Null [],
        Column ''completed_at'' TTimestamptz Null [],
        Column ''cancelled_at'' TTimestamptz Null [],
        Column ''cancellation_reason'' TText Null [],
        Column ''created_at'' TTimestamptz NotNull [ServerDefault (Expr ''now()'')],
        Column ''updated_at'' TTimestamptz NotNull [ServerDefault (Expr ''now()'')],
        Column ''deleted_at'' TTimestamptz Null []]
       [],
      CreateIndex False (plain_index ''ix_orders_seller_id_status'' ''orders'' [''seller_id'',
        ''status'']),
      CreateIndex False (plain_index ''ix_orders_customer_id_status'' ''orders''
        [''customer_id'', ''status'']),
      CreateIndex False (plain_index ''ix_orders_status_placed_at'' ''orders'' [''status'',
        ''placed_at'']),
      CreateIndex False (plain_index ''ix_orders_delivered_at'' ''orders'' [''delivered_at''])]"

definition create_order_items :: "ddl list" where
  "create_order_items =
     [CreateTable ''order_items''
       [Column ''id'' TUuid NotNull [PrimaryKey],
        Column ''order_id'' TUuid NotNull [Fk (Some ''fk_order_items_order_id'') ''orders''
          ''id'' Cascade],
        Column ''product_id'' TUuid Null [Fk (Some ''fk_order_items_product_id'') ''products''
          ''id'' SetNull],
        Column ''product_name_snapshot'' TText NotNull [],
        Column ''unit_price_minor_snapshot'' TBigInt NotNull [],
        Column ''quantity'' TInteger NotNull []]
       [Check ''ck_order_items_quantity_positive'' ''quantity > 0''],
      CreateIndex False (plain_index ''ix_order_items_order_id'' ''order_items'' [''order_id''])]"

definition create_deliveries :: "ddl list" where
  "create_deliveries =
     [CreateTable ''deliveries''
       [Column ''id'' TUuid NotNull [PrimaryKey],
        Column ''order_id'' TUuid NotNull [Fk (Some ''fk_deliveries_order_id'') ''orders''
          ''id'' Cascade],
        Column ''driver_id'' TUuid Null [Fk (Some ''fk_deliveries_driver_id'') ''users'' ''id''
          SetNull],
        Column ''seller_id'' TUuid NotNull [Fk (Some ''fk_deliveries_seller_id'') ''sellers''
          ''id'' Restrict],
        Column ''status'' (TEnum ''delivery_status'') NotNull [],
        Column ''started_at'' TTimestamptz Null [],
        Column ''delivered_at'' TTimestamptz Null [],
        Column ''current_lat'' TDouble Null [],
        Column ''current_lng'' TDouble Null [],
        Column ''last_location_at'' TTimestamptz Null [],
        Column ''distance_meters'' TInteger Null [],
        Column ''duration_seconds'' TInteger Null []]
       [Check ''ck_deliveries_at_least_one_actor''
          ''driver_id IS NOT NULL OR seller_id IS NOT NULL'',
        Unique ''uq_deliveries_order_id'' [''order_id'']]]"

definition create_driver_assignments :: "ddl list" where
  "create_driver_assignments =
     [CreateTable ''driver_assignments''
       [Column ''id'' TUuid NotNull [PrimaryKey],
        Column ''order_id'' TUuid NotNull [Fk (Some ''fk_driver_assignments_order_id'')
          ''orders'' ''id'' Cascade],
        Column ''driver_id'' TUuid Null [Fk (Some ''fk_driver_assignments_driver_id'') ''users''
          ''id'' SetNull],
        Column ''status'' (TEnum ''driver_assignment_status'') NotNull [],
        Column ''requested_by_seller_id'' TUuid NotNull [Fk (Some
          ''fk_driver_assignments_requested_by_seller_id'') ''sellers'' ''id'' Restrict],
        Column ''requested_at'' TTimestamptz NotNull [ServerDefault (Expr ''now()'')],
        Column ''assigned_by_admin_id'' TUuid Null [Fk (Some
          ''fk_driver_assignments_assigned_by_admin_id'') ''users'' ''id'' SetNull],
        Column ''assigned_at'' TTimestamptz Null [],
        Column ''responded_at'' TTimestamptz Null [],
        Column ''decline_reason'' TText Null []]
       [],
      CreateIndex False (plain_index ''ix_driver_assignments_status_requested_at''
        ''driver_assignments'' [''status'', ''requested_at'']),
      CreateIndex False (plain_index ''ix_driver_assignments_order_id'' ''driver_assignments''
        [''order_id'']),
      CreateIndex False (plain_index ''ix_driver_assignments_driver_id'' ''driver_assignments''
        [''driver_id''])]"

definition create_conversations :: "ddl list" where
  "create_conversations =
     [CreateTable ''conversations''
       [Column ''id'' TUuid NotNull [PrimaryKey],
        Column ''user_a_id'' TUuid NotNull [Fk (Some ''fk_conversations_user_a_id'') ''users''
          ''id'' Restrict],
        Column ''user_b_id'' TUuid NotNull [Fk (Some ''fk_conversations_user_b_id'') ''users''
          ''id'' Restrict],
        Column ''created_at'' TTimestamptz NotNull [ServerDefault (Expr ''now()'')],
        Column ''last_message_at'' TTimestamptz Null []]
       [Check ''ck_conversations_canonical_ordering'' ''user_a_id < user_b_id'',
        Unique ''uq_conversations_user_pair'' [''user_a_id'', ''user_b_id'']],
      CreateIndex False (plain_index ''ix_conversations_user_a_id'' ''conversations''
        [''user_a_id'']),
      CreateIndex False (plain_index ''ix_conversations_user_b_id'' ''conversations''
        [''user_b_id''])]"

definition create_messages :: "ddl list" where
  "create_messages =
     [CreateTable ''messages''
       [Column ''id'' TUuid NotNull [PrimaryKey],
        Column ''conversation_id'' TUuid NotNull [Fk (Some ''fk_messages_conversation_id'')
          ''conversations'' ''id'' Cascade],
        Column ''sender_id'' TUuid NotNull [Fk (Some ''fk_messages_sender_id'') ''users'' ''id''
          Restrict],
        Column ''ciphertext'' TBytea NotNull [],
        Column ''nonce'' TBytea NotNull [],
        Column ''ephemeral_public_key'' TBytea NotNull [],
        Column ''ratchet_state'' TJsonb Null [],
        Column ''sent_at'' TTimestamptz NotNull [ServerDefault (Expr ''now()'')],
        Column ''read_at'' TTimestamptz Null [],
        Column ''deleted_at'' TTimestamptz Null [],
        Column ''created_at'' TTimestamptz NotNull [ServerDefault (Expr ''now()'')]]
       [],
      CommentOn ''messages'',
      CreateIndex False (plain_index ''ix_messages_conversation_id_sent_at'' ''messages''
        [''conversation_id'', ''sent_at''])]"

definition create_user_public_keys :: "ddl list" where
  "create_user_public_keys =
     [CreateTable ''user_public_keys''
       [Column ''id'' TUuid NotNull [PrimaryKey],
        Column ''user_id'' TUuid NotNull [Fk (Some ''fk_user_public_keys_user_id'') ''users''
          ''id'' Cascade],
        Column ''public_key'' TBytea NotNull [],
        Column ''registered_at'' TTimestamptz NotNull [ServerDefault (Expr ''now()'')],
        Column ''updated_at'' TTimestamptz NotNull [ServerDefault (Expr ''now()'')]]
       [Unique ''uq_user_public_keys_user_id'' [''user_id'']]]"

definition create_reviews :: "ddl list" where
  "create_reviews =
     [CreateTable ''reviews''
       [Column ''id'' TUuid NotNull [PrimaryKey],
        Column ''order_id'' TUuid NotNull [Fk (Some ''fk_reviews_order_id'') ''orders'' ''id''
          Cascade],
        Column ''customer_id'' TUuid NotNull [Fk (Some ''fk_reviews_customer_id'') ''users''
          ''id'' Restrict],
        Column ''store_id'' TUuid NotNull [Fk (Some ''fk_reviews_store_id'') ''stores'' ''id''
          Restrict],
        Column ''rating'' TInteger NotNull [],
        Column ''comment'' TText Null [],
        Column ''created_at'' TTimestamptz NotNull [ServerDefault (Expr ''now()'')],
        Column ''updated_at'' TTimestamptz NotNull [ServerDefault (Expr ''now()'')]]
       [Check ''ck_reviews_rating_range'' ''rating >= 1 AND rating <= 5'',
        Unique ''uq_reviews_order_id'' [''order_id'']],
      CreateIndex False (plain_index ''ix_reviews_store_id'' ''reviews'' [''store_id'']),
      CreateIndex False (plain_index ''ix_reviews_customer_id'' ''reviews'' [''customer_id''])]"

definition create_platform_settings :: "ddl list" where
  "create_platform_settings =
     [CreateTable ''platform_settings''
       [Column ''id'' TInteger NotNull [PrimaryKey],
        Column ''retention_min_days'' TInteger NotNull [ServerDefault (Expr ''30'')],
        Column ''currency_code'' (TVarchar 3) NotNull [ServerDefault (Literal ''USD'')],
        Column ''updated_at'' TTimestamptz NotNull [ServerDefault (Expr ''now()'')],
        Column ''updated_by_user_id'' TUuid Null [Fk (Some
          ''fk_platform_settings_updated_by_user_id'') ''users'' ''id'' SetNull]]
       [Check ''ck_platform_settings_singleton'' ''id = 1'']]"

definition create_order_analytics_snapshots :: "ddl list" where
  "create_order_analytics_snapshots =
     [CreateTable ''order_analytics_snapshots''
       [Column ''id'' TUuid NotNull [PrimaryKey],
        Column ''order_id'' TUuid NotNull [],
        Column ''seller_id'' TUuid NotNull [],
        Column ''store_id'' TUuid NotNull [],
        Column ''customer_id'' TUuid NotNull [],
        Column ''city'' TText NotNull [],
        Column ''item_count'' TInteger NotNull [],
        Column ''subtotal_minor'' TBigInt NotNull [],
        Column ''total_minor'' TBigInt NotNull [],
        Column ''delivered_at'' TTimestamptz NotNull [],
        Column ''created_at'' TTimestamptz NotNull [ServerDefault (Expr ''now()'')]]
       [],
      CommentOn ''order_analytics_snapshots'',
      CreateIndex False (plain_index ''ix_order_analytics_snapshots_seller_id_delivered_at''
        ''order_analytics_snapshots'' [''seller_id'', ''delivered_at'']),
      CreateIndex False (plain_index ''ix_order_analytics_snapshots_delivered_at''
        ''order_analytics_snapshots'' [''delivered_at''])]"

definition create_rollups_and_settings :: "ddl list" where
  "create_rollups_and_settings =
     [CreateView ''seller_sales_rollups'' ''order_analytics_snapshots'' [''seller_id'',
        ''total_minor''] [''seller_id'', ''lifetime_revenue_minor'', ''lifetime_order_count''],
      CommentOn ''seller_sales_rollups'',
      CreateIndex False (unique_index ''uq_seller_sales_rollups_seller_id''
        ''seller_sales_rollups'' [''seller_id''] None),
      WriteRows ''platform_settings'' [''id'', ''retention_min_days'', ''currency_code'',
        ''updated_at'']]"

definition upgrade_0001 :: "ddl list" where
  "upgrade_0001 =
     create_extensions_and_types @ create_users @ create_refresh_tokens @ create_invite_links @
       create_referrals @ create_sellers @ create_stores @ create_products @
       create_product_images @ create_cart_items @ create_orders @ create_order_items @
       create_deliveries @ create_driver_assignments @ create_conversations @ create_messages @
       create_user_public_keys @ create_reviews @ create_platform_settings @
       create_order_analytics_snapshots @ create_rollups_and_settings"

definition downgrade_0001 :: "ddl list" where
  "downgrade_0001 =
     [DropView ''seller_sales_rollups'',
      DropTable ''order_analytics_snapshots'',
      DropTable ''platform_settings'',
      DropTable ''reviews'',
      DropTable ''user_public_keys'',
      DropTable ''messages'',
      DropTable ''conversations'',
      DropTable ''driver_assignments'',
      DropTable ''deliveries'',
      DropTable ''order_items'',
      DropTable ''orders'',
      DropTable ''cart_items'',
      DropTable ''product_images'',
      DropTable ''products'',
      DropTable ''stores'',
      DropTable ''sellers'',
      DropTable ''referrals'',
      DropTable ''invite_links'',
      DropTable ''refresh_tokens'',
      DropTable ''users'',
      DropType ''invite_link_type'',
      DropType ''driver_assignment_status'',
      DropType ''delivery_status'',
      DropType ''order_status'',
      DropType ''user_role'']"

definition upgrade_0002 :: "ddl list" where
  "upgrade_0002 =
     [AddColumn ''platform_settings'' (Column ''order_auto_complete_grace_hours'' TInteger
        NotNull [ServerDefault (Expr ''72'')]),
      AddConstraint ''platform_settings'' (Check
        ''ck_platform_settings_auto_complete_grace_positive''
        ''order_auto_complete_grace_hours >= 1''),
      AddConstraint ''order_analytics_snapshots'' (Unique
        ''uq_order_analytics_snapshots_order_id'' [''order_id''])]"

definition downgrade_0002 :: "ddl list" where
  "downgrade_0002 =
     [DropConstraint ''order_analytics_snapshots'' ''uq_order_analytics_snapshots_order_id'',
      DropConstraint ''platform_settings'' ''ck_platform_settings_auto_complete_grace_positive'',
      DropColumn ''platform_settings'' ''order_auto_complete_grace_hours'']"

definition upgrade_0003 :: "ddl list" where
  "upgrade_0003 =
     [DropConstraint ''user_public_keys'' ''uq_user_public_keys_user_id'',
      AddColumn ''user_public_keys'' (Column ''key_version'' TInteger NotNull [ServerDefault
        (Expr ''1'')]),
      AddColumn ''user_public_keys'' (Column ''status'' (TVarchar 16) NotNull [ServerDefault
        (Expr ([CHR 0x27] @ ''active'' @ [CHR 0x27]))]),
      AddColumn ''user_public_keys'' (Column ''rotated_at'' TTimestamptz Null []),
      AddColumn ''user_public_keys'' (Column ''revoked_at'' TTimestamptz Null []),
      AddColumn ''user_public_keys'' (Column ''created_at'' TTimestamptz NotNull [ServerDefault
        (Expr ''now()'')]),
      AddConstraint ''user_public_keys'' (Check ''ck_user_public_keys_status_valid''
        ''status IN ('active','rotated','revoked')''),
      CreateIndex False (unique_index ''uq_user_public_keys_one_active'' ''user_public_keys''
        [''user_id''] (Some (''status = 'active'' @ [CHR 0x27]))),
      CreateIndex False (plain_index ''ix_user_public_keys_user_id_status'' ''user_public_keys''
        [''user_id'', ''status'']),
      AddColumn ''messages'' (Column ''recipient_key_id'' TUuid Null []),
      AddConstraint ''messages'' (Foreign ''fk_messages_recipient_key_id''
        [''recipient_key_id''] ''user_public_keys'' [''id''] SetNull),
      AddColumn ''platform_settings'' (Column ''message_retention_days'' TInteger NotNull
        [ServerDefault (Expr ''90'')]),
      AddConstraint ''platform_settings'' (Check ''ck_platform_settings_message_retention_min''
        ''message_retention_days >= 7'')]"

definition downgrade_0003 :: "ddl list" where
  "downgrade_0003 =
     [DropConstraint ''platform_settings'' ''ck_platform_settings_message_retention_min'',
      DropColumn ''platform_settings'' ''message_retention_days'',
      DropConstraint ''messages'' ''fk_messages_recipient_key_id'',
      DropColumn ''messages'' ''recipient_key_id'',
      DropIndex False ''ix_user_public_keys_user_id_status'',
      DropIndex False ''uq_user_public_keys_one_active'',
      DropConstraint ''user_public_keys'' ''ck_user_public_keys_status_valid'',
      DropColumn ''user_public_keys'' ''created_at'',
      DropColumn ''user_public_keys'' ''revoked_at'',
      DropColumn ''user_public_keys'' ''rotated_at'',
      DropColumn ''user_public_keys'' ''status'',
      DropColumn ''user_public_keys'' ''key_version'',
      AddConstraint ''user_public_keys'' (Unique ''uq_user_public_keys_user_id'' [''user_id''])]"

definition upgrade_0004 :: "ddl list" where
  "upgrade_0004 =
     [AddColumn ''deliveries'' (Column ''current_eta_seconds'' TInteger Null []),
      AddColumn ''deliveries'' (Column ''current_eta_updated_at'' TTimestamptz Null []),
      AddColumn ''order_analytics_snapshots'' (Column ''delivery_duration_seconds'' TInteger
        Null []),
      AddColumn ''order_analytics_snapshots'' (Column ''delivery_distance_meters'' TInteger Null
        [])]"

definition downgrade_0004 :: "ddl list" where
  "downgrade_0004 =
     [DropColumn ''order_analytics_snapshots'' ''delivery_distance_meters'',
      DropColumn ''order_analytics_snapshots'' ''delivery_duration_seconds'',
      DropColumn ''deliveries'' ''current_eta_updated_at'',
      DropColumn ''deliveries'' ''current_eta_seconds'']"

definition upgrade_0005 :: "ddl list" where
  "upgrade_0005 =
     [CreateType True ''user_status'' [''active'', ''suspended''],
      CreateType True ''product_status'' [''active'', ''disabled'', ''out_of_stock''],
      AddColumn ''users'' (Column ''status'' (TEnum ''user_status'') NotNull [ServerDefault
        (Literal ''active'')]),
      AddColumn ''users'' (Column ''suspended_at'' TTimestamptz Null []),
      AddColumn ''users'' (Column ''suspended_reason'' TText Null []),
      CreateIndex False (plain_index ''ix_users_status'' ''users'' [''status'']),
      AddColumn ''products'' (Column ''status'' (TEnum ''product_status'') NotNull
        [ServerDefault (Literal ''active'')]),
      AddColumn ''products'' (Column ''disabled_at'' TTimestamptz Null []),
      AddColumn ''products'' (Column ''disabled_reason'' TText Null []),
      CreateIndex False (plain_index ''ix_products_status'' ''products'' [''status''])]"

definition downgrade_0005 :: "ddl list" where
  "downgrade_0005 =
     [DropIndex False ''ix_products_status'',
      DropColumn ''products'' ''disabled_reason'',
      DropColumn ''products'' ''disabled_at'',
      DropColumn ''products'' ''status'',
      DropIndex False ''ix_users_status'',
      DropColumn ''users'' ''suspended_reason'',
      DropColumn ''users'' ''suspended_at'',
      DropColumn ''users'' ''status'',
      DropType ''product_status'',
      DropType ''user_status'']"

definition upgrade_0006 :: "ddl list" where
  "upgrade_0006 =
     [CreateIndex True (plain_index ''ix_users_role_status'' ''users'' [''role'', ''status'']),
      CreateIndex True (plain_index ''ix_messages_conversation_id_sent_at_desc'' ''messages''
        [''conversation_id'', ''sent_at'']),
      CreateIndex True (plain_index ''ix_orders_seller_status_placed_at_desc'' ''orders''
        [''seller_id'', ''status'', ''placed_at'']),
      CreateIndex True (plain_index ''ix_orders_customer_placed_at_desc'' ''orders''
        [''customer_id'', ''placed_at'']),
      CreateIndex True (plain_index ''ix_products_seller_status'' ''products'' [''seller_id'',
        ''status'']),
      CreateIndex True (plain_index ''ix_invite_links_issuer_created_at_desc'' ''invite_links''
        [''issuer_id'', ''created_at''])]"

definition downgrade_0006 :: "ddl list" where
  "downgrade_0006 =
     [DropIndex True ''ix_invite_links_issuer_created_at_desc'',
      DropIndex True ''ix_products_seller_status'',
      DropIndex True ''ix_orders_customer_placed_at_desc'',
      DropIndex True ''ix_orders_seller_status_placed_at_desc'',
      DropIndex True ''ix_messages_conversation_id_sent_at_desc'',
      DropIndex True ''ix_users_role_status'']"

definition upgrade_0007 :: "ddl list" where
  "upgrade_0007 =
     [CreateTable ''user_devices''
       [Column ''id'' TUuid NotNull [PrimaryKey],
        Column ''created_at'' TTimestamptz NotNull [ServerDefault (Expr ''now()'')],
        Column ''updated_at'' TTimestamptz NotNull [ServerDefault (Expr ''now()'')],
        Column ''user_id'' TUuid NotNull [Fk (Some ''fk_user_devices_user_id'') ''users'' ''id''
          Cascade],
        Column ''platform'' (TVarchar 16) NotNull [],
        Column ''token'' TText NotNull [],
        Column ''last_seen_at'' TTimestamptz Null [],
        Column ''disabled_at'' TTimestamptz Null []]
       [Unique ''uq_user_devices_user_token'' [''user_id'', ''token'']],
      CreateIndex True (plain_index ''ix_user_devices_user_id'' ''user_devices'' [''user_id'']),
      CreateIndex True (plain_index ''ix_user_devices_platform'' ''user_devices''
        [''platform''])]"

definition downgrade_0007 :: "ddl list" where
  "downgrade_0007 =
     [DropIndex True ''ix_user_devices_platform'',
      DropIndex True ''ix_user_devices_user_id'',
      DropTable ''user_devices'']"

definition upgrade_0008 :: "ddl list" where
  "upgrade_0008 =
     [AddColumn ''users'' (Column ''avatar_url'' TText Null []),
      CreateTable ''user_notification_prefs''
       [Column ''user_id'' TUuid NotNull [PrimaryKey, Fk None ''users'' ''id'' Cascade],
        Column ''push_enabled'' TBoolean NotNull [ServerDefault (Expr ''true'')],
        Column ''email_enabled'' TBoolean NotNull [ServerDefault (Expr ''true'')],
        Column ''order_updates'' TBoolean NotNull [ServerDefault (Expr ''true'')],
        Column ''messages'' TBoolean NotNull [ServerDefault (Expr ''true'')],
        Column ''marketing'' TBoolean NotNull [ServerDefault (Expr ''false'')],
        Column ''created_at'' TTimestamptz NotNull [ServerDefault (Expr ''now()'')],
        Column ''updated_at'' TTimestamptz NotNull [ServerDefault (Expr ''now()'')]]
       []]"

definition downgrade_0008 :: "ddl list" where
  "downgrade_0008 =
     [DropTable ''user_notification_prefs'',
      DropColumn ''users'' ''avatar_url'']"

definition upgrade_0009 :: "ddl list" where
  "upgrade_0009 =
     [AddColumn ''stores'' (Column ''is_public'' TBoolean NotNull [ServerDefault (Expr
        ''false'')]),
      CreateIndex False (partial_index ''ix_stores_is_public_true'' ''stores'' [''id'']
        ''is_public = true AND deleted_at IS NULL'')]"

definition downgrade_0009 :: "ddl list" where
  "downgrade_0009 =
     [DropIndex False ''ix_stores_is_public_true'',
      DropColumn ''stores'' ''is_public'']"

definition alter_orders :: "ddl list" where
  "alter_orders =
     [AddColumn ''orders'' (Column ''driver_accepted_at'' TTimestamptz Null []),
      AddColumn ''orders'' (Column ''customer_visible_after'' TTimestamptz Null []),
      AddColumn ''orders'' (Column ''seller_full_visible_until'' TTimestamptz Null []),
      AddColumn ''orders'' (Column ''delivery_code_locked'' TBoolean NotNull [ServerDefault
        (Expr ''false'')]),
      WriteRows ''orders'' [''seller_full_visible_until'', ''placed_at''],
      WriteRows ''orders'' [''customer_visible_after'', ''delivered_at'']]"

definition create_order_tracking_points :: "ddl list" where
  "create_order_tracking_points =
     [CreateTable ''order_tracking_points''
       [Column ''id'' TUuid NotNull [PrimaryKey, ServerDefault (Expr ''gen_random_uuid()'')],
        Column ''order_id'' TUuid NotNull [Fk None ''orders'' ''id'' Cascade],
        Column ''driver_id'' TUuid Null [Fk None ''users'' ''id'' SetNull],
        Column ''lat'' TDouble NotNull [],
        Column ''lng'' TDouble NotNull [],
        Column ''recorded_at'' TTimestamptz NotNull [ServerDefault (Expr ''now()'')]]
       [],
      CreateIndex False (plain_index ''ix_order_tracking_points_order_recorded_at''
        ''order_tracking_points'' [''order_id'', ''recorded_at''])]"

definition create_order_messages :: "ddl list" where
  "create_order_messages =
     [CreateTable ''order_messages''
       [Column ''id'' TUuid NotNull [PrimaryKey, ServerDefault (Expr ''gen_random_uuid()'')],
        Column ''order_id'' TUuid NotNull [Fk None ''orders'' ''id'' Cascade],
        Column ''sender_id'' TUuid Null [Fk None ''users'' ''id'' SetNull],
        Column ''sender_role'' TText NotNull [],
        Column ''ciphertext'' TText NotNull [],
        Column ''nonce'' TText NotNull [],
        Column ''created_at'' TTimestamptz NotNull [ServerDefault (Expr ''now()'')],
        Column ''archived_at'' TTimestamptz Null []]
       [Check ''ck_order_messages_sender_role'' ''sender_role IN ('customer','driver')''],
      CreateIndex False (plain_index ''ix_order_messages_order_created_at'' ''order_messages''
        [''order_id'', ''created_at''])]"

definition create_delivery_codes :: "ddl list" where
  "create_delivery_codes =
     [CreateTable ''delivery_codes''
       [Column ''order_id'' TUuid NotNull [PrimaryKey, Fk None ''orders'' ''id'' Cascade],
        Column ''code_hash'' TText NotNull [],
        Column ''code_plain'' TText NotNull [],
        Column ''attempts_used'' TInteger NotNull [ServerDefault (Expr ''0'')],
        Column ''locked'' TBoolean NotNull [ServerDefault (Expr ''false'')],
        Column ''created_at'' TTimestamptz NotNull [ServerDefault (Expr ''now()'')],
        Column ''consumed_at'' TTimestamptz Null []]
       []]"

definition create_delivery_code_attempts :: "ddl list" where
  "create_delivery_code_attempts =
     [CreateTable ''delivery_code_attempts''
       [Column ''id'' TUuid NotNull [PrimaryKey, ServerDefault (Expr ''gen_random_uuid()'')],
        Column ''order_id'' TUuid NotNull [Fk None ''orders'' ''id'' Cascade],
        Column ''driver_id'' TUuid Null [Fk None ''users'' ''id'' SetNull],
        Column ''submitted_code'' TText NotNull [],
        Column ''success'' TBoolean NotNull [],
        Column ''attempted_at'' TTimestamptz NotNull [ServerDefault (Expr ''now()'')]]
       [],
      CreateIndex False (plain_index ''ix_delivery_code_attempts_order''
        ''delivery_code_attempts'' [''order_id''])]"

definition upgrade_0010 :: "ddl list" where
  "upgrade_0010 =
     alter_orders @ create_order_tracking_points @ create_order_messages @ create_delivery_codes
       @ create_delivery_code_attempts"

definition downgrade_0010 :: "ddl list" where
  "downgrade_0010 =
     [DropIndex False ''ix_delivery_code_attempts_order'',
      DropTable ''delivery_code_attempts'',
      DropTable ''delivery_codes'',
      DropIndex False ''ix_order_messages_order_created_at'',
      DropTable ''order_messages'',
      DropIndex False ''ix_order_tracking_points_order_recorded_at'',
      DropTable ''order_tracking_points'',
      DropColumn ''orders'' ''delivery_code_locked'',
      DropColumn ''orders'' ''seller_full_visible_until'',
      DropColumn ''orders'' ''customer_visible_after'',
      DropColumn ''orders'' ''driver_accepted_at'']"

end
