(* ===== verification/Orm_Models.thy ===== *)
theory Orm_Models
  imports Migrations
begin

text \<open>
  The classes of \<open>models/*.py\<close> under \<open>src/backend/app\<close> as SQLAlchemy sees them: \<open>Base.metadata\<close>,
  the schema that \<open>alembic/env.py\<close> compares the database with. A class has the columns of its
  mixins and its own, its constraints and its indexes; relationships, comments and defaults that
  are computed in Python are left out.
\<close>

datatype (plugins only: code) orm_class = OrmClass string "column_def list" "constr list" "index list"

definition uuid_pk_mixin :: "column_def list" where
  "uuid_pk_mixin =
     [Column ''id'' TUuid NotNull [PrimaryKey]]"

definition timestamp_mixin :: "column_def list" where
  "timestamp_mixin =
     [Column ''created_at'' TTimestamptz NotNull [ServerDefault (Expr ''now()'')],
      Column ''updated_at'' TTimestamptz NotNull [ServerDefault (Expr ''now()'')]]"

definition soft_delete_mixin :: "column_def list" where
  "soft_delete_mixin =
     [Column ''deleted_at'' TTimestamptz Null []]"

definition orm_users :: orm_class where
  "orm_users =
     OrmClass ''users''
       (uuid_pk_mixin @ timestamp_mixin @ soft_delete_mixin @
        [Column ''email'' TCitext NotNull [UniqueColumn],
        Column ''password_hash'' TText NotNull [],
        Column ''role'' (TEnum ''user_role'') NotNull [Indexed],
        Column ''display_name'' (TVarchar 255) NotNull [],
        Column ''phone'' (TVarchar 32) Null [],
        Column ''is_active'' TBoolean NotNull [ServerDefault (Expr ''true'')],
        Column ''disabled_at'' TTimestamptz Null [],
        Column ''status'' (TEnum ''user_status'') NotNull [ServerDefault (Expr ([CHR 0x27] @
          ''active'' @ [CHR 0x27]))],
        Column ''suspended_at'' TTimestamptz Null [],
        Column ''suspended_reason'' TText Null [],
        Column ''avatar_url'' TText Null [],
        Column ''referring_seller_id'' TUuid Null [Indexed]])
       []
       [plain_index ''ix_users_deleted_at'' ''users'' [''deleted_at''],
        plain_index ''ix_users_role'' ''users'' [''role''],
        plain_index ''ix_users_status'' ''users'' [''status'']]"

definition orm_refresh_tokens :: orm_class where
  "orm_refresh_tokens =
     OrmClass ''refresh_tokens''
       (uuid_pk_mixin @
        [Column ''user_id'' TUuid NotNull [Fk (Some ''fk_refresh_tokens_user_id'') ''users''
          ''id'' Cascade, Indexed],
        Column ''token_hash'' (TVarchar 64) NotNull [UniqueColumn],
        Column ''device_label'' (TVarchar 255) Null [],
        Column ''issued_at'' TTimestamptz NotNull [ServerDefault (Expr ''now()'')],
        Column ''last_used_at'' TTimestamptz Null [],
        Column ''expires_at'' TTimestamptz NotNull [],
        Column ''revoked_at'' TTimestamptz Null []])
       []
       [plain_index ''ix_refresh_tokens_user_id'' ''refresh_tokens'' [''user_id''],
        unique_index ''ix_refresh_tokens_token_hash'' ''refresh_tokens'' [''token_hash''] None,
        plain_index ''ix_refresh_tokens_expires_at'' ''refresh_tokens'' [''expires_at'']]"

definition orm_invite_links :: orm_class where
  "orm_invite_links =
     OrmClass ''invite_links''
       (uuid_pk_mixin @ timestamp_mixin @
        [Column ''issuer_id'' TUuid NotNull [Fk (Some ''fk_invite_links_issuer_id'') ''users''
          ''id'' Restrict, Indexed],
        Column ''type'' (TEnum ''invite_link_type'') NotNull [],
        Column ''token'' (TVarchar 64) NotNull [UniqueColumn],
        Column ''role_target'' (TEnum ''user_role'') Null [],
        Column ''max_uses'' TInteger Null [],
        Column ''used_count'' TInteger NotNull [ServerDefault (Expr ''0'')],
        Column ''expires_at'' TTimestamptz Null [],
        Column ''revoked_at'' TTimestamptz Null []])
       []
       [unique_index ''ix_invite_links_token'' ''invite_links'' [''token''] None,
        plain_index ''ix_invite_links_issuer_id'' ''invite_links'' [''issuer_id''],
        plain_index ''ix_invite_links_expires_at'' ''invite_links'' [''expires_at''],
        unique_index ''uq_invite_links_active_seller_referral'' ''invite_links'' [''issuer_id'']
          (Some ''type = 'seller_referral' AND revoked_at IS NULL'')]"

definition orm_referrals :: orm_class where
  "orm_referrals =
     OrmClass ''referrals''
       (uuid_pk_mixin @
        [Column ''referrer_id'' TUuid NotNull [Fk (Some ''fk_referrals_referrer_id'') ''users''
          ''id'' Restrict, Indexed],
        Column ''referred_user_id'' TUuid NotNull [Fk (Some ''fk_referrals_referred_user_id'')
          ''users'' ''id'' Restrict, UniqueColumn],
        Column ''invite_link_id'' TUuid NotNull [Fk (Some ''fk_referrals_invite_link_id'')
          ''invite_links'' ''id'' Restrict, Indexed],
        Column ''created_at'' TTimestamptz NotNull [ServerDefault (Expr ''now()'')]])
       [Unique ''uq_referrals_referred_user_id'' [''referred_user_id'']]
       [plain_index ''ix_referrals_referrer_id'' ''referrals'' [''referrer_id'']]"

definition orm_sellers :: orm_class where
  "orm_sellers =
     OrmClass ''sellers''
       (timestamp_mixin @ soft_delete_mixin @
        [Column ''id'' TUuid NotNull [PrimaryKey],
        Column ''user_id'' TUuid NotNull [Fk (Some ''fk_sellers_user_id'') ''users'' ''id''
          Restrict, UniqueColumn],
        Column ''display_name'' (TVarchar 255) NotNull [],
        Column ''bio'' TText Null [],
        Column ''city'' TText NotNull [Indexed],
        Column ''country_code'' (TVarchar 2) NotNull []])
       [Unique ''uq_sellers_user_id'' [''user_id'']]
       [plain_index ''ix_sellers_city'' ''sellers'' [''city'']]"

definition orm_stores :: orm_class where
  "orm_stores =
     OrmClass ''stores''
       (uuid_pk_mixin @ timestamp_mixin @ soft_delete_mixin @
        [Column ''seller_id'' TUuid NotNull [Fk (Some ''fk_stores_seller_id'') ''sellers'' ''id''
          Restrict, UniqueColumn],
        Column ''name'' (TVarchar 255) NotNull [],
        Column ''slug'' (TVarchar 255) NotNull [UniqueColumn],
        Column ''description'' TText NotNull [ServerDefault (Literal '''')],
        Column ''is_active'' TBoolean NotNull [ServerDefault (Expr ''true'')],
        Column ''is_public'' TBoolean NotNull [ServerDefault (Expr ''false'')]])
       [Unique ''uq_stores_seller_id'' [''seller_id''],
        Unique ''uq_stores_slug'' [''slug'']]
       [plain_index ''ix_stores_slug'' ''stores'' [''slug'']]"

definition orm_products :: orm_class where
  "orm_products =
     OrmClass ''products''
       (uuid_pk_mixin @ timestamp_mixin @ soft_delete_mixin @
        [Column ''seller_id'' TUuid NotNull [Fk (Some ''fk_products_seller_id'') ''sellers''
          ''id'' Restrict],
        Column ''store_id'' TUuid NotNull [Fk (Some ''fk_products_store_id'') ''stores'' ''id''
          Restrict],
        Column ''name'' (TVarchar 255) NotNull [],
        Column ''description'' TText NotNull [ServerDefault (Literal '''')],
        Column ''price_minor'' TBigInt NotNull [],
        Column ''stock_quantity'' TInteger Null [],
        Column ''is_active'' TBoolean NotNull [ServerDefault (Expr ''true'')],
        Column ''status'' (TEnum ''product_status'') NotNull [ServerDefault (Expr ([CHR 0x27] @
          ''active'' @ [CHR 0x27]))],
        Column ''disabled_at'' TTimestamptz Null [],
        Column ''disabled_reason'' TText Null []])
       [Check ''ck_products_price_minor_positive'' ''price_minor > 0'',
        Check ''ck_products_stock_quantity_non_negative''
          ''stock_quantity IS NULL OR stock_quantity >= 0'']
       [plain_index ''ix_products_seller_id_is_active'' ''products'' [''seller_id'',
          ''is_active''],
        plain_index ''ix_products_store_id_is_active'' ''products'' [''store_id'',
          ''is_active''],
        plain_index ''ix_products_status'' ''products'' [''status'']]"

definition orm_product_images :: orm_class where
  "orm_product_images =
     OrmClass ''product_images''
       (uuid_pk_mixin @
        [Column ''product_id'' TUuid NotNull [Fk (Some ''fk_product_images_product_id'')
          ''products'' ''id'' Cascade],
        Column ''s3_key'' TText NotNull [],
        Column ''display_order'' TInteger NotNull [],
        Column ''created_at'' TTimestamptz NotNull [ServerDefault (Expr ''now()'')]])
       []
       [plain_index ''ix_product_images_product_id'' ''product_images'' [''product_id'']]"

definition orm_cart_items :: orm_class where
  "orm_cart_items =
     OrmClass ''cart_items''
       (uuid_pk_mixin @
        [Column ''customer_id'' TUuid NotNull [Fk (Some ''fk_cart_items_customer_id'') ''users''
          ''id'' Cascade],
        Column ''product_id'' TUuid NotNull [Fk (Some ''fk_cart_items_product_id'') ''products''
          ''id'' Cascade],
        Column ''quantity'' TInteger NotNull [],
        Column ''added_at'' TTimestamptz NotNull [ServerDefault (Expr ''now()'')],
        Column ''updated_at'' TTimestamptz NotNull [ServerDefault (Expr ''now()'')]])
       [Check ''ck_cart_items_quantity_positive'' ''quantity > 0'',
        Unique ''uq_cart_items_customer_product'' [''customer_id'', ''product_id'']]
       [plain_index ''ix_cart_items_customer_id'' ''cart_items'' [''customer_id'']]"

definition orm_orders :: orm_class where
  "orm_orders =
     OrmClass ''orders''
       (uuid_pk_mixin @ timestamp_mixin @ soft_delete_mixin @
        [Column ''customer_id'' TUuid NotNull [Fk (Some ''fk_orders_customer_id'') ''users''
          ''id'' Restrict],
        Column ''seller_id'' TUuid NotNull [Fk (Some ''fk_orders_seller_id'') ''sellers'' ''id''
          Restrict],
        Column ''store_id'' TUuid NotNull [Fk (Some ''fk_orders_store_id'') ''stores'' ''id''
          Restrict],
        Column ''status'' (TEnum ''order_status'') NotNull [],
        Column ''subtotal_minor'' TBigInt NotNull [],
        Column ''total_minor'' TBigInt NotNull [],
        Column ''delivery_address'' TJsonb NotNull [],
        Column ''placed_at'' TTimestamptz NotNull [ServerDefault (Expr ''now()'')],
        Column ''accepted_at'' TTimestamptz Null [],
        Column ''preparing_at'' TTimestamptz Null [],
        Column ''out_for_delivery_at'' TTimestamptz Null [],
        Column ''delivered_at'' TTimestamptz Null [],
        Column ''completed_at'' TTimestamptz Null [],
        Column ''cancelled_at'' TTimestamptz Null [],
        Column ''cancellation_reason'' TText Null [],
        Column ''driver_accepted_at'' TTimestamptz Null [],
        Column ''customer_visible_after'' TTimestamptz Null [],
        Column ''seller_full_visible_until'' TTimestamptz Null [],
        Column ''delivery_code_locked'' TBoolean NotNull [ServerDefault (Expr ''false'')]])
       []
       [plain_index ''ix_orders_seller_id_status'' ''orders'' [''seller_id'', ''status''],
        plain_index ''ix_orders_customer_id_status'' ''orders'' [''customer_id'', ''status''],
        plain_index ''ix_orders_status_placed_at'' ''orders'' [''status'', ''placed_at''],
        plain_index ''ix_orders_delivered_at'' ''orders'' [''delivered_at'']]"

definition orm_order_items :: orm_class where
  "orm_order_items =
     OrmClass ''order_items''
       (uuid_pk_mixin @
        [Column ''order_id'' TUuid NotNull [Fk (Some ''fk_order_items_order_id'') ''orders''
          ''id'' Cascade],
        Column ''product_id'' TUuid Null [Fk (Some ''fk_order_items_product_id'') ''products''
          ''id'' SetNull],
        Column ''product_name_snapshot'' TText NotNull [],
        Column ''unit_price_minor_snapshot'' TBigInt NotNull [],
        Column ''quantity'' TInteger NotNull []])
       [Check ''ck_order_items_quantity_positive'' ''quantity > 0'']
       [plain_index ''ix_order_items_order_id'' ''order_items'' [''order_id'']]"

definition orm_deliveries :: orm_class where
  "orm_deliveries =
     OrmClass ''deliveries''
       (uuid_pk_mixin @
        [Column ''order_id'' TUuid NotNull [Fk (Some ''fk_deliveries_order_id'') ''orders''
          ''id'' Cascade, UniqueColumn],
        Column ''driver_id'' TUuid Null [Fk (Some ''fk_deliveries_driver_id'') ''users'' ''id''
          SetNull],
        Column ''seller_id'' TUuid NotNull [Fk (Some ''fk_deliveries_seller_id'') ''sellers''
          ''id'' Restrict],
        Column ''status'' (TEnum ''delivery_status'') NotNull [],
        Column ''started_at'' TTimestamptz Null [],
        Column ''delivered_at'' TTimestamptz Null [],
        Column ''current_lat'' TDouble Null [],
        Column ''current_lng'' TDouble Null [],
        Column ''last_location_at'' TTimestamptz Null [],
        Column ''distance_meters'' TInteger Null [],
        Column ''duration_seconds'' TInteger Null [],
        Column ''current_eta_seconds'' TInteger Null [],
        Column ''current_eta_updated_at'' TTimestamptz Null []])
       [Check ''ck_deliveries_at_least_one_actor''
          ''driver_id IS NOT NULL OR seller_id IS NOT NULL'',
        Unique ''uq_deliveries_order_id'' [''order_id'']]
       []"

definition orm_driver_assignments :: orm_class where
  "orm_driver_assignments =
     OrmClass ''driver_assignments''
       (uuid_pk_mixin @
        [Column ''order_id'' TUuid NotNull [Fk (Some ''fk_driver_assignments_order_id'')
          ''orders'' ''id'' Cascade],
        Column ''driver_id'' TUuid Null [Fk (Some ''fk_driver_assignments_driver_id'') ''users''
          ''id'' SetNull],
        Column ''status'' (TEnum ''driver_assignment_status'') NotNull [],
        Column ''requested_by_seller_id'' TUuid NotNull [Fk (Some
          ''fk_driver_assignments_requested_by_seller_id'') ''sellers'' ''id'' Restrict],
        Column ''requested_at'' TTimestamptz NotNull [ServerDefault (Expr ''now()'')],
        Column ''assigned_by_admin_id'' TUuid Null [Fk (Some
          ''fk_driver_assignments_assigned_by_admin_id'') ''users'' ''id'' SetNull],
        Column ''assigned_at'' TTimestamptz Null [],
        Column ''responded_at'' TTimestamptz Null [],
        Column ''decline_reason'' TText Null []])
       []
       [plain_index ''ix_driver_assignments_status_requested_at'' ''driver_assignments''
          [''status'', ''requested_at''],
        plain_index ''ix_driver_assignments_order_id'' ''driver_assignments'' [''order_id''],
        plain_index ''ix_driver_assignments_driver_id'' ''driver_assignments'' [''driver_id'']]"

definition orm_conversations :: orm_class where
  "orm_conversations =
     OrmClass ''conversations''
       (uuid_pk_mixin @
        [Column ''user_a_id'' TUuid NotNull [Fk (Some ''fk_conversations_user_a_id'') ''users''
          ''id'' Restrict],
        Column ''user_b_id'' TUuid NotNull [Fk (Some ''fk_conversations_user_b_id'') ''users''
          ''id'' Restrict],
        Column ''created_at'' TTimestamptz NotNull [ServerDefault (Expr ''now()'')],
        Column ''last_message_at'' TTimestamptz Null []])
       [Check ''ck_conversations_canonical_ordering'' ''user_a_id < user_b_id'',
        Unique ''uq_conversations_user_pair'' [''user_a_id'', ''user_b_id'']]
       [plain_index ''ix_conversations_user_a_id'' ''conversations'' [''user_a_id''],
        plain_index ''ix_conversations_user_b_id'' ''conversations'' [''user_b_id'']]"

definition orm_messages :: orm_class where
  "orm_messages =
     OrmClass ''messages''
       (uuid_pk_mixin @
        [Column ''conversation_id'' TUuid NotNull [Fk (Some ''fk_messages_conversation_id'')
          ''conversations'' ''id'' Cascade],
        Column ''sender_id'' TUuid NotNull [Fk (Some ''fk_messages_sender_id'') ''users'' ''id''
          Restrict],
        Column ''ciphertext'' TBytea NotNull [],
        Column ''nonce'' TBytea NotNull [],
        Column ''ephemeral_public_key'' TBytea NotNull [],
        Column ''recipient_key_id'' TUuid Null [Fk (Some ''fk_messages_recipient_key_id'')
          ''user_public_keys'' ''id'' SetNull],
        Column ''ratchet_state'' TJsonb Null [],
        Column ''sent_at'' TTimestamptz NotNull [ServerDefault (Expr ''now()'')],
        Column ''read_at'' TTimestamptz Null [],
        Column ''deleted_at'' TTimestamptz Null [],
        Column ''created_at'' TTimestamptz NotNull [ServerDefault (Expr ''now()'')]])
       []
       [plain_index ''ix_messages_conversation_id_sent_at'' ''messages'' [''conversation_id'',
          ''sent_at'']]"

definition orm_user_public_keys :: orm_class where
  "orm_user_public_keys =
     OrmClass ''user_public_keys''
       (uuid_pk_mixin @
        [Column ''user_id'' TUuid NotNull [Fk (Some ''fk_user_public_keys_user_id'') ''users''
          ''id'' Cascade],
        Column ''public_key'' TBytea NotNull [],
        Column ''key_version'' TInteger NotNull [ServerDefault (Expr ''1'')],
        Column ''status'' (TVarchar 16) NotNull [ServerDefault (Expr ([CHR 0x27] @ ''active'' @
          [CHR 0x27]))],
        Column ''registered_at'' TTimestamptz NotNull [ServerDefault (Expr ''now()'')],
        Column ''rotated_at'' TTimestamptz Null [],
        Column ''revoked_at'' TTimestamptz Null [],
        Column ''created_at'' TTimestamptz NotNull [ServerDefault (Expr ''now()'')],
        Column ''updated_at'' TTimestamptz NotNull [ServerDefault (Expr ''now()'')]])
       [Check ''ck_user_public_keys_status_valid'' ''status IN ('active','rotated','revoked')'']
       [unique_index ''uq_user_public_keys_one_active'' ''user_public_keys'' [''user_id''] (Some
          (''status = 'active'' @ [CHR 0x27])),
        plain_index ''ix_user_public_keys_user_id_status'' ''user_public_keys'' [''user_id'',
          ''status'']]"

definition orm_reviews :: orm_class where
  "orm_reviews =
     OrmClass ''reviews''
       (uuid_pk_mixin @
        [Column ''order_id'' TUuid NotNull [Fk (Some ''fk_reviews_order_id'') ''orders'' ''id''
          Cascade, UniqueColumn],
        Column ''customer_id'' TUuid NotNull [Fk (Some ''fk_reviews_customer_id'') ''users''
          ''id'' Restrict],
        Column ''store_id'' TUuid NotNull [Fk (Some ''fk_reviews_store_id'') ''stores'' ''id''
          Restrict],
        Column ''rating'' TInteger NotNull [],
        Column ''comment'' TText Null [],
        Column ''created_at'' TTimestamptz NotNull [ServerDefault (Expr ''now()'')],
        Column ''updated_at'' TTimestamptz NotNull [ServerDefault (Expr ''now()'')]])
       [Check ''ck_reviews_rating_range'' ''rating >= 1 AND rating <= 5'',
        Unique ''uq_reviews_order_id'' [''order_id'']]
       [plain_index ''ix_reviews_store_id'' ''reviews'' [''store_id''],
        plain_index ''ix_reviews_customer_id'' ''reviews'' [''customer_id'']]"

definition orm_platform_settings :: orm_class where
  "orm_platform_settings =
     OrmClass ''platform_settings''
       ([Column ''id'' TInteger NotNull [PrimaryKey],
        Column ''retention_min_days'' TInteger NotNull [ServerDefault (Expr ''30'')],
        Column ''order_auto_complete_grace_hours'' TInteger NotNull [ServerDefault (Expr
          ''72'')],
        Column ''message_retention_days'' TInteger NotNull [ServerDefault (Expr ''90'')],
        Column ''currency_code'' (TVarchar 3) NotNull [ServerDefault (Literal ''USD'')],
        Column ''updated_at'' TTimestamptz NotNull [ServerDefault (Expr ''now()'')],
        Column ''updated_by_user_id'' TUuid Null [Fk (Some
          ''fk_platform_settings_updated_by_user_id'') ''users'' ''id'' SetNull]])
       [Check ''ck_platform_settings_singleton'' ''id = 1'',
        Check ''ck_platform_settings_auto_complete_grace_positive''
          ''order_auto_complete_grace_hours >= 1'',
        Check ''ck_platform_settings_message_retention_min'' ''message_retention_days >= 7'']
       []"

definition orm_order_analytics_snapshots :: orm_class where
  "orm_order_analytics_snapshots =
     OrmClass ''order_analytics_snapshots''
       (uuid_pk_mixin @
        [Column ''order_id'' TUuid NotNull [],
        Column ''seller_id'' TUuid NotNull [],
        Column ''store_id'' TUuid NotNull [],
        Column ''customer_id'' TUuid NotNull [],
        Column ''city'' TText NotNull [],
        Column ''item_count'' TInteger NotNull [],
        Column ''subtotal_minor'' TBigInt NotNull [],
        Column ''total_minor'' TBigInt NotNull [],
        Column ''delivered_at'' TTimestamptz NotNull [],
        Column ''delivery_duration_seconds'' TInteger Null [],
        Column ''delivery_distance_meters'' TInteger Null [],
        Column ''created_at'' TTimestamptz NotNull [ServerDefault (Expr ''now()'')]])
       [Unique ''uq_order_analytics_snapshots_order_id'' [''order_id'']]
       [plain_index ''ix_order_analytics_snapshots_seller_id_delivered_at''
          ''order_analytics_snapshots'' [''seller_id'', ''delivered_at''],
        plain_index ''ix_order_analytics_snapshots_delivered_at'' ''order_analytics_snapshots''
          [''delivered_at'']]"

definition orm_order_tracking_points :: orm_class where
  "orm_order_tracking_points =
     OrmClass ''order_tracking_points''
       ([Column ''id'' TUuid NotNull [PrimaryKey, ServerDefault (Expr ''gen_random_uuid()'')],
        Column ''order_id'' TUuid NotNull [Fk None ''orders'' ''id'' Cascade],
        Column ''driver_id'' TUuid Null [Fk None ''users'' ''id'' SetNull],
        Column ''lat'' TDouble NotNull [],
        Column ''lng'' TDouble NotNull [],
        Column ''recorded_at'' TTimestamptz NotNull [ServerDefault (Expr ''now()'')]])
       []
       []"

definition orm_order_messages :: orm_class where
  "orm_order_messages =
     OrmClass ''order_messages''
       ([Column ''id'' TUuid NotNull [PrimaryKey, ServerDefault (Expr ''gen_random_uuid()'')],
        Column ''order_id'' TUuid NotNull [Fk None ''orders'' ''id'' Cascade],
        Column ''sender_id'' TUuid Null [Fk None ''users'' ''id'' SetNull],
        Column ''sender_role'' TText NotNull [],
        Column ''ciphertext'' TText NotNull [],
        Column ''nonce'' TText NotNull [],
        Column ''created_at'' TTimestamptz NotNull [ServerDefault (Expr ''now()'')],
        Column ''archived_at'' TTimestamptz Null []])
       []
       []"

definition orm_delivery_codes :: orm_class where
  "orm_delivery_codes =
     OrmClass ''delivery_codes''
       ([Column ''order_id'' TUuid NotNull [PrimaryKey, Fk None ''orders'' ''id'' Cascade],
        Column ''code_hash'' TText NotNull [],
        Column ''code_plain'' TText NotNull [],
        Column ''attempts_used'' TInteger NotNull [ServerDefault (Expr ''0'')],
        Column ''locked'' TBoolean NotNull [ServerDefault (Expr ''false'')],
        Column ''created_at'' TTimestamptz NotNull [ServerDefault (Expr ''now()'')],
        Column ''consumed_at'' TTimestamptz Null []])
       []
       []"

definition orm_delivery_code_attempts :: orm_class where
  "orm_delivery_code_attempts =
     OrmClass ''delivery_code_attempts''
       ([Column ''id'' TUuid NotNull [PrimaryKey, ServerDefault (Expr ''gen_random_uuid()'')],
        Column ''order_id'' TUuid NotNull [Fk None ''orders'' ''id'' Cascade],
        Column ''driver_id'' TUuid Null [Fk None ''users'' ''id'' SetNull],
        Column ''submitted_code'' TText NotNull [],
        Column ''success'' TBoolean NotNull [],
        Column ''attempted_at'' TTimestamptz NotNull [ServerDefault (Expr ''now()'')]])
       []
       []"

definition orm_user_devices :: orm_class where
  "orm_user_devices =
     OrmClass ''user_devices''
       (uuid_pk_mixin @ timestamp_mixin @
        [Column ''user_id'' TUuid NotNull [Fk (Some ''fk_user_devices_user_id'') ''users'' ''id''
          Cascade, Indexed],
        Column ''platform'' (TVarchar 16) NotNull [],
        Column ''token'' TText NotNull [],
        Column ''last_seen_at'' TTimestamptz Null [],
        Column ''disabled_at'' TTimestamptz Null []])
       [Unique ''uq_user_devices_user_token'' [''user_id'', ''token'']]
       [plain_index ''ix_user_devices_user_id'' ''user_devices'' [''user_id''],
        plain_index ''ix_user_devices_platform'' ''user_devices'' [''platform'']]"

definition orm_user_notification_prefs :: orm_class where
  "orm_user_notification_prefs =
     OrmClass ''user_notification_prefs''
       (timestamp_mixin @
        [Column ''user_id'' TUuid NotNull [PrimaryKey, Fk None ''users'' ''id'' Cascade],
        Column ''push_enabled'' TBoolean NotNull [ServerDefault (Expr ''true'')],
        Column ''email_enabled'' TBoolean NotNull [ServerDefault (Expr ''true'')],
        Column ''order_updates'' TBoolean NotNull [ServerDefault (Expr ''true'')],
        Column ''messages'' TBoolean NotNull [ServerDefault (Expr ''true'')],
        Column ''marketing'' TBoolean NotNull [ServerDefault (Expr ''false'')]])
       []
       []"

definition orm_models :: "orm_class list" where
  "orm_models =
     [orm_users, orm_refresh_tokens, orm_invite_links, orm_referrals, orm_sellers,
        orm_stores, orm_products, orm_product_images, orm_cart_items, orm_orders,
        orm_order_items, orm_deliveries, orm_driver_assignments, orm_conversations,
        orm_messages, orm_user_public_keys, orm_reviews, orm_platform_settings,
        orm_order_analytics_snapshots, orm_order_tracking_points, orm_order_messages,
        orm_delivery_codes, orm_delivery_code_attempts, orm_user_devices,
        orm_user_notification_prefs]"

text \<open>The enumerations of \<open>models/enums.py\<close> with their labels.\<close>

definition orm_enums :: "(string \<times> string list) list" where
  "orm_enums =
     [(''user_role'', [''admin'', ''seller'', ''customer'', ''driver'']),
      (''order_status'', [''pending'', ''accepted'', ''preparing'', ''out_for_delivery'', ''delivered'',
        ''completed'', ''cancelled'']),
      (''delivery_status'', [''pending'', ''in_transit'', ''delivered'', ''failed'']),
      (''driver_assignment_status'', [''requested'', ''assigned'', ''accepted'', ''declined'',
        ''cancelled'']),
      (''invite_link_type'', [''admin_invite'', ''seller_referral'']),
      (''user_status'', [''active'', ''suspended'']),
      (''product_status'', [''active'', ''disabled'', ''out_of_stock''])]"

text \<open>
  What \<open>create_all\<close> issues for a class: the table, then its indexes, those of the columns declared
  with \<open>index=True\<close> being called \<open>ix_<table>_<column>\<close>.
\<close>

primrec column_index :: "string \<Rightarrow> column_def \<Rightarrow> index list" where
  "column_index t (Column n ty nl args) =
     (if Indexed \<in> set args then [plain_index (''ix_'' @ t @ ''_'' @ n) t [n]] else [])"

primrec orm_indexes :: "orm_class \<Rightarrow> index list" where
  "orm_indexes (OrmClass t cols cons idx) = concat (map (column_index t) cols) @ idx"

primrec create_class :: "orm_class \<Rightarrow> ddl list" where
  "create_class (OrmClass t cols cons idx) =
     CreateTable t cols cons # map (CreateIndex False) (orm_indexes (OrmClass t cols cons idx))"

end
