(* ===== verification/Ddl_Evaluation.thy ===== *)
theory Ddl_Evaluation
  imports Ddl
begin

text \<open>
  Rewrite rules that run the operations of \<open>Ddl\<close> on a concrete catalogue. Strings are compared
  character by character up to the first difference, and the congruence rules \<open>ddl_cong\<close> keep the
  simplifier from walking through names and tables over and over again.
\<close>

lemma string_eq_eval:
  "([] :: string) = [] \<longleftrightarrow> True"
  "[] = (y # ys :: string) \<longleftrightarrow> False"
  "(x # xs :: string) = [] \<longleftrightarrow> False"
  "(x # xs :: string) = x # ys \<longleftrightarrow> xs = ys"
  "Char True a1 a2 a3 a4 a5 a6 a7 # xs = Char False b1 b2 b3 b4 b5 b6 b7 # ys \<longleftrightarrow> False"
  "Char False a1 a2 a3 a4 a5 a6 a7 # xs = Char True b1 b2 b3 b4 b5 b6 b7 # ys \<longleftrightarrow> False"
  "Char a0 True a2 a3 a4 a5 a6 a7 # xs = Char b0 False b2 b3 b4 b5 b6 b7 # ys \<longleftrightarrow> False"
  "Char a0 False a2 a3 a4 a5 a6 a7 # xs = Char b0 True b2 b3 b4 b5 b6 b7 # ys \<longleftrightarrow> False"
  "Char a0 a1 True a3 a4 a5 a6 a7 # xs = Char b0 b1 False b3 b4 b5 b6 b7 # ys \<longleftrightarrow> False"
  "Char a0 a1 False a3 a4 a5 a6 a7 # xs = Char b0 b1 True b3 b4 b5 b6 b7 # ys \<longleftrightarrow> False"
  "Char a0 a1 a2 True a4 a5 a6 a7 # xs = Char b0 b1 b2 False b4 b5 b6 b7 # ys \<longleftrightarrow> False"
  "Char a0 a1 a2 False a4 a5 a6 a7 # xs = Char b0 b1 b2 True b4 b5 b6 b7 # ys \<longleftrightarrow> False"
  "Char a0 a1 a2 a3 True a5 a6 a7 # xs = Char b0 b1 b2 b3 False b5 b6 b7 # ys \<longleftrightarrow> False"
  "Char a0 a1 a2 a3 False a5 a6 a7 # xs = Char b0 b1 b2 b3 True b5 b6 b7 # ys \<longleftrightarrow> False"
  "Char a0 a1 a2 a3 a4 True a6 a7 # xs = Char b0 b1 b2 b3 b4 False b6 b7 # ys \<longleftrightarrow> False"
  "Char a0 a1 a2 a3 a4 False a6 a7 # xs = Char b0 b1 b2 b3 b4 True b6 b7 # ys \<longleftrightarrow> False"
  "Char a0 a1 a2 a3 a4 a5 True a7 # xs = Char b0 b1 b2 b3 b4 b5 False b7 # ys \<longleftrightarrow> False"
  "Char a0 a1 a2 a3 a4 a5 False a7 # xs = Char b0 b1 b2 b3 b4 b5 True b7 # ys \<longleftrightarrow> False"
  "Char a0 a1 a2 a3 a4 a5 a6 True # xs = Char b0 b1 b2 b3 b4 b5 b6 False # ys \<longleftrightarrow> False"
  "Char a0 a1 a2 a3 a4 a5 a6 False # xs = Char b0 b1 b2 b3 b4 b5 b6 True # ys \<longleftrightarrow> False"
  by simp_all

lemma char_eq_eval: "(c :: char) = c \<longleftrightarrow> True"
  "Char True a1 a2 a3 a4 a5 a6 a7 = Char False b1 b2 b3 b4 b5 b6 b7 \<longleftrightarrow> False"
  "Char False a1 a2 a3 a4 a5 a6 a7 = Char True b1 b2 b3 b4 b5 b6 b7 \<longleftrightarrow> False"
  "Char a0 True a2 a3 a4 a5 a6 a7 = Char b0 False b2 b3 b4 b5 b6 b7 \<longleftrightarrow> False"
  "Char a0 False a2 a3 a4 a5 a6 a7 = Char b0 True b2 b3 b4 b5 b6 b7 \<longleftrightarrow> False"
  "Char a0 a1 True a3 a4 a5 a6 a7 = Char b0 b1 False b3 b4 b5 b6 b7 \<longleftrightarrow> False"
  "Char a0 a1 False a3 a4 a5 a6 a7 = Char b0 b1 True b3 b4 b5 b6 b7 \<longleftrightarrow> False"
  "Char a0 a1 a2 True a4 a5 a6 a7 = Char b0 b1 b2 False b4 b5 b6 b7 \<longleftrightarrow> False"
  "Char a0 a1 a2 False a4 a5 a6 a7 = Char b0 b1 b2 True b4 b5 b6 b7 \<longleftrightarrow> False"
  "Char a0 a1 a2 a3 True a5 a6 a7 = Char b0 b1 b2 b3 False b5 b6 b7 \<longleftrightarrow> False"
  "Char a0 a1 a2 a3 False a5 a6 a7 = Char b0 b1 b2 b3 True b5 b6 b7 \<longleftrightarrow> False"
  "Char a0 a1 a2 a3 a4 True a6 a7 = Char b0 b1 b2 b3 b4 False b6 b7 \<longleftrightarrow> False"
  "Char a0 a1 a2 a3 a4 False a6 a7 = Char b0 b1 b2 b3 b4 True b6 b7 \<longleftrightarrow> False"
  "Char a0 a1 a2 a3 a4 a5 True a7 = Char b0 b1 b2 b3 b4 b5 False b7 \<longleftrightarrow> False"
  "Char a0 a1 a2 a3 a4 a5 False a7 = Char b0 b1 b2 b3 b4 b5 True b7 \<longleftrightarrow> False"
  "Char a0 a1 a2 a3 a4 a5 a6 True = Char b0 b1 b2 b3 b4 b5 b6 False \<longleftrightarrow> False"
  "Char a0 a1 a2 a3 a4 a5 a6 False = Char b0 b1 b2 b3 b4 b5 b6 True \<longleftrightarrow> False"
  by simp_all

lemma append_eq_eval:
  "(x :: char) # xs = (y # ys) @ zs \<longleftrightarrow> x # xs = y # (ys @ zs)"
  "(x :: char) # xs = [] @ zs \<longleftrightarrow> x # xs = zs"
  "((y :: char) # ys) @ zs = xs \<longleftrightarrow> y # (ys @ zs) = xs"
  "[] @ (zs :: string) = xs \<longleftrightarrow> zs = xs"
  "[] = ((y :: char) # ys) @ zs \<longleftrightarrow> False"
  by auto

lemma name_eq_eval:
  "t_name (table_ext a b3 c3 d3) = n \<longleftrightarrow> a = n"
  "v_name (view_ext a b' c' e2 d2) = n \<longleftrightarrow> a = n"
  "ix_name (index_ext a b' c' e f d) = n \<longleftrightarrow> a = n"
  "con_name (Primary a cs) = n \<longleftrightarrow> a = n"
  "con_name (Unique a cs) = n \<longleftrightarrow> a = n"
  "con_name (Check a x) = n \<longleftrightarrow> a = n"
  "con_name (Foreign a cs t rs od) = n \<longleftrightarrow> a = n"
  "c_name (column_of (Column a ty nl args)) = n \<longleftrightarrow> a = n"
  "def_name (Column a ty nl args) = n \<longleftrightarrow> a = n"
  "ix_table (index_ext b' a c' e f d) = n \<longleftrightarrow> a = n"
  "v_table (view_ext b' a c' e2 d2) = n \<longleftrightarrow> a = n"
  "rs' = con_columns (Primary a rs) \<longleftrightarrow> rs' = rs"
  "rs' = con_columns (Unique a rs) \<longleftrightarrow> rs' = rs"
  "n = def_name (Column a ty nl args) \<longleftrightarrow> n = a"
  "n = ix_name (index_ext a b' c' e f d) \<longleftrightarrow> n = a"
  "n = con_name (Primary a cs) \<longleftrightarrow> n = a"
  "n = con_name (Unique a cs) \<longleftrightarrow> n = a"
  "n = con_name (Check a x) \<longleftrightarrow> n = a"
  "n = con_name (Foreign a cs t rs od) \<longleftrightarrow> n = a"
  "n = t_name (table_ext a b3 c3 d3) \<longleftrightarrow> n = a"
  "fst (a, y) = n \<longleftrightarrow> a = n"
  by simp_all

lemma strings_eq_eval:
  "con_columns (Primary a cs) = ds \<longleftrightarrow> cs = ds"
  "con_columns (Unique a cs) = ds \<longleftrightarrow> cs = ds"
  "([] :: string list) = [] \<longleftrightarrow> True"
  "[] = (y # ys :: string list) \<longleftrightarrow> False"
  "(x # xs :: string list) = [] \<longleftrightarrow> False"
  "(x # xs :: string list) = y # ys \<longleftrightarrow> (if x = y then xs = ys else False)"
  by simp_all

lemma name_of_def: "c_name (column_of c) = def_name c"
  by (cases c) simp

lemma member_eval:
  "con_name (Primary a ds) \<in> A \<longleftrightarrow> a \<in> A"
  "con_name (Unique a ds) \<in> A \<longleftrightarrow> a \<in> A"
  "con_name (Check a x') \<in> A \<longleftrightarrow> a \<in> A"
  "con_name (Foreign a ds t rs od) \<in> A \<longleftrightarrow> a \<in> A"
  "def_name (Column a ty nl args) \<in> A \<longleftrightarrow> a \<in> A"
  "ix_name (index_ext a b' c' e' f' d') \<in> A \<longleftrightarrow> a \<in> A"
  "n \<in> set [] \<longleftrightarrow> False"
  "n \<in> set (x # xs) \<longleftrightarrow> (if x = n then True else n \<in> set xs)"
  "n \<in> f ` set [] \<longleftrightarrow> False"
  "n \<in> f ` set (y # ys) \<longleftrightarrow> (if f y = n then True else n \<in> f ` set ys)"
  "n \<in> set (map f []) \<longleftrightarrow> False"
  "n \<in> set (map f (y # ys)) \<longleftrightarrow> (if f y = n then True else n \<in> set (map f ys))"
  "n \<in> c_name ` set (map column_of cds) \<longleftrightarrow> n \<in> def_name ` set cds"
  "n \<in> f ` set (us @ ws) \<longleftrightarrow> (if n \<in> f ` set us then True else n \<in> f ` set ws)"
  "n \<in> set (v_columns (view_ext a b' vu vc unit)) \<longleftrightarrow> n \<in> set vc"
  "n \<in> set (ix_columns (index_ext a b' vu e' f' d')) \<longleftrightarrow> n \<in> set vu"
  "n \<in> set (v_uses (view_ext a b' vu vc unit)) \<longleftrightarrow> n \<in> set vu"
  "n \<in> ix_name ` set (cat_indexes (catalog_ext ex tys tbls ixs vs mr)) \<longleftrightarrow> n \<in> ix_name ` set ixs"
  "n \<in> t_name ` set (cat_tables (catalog_ext ex tys tbls ixs vs mr)) \<longleftrightarrow> n \<in> t_name ` set tbls"
  "n \<in> set (column_names (table_ext t cols cons mr)) \<longleftrightarrow> n \<in> c_name ` set cols"
  "m \<in> con_name ` set (t_constraints (table_ext t cols cons mr)) \<longleftrightarrow> m \<in> con_name ` set cons"
  "m \<in> con_name ` set (table_keys (table_ext t cols cons mr)) \<longleftrightarrow> m \<in> con_name ` set (filter is_key cons)"
  "q \<in> con_columns ` set (table_keys (table_ext t cols cons mr)) \<longleftrightarrow> q \<in> con_columns ` set (filter is_key cons)"
  "m \<in> con_name ` set (filter is_key []) \<longleftrightarrow> False"
  "m \<in> con_name ` set (filter is_key (Primary a ds # cs)) \<longleftrightarrow> (if a = m then True else m \<in> con_name ` set (filter is_key cs))"
  "m \<in> con_name ` set (filter is_key (Unique a ds # cs)) \<longleftrightarrow> (if a = m then True else m \<in> con_name ` set (filter is_key cs))"
  "m \<in> con_name ` set (filter is_key (Check a e # cs)) \<longleftrightarrow> m \<in> con_name ` set (filter is_key cs)"
  "m \<in> con_name ` set (filter is_key (Foreign a ds t' rs od # cs)) \<longleftrightarrow> m \<in> con_name ` set (filter is_key cs)"
  "q \<in> con_columns ` set (filter is_key []) \<longleftrightarrow> False"
  "q \<in> con_columns ` set (filter is_key (Primary a ds # cs)) \<longleftrightarrow> (if ds = q then True else q \<in> con_columns ` set (filter is_key cs))"
  "q \<in> con_columns ` set (filter is_key (Unique a ds # cs)) \<longleftrightarrow> (if ds = q then True else q \<in> con_columns ` set (filter is_key cs))"
  "q \<in> con_columns ` set (filter is_key (Check a e # cs)) \<longleftrightarrow> q \<in> con_columns ` set (filter is_key cs)"
  "q \<in> con_columns ` set (filter is_key (Foreign a ds t' rs od # cs)) \<longleftrightarrow> q \<in> con_columns ` set (filter is_key cs)"
  by (auto simp: column_names_def table_keys_def name_of_def image_image)

lemma subset_eval:
  "set (con_columns (Primary a cs)) \<subseteq> A \<longleftrightarrow> set cs \<subseteq> A"
  "set (con_columns (Unique a cs)) \<subseteq> A \<longleftrightarrow> set cs \<subseteq> A"
  "set (con_columns (Check a e)) \<subseteq> A \<longleftrightarrow> True"
  "set (con_columns (Foreign a cs t rs od)) \<subseteq> A \<longleftrightarrow> set cs \<subseteq> A"
  "set (ix_columns (index_ext a b' cs e' f' d')) \<subseteq> A \<longleftrightarrow> set cs \<subseteq> A"
  "set [] \<subseteq> B \<longleftrightarrow> True"
  "set (x # xs) \<subseteq> B \<longleftrightarrow> (if x \<in> B then set xs \<subseteq> B else False)"
  by auto

lemma get_row_eval:
  "get_row key n [] = None"
  "get_row key n (x # xs) = (if key x = n then Some x else get_row key n xs)"
  by (simp_all add: get_row_def)

lemma upd_row_eval:
  "upd_row key n f [] = []"
  "upd_row key n f (x # xs) = (if key x = n then f x # upd_row key n f xs else x # upd_row key n f xs)"
  by (simp_all add: upd_row_def update_where_def)

lemma relations_eval:
  "n \<in> set (relations (catalog_ext ex tys tbls ixs vs mr)) \<longleftrightarrow>
     (if n \<in> set (concat (map table_relations tbls)) then True
      else if n \<in> ix_name ` set ixs then True else n \<in> v_name ` set vs)"
  "n \<in> set (concat (map table_relations [])) \<longleftrightarrow> False"
  "n \<in> set (concat (map table_relations (table_ext t cols cons m # tbs))) \<longleftrightarrow>
     (if t = n then True else if n \<in> con_name ` set (filter is_key cons) then True
      else n \<in> set (concat (map table_relations tbs)))"
  by (auto simp: relations_def table_relations_def table_keys_def)

lemma constraints_eval:
  "concat (map (column_constraints t) []) = []"
  "concat (map (column_constraints t) (c # cs)) = column_constraints t c @ concat (map (column_constraints t) cs)"
  by simp_all

lemma distinct_eval:
  "distinct (map def_name []) \<longleftrightarrow> True"
  "distinct (map def_name (c # cs)) \<longleftrightarrow>
     (if def_name c \<in> set (map def_name cs) then False else distinct (map def_name cs))"
  by simp_all

lemma list_all_types_eval:
  "list_all (type_known s) (map (c_type \<circ> column_of) []) \<longleftrightarrow> True"
  "list_all (type_known s) (map (c_type \<circ> column_of) (c # cs)) \<longleftrightarrow>
     (if type_known s (c_type (column_of c)) then list_all (type_known s) (map (c_type \<circ> column_of) cs) else False)"
  by simp_all

lemma list_ex_eval:
  "list_ex P [] \<longleftrightarrow> False"
  "list_ex P (x # xs) \<longleftrightarrow> (if P x then True else list_ex P xs)"
  by simp_all

lemma letter_eval:
  "(x :: char) \<in> set [] \<longleftrightarrow> False"
  "(x :: char) \<in> set (y # ys) \<longleftrightarrow> (if y = x then True else x \<in> set ys)"
  by auto

lemma map_column_eval:
  "map column_of [] = []"
  "map column_of (c # cs) = column_of c # map column_of cs"
  by simp_all

lemma column_eval:
  "c_name (column_of (Column n ty nl args)) = n"
  "c_type (column_of (Column n ty nl args)) = ty"
  "c_nullable (column_of (Column n ty Null args)) = True"
  "c_nullable (column_of (Column n ty NotNull args)) = False"
  "(c_default (column_of (Column n ty nl [])) = None) = True"
  "(c_default (column_of (Column n ty nl (ServerDefault x # args))) = None) = False"
  "(c_default (column_of (Column n ty nl (PrimaryKey # args))) = None) =
     (c_default (column_of (Column n ty nl args)) = None)"
  "(c_default (column_of (Column n ty nl (Fk a b c d # args))) = None) =
     (c_default (column_of (Column n ty nl args)) = None)"
  by simp_all

lemma argument_eval:
  "arg_constraint t c PrimaryKey = Some (Primary (t @ ''_pkey'') [c])"
  "arg_constraint t c (Fk (Some n) rt rc od) = Some (Foreign n [c] rt [rc] od)"
  "arg_constraint t c (Fk None rt rc od) = Some (Foreign (t @ ''_'' @ c @ ''_fkey'') [c] rt [rc] od)"
  "arg_constraint t c (ServerDefault x) = None"
  "arg_constraint t c UniqueColumn = Some (Unique (t @ ''_'' @ c @ ''_key'') [c])"
  "arg_constraint t c Indexed = None"
  by simp_all

lemma type_known_eval:
  "type_known s TUuid = True" "type_known s TText = True" "type_known s (TVarchar k) = True"
  "type_known s TInteger = True" "type_known s TBigInt = True" "type_known s TBoolean = True"
  "type_known s TTimestamptz = True" "type_known s TDouble = True" "type_known s TBytea = True"
  "type_known s TJsonb = True"
  "type_known s TCitext = (''citext'' \<in> set (cat_extensions s))"
  "type_known s (TEnum n) = (n \<in> set (map fst (cat_types s)))"
  by (simp_all add: type_known_def)

lemma catalog_eval:
  "x \<in> set (cat_extensions (catalog_ext ex tys tbls ixs vs mr)) \<longleftrightarrow> x \<in> set ex"
  "x \<in> set (map fst (cat_types (catalog_ext ex tys tbls ixs vs mr))) \<longleftrightarrow> x \<in> set (map fst tys)"
  by simp_all

lemma logic_eval:
  "(\<not> True) = False" "(\<not> False) = True" "(True \<and> P) = P" "(False \<and> P) = False"
  "(True \<or> P) = True" "(False \<or> P) = P" "(P \<and> True) = P" "(P \<or> False) = P"
  by simp_all

text \<open>What the evaluation does not look into until a rule asks for it.\<close>

lemma ddl_opaque:
  "Column a b c d = Column a b c d"
  "Primary e f = Primary e f"
  "Unique e f = Unique e f"
  "Check e e' = Check e e'"
  "Foreign i j k l m = Foreign i j k l m"
  "index_ext n p q r t u = index_ext n p q r t u"
  "column_ext n' p' q' r' u' = column_ext n' p' q' r' u'"
  "table_ext t' t1 t2 t3 = table_ext t' t1 t2 t3"
  "view_ext v v1 v2 v3 v4 = view_ext v v1 v2 v3 v4"
  "(x, y) = (x, y)"
  "(z = w) = (z = w)"
  "(z \<in> A) = (z \<in> A)"
  "(B \<subseteq> C) = (B \<subseteq> C)"
  by (rule refl)+

lemma ddl_context:
  "s = s' \<Longrightarrow> run_ddl qs s = run_ddl qs s'"
  "s = s' \<Longrightarrow> apply_ddl q s = apply_ddl q s'"
  by simp_all

lemma run_unfold: "xs = ys \<Longrightarrow> run_ddl xs s = run_ddl ys s"
  by simp

lemmas ddl_cong = ddl_opaque ddl_context if_weak_cong sum.case_cong_weak option.case_cong_weak
  sql_type.case_cong_weak constr.case_cong_weak column_arg.case_cong_weak

lemmas ddl_eval = string_eq_eval char_eq_eval append_eq_eval name_eq_eval strings_eq_eval member_eval letter_eval
  subset_eval get_row_eval upd_row_eval relations_eval constraints_eval distinct_eval
  list_all_types_eval list_ex_eval map_column_eval column_eval argument_eval type_known_eval
  catalog_eval logic_eval run_append
  apply_ddl.simps run_ddl.simps create_table_def drop_table_def add_column_def drop_column_def
  add_constraint_def drop_constraint_def create_index_def create_view_def add_constraints.simps
  constraint_error_def con_name.simps con_columns.simps con_uses.simps is_key.simps
  target_exists.simps key_exists_def table_keys_def set_table_def relation_columns_def
  column_names_def def_name.simps column_constraints.simps without_column_def index_uses_def
  mentions_def mentioned.simps word_char_def referred_def refers_to_def uses_type_def
  if_True if_False option.case sum.case sql_type.case constr.case column_arg.case
  catalog.simps table.simps view.simps index.simps map_filter_simps filter.simps append.simps
  rev.simps fst_conv snd_conv option.map option.distinct Let_def

end
