(* ===== verification/Ddl_Invariant.thy ===== *)
theory Ddl_Invariant
  imports Ddl
begin

text \<open>
  The consistency of a catalogue and its preservation by every operation: relations have names of
  their own, columns have known types, keys, indexes and views have their columns, and a foreign
  key refers to a key that exists.
\<close>

section \<open>Consistency\<close>

definition table_ok :: "catalog \<Rightarrow> table \<Rightarrow> bool" where
  "table_ok s tb \<longleftrightarrow> distinct (column_names tb) \<and> distinct (map con_name (t_constraints tb)) \<and>
     (\<forall>c \<in> set (t_columns tb). type_known s (c_type c)) \<and>
     (\<forall>c \<in> set (t_constraints tb). set (con_columns c) \<subseteq> set (column_names tb) \<and>
        target_exists (cat_tables s) c)"

definition index_ok :: "catalog \<Rightarrow> index \<Rightarrow> bool" where
  "index_ok s i \<longleftrightarrow> (case relation_columns s (ix_table i) of
     None \<Rightarrow> False | Some cs \<Rightarrow> set (ix_columns i) \<subseteq> set cs)"

definition view_ok :: "catalog \<Rightarrow> view \<Rightarrow> bool" where
  "view_ok s v \<longleftrightarrow> (case find_table (v_table v) (cat_tables s) of
     None \<Rightarrow> False | Some tb \<Rightarrow> set (v_uses v) \<subseteq> set (column_names tb))"

definition catalog_ok :: "catalog \<Rightarrow> bool" where
  "catalog_ok s \<longleftrightarrow> distinct (relations s) \<and> (\<forall>tb \<in> set (cat_tables s). table_ok s tb) \<and>
     (\<forall>i \<in> set (cat_indexes s). index_ok s i) \<and> (\<forall>v \<in> set (cat_views s). view_ok s v)"

lemma empty_catalog_ok: "catalog_ok empty_catalog"
  by (simp add: catalog_ok_def relations_def empty_catalog_def)

lemma catalog_okD:
  assumes "catalog_ok s"
  shows "distinct (relations s)"
    and "tb \<in> set (cat_tables s) \<Longrightarrow> table_ok s tb"
    and "i \<in> set (cat_indexes s) \<Longrightarrow> index_ok s i"
    and "v \<in> set (cat_views s) \<Longrightarrow> view_ok s v"
  using assms by (simp_all add: catalog_ok_def)

section \<open>Names\<close>

lemma table_names_distinct:
  assumes "distinct (relations s)"
  shows "distinct (map t_name (cat_tables s))"
proof -
  have "distinct (concat (map table_relations tbs)) \<Longrightarrow> distinct (map t_name tbs)" for tbs
    by (induction tbs) (auto simp: table_relations_def)
  with assms show ?thesis by (simp add: relations_def)
qed

lemma in_relations:
  "tb \<in> set (cat_tables s) \<Longrightarrow> t_name tb \<in> set (relations s)"
  "i \<in> set (cat_indexes s) \<Longrightarrow> ix_name i \<in> set (relations s)"
  "v \<in> set (cat_views s) \<Longrightarrow> v_name v \<in> set (relations s)"
  by (auto simp: relations_def table_relations_def)

lemma find_table_in_relations: "find_table t (cat_tables s) = Some tb \<Longrightarrow> t \<in> set (relations s)"
  using get_row_SomeD [of t_name t "cat_tables s" tb] in_relations(1) [of tb s] by simp

lemma upd_row_absent: "k \<notin> key ` set rows \<Longrightarrow> upd_row key k f rows = rows"
  by (induction rows) auto

lemma distinct_replace:
  "distinct (as @ bs @ cs) \<Longrightarrow> distinct bs' \<Longrightarrow> set bs' \<inter> (set (as @ bs @ cs) - set bs) = {} \<Longrightarrow>
   distinct (as @ bs' @ cs)"
  by auto

lemma find_table_split:
  assumes "find_table t tbs = Some tb" and "distinct (map t_name tbs)"
  obtains xs ys where "tbs = xs @ tb # ys" and "t_name tb = t" and "t \<notin> t_name ` set (xs @ ys)"
    and "\<And>f. upd_row t_name t f tbs = xs @ f tb # ys"
proof -
  have tb: "tb \<in> set tbs" "t_name tb = t" using get_row_SomeD [OF assms(1)] by simp_all
  then obtain xs ys where split: "tbs = xs @ tb # ys" by (meson split_list)
  then have other: "t \<notin> t_name ` set (xs @ ys)" using assms(2) tb by auto
  then have "upd_row t_name t f xs = xs" "upd_row t_name t f ys = ys" for f
    by (auto intro: upd_row_absent)
  then have "upd_row t_name t f tbs = xs @ f tb # ys" for f
    unfolding split using tb(2) by (simp add: upd_row_def update_where_def)
  with that split tb other show thesis by blast
qed

lemma relation_columns_taken: "relation_columns s r = Some cs \<Longrightarrow> r \<in> set (relations s)"
  using find_table_in_relations [of r s] in_relations(3) get_row_SomeD [of v_name r "cat_views s"]
  by (force simp: relation_columns_def split: option.splits)

lemma type_known_updates [simp]:
  "type_known (s\<lparr>cat_tables := tbls\<rparr>) = type_known s"
  "type_known (s\<lparr>cat_indexes := ixs\<rparr>) = type_known s"
  "type_known (s\<lparr>cat_views := vs\<rparr>) = type_known s"
  by (simp_all add: type_known_def fun_eq_iff split: sql_type.split)

section \<open>Replacing a table\<close>

lemma find_table_other:
  "n \<noteq> t_name tb \<Longrightarrow> t_name tb' = t_name tb \<Longrightarrow>
   find_table n (xs @ tb' # ys) = find_table n (xs @ tb # ys)"
  by (simp add: get_row_append split: option.split)

lemma find_table_here:
  assumes "t_name tb \<notin> t_name ` set xs"
  shows "find_table (t_name tb) (xs @ tb # ys) = Some tb"
proof -
  from assms have "find_table (t_name tb) xs = None" by (simp add: get_row_None_iff)
  then show ?thesis by (simp add: get_row_append)
qed

lemma replace_table_ok:
  assumes ok: "catalog_ok s" and tabs: "cat_tables s = xs @ tb # ys"
    and name: "t_name tb' = t_name tb"
    and rel: "distinct (table_relations tb')"
      "set (table_relations tb') \<inter> (set (relations s) - set (table_relations tb)) = {}"
    and tb': "table_ok (s\<lparr>cat_tables := xs @ tb' # ys\<rparr>) tb'"
    and keys: "\<And>rs. rs \<in> con_columns ` set (table_keys tb) \<Longrightarrow>
      referred (t_name tb) (\<lambda>rs'. rs' = rs) (xs @ ys) \<Longrightarrow> rs \<in> con_columns ` set (table_keys tb')"
    and idx: "\<And>i. i \<in> set (cat_indexes s) \<Longrightarrow> ix_table i = t_name tb \<Longrightarrow>
      set (ix_columns i) \<subseteq> set (column_names tb')"
    and vws: "\<And>v. v \<in> set (cat_views s) \<Longrightarrow> v_table v = t_name tb \<Longrightarrow>
      set (v_uses v) \<subseteq> set (column_names tb')"
  shows "catalog_ok (s\<lparr>cat_tables := xs @ tb' # ys\<rparr>)" (is "catalog_ok ?s")
proof -
  note okD = catalog_okD [OF ok]
  have names: "distinct (map t_name (xs @ tb # ys))"
    using table_names_distinct [OF okD(1)] by (simp add: tabs)
  then have fresh: "t_name tb \<notin> t_name ` set xs" "t_name tb \<notin> t_name ` set ys" by auto
  note find_other = find_table_other [OF _ name, of _ xs ys]
  have find_here: "find_table (t_name tb) (xs @ tb # ys) = Some tb"
      "find_table (t_name tb) (xs @ tb' # ys) = Some tb'"
    using find_table_here [of tb xs ys] find_table_here [of tb' xs ys] fresh name by simp_all
  have "distinct (relations ?s)"
    using distinct_replace [of "concat (map table_relations xs)" "table_relations tb"
        "concat (map table_relations ys) @ map ix_name (cat_indexes s) @ map v_name (cat_views s)"
        "table_relations tb'"] okD(1) rel by (simp add: relations_def tabs)
  moreover have "table_ok ?s r" if r: "r \<in> set (xs @ ys)" for r
  proof -
    have old: "table_ok s r" using okD(2) r by (auto simp: tabs)
    have "target_exists (cat_tables ?s) c" if c: "c \<in> set (t_constraints r)" for c
    proof -
      have was: "target_exists (xs @ tb # ys) c" using old c by (simp add: table_ok_def tabs)
      show ?thesis
      proof (cases c)
        case (Foreign n cs t rs od)
        have "referred t (\<lambda>rs'. rs' = rs) (xs @ ys)"
          using r c by (force simp: referred_def list_ex_iff refers_to_def Foreign)
        with was keys [of rs] show ?thesis
          using find_other [of t] find_here by (cases "t = t_name tb") (simp_all add: Foreign key_exists_def)
      qed simp_all
    qed
    with old show ?thesis by (simp add: table_ok_def)
  qed
  moreover have "index_ok ?s i" if i: "i \<in> set (cat_indexes s)" for i
  proof -
    have "index_ok s i" using okD(3) i .
    with idx [OF i] show ?thesis
      using find_other [of "ix_table i"] find_here
      by (cases "ix_table i = t_name tb") (auto simp: index_ok_def relation_columns_def tabs split: option.splits)
  qed
  moreover have "view_ok ?s v" if v: "v \<in> set (cat_views s)" for v
  proof -
    have "view_ok s v" using okD(4) v .
    with vws [OF v] show ?thesis
      using find_other [of "v_table v"] find_here
      by (cases "v_table v = t_name tb") (auto simp: view_ok_def tabs split: option.splits)
  qed
  ultimately show ?thesis using tb' by (auto simp: catalog_ok_def)
qed

section \<open>Shrinking and growing a table\<close>

lemma table_relations_of:
  assumes "tb \<in> set (cat_tables s)"
  shows "set (table_relations tb) \<subseteq> set (relations s)"
  using assms by (auto simp: relations_def)

lemma distinct_table_relations:
  assumes "distinct (relations s)" and "tb \<in> set (cat_tables s)"
  shows "distinct (table_relations tb)"
proof -
  have "distinct (concat (map table_relations tbs)) \<Longrightarrow> tb \<in> set tbs \<Longrightarrow> distinct (table_relations tb)" for tbs
    by (induction tbs) auto
  from this [of "cat_tables s"] assms show ?thesis by (simp add: relations_def)
qed

lemma target_exists_mono:
  assumes "target_exists tbs c"
    and "\<And>t tb. find_table t tbs = Some tb \<Longrightarrow>
      \<exists>tb'. find_table t tbs' = Some tb' \<and> con_columns ` set (table_keys tb) \<subseteq> con_columns ` set (table_keys tb')"
  shows "target_exists tbs' c"
proof (cases c)
  case (Foreign n cs t rs od)
  with assms(1) obtain tb where "find_table t tbs = Some tb" "rs \<in> con_columns ` set (table_keys tb)"
    by (auto simp: key_exists_def split: option.splits)
  with assms(2) [of t tb] show ?thesis by (auto simp: Foreign key_exists_def)
qed simp_all

lemma replaced_target:
  assumes "target_exists (xs @ tb # ys) c" and "t_name tb' = t_name tb" and "t_name tb \<notin> t_name ` set xs"
    and "\<And>n cs rs od. c = Foreign n cs (t_name tb) rs od \<Longrightarrow>
      rs \<in> con_columns ` set (table_keys tb) \<Longrightarrow> rs \<in> con_columns ` set (table_keys tb')"
  shows "target_exists (xs @ tb' # ys) c"
proof (cases c)
  case (Foreign n cs t rs od)
  show ?thesis
  proof (cases "t = t_name tb")
    case True
    with assms Foreign show ?thesis
      using find_table_here [of tb xs ys] find_table_here [of tb' xs ys] by (simp add: key_exists_def)
  next
    case False
    then have "find_table t (xs @ tb' # ys) = find_table t (xs @ tb # ys)"
      using assms(2) by (rule find_table_other)
    with assms(1) Foreign show ?thesis by (simp add: key_exists_def)
  qed
qed simp_all

lemma shrink_table_ok:
  assumes ok: "catalog_ok s" and tab: "find_table t (cat_tables s) = Some tb"
    and tb': "t_name (f tb) = t" "t_columns (f tb) = filter p (t_columns tb)"
      "t_constraints (f tb) = filter q (t_constraints tb)"
    and cols: "\<And>c. c \<in> set (t_constraints tb) \<Longrightarrow> q c \<Longrightarrow> set (con_columns c) \<subseteq> set (column_names (f tb))"
    and keys: "\<And>c. c \<in> set (table_keys tb) \<Longrightarrow> \<not> q c \<Longrightarrow>
      \<not> referred t (\<lambda>rs. rs = con_columns c) (cat_tables s)"
    and idx: "\<And>i. i \<in> set (cat_indexes s) \<Longrightarrow> ix_table i = t \<Longrightarrow>
      set (ix_columns i) \<subseteq> set (column_names (f tb))"
    and vws: "\<And>v. v \<in> set (cat_views s) \<Longrightarrow> v_table v = t \<Longrightarrow>
      set (v_uses v) \<subseteq> set (column_names (f tb))"
  shows "catalog_ok (set_table t f s)"
proof -
  note okD = catalog_okD [OF ok]
  obtain xs ys where split: "cat_tables s = xs @ tb # ys" and name: "t_name tb = t"
      and new: "t \<notin> t_name ` set (xs @ ys)"
      and upd: "\<And>g. upd_row t_name t g (cat_tables s) = xs @ g tb # ys"
    using find_table_split [OF tab table_names_distinct [OF okD(1)]] by metis
  have old: "table_ok s tb" using okD(2) split by simp
  have kept: "table_keys (f tb) = filter q (table_keys tb)"
    by (simp add: table_keys_def tb' conj_commute)
  have stays: "rs \<in> con_columns ` set (table_keys (f tb))"
    if "rs \<in> con_columns ` set (table_keys tb)" and "referred t (\<lambda>rs'. rs' = rs) (cat_tables s)" for rs
    using that keys kept by auto
  have reach: "referred t (\<lambda>rs'. rs' = rs) (cat_tables s)"
    if "c \<in> set (t_constraints r)" "r \<in> set (cat_tables s)" "c = Foreign n cs t rs od" for c r n cs rs od
    using that by (force simp: referred_def list_ex_iff refers_to_def)
  have "catalog_ok (s\<lparr>cat_tables := xs @ f tb # ys\<rparr>)"
  proof (rule replace_table_ok [OF ok split])
    have sub: "set (table_relations (f tb)) \<subseteq> set (table_relations tb)"
      using tb' name kept by (auto simp: table_relations_def)
    show "distinct (table_relations (f tb))"
      using distinct_table_relations [OF okD(1), of tb] split tb' name kept
      by (auto simp: table_relations_def distinct_map_filter)
    show "set (table_relations (f tb)) \<inter> (set (relations s) - set (table_relations tb)) = {}"
      using sub by blast
    show "table_ok (s\<lparr>cat_tables := xs @ f tb # ys\<rparr>) (f tb)"
    proof -
      have "target_exists (xs @ f tb # ys) c" if c: "c \<in> set (t_constraints (f tb))" for c
      proof (rule replaced_target [of xs tb ys])
        show "target_exists (xs @ tb # ys) c" using old c split tb' by (simp add: table_ok_def)
      qed (use c stays reach split tb' name new in auto)
      with old cols show ?thesis
        by (auto simp: table_ok_def tb' column_names_def distinct_map_filter)
    qed
  next
    fix rs assume "rs \<in> con_columns ` set (table_keys tb)"
      and "referred (t_name tb) (\<lambda>rs'. rs' = rs) (xs @ ys)"
    then show "rs \<in> con_columns ` set (table_keys (f tb))"
      by (intro stays) (auto simp: referred_def split name)
  qed (use tb' name idx vws in auto)
  then show ?thesis by (simp add: set_table_def upd)
qed

lemma add_constraints_Inr:
  assumes "add_constraints s cs tb = Inr tb'"
  shows "t_name tb' = t_name tb" and "t_columns tb' = t_columns tb"
    and "t_constraints tb' = t_constraints tb @ cs"
    and "distinct (map con_name (t_constraints tb)) \<Longrightarrow> distinct (map con_name (t_constraints tb'))"
    and "c \<in> set cs \<Longrightarrow> is_key c \<Longrightarrow> con_name c \<noteq> t_name tb \<and> con_name c \<notin> set (relations s)"
    and "c \<in> set cs \<Longrightarrow> set (con_columns c) \<subseteq> set (column_names tb')"
    and "c \<in> set cs \<Longrightarrow> target_exists (tb' # cat_tables s) c"
proof -
  have "t_name tb' = t_name tb \<and> t_columns tb' = t_columns tb \<and> t_constraints tb' = t_constraints tb @ cs \<and>
    (distinct (map con_name (t_constraints tb)) \<longrightarrow> distinct (map con_name (t_constraints tb'))) \<and>
    (\<forall>c \<in> set cs. (is_key c \<longrightarrow> con_name c \<noteq> t_name tb \<and> con_name c \<notin> set (relations s)) \<and>
       set (con_columns c) \<subseteq> set (column_names tb') \<and> target_exists (tb' # cat_tables s) c)"
    using assms
  proof (induction s cs tb rule: add_constraints.induct)
    case (2 s c cs tb)
    then have none: "constraint_error s tb c = None"
        and rest: "add_constraints s cs (tb\<lparr>t_constraints := t_constraints tb @ [c]\<rparr>) = Inr tb'"
      by (auto split: option.splits)
    note IH = "2.IH" [OF none rest]
    have "target_exists (tb' # cat_tables s) c"
    proof (rule target_exists_mono)
      show "target_exists (tb # cat_tables s) c"
        using none by (auto simp: constraint_error_def split: if_splits)
    qed (use IH in \<open>auto simp: table_keys_def split: if_splits\<close>)
    with none IH show ?case
      by (auto simp: constraint_error_def column_names_def split: if_splits)
  qed simp
  then show "t_name tb' = t_name tb" and "t_columns tb' = t_columns tb"
    and "t_constraints tb' = t_constraints tb @ cs"
    and "distinct (map con_name (t_constraints tb)) \<Longrightarrow> distinct (map con_name (t_constraints tb'))"
    and "c \<in> set cs \<Longrightarrow> is_key c \<Longrightarrow> con_name c \<noteq> t_name tb \<and> con_name c \<notin> set (relations s)"
    and "c \<in> set cs \<Longrightarrow> set (con_columns c) \<subseteq> set (column_names tb')"
    and "c \<in> set cs \<Longrightarrow> target_exists (tb' # cat_tables s) c"
    by blast+
qed

lemma added_relations:
  assumes "add_constraints s cs tb = Inr tb'"
  shows "set (table_relations tb') \<subseteq> set (table_relations tb) \<union> - set (relations s)"
    and "distinct (table_relations tb) \<Longrightarrow> distinct (map con_name (t_constraints tb)) \<Longrightarrow>
      distinct (table_relations tb')"
proof -
  note new = add_constraints_Inr [OF assms]
  show "set (table_relations tb') \<subseteq> set (table_relations tb) \<union> - set (relations s)"
    using new(1,3,5) by (auto simp: table_relations_def table_keys_def)
  assume "distinct (table_relations tb)" and "distinct (map con_name (t_constraints tb))"
  with new(4) have "distinct (map con_name (table_keys tb'))"
    by (simp add: table_keys_def distinct_map_filter)
  moreover have "t_name tb' \<notin> con_name ` set (table_keys tb')"
  proof -
    have "con_name c \<noteq> t_name tb" if "c \<in> set (table_keys tb')" for c
      using that new(3) new(5) [of c] \<open>distinct (table_relations tb)\<close>
      by (cases "c \<in> set cs") (force simp: table_relations_def table_keys_def)+
    then show ?thesis using new(1) by force
  qed
  ultimately show "distinct (table_relations tb')" by (simp add: table_relations_def)
qed

lemma grow_table_ok:
  assumes ok: "catalog_ok s" and tab: "find_table t (cat_tables s) = Some tb"
    and cols: "distinct (map c_name (t_columns tb @ new))"
      "\<forall>c \<in> set new. type_known s (c_type c)"
    and add: "add_constraints s cs (tb\<lparr>t_columns := t_columns tb @ new\<rparr>) = Inr tb'"
  shows "catalog_ok (set_table t (\<lambda>_. tb') s)"
proof -
  note okD = catalog_okD [OF ok]
  obtain xs ys where split: "cat_tables s = xs @ tb # ys" and name: "t_name tb = t"
      and fresh: "t \<notin> t_name ` set (xs @ ys)"
      and upd: "\<And>g. upd_row t_name t g (cat_tables s) = xs @ g tb # ys"
    using find_table_split [OF tab table_names_distinct [OF okD(1)]] by metis
  note added = add_constraints_Inr [OF add, simplified] and rels = added_relations [OF add]
  have old: "table_ok s tb" using okD(2) split by simp
  have names: "set (column_names tb) \<subseteq> set (column_names tb')"
    using added(2) by (simp add: column_names_def)
  have keys: "con_columns ` set (table_keys tb) \<subseteq> con_columns ` set (table_keys tb')"
    using added(3) by (auto simp: table_keys_def)
  have same: "table_relations (tb\<lparr>t_columns := t_columns tb @ new\<rparr>) = table_relations tb"
    by (simp add: table_relations_def table_keys_def)
  have "catalog_ok (s\<lparr>cat_tables := xs @ tb' # ys\<rparr>)"
  proof (rule replace_table_ok [OF ok split added(1)])
    show "distinct (table_relations tb')"
      using rels(2) same old distinct_table_relations [OF okD(1), of tb] split by (simp add: table_ok_def)
    show "set (table_relations tb') \<inter> (set (relations s) - set (table_relations tb)) = {}"
      using rels(1) same by auto
    show "table_ok (s\<lparr>cat_tables := xs @ tb' # ys\<rparr>) tb'"
    proof -
      have here: "find_table t (tb' # xs @ tb # ys) = find_table t (xs @ tb' # ys)"
        using find_table_here [of tb' xs ys, symmetric] added(1) name fresh by auto
      have there: "find_table n (tb' # xs @ tb # ys) = find_table n (xs @ tb' # ys)" if "n \<noteq> t" for n
        using find_table_other [of n tb tb' xs ys] added(1) name that by simp
      have "target_exists (xs @ tb' # ys) c" if "c \<in> set (t_constraints tb')" for c
      proof (cases "c \<in> set cs")
        case True
        have "target_exists (tb' # xs @ tb # ys) c" using added(7) [OF True] split by simp
        moreover have "find_table n (tb' # xs @ tb # ys) = find_table n (xs @ tb' # ys)" for n
          using here there by (cases "n = t") simp_all
        ultimately show ?thesis by (cases c) (simp_all add: key_exists_def del: get_row_simps)
      next
        case False
        with that added(3) old split have "target_exists (xs @ tb # ys) c" by (simp add: table_ok_def)
        then show ?thesis
          by (rule replaced_target) (use added(1) name fresh keys in auto)
      qed
      moreover have "set (con_columns c) \<subseteq> set (column_names tb')" if "c \<in> set (t_constraints tb')" for c
        using that added(3) added(6) [of c] old names
        by (cases "c \<in> set cs") (auto simp: table_ok_def dest!: bspec)
      moreover have "distinct (column_names tb')"
        using cols(1) added(2) by (simp add: column_names_def)
      ultimately show ?thesis
        using old cols(2) added(2,4) by (auto simp: table_ok_def)
    qed
  next
    fix i assume i: "i \<in> set (cat_indexes s)" "ix_table i = t_name tb"
    with okD(3) [OF i(1)] tab names name show "set (ix_columns i) \<subseteq> set (column_names tb')"
      by (auto simp: index_ok_def relation_columns_def)
  next
    fix v assume v: "v \<in> set (cat_views s)" "v_table v = t_name tb"
    with okD(4) [OF v(1)] tab names name show "set (v_uses v) \<subseteq> set (column_names tb')"
      by (auto simp: view_ok_def)
  qed (use keys in auto)
  then show ?thesis by (simp add: set_table_def upd)
qed

section \<open>The operations\<close>

lemma create_table_keeps:
  assumes ok: "catalog_ok s" and run: "create_table t cols cons s = Inr s'"
  shows "catalog_ok s'"
proof -
  note okD = catalog_okD [OF ok]
  define tb where "tb = \<lparr>t_name = t, t_columns = map column_of cols, t_constraints = []\<rparr>"
  obtain tb' where new: "t \<notin> set (relations s)" "distinct (map def_name cols)"
      "list_all (type_known s) (map (c_type \<circ> column_of) cols)"
      and add: "add_constraints s (concat (map (column_constraints t) cols) @ cons) tb = Inr tb'"
      and s': "s' = s\<lparr>cat_tables := cat_tables s @ [tb']\<rparr>"
    using run by (auto simp: create_table_def tb_def split: if_splits sum.splits)
  note added = add_constraints_Inr [OF add] and rels = added_relations [OF add]
  have tb: "table_relations tb = [t]" "t_constraints tb = []" "t_name tb = t"
    by (simp_all add: tb_def table_relations_def table_keys_def)
  have names: "map c_name (t_columns tb) = map def_name cols"
    by (simp add: tb_def) (metis column.select_convs(1) column_def.exhaust column_of.simps def_name.simps)
  have fresh: "find_table t (cat_tables s) = None"
    using new(1) in_relations(1) [of _ s] by (auto simp: get_row_None_iff)
  have find: "find_table n (cat_tables s @ [tb']) = find_table n (tb' # cat_tables s)" for n
    using fresh added(1) tb(3) by (auto simp: get_row_append split: option.split)
  have cols': "relation_columns s' n = Some cs" if "relation_columns s n = Some cs" for n cs
    using that relation_columns_taken [OF that] new(1) find added(1) tb(3)
    by (auto simp: relation_columns_def s' get_row_append split: option.splits)
  have "distinct (relations s')"
  proof -
    have "distinct (table_relations tb')" using rels(2) tb by simp
    moreover have "set (table_relations tb') \<inter> set (relations s) = {}"
      using rels(1) tb(1) new(1) by auto
    ultimately show ?thesis using okD(1) by (auto simp: relations_def s')
  qed
  moreover have known: "type_known s' = type_known s" by (simp add: s')
  have "table_ok s' tb'"
  proof -
    have "target_exists (cat_tables s') c" if "c \<in> set (t_constraints tb')" for c
      using added(7) [of c] that find tb(2) added(3) by (cases c) (simp_all add: s' key_exists_def)
    moreover have "distinct (column_names tb')"
      using new(2) names added(2) by (simp add: column_names_def)
    moreover have "\<forall>c \<in> set (t_columns tb'). type_known s (c_type c)"
      using new(3) added(2) by (auto simp: tb_def list_all_iff)
    ultimately show ?thesis
      using added(3,4,6) tb(2) known by (auto simp: table_ok_def)
  qed
  moreover have "table_ok s' r" if "r \<in> set (cat_tables s)" for r
  proof -
    have "target_exists (cat_tables s') c" if "target_exists (cat_tables s) c" for c
      using that by (rule target_exists_mono) (auto simp: s' get_row_append)
    with okD(2) [OF that] known show ?thesis by (auto simp: table_ok_def)
  qed
  moreover have "index_ok s' i" if "i \<in> set (cat_indexes s')" for i
    using that okD(3) [of i] cols' by (auto simp: s' index_ok_def split: option.splits)
  moreover have "view_ok s' v" if "v \<in> set (cat_views s')" for v
    using that okD(4) [of v] by (auto simp: s' view_ok_def get_row_append split: option.splits)
  ultimately show ?thesis by (auto simp: catalog_ok_def s')
qed

lemma distinct_concat_filter: "distinct (concat (map f xs)) \<Longrightarrow> distinct (concat (map f (filter p xs)))"
  by (induction xs) auto

lemma find_table_others: "n \<noteq> t \<Longrightarrow> find_table n (filter (\<lambda>tb. t_name tb \<noteq> t) tbs) = find_table n tbs"
  by (induction tbs) auto

lemma drop_table_keeps:
  assumes ok: "catalog_ok s" and run: "drop_table t s = Inr s'"
  shows "catalog_ok s'"
proof -
  note okD = catalog_okD [OF ok]
  define rest where "rest = filter (\<lambda>tb. t_name tb \<noteq> t) (cat_tables s)"
  have free: "\<not> referred t (\<lambda>_. True) rest" "\<not> list_ex (\<lambda>v. v_table v = t) (cat_views s)"
    and s': "s' = s\<lparr>cat_tables := rest, cat_indexes := filter (\<lambda>i. ix_table i \<noteq> t) (cat_indexes s)\<rparr>"
    using run by (auto simp: drop_table_def Let_def rest_def split: if_splits)
  have "distinct (relations s')"
    using okD(1) distinct_concat_filter [of table_relations "cat_tables s"]
    by (auto simp: relations_def s' rest_def distinct_map_filter)
  moreover have "table_ok s' r" if r: "r \<in> set (cat_tables s')" for r
  proof -
    have old: "table_ok s r" using r okD(2) by (simp add: s' rest_def)
    have "target_exists rest c" if c: "c \<in> set (t_constraints r)" for c
    proof (cases c)
      case (Foreign n cs t' rs od)
      have "referred t' (\<lambda>_. True) rest"
        using r c by (force simp: referred_def list_ex_iff refers_to_def Foreign s')
      with free(1) have "t' \<noteq> t" by auto
      with old c show ?thesis
        by (auto simp: table_ok_def Foreign key_exists_def find_table_others rest_def)
    qed simp_all
    with old show ?thesis by (simp add: table_ok_def s')
  qed
  moreover have "index_ok s' i" if "i \<in> set (cat_indexes s')" for i
    using that okD(3) [of i]
    by (auto simp: s' index_ok_def relation_columns_def find_table_others rest_def split: option.splits)
  moreover have "view_ok s' v" if "v \<in> set (cat_views s')" for v
    using that okD(4) [of v] free(2)
    by (auto simp: s' view_ok_def find_table_others rest_def list_ex_iff split: option.splits)
  ultimately show ?thesis by (simp add: catalog_ok_def)
qed

lemma add_column_keeps:
  assumes ok: "catalog_ok s" and run: "add_column t c s = Inr s'"
  shows "catalog_ok s'"
proof -
  obtain tb tb' where tab: "find_table t (cat_tables s) = Some tb"
      and new: "def_name c \<notin> set (column_names tb)" "type_known s (c_type (column_of c))"
      and add: "add_constraints s (column_constraints t c) (tb\<lparr>t_columns := t_columns tb @ [column_of c]\<rparr>) = Inr tb'"
      and s': "s' = set_table t (\<lambda>_. tb') s"
    using run by (auto simp: add_column_def split: option.splits if_splits sum.splits)
  have "table_ok s tb" using catalog_okD(2) [OF ok] get_row_SomeD(1) [OF tab] .
  moreover have "c_name (column_of c) = def_name c" by (cases c) simp
  ultimately show ?thesis
    unfolding s' using new by (intro grow_table_ok [OF ok tab _ _ add]) (auto simp: table_ok_def column_names_def)
qed

lemma add_constraint_keeps:
  assumes ok: "catalog_ok s" and run: "add_constraint t c s = Inr s'"
  shows "catalog_ok s'"
proof -
  obtain tb tb' where tab: "find_table t (cat_tables s) = Some tb"
      and add: "add_constraints s [c] tb = Inr tb'" and s': "s' = set_table t (\<lambda>_. tb') s"
    using run by (auto simp: add_constraint_def simp del: add_constraints.simps split: option.splits sum.splits)
  have "table_ok s tb" using catalog_okD(2) [OF ok] get_row_SomeD(1) [OF tab] .
  then show ?thesis
    unfolding s' using add
    by (intro grow_table_ok [OF ok tab, where new = "[]" and cs = "[c]"])
      (auto simp: table_ok_def column_names_def simp del: add_constraints.simps)
qed

lemma drop_constraint_keeps:
  assumes ok: "catalog_ok s" and run: "drop_constraint t n s = Inr s'"
  shows "catalog_ok s'"
proof -
  note okD = catalog_okD [OF ok]
  let ?f = "\<lambda>tb. tb\<lparr>t_constraints := filter (\<lambda>x. con_name x \<noteq> n) (t_constraints tb)\<rparr>"
  obtain tb c where tab: "find_table t (cat_tables s) = Some tb"
      and con: "get_row con_name n (t_constraints tb) = Some c"
      and free: "is_key c \<Longrightarrow> \<not> referred t (\<lambda>rs. rs = con_columns c) (cat_tables s)"
      and s': "s' = set_table t ?f s"
    using run by (auto simp: drop_constraint_def split: option.splits if_splits)
  have name: "t_name tb = t" and old: "table_ok s tb"
    using get_row_SomeD [OF tab] okD(2) by auto
  have names: "column_names (?f tb) = column_names tb" by (simp add: column_names_def)
  have "catalog_ok (set_table t ?f s)"
  proof (rule shrink_table_ok [OF ok tab, where p = "\<lambda>_. True" and q = "\<lambda>x. con_name x \<noteq> n"])
    fix x assume x: "x \<in> set (table_keys tb)" "\<not> con_name x \<noteq> n"
    then have "x = c"
      using con old by (auto simp: get_row_eq_iff table_ok_def table_keys_def distinct_map inj_on_def)
    with x free show "\<not> referred t (\<lambda>rs. rs = con_columns x) (cat_tables s)"
      by (simp add: table_keys_def)
  next
    fix i assume i: "i \<in> set (cat_indexes s)" "ix_table i = t"
    with okD(3) [OF i(1)] tab show "set (ix_columns i) \<subseteq> set (column_names (?f tb))"
      by (simp add: index_ok_def relation_columns_def names)
  next
    fix v assume v: "v \<in> set (cat_views s)" "v_table v = t"
    with okD(4) [OF v(1)] tab show "set (v_uses v) \<subseteq> set (column_names (?f tb))"
      by (simp add: view_ok_def names)
  qed (use old name names in \<open>auto simp: table_ok_def\<close>)
  then show ?thesis by (simp add: s')
qed

lemma relation_columns_same:
  "cat_tables s' = cat_tables s \<Longrightarrow> cat_views s' = cat_views s \<Longrightarrow> relation_columns s' n = relation_columns s n"
  by (simp add: relation_columns_def split: option.split)

lemma relation_columns_indexes: "relation_columns (s\<lparr>cat_indexes := ixs\<rparr>) = relation_columns s"
  by (rule ext, rule relation_columns_same) simp_all

lemma catalog_ok_filter_indexes: "catalog_ok s \<Longrightarrow> catalog_ok (s\<lparr>cat_indexes := filter p (cat_indexes s)\<rparr>)"
  by (auto simp: catalog_ok_def relations_def distinct_map_filter table_ok_def index_ok_def
      relation_columns_indexes view_ok_def)

lemma referred_mono:
  assumes "referred t P tbs" and "\<And>rs. P rs \<Longrightarrow> Q rs"
  shows "referred t Q tbs"
proof -
  have "refers_to t P c \<Longrightarrow> refers_to t Q c" for c
    using assms(2) by (cases c) (auto simp: refers_to_def)
  with assms(1) show ?thesis by (auto simp: referred_def list_ex_iff)
qed

lemma drop_column_keeps:
  assumes ok: "catalog_ok s" and run: "drop_column t c s = Inr s'"
  shows "catalog_ok s'"
proof -
  let ?s = "s\<lparr>cat_indexes := filter (\<lambda>i. \<not> (ix_table i = t \<and> index_uses c i)) (cat_indexes s)\<rparr>"
  obtain tb where tab: "find_table t (cat_tables s) = Some tb"
      and free: "\<not> referred t (\<lambda>rs. c \<in> set rs) (cat_tables s)"
        "\<not> list_ex (\<lambda>v. v_table v = t \<and> c \<in> set (v_uses v)) (cat_views s)"
      and s': "s' = set_table t (without_column c) ?s"
    using run by (auto simp: drop_column_def split: option.splits if_splits)
  have ok': "catalog_ok ?s" by (rule catalog_ok_filter_indexes [OF ok])
  note okD = catalog_okD [OF ok']
  have name: "t_name tb = t" and old: "table_ok s tb"
    using get_row_SomeD [OF tab] catalog_okD(2) [OF ok] by auto
  have names: "set (column_names (without_column c tb)) = set (column_names tb) - {c}"
    by (auto simp: column_names_def without_column_def)
  have "catalog_ok (set_table t (without_column c) ?s)"
  proof (rule shrink_table_ok [OF ok', where p = "\<lambda>x. c_name x \<noteq> c" and q = "\<lambda>x. \<not> con_uses c x"])
    fix x assume x: "x \<in> set (table_keys tb)" "\<not> \<not> con_uses c x"
    then have "is_key x" "con_uses c x" by (auto simp: table_keys_def)
    then have "c \<in> set (con_columns x)" by (cases x) auto
    with free(1) show "\<not> referred t (\<lambda>rs. rs = con_columns x) (cat_tables ?s)"
      using referred_mono [of t "\<lambda>rs. rs = con_columns x" "cat_tables ?s" "\<lambda>rs. c \<in> set rs"] by auto
  next
    fix x assume x: "x \<in> set (t_constraints tb)" "\<not> con_uses c x"
    then have "set (con_columns x) \<subseteq> set (column_names tb)" using old by (simp add: table_ok_def)
    moreover have "c \<notin> set (con_columns x)" using x(2) by (cases x) auto
    ultimately show "set (con_columns x) \<subseteq> set (column_names (without_column c tb))"
      by (auto simp: names)
  next
    fix i assume i: "i \<in> set (cat_indexes ?s)" "ix_table i = t"
    with okD(3) [OF i(1)] tab show "set (ix_columns i) \<subseteq> set (column_names (without_column c tb))"
      by (auto simp: index_ok_def relation_columns_def names index_uses_def)
  next
    fix v assume v: "v \<in> set (cat_views ?s)" "v_table v = t"
    with okD(4) [OF v(1)] tab free(2) show "set (v_uses v) \<subseteq> set (column_names (without_column c tb))"
      by (auto simp: view_ok_def names list_ex_iff)
  qed (use tab name in \<open>auto simp: without_column_def\<close>)
  then show ?thesis by (simp add: s')
qed

lemma create_index_keeps:
  assumes ok: "catalog_ok s" and run: "create_index if_not_exists i s = Inr s'"
  shows "catalog_ok s'"
proof (cases "ix_name i \<in> set (relations s)")
  case True
  with ok run show ?thesis by (simp add: create_index_def split: if_splits)
next
  case False
  with run obtain cs where cols: "relation_columns s (ix_table i) = Some cs" "set (ix_columns i) \<subseteq> set cs"
      and s': "s' = s\<lparr>cat_indexes := cat_indexes s @ [i]\<rparr>"
    by (auto simp: create_index_def split: if_splits option.splits)
  note okD = catalog_okD [OF ok]
  have "distinct (relations s')" using okD(1) False by (auto simp: relations_def s')
  moreover have "table_ok s' r" if "r \<in> set (cat_tables s)" for r
    using okD(2) [OF that] by (simp add: table_ok_def s')
  moreover have "index_ok s' x" if "x \<in> set (cat_indexes s')" for x
    using that okD(3) [of x] cols by (auto simp: s' index_ok_def relation_columns_indexes)
  moreover have "view_ok s' x" if "x \<in> set (cat_views s)" for x
    using okD(4) [OF that] by (simp add: s' view_ok_def)
  ultimately show ?thesis by (simp add: catalog_ok_def s')
qed

lemma create_view_keeps:
  assumes ok: "catalog_ok s" and run: "create_view v t used cs s = Inr s'"
  shows "catalog_ok s'"
proof -
  note okD = catalog_okD [OF ok]
  obtain tb where new: "v \<notin> set (relations s)" and tab: "find_table t (cat_tables s) = Some tb"
      and cols: "set used \<subseteq> set (column_names tb)"
      and s': "s' = s\<lparr>cat_views := cat_views s @ [\<lparr>v_name = v, v_table = t, v_uses = used, v_columns = cs\<rparr>]\<rparr>"
    using run by (auto simp: create_view_def split: if_splits option.splits)
  have "relation_columns s' n = Some ns" if "relation_columns s n = Some ns" for n ns
    using that by (auto simp: relation_columns_def s' get_row_append split: option.splits)
  then have "index_ok s' i" if "i \<in> set (cat_indexes s)" for i
    using okD(3) [OF that] by (auto simp: index_ok_def split: option.splits)
  moreover have "view_ok s' x" if "x \<in> set (cat_views s')" for x
    using that okD(4) [of x] tab cols by (auto simp: s' view_ok_def split: option.splits)
  moreover have "distinct (relations s')" using okD(1) new by (auto simp: relations_def s')
  moreover have "table_ok s' r" if "r \<in> set (cat_tables s)" for r
    using okD(2) [OF that] by (simp add: table_ok_def s')
  ultimately show ?thesis by (simp add: catalog_ok_def s')
qed

lemma drop_view_keeps:
  assumes "catalog_ok s"
  shows "catalog_ok (s\<lparr>cat_views := filter (\<lambda>x. v_name x \<noteq> v) (cat_views s),
    cat_indexes := filter (\<lambda>i. ix_table i \<noteq> v) (cat_indexes s)\<rparr>)" (is "catalog_ok ?s")
proof -
  have others: "get_row v_name n (filter (\<lambda>x. v_name x \<noteq> v) vs) = get_row v_name n vs" if "n \<noteq> v" for n vs
    using that by (induction vs) auto
  have "relation_columns ?s n = relation_columns s n" if "n \<noteq> v" for n
    by (simp add: relation_columns_def others that split: option.split)
  with assms show ?thesis
    by (auto simp: catalog_ok_def relations_def distinct_map_filter table_ok_def index_ok_def view_ok_def
        type_known_def split: sql_type.splits)
qed

lemma types_keep:
  assumes ok: "catalog_ok s"
    and same: "cat_tables s' = cat_tables s" "cat_indexes s' = cat_indexes s" "cat_views s' = cat_views s"
    and types: "\<And>tb c. tb \<in> set (cat_tables s) \<Longrightarrow> c \<in> set (t_columns tb) \<Longrightarrow>
      type_known s (c_type c) \<Longrightarrow> type_known s' (c_type c)"
  shows "catalog_ok s'"
proof -
  note okD = catalog_okD [OF ok] and cols = relation_columns_same [OF same(1,3)]
  have "relations s' = relations s" by (simp add: relations_def same)
  moreover have "table_ok s' r" if r: "r \<in> set (cat_tables s)" for r
    using okD(2) [OF r] types [OF r] by (simp add: table_ok_def same)
  moreover have "index_ok s' i \<longleftrightarrow> index_ok s i" for i by (simp add: index_ok_def cols)
  moreover have "view_ok s' v \<longleftrightarrow> view_ok s v" for v by (simp add: view_ok_def same)
  ultimately show ?thesis using ok by (simp add: catalog_ok_def same)
qed

lemma type_known_dropped:
  "type_known s ty \<Longrightarrow> \<not> uses_type n ty \<Longrightarrow>
   type_known (s\<lparr>cat_types := filter (\<lambda>x. fst x \<noteq> n) (cat_types s)\<rparr>) ty"
  by (cases ty) (force simp: type_known_def uses_type_def)+

lemma operation_keeps_catalog_ok:
  assumes ok: "catalog_ok s" and run: "apply_ddl q s = Inr s'"
  shows "catalog_ok s'"
proof (cases q)
  case (CreateExtension n)
  with run show ?thesis
    by (intro types_keep [OF ok]) (auto simp: type_known_def split: sql_type.splits if_splits)
next
  case (CreateType c n ls)
  with run show ?thesis
    by (intro types_keep [OF ok]) (auto simp: type_known_def split: sql_type.splits if_splits)
next
  case (DropType n)
  with run show ?thesis
    by (intro types_keep [OF ok]) (auto simp: list_ex_iff type_known_dropped split: if_splits)
next
  case (DropView v)
  with run drop_view_keeps [OF ok] show ?thesis by auto
next
  case (DropIndex e n)
  with run catalog_ok_filter_indexes [OF ok] ok show ?thesis by (auto split: if_splits)
qed (use ok run in \<open>auto intro: create_table_keeps [OF ok] drop_table_keeps [OF ok] add_column_keeps [OF ok]
    drop_column_keeps [OF ok] add_constraint_keeps [OF ok] drop_constraint_keeps [OF ok]
    create_index_keeps [OF ok] create_view_keeps [OF ok] split: option.splits if_splits\<close>)

lemma operations_keep_catalog_ok:
  "catalog_ok s \<Longrightarrow> run_ddl qs s = Inr s' \<Longrightarrow> catalog_ok s'"
  by (induction qs arbitrary: s) (auto split: sum.splits dest: operation_keeps_catalog_ok)

end
