(* ===== verification/Migration_Properties.thy ===== *)
theory Migration_Properties
  imports Orm_Models Ddl_Evaluation Ddl_Invariant
begin

text \<open>
  What the migrations achieve: from a database with nothing but its extensions they run through to
  the last revision, every downgrade takes back its upgrade, the schema is consistent after every
  revision, and the one they arrive at is the one the ORM classes declare.
\<close>

section \<open>The chain of revisions\<close>




section \<open>The schema of the ORM classes\<close>









section \<open>Running the chain\<close>














section \<open>What the migrations achieve\<close>






section \<open>Creating the schema from the classes\<close>

lemma create_index_new:
  assumes "create_index False i s = Inr s'"
  shows "ix_name i \<notin> set (relations s)" and "set (relations s') = insert (ix_name i) (set (relations s))"
  using assms by (auto simp: create_index_def relations_def split: if_splits option.splits)

lemma create_indexes_distinct:
  assumes "run_ddl (map (CreateIndex False) idx) s = Inr s'"
  shows "distinct (map ix_name idx) \<and> set (map ix_name idx) \<inter> set (relations s) = {}"
  using assms
proof (induction idx arbitrary: s)
  case (Cons i idx)
  then obtain s1 where s1: "create_index False i s = Inr s1" "run_ddl (map (CreateIndex False) idx) s1 = Inr s'"
    by (auto split: sum.splits)
  from Cons.IH [OF s1(2)] create_index_new [OF s1(1)] show ?case by auto
qed simp

lemma ambiguous_class_not_created:
  assumes "\<not> distinct (map ix_name (orm_indexes c))"
  shows "\<exists>e. run_ddl (create_class c) s = Inl e"
proof (rule ccontr)
  assume "\<nexists>e. run_ddl (create_class c) s = Inl e"
  then obtain s' where "run_ddl (create_class c) s = Inr s'"
    by (cases "run_ddl (create_class c) s") auto
  with assms create_indexes_distinct [of "orm_indexes c"] show False
    by (cases c) (auto simp del: orm_indexes.simps split: sum.splits)
qed

text \<open>
  Some classes declare an index twice, by \<open>index=True\<close> at the column and again by name in
  \<open>__table_args__\<close>; the second of the two statements finds the name taken, so \<open>create_all\<close> stops
  with an error at each of them, whatever the database holds. The migrations create the index once.
\<close>

theorem create_all_stops_at_duplicate_index:
  "c \<in> {orm_users, orm_refresh_tokens, orm_invite_links, orm_referrals, orm_sellers, orm_user_devices} \<Longrightarrow>
   \<exists>e. run_ddl (create_class c) s = Inl e"
  by (rule ambiguous_class_not_created)
    (auto simp: orm_users_def orm_refresh_tokens_def orm_invite_links_def orm_referrals_def
      orm_sellers_def orm_user_devices_def uuid_pk_mixin_def timestamp_mixin_def soft_delete_mixin_def)

end
