(* ===== verification/Spec2Isabelle.thy ===== *)
theory Spec2Isabelle
  imports Order_View Read_Endpoints Seeding Gateway_Properties Application Uploads
    Migration_Properties
begin

text \<open>
  A model of the backend of the invite-only marketplace (\<open>src/backend/app\<close>): a FastAPI
  service over PostgreSQL in which sellers run stores, customers whom a seller invited order
  from that seller, drivers deliver, and administrators moderate.

  \<^bold>\<open>The program and the model.\<close> The state of the program is its database. \<open>Schema\<close> has one record
  per ORM class of \<open>models/\<close> and the record \<open>db\<close> of all tables, a table being the list of its
  rows. A service function of \<open>services/\<close> is a function from its arguments, the time it reads,
  the identifiers and secrets it draws, and the database its session sees, to a result
  (\<open>app_exception\<close> or a value) and the database it has flushed. \<open>Sessions\<close> models the unit of
  work around it (\<open>api/deps.py\<close>, \<open>get_db\<close>): what was flushed is committed when the endpoint
  returns and rolled back when it raises, so an operation may change the state and still have
  no effect. The requests of a component are a datatype and one executing function.

  \<^item> \<open>Prelude\<close>: identifiers, time, the table operations and their laws.
  \<^item> \<open>App_Exceptions\<close>: \<open>core/exceptions.py\<close> with status and envelope code.
  \<^item> \<open>Sessions\<close>: sessions, \<open>get_db\<close>, result sets, and the interfaces \<open>transactional\<close>,
    \<open>transactional_step\<close> and \<open>unit_of_work\<close>: what an endpoint family promises on success, and
    what follows for every run of requests because of commit and rollback.
  \<^item> \<open>Order_Service\<close>, \<open>Order_Lifecycle\<close>, \<open>Order_Create\<close>, \<open>Order_Retention\<close>, \<open>Order_View\<close>:
    \<open>services/order_service.py\<close> and \<open>api/v1/orders.py\<close>, the state machine of an order as the
    step relation \<open>order_next\<close>, placing orders, retention, and what each role gets to see.
    \<open>Order_Invariant\<close> and \<open>Order_System\<close> hold the invariant \<open>orders_inv\<close>, the relation between
    an order before and after a request, and the interpretations \<open>os\<close> and \<open>stock\<close>;
    \<open>Order_Errors\<close> the errors a request can end in; \<open>Order_Properties\<close> the properties.
  \<^item> \<open>Delivery_Flow\<close>: \<open>services/delivery_flow_service.py\<close> and its endpoints: accepting, the
    delivery code, travel time, the order chat.
  \<^item> \<open>Tracking\<close>: \<open>services/delivery_tracking_service.py\<close>: roles on an order, the internal and
    the customer view, positions, events.
  \<^item> \<open>Invites\<close>, \<open>Tokens\<close>, \<open>Accounts\<close>, \<open>Account_Properties\<close>: \<open>services/invite_service.py\<close>,
    \<open>core/security.py\<close> with \<open>api/deps.py\<close>, \<open>services/auth_service.py\<close>. The invariant
    \<open>accounts_inv\<close> ties accounts to referral rows and referral rows to links.
  \<^item> \<open>Base64url\<close>, \<open>Keys\<close>, \<open>Messaging\<close>, \<open>Messaging_Properties\<close>: the base64url codec of the
    schemas, \<open>services/key_service.py\<close>, \<open>services/messaging_service.py\<close> and their endpoints.
  \<^item> \<open>Gateway\<close>, \<open>Gateway_Properties\<close>: \<open>ws/gateway.py\<close>: the connection registry, the frames a
    client sends, the broadcasts of chat and tracking events. The interface \<open>topics\<close> states
    what one of the two registries promises and is interpreted for both.
  \<^item> \<open>Catalogue\<close>, \<open>Catalogue_Properties\<close>: \<open>services/store_service.py\<close>,
    \<open>services/product_service.py\<close>, \<open>services/seller_service.py\<close>: slugs, stores, products and
    galleries, who sees them, the seller's dashboard. The requests refine the step relation
    \<open>catalogue_step\<close>, over which the invariant and the ownership property are proved.
  \<^item> \<open>Administration\<close>, \<open>Admin_Properties\<close>: \<open>services/admin_service.py\<close>: searching, paging,
    suspension, moderation, analytics.
  \<^item> \<open>Read_Endpoints\<close>: the reading endpoints of stores, products, sellers and the administrator
    with their response models, as two families of queries; what they reveal.
  \<^item> \<open>Devices\<close>, \<open>Uploads\<close>: \<open>services/push_service.py\<close> and \<open>services/upload_service.py\<close> with
    their endpoints, the push provider and the object store being parameters.
  \<^item> \<open>Scheduler\<close>: \<open>core/scheduler.py\<close>: when the purge loop runs, one tick as a session of its
    own, and what a run of ticks achieves.
  \<^item> \<open>Application\<close>: \<open>core/config.py\<close>, \<open>main.py\<close>, \<open>core/observability.py\<close> and
    \<open>scripts/check_env.py\<close>: the settings and their checks, CORS, the middlewares as functions on
    the response, the exception handlers, the probes.
  \<^item> \<open>Seeding\<close>: \<open>scripts/seed_dev.py\<close>, the first rows of a development database.
  \<^item> \<open>Ddl\<close>, \<open>Ddl_Invariant\<close>, \<open>Migrations\<close>, \<open>Orm_Models\<close>, \<open>Migration_Properties\<close>: the operations
    a migration issues and what they do to the catalogue of PostgreSQL, that they keep it
    consistent, every upgrade and downgrade of \<open>src/backend/alembic/versions\<close>, the schema that
    the ORM classes of \<open>models/\<close> declare, and the properties that tie them together.
    \<open>Ddl_Evaluation\<close> holds the rules by which a concrete chain of operations is computed.
  \<^item> \<open>Strings\<close>: the string functions of Python that several services call. \<open>Paging\<close>: the
    interface \<open>cursor_paging\<close>, interpreted for the message history and the three lists of the
    administrator.
  \<^item> \<open>Marketplace\<close>: the request families that share tables, and their joint invariant.
    \<open>Backend\<close>: all families that write the database and the ticks of the scheduler, what each
    leaves alone, and the invariant \<open>backend_inv\<close> of the whole database.
  \<^item> \<open>Sample_Data\<close>: the small marketplace on which the properties are evaluated.

  \<^bold>\<open>Interaction.\<close> The components meet in the database: the order requests, the driver flow and
  the tracking requests write the same orders and deliveries, signup consumes invitation links
  and writes the referral that later decides what a customer may order and whom they may talk
  to, placing an order reserves the stock of the catalogue, completing it moves the figures of the
  dashboard. \<open>Marketplace\<close> composes the five families that share these tables; \<open>Backend\<close> adds the
  account endpoints, which commit on their own, messaging with the key registry, the push
  devices and the scheduler. The composition rests on frames: a family leaves the tables of the
  others alone, which is stated by erasing the tables it writes.

  \<^bold>\<open>Parameters.\<close> Argon2 and the token hash are the record \<open>crypto\<close>, the JOSE library is a pair
  of functions with the law \<open>jose_ok\<close>, the hash of the delivery code is a function, the random
  draws and identifiers are arguments. No recursion needs fuel except \<open>follow_pages\<close>, a client
  of the paging endpoint, for which one request more than there are messages is shown to be
  enough.

  \<^bold>\<open>Simplifications.\<close> A coordinate is a real number, rounding of floats is not modelled.
  Requests run one after the other: the row locks of the services serialise those that touch
  the same rows. \<open>datetime\<close> is a number of microseconds.

  \<^bold>\<open>Not modelled.\<close> The Flutter client; of the migrations the comments, the sort order
  of index columns, the values that \<open>INSERT\<close> and \<open>UPDATE\<close> write, and \<open>env.py\<close>, which only
  connects Alembic to the database; the rate limiter, the
  engine, Sentry and the metrics registry, which are calls into libraries; the scripts
  \<open>rotate_jwt_secret.py\<close> and \<open>refresh_rollups.py\<close>, which print a token and issue one SQL
  statement; the HTTP and validation layer of FastAPI and pydantic except where a schema
  decodes or bounds a value; e-mail, which the program does not send.
\<close>

section \<open>The backend as a whole\<close>

text \<open>
  C8: whatever requests the backend serves in whatever order, whether they succeed or fail,
  together with the ticks of the scheduler: orders, deliveries and snapshots, stores and
  products, accounts and the invitations that made them, conversations and keys, and devices
  all stay consistent.
\<close>

theorem backend_stays_consistent:
  assumes "backend_inv base d"
  shows "backend_inv base (serve_requests cr enc cfg h qs d)"
  using serve_request_keeps assms by (rule serve_requests_keeps)

definition sample_backend_requests :: "backend_request list" where
  "sample_backend_requests =
     [AccountRequest (AAdminInvite 50 ''inv'' 0 sample_admin ''seller'' 168),
      AccountRequest (ASignup (sample_draws 60 ''r1'') 10 sample_signup),
      MarketRequest (DeliverySide (OrderRequest
        (QCreate (\<lambda>n. 100 + n) 1000 sample_customer [(20, 2)] sample_address))),
      MarketRequest (DeliverySide (FlowRequest (FAccept 42 300 1100 sample_driver 100))),
      MessagingRequest (OpenConversation 70 1150 sample_customer 2),
      DeviceRequest 80 1160 sample_customer ''android'' ''t'',
      MarketRequest (AdminSide (SuspendUser 1300 sample_admin 4 ''spam'')),
      PurgeTick (sample_tick 9 (td_days 40))]"

theorem backend_stays_consistent_witness:
  "backend_inv (u_id ` set (users sample_db))
     (serve_requests sample_crypto Pair sample_settings id sample_backend_requests sample_db)"
  by (rule backend_stays_consistent) (rule sample_backend_inv)

section \<open>Parts of the backend\<close>

text \<open>
  Order requests, the driver flow and tracking requests may be interleaved in any order:
  the orders, deliveries and driver assignments stay consistent.
\<close>

theorem orders_consistent_under_interleaving:
  assumes "orders_inv d"
  shows "orders_inv (run_requests (exec_delivery h) qs d)"
  using assms by (rule delivery.run_keeps)

theorem orders_consistent_under_interleaving_witness:
  "orders_inv (run_requests (exec_delivery id)
     [OrderRequest (QCreate (\<lambda>n. 100 + n) 1000 sample_customer [(20, 2)] sample_address),
      FlowRequest (FAccept 42 300 1100 sample_driver 100),
      TrackingRequest (TLocation 1200 sample_driver 100 59 10 None None)] sample_db)"
  by (rule orders_consistent_under_interleaving) (rule sample_db_inv)

text \<open>
  Order requests, the driver flow, tracking, catalogue requests and the administrator's
  requests may be interleaved in any order, succeed or fail: the orders with their deliveries
  and snapshots, the stores and products, and the accounts with the invitations that made them
  all stay consistent.
\<close>

theorem market_stays_consistent:
  assumes "market_inv base d"
  shows "market_inv base (run_requests (exec_market h) qs d)"
  using assms by (rule market.run_keeps)

theorem market_stays_consistent_witness:
  "market_inv (u_id ` set (users sample_db)) (run_requests (exec_market id)
     [CatalogueSide (hd sample_catalogue_requests),
      DeliverySide (OrderRequest (QCreate (\<lambda>n. 100 + n) 1000 sample_customer [(20, 2)] sample_address)),
      AdminSide (DisableProduct 1050 sample_admin 20 ''fake''),
      DeliverySide (FlowRequest (FAccept 42 300 1100 sample_driver 100)),
      DeliverySide (TrackingRequest (TLocation 1200 sample_driver 100 59 10 None None)),
      AdminSide (SuspendUser 1300 sample_admin 4 ''spam'')] sample_db)"
  by (rule market_stays_consistent)
    (simp add: market_inv_def sample_db_inv sample_catalogue_inv sample_accounts_inv)

end
